(* ===== verification/Prelude.thy ===== *)
theory Prelude
  imports
    Main
    "HOL-Library.Word"
    "HOL-Library.Char_ord"
    "HOL-Library.List_Lexorder"
    "HOL-Library.Product_Lexorder"
begin

text \<open>
  Shared vocabulary of the development: results of fallible Rust functions, the part of the
  Rust string and integer library the server uses (strings are their UTF-8 bytes, so the
  library's list order is Rust's byte order on \<^verbatim>\<open>String\<close>), and the ordered association
  lists that stand for \<^verbatim>\<open>BTreeMap\<close> and \<^verbatim>\<open>HashMap\<close>.
\<close>

named_theorems omap_simps \<open>lookup, insertion and removal on ordered association lists\<close>
named_theorems res_simps \<open>the result monad\<close>

section \<open>Results\<close>

text \<open>\<open>Result<T, E>\<close> is a sum, \<open>Inl\<close> the error; \<open>rbind\<close> is the \<open>?\<close> operator.\<close>

definition rbind :: "'e + 'a \<Rightarrow> ('a \<Rightarrow> 'e + 'b) \<Rightarrow> 'e + 'b" where
  "rbind m f = (case m of Inl e \<Rightarrow> Inl e | Inr x \<Rightarrow> f x)"

definition map_err :: "('e \<Rightarrow> 'f) \<Rightarrow> 'e + 'a \<Rightarrow> 'f + 'a" where
  "map_err f m = (case m of Inl e \<Rightarrow> Inl (f e) | Inr x \<Rightarrow> Inr x)"

definition ok_or :: "'e \<Rightarrow> 'a option \<Rightarrow> 'e + 'a" where
  "ok_or e x = (case x of None \<Rightarrow> Inl e | Some v \<Rightarrow> Inr v)"

text \<open>\<open>iter().map(f).collect::<Result<Vec<_>, _>>()\<close>: the first error wins.\<close>

fun collect_res :: "('a \<Rightarrow> 'e + 'b) \<Rightarrow> 'a list \<Rightarrow> 'e + 'b list" where
  "collect_res f [] = Inr []"
| "collect_res f (x # xs) =
     (case f x of Inl e \<Rightarrow> Inl e
      | Inr y \<Rightarrow> (case collect_res f xs of Inl e \<Rightarrow> Inl e | Inr ys \<Rightarrow> Inr (y # ys)))"

lemma rbind_simps [simp, res_simps]:
  "rbind (Inl e) f = Inl e"
  "rbind (Inr x) f = f x"
  by (simp_all add: rbind_def)

lemma map_err_simps [simp, res_simps]:
  "map_err f (Inl e) = Inl (f e)"
  "map_err f (Inr x) = Inr x"
  by (simp_all add: map_err_def)

lemma ok_or_simps [simp, res_simps]:
  "ok_or e None = Inl e"
  "ok_or e (Some v) = Inr v"
  by (simp_all add: ok_or_def)

lemma rbind_eq_Inr: "rbind m f = Inr y \<longleftrightarrow> (\<exists>x. m = Inr x \<and> f x = Inr y)"
  by (cases m) auto

lemma map_err_eq_Inr [simp]: "map_err f m = Inr x \<longleftrightarrow> m = Inr x"
  by (cases m) auto

lemma ok_or_eq_Inr [simp]: "ok_or e x = Inr v \<longleftrightarrow> x = Some v"
  by (cases x) auto

lemma ok_or_eq_Inl: "ok_or e x = Inl e' \<longleftrightarrow> x = None \<and> e' = e"
  by (cases x) auto

lemma collect_res_all_Inr:
  "(\<And>x. x \<in> set xs \<Longrightarrow> f x = Inr (g x)) \<Longrightarrow> collect_res f xs = Inr (map g xs)"
  by (induction xs) auto

lemma collect_res_InrD:
  "collect_res f xs = Inr ys \<Longrightarrow> list_all2 (\<lambda>x y. f x = Inr y) xs ys"
  by (induction xs arbitrary: ys) (auto split: sum.splits)

section \<open>Machine integers\<close>

text \<open>
  \<open>u64\<close> values are naturals below \<open>2 ^ 64\<close>, with the wrap-around of \<open>+\<close> written out;
  \<open>i64\<close> and \<open>i32\<close> values are integers.
\<close>

definition u64_max :: nat where
  "u64_max = 2 ^ 64 - 1"

definition wadd64 :: "nat \<Rightarrow> nat \<Rightarrow> nat" where
  "wadd64 a b = (a + b) mod 2 ^ 64"

definition i64_max :: int where
  "i64_max = 2 ^ 63 - 1"

definition i64_min :: int where
  "i64_min = - (2 ^ 63)"

definition i32_max :: int where
  "i32_max = 2 ^ 31 - 1"

lemma wadd64_small: "a + b < 2 ^ 64 \<Longrightarrow> wadd64 a b = a + b"
  by (simp add: wadd64_def)

lemma wadd64_bound: "wadd64 a b < 2 ^ 64"
  by (simp add: wadd64_def)

lemma wadd64_Suc: "v < u64_max \<Longrightarrow> wadd64 v 1 = Suc v"
  by (simp add: wadd64_def u64_max_def)

type_synonym uuid = "128 word"

section \<open>Rust strings\<close>

text \<open>
  \<open>str::starts_with\<close>, \<open>strip_prefix\<close>, \<open>strip_suffix\<close> and \<open>contains(char)\<close>.
\<close>

definition starts_with :: "string \<Rightarrow> string \<Rightarrow> bool" where
  "starts_with s p \<longleftrightarrow> take (length p) s = p"

definition strip_prefix :: "string \<Rightarrow> string \<Rightarrow> string option" where
  "strip_prefix p s = (if starts_with s p then Some (drop (length p) s) else None)"

definition ends_with :: "string \<Rightarrow> string \<Rightarrow> bool" where
  "ends_with s p \<longleftrightarrow> drop (length s - length p) s = p"

definition strip_suffix :: "string \<Rightarrow> string \<Rightarrow> string option" where
  "strip_suffix p s = (if ends_with s p then Some (take (length s - length p) s) else None)"

lemma starts_with_append [simp]: "starts_with (p @ s) p"
  by (simp add: starts_with_def)

lemma starts_with_iff: "starts_with s p \<longleftrightarrow> (\<exists>t. s = p @ t)"
  by (metis append_eq_conv_conj append_take_drop_id starts_with_def)

lemma starts_with_Nil [simp]: "starts_with s []"
  by (simp add: starts_with_def)

lemma strip_prefix_append [simp]: "strip_prefix p (p @ s) = Some s"
  by (simp add: strip_prefix_def)

lemma strip_prefix_SomeD: "strip_prefix p s = Some t \<Longrightarrow> s = p @ t"
  by (auto simp: strip_prefix_def starts_with_iff split: if_splits)

lemma ends_with_append [simp]: "ends_with (s @ p) p"
  by (simp add: ends_with_def)

lemma ends_with_iff: "ends_with s p \<longleftrightarrow> (\<exists>t. s = t @ p)"
proof
  assume "ends_with s p"
  then have "s = take (length s - length p) s @ p"
    by (metis append_take_drop_id ends_with_def)
  then show "\<exists>t. s = t @ p" ..
qed auto

lemma strip_suffix_append [simp]: "strip_suffix p (s @ p) = Some s"
  by (simp add: strip_suffix_def)

lemma strip_suffix_SomeD: "strip_suffix p s = Some t \<Longrightarrow> s = t @ p"
  by (auto simp: strip_suffix_def ends_with_iff split: if_splits)

text \<open>
  \<open>str::lines\<close>: split at every newline, drop one carriage return before it, and no
  empty line after a final newline.
\<close>

definition NL :: char where
  "NL = CHR 0x0A"

definition strip_cr :: "string \<Rightarrow> string" where
  "strip_cr s = (if s \<noteq> [] \<and> last s = CHR 0x0D then butlast s else s)"

function str_lines :: "string \<Rightarrow> string list" where
  "str_lines s =
     (if s = [] then []
      else case dropWhile (\<lambda>c. c \<noteq> NL) s of
             [] \<Rightarrow> [s]
           | _ # rest \<Rightarrow> strip_cr (takeWhile (\<lambda>c. c \<noteq> NL) s) # str_lines rest)"
  by pat_completeness auto
termination
proof (relation "measure length", goal_cases)
  case (2 s c rest)
  then have "length (c # rest) \<le> length s"
    by (metis length_dropWhile_le)
  then show ?case by simp
qed simp

declare str_lines.simps [simp del]

lemma str_lines_Nil [simp]: "str_lines [] = []"
  by (simp add: str_lines.simps)

lemma str_lines_append:
  assumes "NL \<notin> set l"
  shows "str_lines (l @ NL # rest) = strip_cr l # str_lines rest"
proof -
  have "\<forall>c \<in> set l. c \<noteq> NL"
    using assms by auto
  then have "takeWhile (\<lambda>c. c \<noteq> NL) (l @ NL # rest) = l"
    and "dropWhile (\<lambda>c. c \<noteq> NL) (l @ NL # rest) = NL # rest"
    by simp_all
  then show ?thesis
    by (subst str_lines.simps) simp
qed

text \<open>UTF-8: the code points of a byte string, \<open>None\<close> when it is not well-formed.\<close>

definition byte :: "char \<Rightarrow> nat" where
  "byte c = of_char c"

definition utf8_cont :: "nat \<Rightarrow> bool" where
  "utf8_cont b \<longleftrightarrow> 128 \<le> b \<and> b \<le> 191"

text \<open>The first code point of a byte list and the number of bytes it takes.\<close>

definition utf8_step :: "nat list \<Rightarrow> (nat \<times> nat) option" where
  "utf8_step bs =
     (case bs of
        [] \<Rightarrow> None
      | a # r \<Rightarrow>
         (if a < 128 then Some (a, 1)
          else (case r of
            [] \<Rightarrow> None
          | b # r1 \<Rightarrow>
             (if 194 \<le> a \<and> a \<le> 223 then
               (if utf8_cont b then Some ((a - 192) * 64 + (b - 128), 2) else None)
             else (case r1 of
               [] \<Rightarrow> None
             | c # r2 \<Rightarrow>
                (if 224 \<le> a \<and> a \<le> 239 then
                  (if utf8_cont b \<and> utf8_cont c \<and> (a = 224 \<longrightarrow> 160 \<le> b) \<and> (a = 237 \<longrightarrow> b \<le> 159)
                   then Some ((a - 224) * 4096 + (b - 128) * 64 + (c - 128), 3)
                   else None)
                else (case r2 of
                  [] \<Rightarrow> None
                | d # _ \<Rightarrow>
                   (if 240 \<le> a \<and> a \<le> 244 \<and> utf8_cont b \<and> utf8_cont c \<and> utf8_cont d \<and>
                      (a = 240 \<longrightarrow> 144 \<le> b) \<and> (a = 244 \<longrightarrow> b \<le> 143)
                   then Some ((a - 240) * 262144 + (b - 128) * 4096 + (c - 128) * 64 + (d - 128), 4)
                   else None))))))))"

lemma utf8_step_append:
  "utf8_step xs = Some (c, n) \<Longrightarrow> utf8_step (xs @ ys) = Some (c, n) \<and> 0 < n \<and> n \<le> length xs"
  by (auto simp: utf8_step_def split: list.splits if_splits)

function utf8_points :: "nat list \<Rightarrow> nat list option" where
  "utf8_points bs =
     (if bs = [] then Some []
      else (case utf8_step bs of
              None \<Rightarrow> None
            | Some (c, n) \<Rightarrow> map_option ((#) c) (utf8_points (drop n bs))))"
  by pat_completeness auto
termination
  by (relation "measure length") (auto dest: utf8_step_append [where ys = "[]"])

declare utf8_points.simps [simp del]

lemma utf8_points_Nil [simp]: "utf8_points [] = Some []"
  by (simp add: utf8_points.simps)

lemma utf8_points_append:
  "utf8_points xs = Some ps \<Longrightarrow> utf8_points (xs @ ys) = map_option ((@) ps) (utf8_points ys)"
proof (induction xs arbitrary: ps rule: utf8_points.induct)
  case (1 xs)
  show ?case
  proof (cases "xs = []")
    case True
    with 1 show ?thesis by (simp add: option.map_ident)
  next
    case False
    with 1(2) obtain c n qs where
      step: "utf8_step xs = Some (c, n)" and qs: "utf8_points (drop n xs) = Some qs" "ps = c # qs"
      by (subst (asm) utf8_points.simps) (auto split: option.splits)
    from utf8_step_append [OF step, of ys] have
      "utf8_step (xs @ ys) = Some (c, n)" "drop n (xs @ ys) = drop n xs @ ys" by auto
    with 1(1) [OF False step refl qs(1)] qs(2) False show ?thesis
      by (subst utf8_points.simps) (cases "utf8_points ys"; simp)
  qed
qed

definition utf8_chars :: "string \<Rightarrow> nat list option" where
  "utf8_chars s = utf8_points (map byte s)"

definition utf8_valid :: "string \<Rightarrow> bool" where
  "utf8_valid s \<longleftrightarrow> utf8_chars s \<noteq> None"

text \<open>\<open>char::is_whitespace\<close> and \<open>char::is_control\<close> on code points.\<close>

definition cp_whitespace :: "nat \<Rightarrow> bool" where
  "cp_whitespace c \<longleftrightarrow>
     9 \<le> c \<and> c \<le> 13 \<or> c \<in> {32, 133, 160, 5760, 8232, 8233, 8239, 8287, 12288} \<or>
     8192 \<le> c \<and> c \<le> 8202"

definition cp_control :: "nat \<Rightarrow> bool" where
  "cp_control c \<longleftrightarrow> c < 32 \<or> 127 \<le> c \<and> c < 160"

text \<open>\<open>s.trim().is_empty()\<close>.\<close>

definition blank :: "string \<Rightarrow> bool" where
  "blank s \<longleftrightarrow> (case utf8_chars s of None \<Rightarrow> False | Some cs \<Rightarrow> list_all cp_whitespace cs)"

text \<open>\<open>format!("'{}'", s)\<close>.\<close>

definition quoted :: "string \<Rightarrow> string" where
  "quoted s = CHR 0x27 # s @ [CHR 0x27]"

definition NUL :: char where
  "NUL = CHR 0x00"

end
