(* ===== verification/Numbers.thy ===== *)
theory Numbers
  imports Prelude
begin

text \<open>
  Decimal and hexadecimal formatting and parsing as \<^verbatim>\<open>format!("{:020}")\<close>, \<^verbatim>\<open>to_string\<close> and
  \<^verbatim>\<open>str::parse\<close> do it. The facts every log key rests on: a padded number parses back, and
  byte order on padded numbers is numeric order.
\<close>

definition digit_char :: "nat \<Rightarrow> char" where
  "digit_char d = ''0123456789abcdef'' ! d"

definition is_digit :: "char \<Rightarrow> bool" where
  "is_digit c \<longleftrightarrow> 48 \<le> byte c \<and> byte c \<le> 57"

fun show_nat :: "nat \<Rightarrow> string" where
  "show_nat n = (if n < 10 then [digit_char n] else show_nat (n div 10) @ [digit_char (n mod 10)])"

declare show_nat.simps [simp del]

definition show_int :: "int \<Rightarrow> string" where
  "show_int z = (if z < 0 then CHR 0x2D # show_nat (nat (- z)) else show_nat (nat z))"

text \<open>\<open>{:0w}\<close>: zero padding to width \<open>w\<close>, after the sign when there is one.\<close>

definition pad0 :: "nat \<Rightarrow> nat \<Rightarrow> string" where
  "pad0 w n = (let s = show_nat n in replicate (w - length s) (CHR 0x30) @ s)"

definition pad0_int :: "nat \<Rightarrow> int \<Rightarrow> string" where
  "pad0_int w z = (if z < 0 then CHR 0x2D # pad0 (w - 1) (nat (- z)) else pad0 w (nat z))"

definition dec_value :: "string \<Rightarrow> nat" where
  "dec_value s = foldl (\<lambda>a c. 10 * a + (byte c - 48)) 0 s"

text \<open>\<open>u64::from_str\<close> and \<open>i64::from_str\<close>: an optional sign, then digits, no overflow.\<close>

definition parse_digits :: "string \<Rightarrow> nat option" where
  "parse_digits s = (if s = [] \<or> \<not> list_all is_digit s then None else Some (dec_value s))"

definition parse_u64 :: "string \<Rightarrow> nat option" where
  "parse_u64 s =
     (case parse_digits (case s of c # r \<Rightarrow> if c = CHR 0x2B then r else s | [] \<Rightarrow> []) of
        None \<Rightarrow> None
      | Some v \<Rightarrow> if v \<le> u64_max then Some v else None)"

definition parse_i64 :: "string \<Rightarrow> int option" where
  "parse_i64 s =
     (case s of
        [] \<Rightarrow> None
      | c # r \<Rightarrow>
          (if c = CHR 0x2D
           then (case parse_digits r of
                   None \<Rightarrow> None
                 | Some v \<Rightarrow> if i64_min \<le> - int v then Some (- int v) else None)
           else (case parse_digits (if c = CHR 0x2B then r else s) of
                   None \<Rightarrow> None
                 | Some v \<Rightarrow> if int v \<le> i64_max then Some (int v) else None)))"

text \<open>\<open>{:016x}\<close> on a 64-bit word.\<close>

fun hex_digits :: "nat \<Rightarrow> nat \<Rightarrow> string" where
  "hex_digits 0 n = []"
| "hex_digits (Suc k) n = hex_digits k (n div 16) @ [digit_char (n mod 16)]"

definition hex16 :: "64 word \<Rightarrow> string" where
  "hex16 w = hex_digits 16 (unat w)"

section \<open>Digits\<close>

lemma less10_cases: "(d::nat) < 10 \<Longrightarrow> d \<in> {0, 1, 2, 3, 4, 5, 6, 7, 8, 9}"
  by auto

lemma byte_digit_char: "d < 10 \<Longrightarrow> byte (digit_char d) = 48 + d"
  by (drule less10_cases) (auto simp: digit_char_def byte_def)

lemma is_digit_char [simp]: "d < 10 \<Longrightarrow> is_digit (digit_char d)"
  by (simp add: is_digit_def byte_digit_char)

lemma byte_less_iff: "byte c < byte d \<longleftrightarrow> c < d"
  by (simp add: byte_def less_char_def)

lemma byte_eq_iff [simp]: "byte c = byte d \<longleftrightarrow> c = d"
  by (simp add: byte_def)

lemma dec_value_foldl:
  "foldl (\<lambda>a c. 10 * a + (byte c - 48)) v s = v * 10 ^ length s + dec_value s"
proof (induction s arbitrary: v)
  case (Cons c s)
  show ?case
    using Cons [of "10 * v + (byte c - 48)"] Cons [of "byte c - 48"]
    by (simp add: dec_value_def algebra_simps)
qed (simp add: dec_value_def)

lemma dec_value_Nil [simp]: "dec_value [] = 0"
  by (simp add: dec_value_def)

lemma dec_value_Cons: "dec_value (c # s) = (byte c - 48) * 10 ^ length s + dec_value s"
  using dec_value_foldl [of "byte c - 48" s] by (simp add: dec_value_def)

lemma dec_value_snoc: "dec_value (s @ [c]) = 10 * dec_value s + (byte c - 48)"
  by (simp add: dec_value_def)

lemma dec_value_zeros [simp]: "dec_value (replicate k (CHR 0x30) @ s) = dec_value s"
  by (induction k) (simp_all add: dec_value_Cons byte_def)

lemma dec_value_bound: "list_all is_digit s \<Longrightarrow> dec_value s < 10 ^ length s"
proof (induction s)
  case (Cons c s)
  then have "byte c - 48 \<le> 9" "dec_value s < 10 ^ length s"
    by (auto simp: is_digit_def)
  then have "(byte c - 48) * 10 ^ length s \<le> 9 * 10 ^ length s"
    by (meson mult_le_mono1)
  with \<open>dec_value s < 10 ^ length s\<close>
  have "dec_value (c # s) < 9 * 10 ^ length s + 10 ^ length s"
    unfolding dec_value_Cons by linarith
  then show ?case by simp
qed simp

lemma show_nat_digits: "list_all is_digit (show_nat n)"
  by (induction n rule: show_nat.induct) (subst show_nat.simps, simp)

lemma show_nat_nonempty [simp]: "show_nat n \<noteq> []"
  by (subst show_nat.simps) simp

lemma dec_value_show_nat [simp]: "dec_value (show_nat n) = n"
proof (induction n rule: show_nat.induct)
  case (1 n)
  show ?case
  proof (cases "n < 10")
    case True
    then show ?thesis
      by (subst show_nat.simps) (simp add: dec_value_Cons byte_digit_char)
  next
    case False
    with 1 show ?thesis
      by (subst show_nat.simps) (simp add: dec_value_snoc byte_digit_char)
  qed
qed

lemma length_show_nat: "n < 10 ^ k \<Longrightarrow> 0 < k \<Longrightarrow> length (show_nat n) \<le> k"
proof (induction n arbitrary: k rule: show_nat.induct)
  case (1 n)
  show ?case
  proof (cases "n < 10")
    case True
    with 1 show ?thesis
      by (subst show_nat.simps) simp
  next
    case False
    with 1 obtain j where k: "k = Suc j" "0 < j"
      by (cases k; cases "k - 1") auto
    with 1(2) have "n div 10 < 10 ^ j"
      by (simp add: less_mult_imp_div_less mult.commute)
    with 1(1) [OF False this] k False show ?thesis
      by (subst show_nat.simps) simp
  qed
qed

lemma is_digit_0 [simp]: "is_digit (CHR 0x30)"
  by (simp add: is_digit_def byte_def)

lemma pad0_digits: "list_all is_digit (pad0 w n)"
  using show_nat_digits [of n] by (auto simp: pad0_def Let_def list_all_iff)

lemma pad0_nonempty [simp]: "pad0 w n \<noteq> []"
  by (simp add: pad0_def Let_def)

lemma dec_value_pad0 [simp]: "dec_value (pad0 w n) = n"
  by (simp add: pad0_def Let_def)

lemma length_pad0: "n < 10 ^ w \<Longrightarrow> 0 < w \<Longrightarrow> length (pad0 w n) = w"
  using length_show_nat [of n w] by (simp add: pad0_def Let_def)

lemma not_digit_simps [simp]:
  "\<not> is_digit (CHR 0x2B)" "\<not> is_digit (CHR 0x2D)" "\<not> is_digit (CHR 0x2E)"
  "\<not> is_digit (CHR 0x2F)" "\<not> is_digit (CHR 0x5F)" "\<not> is_digit NUL"
  by (simp_all add: is_digit_def byte_def NUL_def)

lemma parse_digits_pad0 [simp]: "parse_digits (pad0 w n) = Some n"
  by (simp add: parse_digits_def pad0_digits)

lemma digits_hd: "list_all is_digit s \<Longrightarrow> s = c # r \<Longrightarrow> c \<noteq> CHR 0x2B \<and> c \<noteq> CHR 0x2D"
  by auto

lemma parse_u64_pad0 [simp]:
  assumes "n \<le> u64_max"
  shows "parse_u64 (pad0 w n) = Some n"
proof -
  obtain c r where cr: "pad0 w n = c # r"
    by (meson neq_Nil_conv pad0_nonempty)
  with digits_hd [OF pad0_digits cr] parse_digits_pad0 [of w n] assms show ?thesis
    by (simp add: parse_u64_def)
qed

lemma parse_i64_pad0 [simp]:
  assumes "0 \<le> v" "v \<le> i64_max"
  shows "parse_i64 (pad0_int w v) = Some v"
proof -
  obtain c r where cr: "pad0 w (nat v) = c # r"
    by (meson neq_Nil_conv pad0_nonempty)
  with digits_hd [OF pad0_digits cr] parse_digits_pad0 [of w "nat v"] assms show ?thesis
    by (simp add: parse_i64_def pad0_int_def)
qed

section \<open>Byte order on padded numbers is numeric order\<close>

lemma digits_less_iff:
  assumes "length s = length t" "list_all is_digit s" "list_all is_digit t"
  shows "s < t \<longleftrightarrow> dec_value s < dec_value t"
  using assms
proof (induction s t rule: list_induct2)
  case (Cons c s d t)
  have bounds: "dec_value s < 10 ^ length s" "dec_value t < 10 ^ length s"
    using Cons.prems Cons.hyps dec_value_bound [of s] dec_value_bound [of t] by auto
  have low: "48 \<le> byte c" "48 \<le> byte d"
    using Cons.prems by (auto simp: is_digit_def)
  consider "c = d" | "byte c < byte d" | "byte d < byte c"
    by (metis byte_eq_iff linorder_neqE_nat)
  then show ?case
  proof cases
    case 1
    with Cons show ?thesis by (simp add: dec_value_Cons)
  next
    case 2
    then have "Suc (byte c - 48) * 10 ^ length s \<le> (byte d - 48) * 10 ^ length s"
      using low by (intro mult_le_mono1) simp
    with 2 bounds Cons.hyps byte_less_iff [of c d] show ?thesis
      by (simp add: dec_value_Cons)
  next
    case 3
    then have "Suc (byte d - 48) * 10 ^ length s \<le> (byte c - 48) * 10 ^ length s"
      using low by (intro mult_le_mono1) simp
    with 3 bounds Cons.hyps byte_less_iff [of d c] show ?thesis
      by (auto simp: dec_value_Cons)
  qed
qed simp

lemma pad0_less_iff:
  assumes "n < 10 ^ w" "m < 10 ^ w" "0 < w"
  shows "pad0 w n < pad0 w m \<longleftrightarrow> n < m"
  using assms by (simp add: digits_less_iff length_pad0 pad0_digits)

lemma pad0_inj: "pad0 w n = pad0 w m \<Longrightarrow> n = m"
  by (metis dec_value_pad0)

lemma u64_fits_20: "n \<le> u64_max \<Longrightarrow> n < 10 ^ 20"
  by (simp add: u64_max_def)

lemma append_less_iff_prefix [simp]: "(p @ s :: string) < p @ t \<longleftrightarrow> s < t"
  by (induction p) simp_all

lemma append_less_same_length:
  assumes "length s = length t"
  shows "(s @ u :: string) < t @ v \<longleftrightarrow> s < t \<or> s = t \<and> u < v"
  using assms by (induction s t rule: list_induct2) auto

end
