(* ===== verification/Errors.thy ===== *)
theory Errors
  imports Prelude
begin

text \<open>
  The crate \<^verbatim>\<open>uc-errors\<close>: the error codes, their HTTP statuses on the two wire protocols, and
  the error bodies. A status is its number.
\<close>

datatype error_code =
    InvalidArgument
  | UnsupportedTableFormat
  | NotFound
  | CatalogNotFound
  | SchemaNotFound
  | TableNotFound
  | AlreadyExists
  | PermissionDenied
  | Unauthenticated
  | ResourceExhausted
  | FailedPrecondition
  | Aborted
  | CommitVersionConflict
  | UpdateRequirementConflict
  | OutOfRange
  | Unimplemented
  | Internal
  | DataLoss
  | ResourceAlreadyExists
  | CatalogAlreadyExists
  | SchemaAlreadyExists
  | TableAlreadyExists
  | StorageCredentialAlreadyExists
  | ExternalLocationAlreadyExists

record uc_error =
  err_code :: error_code
  err_message :: string

definition uc_err :: "error_code \<Rightarrow> string \<Rightarrow> uc_error" where
  "uc_err c m = \<lparr>err_code = c, err_message = m\<rparr>"

type_synonym 'a res = "uc_error + 'a"

fun uc_status :: "error_code \<Rightarrow> nat" where
  "uc_status InvalidArgument = 400"
| "uc_status UnsupportedTableFormat = 400"
| "uc_status NotFound = 404"
| "uc_status CatalogNotFound = 404"
| "uc_status SchemaNotFound = 404"
| "uc_status TableNotFound = 404"
| "uc_status AlreadyExists = 409"
| "uc_status PermissionDenied = 403"
| "uc_status Unauthenticated = 401"
| "uc_status ResourceExhausted = 429"
| "uc_status FailedPrecondition = 400"
| "uc_status Aborted = 409"
| "uc_status CommitVersionConflict = 409"
| "uc_status UpdateRequirementConflict = 409"
| "uc_status OutOfRange = 400"
| "uc_status Unimplemented = 501"
| "uc_status Internal = 500"
| "uc_status DataLoss = 500"
| "uc_status ResourceAlreadyExists = 400"
| "uc_status CatalogAlreadyExists = 400"
| "uc_status SchemaAlreadyExists = 400"
| "uc_status TableAlreadyExists = 400"
| "uc_status StorageCredentialAlreadyExists = 400"
| "uc_status ExternalLocationAlreadyExists = 409"

fun delta_status :: "error_code \<Rightarrow> nat" where
  "delta_status ResourceAlreadyExists = 409"
| "delta_status CatalogAlreadyExists = 409"
| "delta_status SchemaAlreadyExists = 409"
| "delta_status TableAlreadyExists = 409"
| "delta_status StorageCredentialAlreadyExists = 409"
| "delta_status ExternalLocationAlreadyExists = 409"
| "delta_status other = uc_status other"

fun delta_error_type :: "error_code \<Rightarrow> string" where
  "delta_error_type InvalidArgument = ''InvalidParameterValueException''"
| "delta_error_type UnsupportedTableFormat = ''UnsupportedTableFormatException''"
| "delta_error_type NotFound = ''NotFoundException''"
| "delta_error_type CatalogNotFound = ''NoSuchCatalogException''"
| "delta_error_type SchemaNotFound = ''NoSuchSchemaException''"
| "delta_error_type TableNotFound = ''NoSuchTableException''"
| "delta_error_type AlreadyExists = ''AlreadyExistsException''"
| "delta_error_type PermissionDenied = ''PermissionDeniedException''"
| "delta_error_type Unauthenticated = ''NotAuthorizedException''"
| "delta_error_type ResourceExhausted = ''ResourceExhaustedException''"
| "delta_error_type FailedPrecondition = ''InvalidParameterValueException''"
| "delta_error_type Aborted = ''CommitVersionConflictException''"
| "delta_error_type CommitVersionConflict = ''CommitVersionConflictException''"
| "delta_error_type UpdateRequirementConflict = ''UpdateRequirementConflictException''"
| "delta_error_type OutOfRange = ''BadRequestException''"
| "delta_error_type Unimplemented = ''NotImplementedException''"
| "delta_error_type Internal = ''InternalServerErrorException''"
| "delta_error_type DataLoss = ''InternalServerErrorException''"
| "delta_error_type ResourceAlreadyExists = ''AlreadyExistsException''"
| "delta_error_type CatalogAlreadyExists = ''AlreadyExistsException''"
| "delta_error_type SchemaAlreadyExists = ''AlreadyExistsException''"
| "delta_error_type TableAlreadyExists = ''AlreadyExistsException''"
| "delta_error_type StorageCredentialAlreadyExists = ''AlreadyExistsException''"
| "delta_error_type ExternalLocationAlreadyExists = ''AlreadyExistsException''"

fun as_str :: "error_code \<Rightarrow> string" where
  "as_str InvalidArgument = ''INVALID_ARGUMENT''"
| "as_str UnsupportedTableFormat = ''UNSUPPORTED_TABLE_FORMAT''"
| "as_str NotFound = ''NOT_FOUND''"
| "as_str CatalogNotFound = ''CATALOG_NOT_FOUND''"
| "as_str SchemaNotFound = ''SCHEMA_NOT_FOUND''"
| "as_str TableNotFound = ''TABLE_NOT_FOUND''"
| "as_str AlreadyExists = ''ALREADY_EXISTS''"
| "as_str PermissionDenied = ''PERMISSION_DENIED''"
| "as_str Unauthenticated = ''UNAUTHENTICATED''"
| "as_str ResourceExhausted = ''RESOURCE_EXHAUSTED''"
| "as_str FailedPrecondition = ''FAILED_PRECONDITION''"
| "as_str Aborted = ''ABORTED''"
| "as_str CommitVersionConflict = ''COMMIT_VERSION_CONFLICT''"
| "as_str UpdateRequirementConflict = ''UPDATE_REQUIREMENT_CONFLICT''"
| "as_str OutOfRange = ''OUT_OF_RANGE''"
| "as_str Unimplemented = ''UNIMPLEMENTED''"
| "as_str Internal = ''INTERNAL''"
| "as_str DataLoss = ''DATA_LOSS''"
| "as_str ResourceAlreadyExists = ''RESOURCE_ALREADY_EXISTS''"
| "as_str CatalogAlreadyExists = ''CATALOG_ALREADY_EXISTS''"
| "as_str SchemaAlreadyExists = ''SCHEMA_ALREADY_EXISTS''"
| "as_str TableAlreadyExists = ''TABLE_ALREADY_EXISTS''"
| "as_str StorageCredentialAlreadyExists = ''STORAGE_CREDENTIAL_ALREADY_EXISTS''"
| "as_str ExternalLocationAlreadyExists = ''EXTERNAL_LOCATION_ALREADY_EXISTS''"

section \<open>Constructors of errors and the wire bodies\<close>

definition err_not_found :: "string \<Rightarrow> string \<Rightarrow> uc_error" where
  "err_not_found entity nm = uc_err NotFound (entity @ '' '' @ quoted nm @ '' not found'')"

definition err_already_exists :: "string \<Rightarrow> string \<Rightarrow> uc_error" where
  "err_already_exists entity nm = uc_err AlreadyExists (entity @ '' '' @ quoted nm @ '' already exists'')"

definition err_invalid_argument :: "string \<Rightarrow> uc_error" where
  "err_invalid_argument msg = uc_err InvalidArgument msg"

definition err_internal :: "string \<Rightarrow> uc_error" where
  "err_internal msg = uc_err Internal msg"

definition err_permission_denied :: "string \<Rightarrow> uc_error" where
  "err_permission_denied msg = uc_err PermissionDenied msg"

definition err_unauthenticated :: "string \<Rightarrow> uc_error" where
  "err_unauthenticated msg = uc_err Unauthenticated msg"

definition err_display :: "uc_error \<Rightarrow> string" where
  "err_display e = ''['' @ as_str (err_code e) @ ''] '' @ err_message e"

datatype error_format = FormatCatalog | FormatControl | FormatDelta

datatype error_body =
    ErrorResponse string string            \<comment> \<open>\<open>error_code\<close>, \<open>message\<close>\<close>
  | DeltaErrorResponse string string       \<comment> \<open>\<open>message\<close>, \<open>errorType\<close>\<close>

fun error_into_response :: "uc_error \<Rightarrow> error_format \<Rightarrow> nat \<times> error_body" where
  "error_into_response err FormatDelta =
     (delta_status (err_code err),
      DeltaErrorResponse (err_message err) (delta_error_type (err_code err)))"
| "error_into_response err FormatCatalog =
     (uc_status (err_code err), ErrorResponse (as_str (err_code err)) (err_message err))"
| "error_into_response err FormatControl =
     (uc_status (err_code err), ErrorResponse (as_str (err_code err)) (err_message err))"

text \<open>\<open>IntoResponse for UcError\<close> always takes the catalog format.\<close>

definition uc_error_into_response :: "uc_error \<Rightarrow> nat \<times> error_body" where
  "uc_error_into_response err = error_into_response err FormatCatalog"

lemma uc_err_sel [simp]: "err_code (uc_err c m) = c" "err_message (uc_err c m) = m"
  by (simp_all add: uc_err_def)

lemma uc_err_inject [simp]: "uc_err c m = uc_err c' m' \<longleftrightarrow> c = c' \<and> m = m'"
  by (auto simp: uc_err_def)

lemma uc_status_error: "uc_status c \<in> {400, 401, 403, 404, 409, 429, 500, 501}"
  by (cases c) simp_all

lemma as_str_inj: "as_str a = as_str b \<Longrightarrow> a = b"
  by (cases a; cases b) simp_all

end
