(* ===== verification/Rows.thy ===== *)
theory Rows
  imports Errors
begin

text \<open>
  The resident rows: the kinds of \<^verbatim>\<open>store::action::EntityKind\<close>, the row structs of
  \<^verbatim>\<open>uc_db::models\<close> (a field keeps its name behind a prefix for its struct) and the typed row
  of \<^verbatim>\<open>store::row\<close>. The JSON value of a row body is the type variable \<open>'j\<close>; what serde does
  between a struct and its value is the record \<open>row_codecs\<close>, one codec per struct.
\<close>

section \<open>Entity kinds\<close>

datatype entity_kind =
    EkMetastore
  | EkCatalog
  | EkSchema
  | EkTable
  | EkColumn
  | EkVolume
  | EkFunction
  | EkFunctionParameter
  | EkRegisteredModel
  | EkModelVersion
  | EkStagingTable
  | EkUser
  | EkCredential
  | EkExternalLocation
  | EkProperty
  | EkCasbinRule

text \<open>The derived order is the order of declaration.\<close>

fun kind_index :: "entity_kind \<Rightarrow> nat" where
  "kind_index EkMetastore = 0"
| "kind_index EkCatalog = 1"
| "kind_index EkSchema = 2"
| "kind_index EkTable = 3"
| "kind_index EkColumn = 4"
| "kind_index EkVolume = 5"
| "kind_index EkFunction = 6"
| "kind_index EkFunctionParameter = 7"
| "kind_index EkRegisteredModel = 8"
| "kind_index EkModelVersion = 9"
| "kind_index EkStagingTable = 10"
| "kind_index EkUser = 11"
| "kind_index EkCredential = 12"
| "kind_index EkExternalLocation = 13"
| "kind_index EkProperty = 14"
| "kind_index EkCasbinRule = 15"

lemma kind_index_inj: "kind_index a = kind_index b \<Longrightarrow> a = b"
  by (cases a; cases b) simp_all

instantiation entity_kind :: linorder
begin

definition less_eq_entity_kind :: "entity_kind \<Rightarrow> entity_kind \<Rightarrow> bool" where
  "less_eq_entity_kind a b \<longleftrightarrow> kind_index a \<le> kind_index b"

definition less_entity_kind :: "entity_kind \<Rightarrow> entity_kind \<Rightarrow> bool" where
  "less_entity_kind a b \<longleftrightarrow> kind_index a < kind_index b"

instance
  by standard (auto simp: less_eq_entity_kind_def less_entity_kind_def intro: kind_index_inj)

end

text \<open>\<open>{:?}\<close> of a kind.\<close>

fun kind_debug :: "entity_kind \<Rightarrow> string" where
  "kind_debug EkMetastore = ''Metastore''"
| "kind_debug EkCatalog = ''Catalog''"
| "kind_debug EkSchema = ''Schema''"
| "kind_debug EkTable = ''Table''"
| "kind_debug EkColumn = ''Column''"
| "kind_debug EkVolume = ''Volume''"
| "kind_debug EkFunction = ''Function''"
| "kind_debug EkFunctionParameter = ''FunctionParameter''"
| "kind_debug EkRegisteredModel = ''RegisteredModel''"
| "kind_debug EkModelVersion = ''ModelVersion''"
| "kind_debug EkStagingTable = ''StagingTable''"
| "kind_debug EkUser = ''User''"
| "kind_debug EkCredential = ''Credential''"
| "kind_debug EkExternalLocation = ''ExternalLocation''"
| "kind_debug EkProperty = ''Property''"
| "kind_debug EkCasbinRule = ''CasbinRule''"

section \<open>Row structs\<close>

record metastore_row =
  met_id :: uuid
  met_name :: string

record catalog_row =
  cat_id :: uuid
  cat_name :: string
  cat_comment :: "string option"
  cat_owner :: "string option"
  cat_created_at :: int
  cat_created_by :: "string option"
  cat_updated_at :: "int option"
  cat_updated_by :: "string option"
  cat_storage_root :: "string option"
  cat_storage_location :: "string option"

record schema_row =
  sch_id :: uuid
  sch_catalog_id :: uuid
  sch_name :: string
  sch_comment :: "string option"
  sch_owner :: "string option"
  sch_created_at :: int
  sch_created_by :: "string option"
  sch_updated_at :: "int option"
  sch_updated_by :: "string option"
  sch_storage_root :: "string option"
  sch_storage_location :: "string option"

record table_row =
  tab_id :: uuid
  tab_schema_id :: uuid
  tab_name :: string
  tab_type :: string
  tab_owner :: "string option"
  tab_created_at :: int
  tab_created_by :: "string option"
  tab_updated_at :: "int option"
  tab_updated_by :: "string option"
  tab_data_source_format :: "string option"
  tab_comment :: "string option"
  tab_url :: "string option"
  tab_column_count :: "int option"
  tab_view_definition :: "string option"
  tab_uniform_iceberg_metadata_location :: "string option"
  tab_uniform_iceberg_converted_delta_version :: "int option"
  tab_uniform_iceberg_converted_delta_timestamp :: "int option"

record column_row =
  col_id :: uuid
  col_table_id :: uuid
  col_name :: string
  col_ordinal_position :: int
  col_type_text :: string
  col_type_json :: string
  col_type_name :: string
  col_type_precision :: "int option"
  col_type_scale :: "int option"
  col_type_interval_type :: "string option"
  col_nullable :: bool
  col_comment :: "string option"
  col_partition_index :: "int option"

record volume_row =
  vol_id :: uuid
  vol_schema_id :: uuid
  vol_name :: string
  vol_comment :: "string option"
  vol_storage_location :: "string option"
  vol_owner :: "string option"
  vol_created_at :: int
  vol_created_by :: "string option"
  vol_updated_at :: "int option"
  vol_updated_by :: "string option"
  vol_volume_type :: string

record function_row =
  fn_id :: uuid
  fn_schema_id :: uuid
  fn_name :: string
  fn_comment :: "string option"
  fn_owner :: "string option"
  fn_created_at :: "int option"
  fn_created_by :: "string option"
  fn_updated_at :: "int option"
  fn_updated_by :: "string option"
  fn_data_type :: "string option"
  fn_full_data_type :: "string option"
  fn_external_language :: "string option"
  fn_is_deterministic :: "bool option"
  fn_is_null_call :: "bool option"
  fn_parameter_style :: "string option"
  fn_routine_body :: "string option"
  fn_routine_definition :: "string option"
  fn_sql_data_access :: "string option"
  fn_security_type :: "string option"
  fn_specific_name :: "string option"

record function_param_row =
  par_id :: uuid
  par_function_id :: uuid
  par_name :: string
  par_input_or_return :: int
  par_ordinal_position :: int
  par_type_text :: "string option"
  par_type_json :: "string option"
  par_type_name :: "string option"
  par_type_precision :: "int option"
  par_type_scale :: "int option"
  par_type_interval_type :: "string option"
  par_comment :: "string option"
  par_parameter_mode :: "string option"
  par_parameter_default :: "string option"

record registered_model_row =
  mdl_id :: uuid
  mdl_schema_id :: uuid
  mdl_name :: string
  mdl_owner :: "string option"
  mdl_created_at :: "int option"
  mdl_created_by :: "string option"
  mdl_updated_at :: "int option"
  mdl_updated_by :: "string option"
  mdl_comment :: "string option"
  mdl_url :: "string option"
  mdl_max_version_number :: "int option"

record model_version_row =
  mv_id :: uuid
  mv_registered_model_id :: uuid
  mv_version :: "int option"
  mv_source :: "string option"
  mv_run_id :: "string option"
  mv_status :: "string option"
  mv_owner :: "string option"
  mv_created_at :: "int option"
  mv_created_by :: "string option"
  mv_updated_at :: "int option"
  mv_updated_by :: "string option"
  mv_comment :: "string option"
  mv_url :: "string option"

record staging_table_row =
  stg_id :: uuid
  stg_schema_id :: uuid
  stg_name :: string
  stg_staging_location :: string
  stg_created_at :: int
  stg_created_by :: "string option"
  stg_accessed_at :: int
  stg_stage_committed :: bool
  stg_stage_committed_at :: "int option"
  stg_purge_state :: int
  stg_num_cleanup_retries :: int
  stg_last_cleanup_at :: "int option"

record user_row =
  usr_id :: uuid
  usr_name :: string
  usr_email :: "string option"
  usr_external_id :: "string option"
  usr_state :: "string option"
  usr_created_at :: "int option"
  usr_updated_at :: "int option"
  usr_picture_url :: "string option"

record credential_row =
  crd_id :: uuid
  crd_name :: string
  crd_credential_type :: string
  crd_credential :: string
  crd_purpose :: string
  crd_comment :: "string option"
  crd_owner :: "string option"
  crd_created_at :: int
  crd_created_by :: "string option"
  crd_updated_at :: "int option"
  crd_updated_by :: "string option"

record external_location_row =
  loc_id :: uuid
  loc_name :: string
  loc_url :: string
  loc_comment :: "string option"
  loc_owner :: "string option"
  loc_credential_id :: uuid
  loc_created_at :: "int option"
  loc_created_by :: "string option"
  loc_updated_at :: "int option"
  loc_updated_by :: "string option"

record property_row =
  prop_id :: uuid
  prop_entity_id :: uuid
  prop_entity_type :: string
  prop_property_key :: string
  prop_property_value :: string

record casbin_rule =
  cr_ptype :: string
  cr_v0 :: string
  cr_v1 :: string
  cr_v2 :: string
  cr_v3 :: string
  cr_v4 :: string
  cr_v5 :: string

record delta_commit_row =
  dc_id :: uuid
  dc_table_id :: uuid
  dc_commit_version :: int
  dc_commit_filename :: string
  dc_commit_filesize :: int
  dc_commit_file_modification_timestamp :: int
  dc_commit_timestamp :: int
  dc_is_backfilled_latest_commit :: bool

section \<open>Typed rows\<close>

datatype row =
    RowMetastore metastore_row
  | RowCatalog catalog_row
  | RowSchema schema_row
  | RowTable table_row
  | RowColumn column_row
  | RowVolume volume_row
  | RowFunction function_row
  | RowFunctionParameter function_param_row
  | RowRegisteredModel registered_model_row
  | RowModelVersion model_version_row
  | RowStagingTable staging_table_row
  | RowUser user_row
  | RowCredential credential_row
  | RowExternalLocation external_location_row
  | RowProperty property_row
  | RowCasbinRule casbin_rule

fun row_kind :: "row \<Rightarrow> entity_kind" where
  "row_kind (RowMetastore r) = EkMetastore"
| "row_kind (RowCatalog r) = EkCatalog"
| "row_kind (RowSchema r) = EkSchema"
| "row_kind (RowTable r) = EkTable"
| "row_kind (RowColumn r) = EkColumn"
| "row_kind (RowVolume r) = EkVolume"
| "row_kind (RowFunction r) = EkFunction"
| "row_kind (RowFunctionParameter r) = EkFunctionParameter"
| "row_kind (RowRegisteredModel r) = EkRegisteredModel"
| "row_kind (RowModelVersion r) = EkModelVersion"
| "row_kind (RowStagingTable r) = EkStagingTable"
| "row_kind (RowUser r) = EkUser"
| "row_kind (RowCredential r) = EkCredential"
| "row_kind (RowExternalLocation r) = EkExternalLocation"
| "row_kind (RowProperty r) = EkProperty"
| "row_kind (RowCasbinRule r) = EkCasbinRule"

text \<open>
  A codec is what serde gives for one type: encoding and decoding, each of which may fail with
  a message. \<open>codec_ok\<close> is the documented round trip of the derived implementations.
\<close>

record ('r, 'w) codec =
  enc :: "'r \<Rightarrow> string + 'w"
  dec :: "'w \<Rightarrow> string + 'r"

definition codec_ok :: "('r, 'w) codec \<Rightarrow> bool" where
  "codec_ok c \<longleftrightarrow> (\<forall>r. \<exists>w. enc c r = Inr w \<and> dec c w = Inr r)"

record 'j row_codecs =
  uuid_text :: "uuid \<Rightarrow> string"     \<comment> \<open>\<open>Display\<close> of \<open>Uuid\<close>\<close>
  cd_metastore_row :: "(metastore_row, 'j) codec"
  cd_catalog_row :: "(catalog_row, 'j) codec"
  cd_schema_row :: "(schema_row, 'j) codec"
  cd_table_row :: "(table_row, 'j) codec"
  cd_column_row :: "(column_row, 'j) codec"
  cd_volume_row :: "(volume_row, 'j) codec"
  cd_function_row :: "(function_row, 'j) codec"
  cd_function_param_row :: "(function_param_row, 'j) codec"
  cd_registered_model_row :: "(registered_model_row, 'j) codec"
  cd_model_version_row :: "(model_version_row, 'j) codec"
  cd_staging_table_row :: "(staging_table_row, 'j) codec"
  cd_user_row :: "(user_row, 'j) codec"
  cd_credential_row :: "(credential_row, 'j) codec"
  cd_external_location_row :: "(external_location_row, 'j) codec"
  cd_property_row :: "(property_row, 'j) codec"
  cd_casbin_rule :: "(casbin_rule, 'j) codec"

definition json_err :: "string + 'a \<Rightarrow> 'a res" where
  "json_err x = map_err (uc_err Internal) x"

text \<open>\<open>row::from_body\<close> and its inner \<open>parse\<close>.\<close>

definition parse_row :: "('r, 'j) codec \<Rightarrow> entity_kind \<Rightarrow> 'j \<Rightarrow> 'r res" where
  "parse_row c kind body =
     map_err (\<lambda>e. uc_err Internal (''corrupt '' @ kind_debug kind @ '' row: '' @ e)) (dec c body)"

fun from_body :: "('j, 'z) row_codecs_scheme \<Rightarrow> entity_kind \<Rightarrow> 'j \<Rightarrow> row res" where
  "from_body E EkMetastore body =
     rbind (parse_row (cd_metastore_row E) EkMetastore body) (\<lambda>r. Inr (RowMetastore r))"
| "from_body E EkCatalog body =
     rbind (parse_row (cd_catalog_row E) EkCatalog body) (\<lambda>r. Inr (RowCatalog r))"
| "from_body E EkSchema body =
     rbind (parse_row (cd_schema_row E) EkSchema body) (\<lambda>r. Inr (RowSchema r))"
| "from_body E EkTable body =
     rbind (parse_row (cd_table_row E) EkTable body) (\<lambda>r. Inr (RowTable r))"
| "from_body E EkColumn body =
     rbind (parse_row (cd_column_row E) EkColumn body) (\<lambda>r. Inr (RowColumn r))"
| "from_body E EkVolume body =
     rbind (parse_row (cd_volume_row E) EkVolume body) (\<lambda>r. Inr (RowVolume r))"
| "from_body E EkFunction body =
     rbind (parse_row (cd_function_row E) EkFunction body) (\<lambda>r. Inr (RowFunction r))"
| "from_body E EkFunctionParameter body =
     rbind (parse_row (cd_function_param_row E) EkFunctionParameter body) (\<lambda>r. Inr (RowFunctionParameter r))"
| "from_body E EkRegisteredModel body =
     rbind (parse_row (cd_registered_model_row E) EkRegisteredModel body) (\<lambda>r. Inr (RowRegisteredModel r))"
| "from_body E EkModelVersion body =
     rbind (parse_row (cd_model_version_row E) EkModelVersion body) (\<lambda>r. Inr (RowModelVersion r))"
| "from_body E EkStagingTable body =
     rbind (parse_row (cd_staging_table_row E) EkStagingTable body) (\<lambda>r. Inr (RowStagingTable r))"
| "from_body E EkUser body =
     rbind (parse_row (cd_user_row E) EkUser body) (\<lambda>r. Inr (RowUser r))"
| "from_body E EkCredential body =
     rbind (parse_row (cd_credential_row E) EkCredential body) (\<lambda>r. Inr (RowCredential r))"
| "from_body E EkExternalLocation body =
     rbind (parse_row (cd_external_location_row E) EkExternalLocation body) (\<lambda>r. Inr (RowExternalLocation r))"
| "from_body E EkProperty body =
     rbind (parse_row (cd_property_row E) EkProperty body) (\<lambda>r. Inr (RowProperty r))"
| "from_body E EkCasbinRule body =
     rbind (parse_row (cd_casbin_rule E) EkCasbinRule body) (\<lambda>r. Inr (RowCasbinRule r))"

text \<open>\<open>Row::to_body\<close>.\<close>

fun to_body :: "('j, 'z) row_codecs_scheme \<Rightarrow> row \<Rightarrow> 'j res" where
  "to_body E (RowMetastore r) = json_err (enc (cd_metastore_row E) r)"
| "to_body E (RowCatalog r) = json_err (enc (cd_catalog_row E) r)"
| "to_body E (RowSchema r) = json_err (enc (cd_schema_row E) r)"
| "to_body E (RowTable r) = json_err (enc (cd_table_row E) r)"
| "to_body E (RowColumn r) = json_err (enc (cd_column_row E) r)"
| "to_body E (RowVolume r) = json_err (enc (cd_volume_row E) r)"
| "to_body E (RowFunction r) = json_err (enc (cd_function_row E) r)"
| "to_body E (RowFunctionParameter r) = json_err (enc (cd_function_param_row E) r)"
| "to_body E (RowRegisteredModel r) = json_err (enc (cd_registered_model_row E) r)"
| "to_body E (RowModelVersion r) = json_err (enc (cd_model_version_row E) r)"
| "to_body E (RowStagingTable r) = json_err (enc (cd_staging_table_row E) r)"
| "to_body E (RowUser r) = json_err (enc (cd_user_row E) r)"
| "to_body E (RowCredential r) = json_err (enc (cd_credential_row E) r)"
| "to_body E (RowExternalLocation r) = json_err (enc (cd_external_location_row E) r)"
| "to_body E (RowProperty r) = json_err (enc (cd_property_row E) r)"
| "to_body E (RowCasbinRule r) = json_err (enc (cd_casbin_rule E) r)"

text \<open>What the server relies on from serde: every row struct survives a round trip.\<close>

definition codecs_ok :: "('j, 'z) row_codecs_scheme \<Rightarrow> bool" where
  "codecs_ok E \<longleftrightarrow>
    codec_ok (cd_metastore_row E) \<and>
    codec_ok (cd_catalog_row E) \<and>
    codec_ok (cd_schema_row E) \<and>
    codec_ok (cd_table_row E) \<and>
    codec_ok (cd_column_row E) \<and>
    codec_ok (cd_volume_row E) \<and>
    codec_ok (cd_function_row E) \<and>
    codec_ok (cd_function_param_row E) \<and>
    codec_ok (cd_registered_model_row E) \<and>
    codec_ok (cd_model_version_row E) \<and>
    codec_ok (cd_staging_table_row E) \<and>
    codec_ok (cd_user_row E) \<and>
    codec_ok (cd_credential_row E) \<and>
    codec_ok (cd_external_location_row E) \<and>
    codec_ok (cd_property_row E) \<and>
    codec_ok (cd_casbin_rule E)"

text \<open>
  What the server relies on from \<open>Uuid\<close>'s \<open>Display\<close>: the text is the same length for every
  uuid, contains neither NUL nor a slash, and determines the uuid.
\<close>

definition uuid_text_ok :: "(uuid \<Rightarrow> string) \<Rightarrow> bool" where
  "uuid_text_ok us \<longleftrightarrow>
     inj us \<and> (\<forall>u. length (us u) = 36 \<and> NUL \<notin> set (us u) \<and> CHR ''/'' \<notin> set (us u))"

lemma codec_okD: "codec_ok c \<Longrightarrow> \<exists>w. enc c r = Inr w \<and> dec c w = Inr r"
  by (simp add: codec_ok_def)

lemma from_body_kind: "from_body E k b = Inr r \<Longrightarrow> row_kind r = k"
  by (cases k) (auto simp: rbind_eq_Inr)

lemma codec_row_round_trip:
  assumes "codec_ok c"
  shows "\<exists>b. json_err (enc c x) = Inr b \<and>
             rbind (parse_row c k b) (\<lambda>r. Inr (F r)) = (Inr (F x) :: row res)"
proof -
  from codec_okD [OF assms] obtain w where "enc c x = Inr w" "dec c w = Inr x"
    by blast
  then show ?thesis by (simp add: json_err_def parse_row_def)
qed

lemma to_body_from_body:
  assumes "codecs_ok E"
  shows "\<exists>b. to_body E r = Inr b \<and> from_body E (row_kind r) b = Inr r"
  using assms unfolding codecs_ok_def
  by (cases r) (simp_all only: to_body.simps from_body.simps row_kind.simps codec_row_round_trip)

section \<open>Casbin rules\<close>

text \<open>\<open>CasbinRule::from_parts\<close>: six columns, padded with empty strings, extras dropped.\<close>

definition rule_col :: "string list \<Rightarrow> nat \<Rightarrow> string" where
  "rule_col rule i = (if i < length rule then rule ! i else [])"

definition from_parts :: "string \<Rightarrow> string list \<Rightarrow> casbin_rule" where
  "from_parts ptype rule =
     \<lparr>cr_ptype = ptype, cr_v0 = rule_col rule 0, cr_v1 = rule_col rule 1, cr_v2 = rule_col rule 2,
      cr_v3 = rule_col rule 3, cr_v4 = rule_col rule 4, cr_v5 = rule_col rule 5\<rparr>"

definition rule_values :: "casbin_rule \<Rightarrow> string list" where
  "rule_values r = [cr_v0 r, cr_v1 r, cr_v2 r, cr_v3 r, cr_v4 r, cr_v5 r]"

definition to_policy :: "casbin_rule \<Rightarrow> string list" where
  "to_policy r = rev (dropWhile (\<lambda>s. s = []) (rev (rule_values r)))"

text \<open>\<open>UserRow::is_enabled\<close>.\<close>

definition ascii_lower :: "char \<Rightarrow> char" where
  "ascii_lower c = (if 65 \<le> byte c \<and> byte c \<le> 90 then char_of (byte c + 32) else c)"

definition eq_ignore_ascii_case :: "string \<Rightarrow> string \<Rightarrow> bool" where
  "eq_ignore_ascii_case a b \<longleftrightarrow> map ascii_lower a = map ascii_lower b"

definition is_enabled :: "user_row \<Rightarrow> bool" where
  "is_enabled u =
     (case map_option (\<lambda>s. eq_ignore_ascii_case s ''enabled'') (usr_state u) of
        None \<Rightarrow> False
      | Some b \<Rightarrow> b)"

lemma rule_values_from_parts:
  "length rule \<le> 6 \<Longrightarrow> rule_values (from_parts t rule) = rule @ replicate (6 - length rule) []"
  by (cases rule; cases "tl rule"; cases "tl (tl rule)"; cases "tl (tl (tl rule))";
      cases "tl (tl (tl (tl rule)))"; cases "tl (tl (tl (tl (tl rule))))")
     (auto simp: rule_values_def from_parts_def rule_col_def numeral_eq_Suc)

end
