(* ===== verification/Action.thy ===== *)
theory Action
  imports Numbers Rows
begin

text \<open>
  The log record format, \<^verbatim>\<open>store::action\<close>: actions, the lines of a commit file, their JSONL
  encoding, and the object keys. The text of a line is serde's and comes from the codec
  \<open>cd_line\<close>; splitting a file into lines, the checks on each line and the keys are the server's.
\<close>

record actor =
  actor_id :: "uuid option"
  actor_name :: string

record commit_info =
  ci_format :: nat
  ci_timestamp :: int
  ci_operation :: "string option"
  ci_actor :: "actor option"

datatype 'j line =
    LineCommitInfo commit_info
  | LineUpsert entity_kind uuid 'j
  | LineRemove entity_kind uuid

datatype 'j action =
    Upsert entity_kind uuid 'j
  | Remove entity_kind uuid

fun line_of_action :: "'j action \<Rightarrow> 'j line" where
  "line_of_action (Upsert k i b) = LineUpsert k i b"
| "line_of_action (Remove k i) = LineRemove k i"

record 'j env = "'j row_codecs" +
  cd_line :: "('j line, string) codec"

definition format_version :: nat where
  "format_version = 1"

section \<open>Commit files\<close>

fun encode_lines :: "('j, 'z) env_scheme \<Rightarrow> 'j line list \<Rightarrow> string res" where
  "encode_lines E [] = Inr []"
| "encode_lines E (l # ls) =
     rbind (json_err (enc (cd_line E) l)) (\<lambda>t.
     rbind (encode_lines E ls) (\<lambda>r. Inr (t @ NL # r)))"

definition encode_commit ::
  "('j, 'z) env_scheme \<Rightarrow> commit_info \<Rightarrow> 'j action list \<Rightarrow> string res" where
  "encode_commit E info actions =
     encode_lines E (LineCommitInfo info # map line_of_action actions)"

text \<open>The loop of \<open>decode_commit\<close>, with the line number, the header seen so far and the actions.\<close>

fun decode_lines ::
  "('j, 'z) env_scheme \<Rightarrow> string \<Rightarrow> nat \<Rightarrow> string list \<Rightarrow> commit_info option \<Rightarrow> 'j action list
     \<Rightarrow> (commit_info option \<times> 'j action list) res" where
  "decode_lines E key n [] info actions = Inr (info, actions)"
| "decode_lines E key n (raw # rest) info actions =
     (if blank raw then decode_lines E key (Suc n) rest info actions
      else (case dec (cd_line E) raw of
          Inl e \<Rightarrow> Inl (uc_err Internal
            (key @ '' line '' @ show_nat (Suc n) @ '': malformed action: '' @ e))
        | Inr (LineCommitInfo ci) \<Rightarrow>
            (if ci_format ci > format_version
             then Inl (uc_err Internal (key @ '' has format '' @ show_nat (ci_format ci) @
                    '' but this build understands '' @ show_nat format_version))
             else decode_lines E key (Suc n) rest (Some ci) actions)
        | Inr (LineUpsert k i b) \<Rightarrow>
            decode_lines E key (Suc n) rest info (actions @ [Upsert k i b])
        | Inr (LineRemove k i) \<Rightarrow>
            decode_lines E key (Suc n) rest info (actions @ [Remove k i])))"

definition decode_commit ::
  "('j, 'z) env_scheme \<Rightarrow> string \<Rightarrow> string \<Rightarrow> (commit_info \<times> 'j action list) res" where
  "decode_commit E key bytes =
     (if \<not> utf8_valid bytes then Inl (uc_err Internal (key @ '' is not utf-8''))
      else rbind (decode_lines E key 0 (str_lines bytes) None []) (\<lambda>(info, actions).
           rbind (ok_or (uc_err Internal (key @ '' has no commitInfo line'')) info) (\<lambda>i.
           Inr (i, actions))))"

section \<open>Keys\<close>

definition commit_key :: "nat \<Rightarrow> string" where
  "commit_key version = ''_uc_log/'' @ pad0 20 version @ ''.json''"

definition checkpoint_key :: "nat \<Rightarrow> string" where
  "checkpoint_key version = ''_uc_log/'' @ pad0 20 version @ ''.checkpoint.json''"

definition last_checkpoint_key :: string where
  "last_checkpoint_key = ''_uc_log/_last_checkpoint''"

definition version_from_key :: "string \<Rightarrow> nat option" where
  "version_from_key key =
     (case strip_prefix ''_uc_log/'' key of
        None \<Rightarrow> None
      | Some rest \<Rightarrow>
         (if CHR ''/'' \<in> set rest then None
          else (case strip_suffix ''.json'' rest of
                  None \<Rightarrow> None
                | Some stem \<Rightarrow>
                   (if ends_with stem ''.checkpoint'' then None else parse_u64 stem))))"

section \<open>What the encoding relies on\<close>

text \<open>
  For one line: serde's text of it is valid UTF-8 on one line, is not blank, does not end in a
  carriage return, and decodes to it.
\<close>

definition line_ok :: "('j, 'z) env_scheme \<Rightarrow> 'j line \<Rightarrow> bool" where
  "line_ok E l \<longleftrightarrow> (\<exists>t. enc (cd_line E) l = Inr t \<and> dec (cd_line E) t = Inr l \<and>
     utf8_valid t \<and> NL \<notin> set t \<and> CHR 0x0D \<notin> set t \<and> \<not> blank t)"

section \<open>Round trip\<close>

lemma utf8_valid_line:
  assumes "utf8_valid t" "utf8_valid r"
  shows "utf8_valid (t @ NL # r)"
proof -
  obtain ps qs where "utf8_points (map byte t) = Some ps" "utf8_points (map byte r) = Some qs"
    using assms by (auto simp: utf8_valid_def utf8_chars_def)
  then have "utf8_points (map byte (t @ NL # r)) = Some (ps @ 10 # qs)"
    by (simp add: utf8_points_append NL_def byte_def utf8_points.simps [of "10 # _"] utf8_step_def)
  then show ?thesis by (simp add: utf8_valid_def utf8_chars_def)
qed

text \<open>The texts of the lines, each ended by a newline, split back into the texts.\<close>

lemma encode_lines_split:
  assumes "\<forall>l \<in> set ls. line_ok E l"
  shows "\<exists>ts bytes. encode_lines E ls = Inr bytes \<and> str_lines bytes = ts \<and> utf8_valid bytes \<and>
    list_all2 (\<lambda>l t. enc (cd_line E) l = Inr t \<and> dec (cd_line E) t = Inr l \<and> \<not> blank t) ls ts \<and>
    length (filter (\<lambda>c. c = NL) bytes) = length ls"
  using assms
proof (induction ls)
  case Nil
  then show ?case by (simp add: utf8_valid_def utf8_chars_def)
next
  case (Cons l ls)
  then obtain ts bytes where IH: "encode_lines E ls = Inr bytes" "str_lines bytes = ts"
    "utf8_valid bytes" "length (filter (\<lambda>c. c = NL) bytes) = length ls"
    "list_all2 (\<lambda>l t. enc (cd_line E) l = Inr t \<and> dec (cd_line E) t = Inr l \<and> \<not> blank t) ls ts"
    by auto
  from Cons.prems obtain t where t: "enc (cd_line E) l = Inr t" "dec (cd_line E) t = Inr l"
    "utf8_valid t" "NL \<notin> set t" "CHR 0x0D \<notin> set t" "\<not> blank t"
    by (auto simp: line_ok_def)
  then have "strip_cr t = t"
    by (metis last_in_set strip_cr_def)
  moreover have "filter (\<lambda>c. c = NL) t = []"
    using t(4) by (auto simp: filter_empty_conv)
  ultimately show ?case
    using IH t by (auto simp: json_err_def str_lines_append intro: utf8_valid_line)
qed

lemma decode_lines_actions:
  assumes "list_all2 (\<lambda>l t. dec (cd_line E) t = Inr l \<and> \<not> blank t) (map line_of_action as) ts"
  shows "decode_lines E key n ts info acc = Inr (info, acc @ as)"
  using assms
proof (induction as arbitrary: ts n acc)
  case (Cons a as)
  then obtain t us where ts: "ts = t # us" "dec (cd_line E) t = Inr (line_of_action a)" "\<not> blank t"
    "list_all2 (\<lambda>l t. dec (cd_line E) t = Inr l \<and> \<not> blank t) (map line_of_action as) us"
    by (auto simp: list_all2_Cons1)
  show ?case
    using ts Cons.IH [OF ts(4)] by (cases a) simp_all
qed simp

lemma decode_encode_commit:
  assumes "line_ok E (LineCommitInfo info)" "ci_format info \<le> format_version"
    and "\<forall>a \<in> set as. line_ok E (line_of_action a)"
  shows "\<exists>bytes. encode_commit E info as = Inr bytes \<and> decode_commit E key bytes = Inr (info, as)"
proof -
  let ?ls = "LineCommitInfo info # map line_of_action as"
  have "\<forall>l \<in> set ?ls. line_ok E l"
    using assms by auto
  then obtain ts bytes where b: "encode_lines E ?ls = Inr bytes" "str_lines bytes = ts"
    "utf8_valid bytes"
    "list_all2 (\<lambda>l t. enc (cd_line E) l = Inr t \<and> dec (cd_line E) t = Inr l \<and> \<not> blank t) ?ls ts"
    using encode_lines_split [of ?ls E] by auto
  from b(4) obtain t us where ts: "ts = t # us" "dec (cd_line E) t = Inr (LineCommitInfo info)"
    "\<not> blank t"
    and "list_all2 (\<lambda>l t. enc (cd_line E) l = Inr t \<and> dec (cd_line E) t = Inr l \<and> \<not> blank t)
           (map line_of_action as) us"
    by (auto simp: list_all2_Cons1)
  then have us: "list_all2 (\<lambda>l t. dec (cd_line E) t = Inr l \<and> \<not> blank t) (map line_of_action as) us"
    by (auto elim!: list_all2_mono)
  have "decode_lines E key 0 ts None [] = Inr (Some info, as)"
    using ts assms(2) decode_lines_actions [OF us] by simp
  with b show ?thesis
    by (simp add: encode_commit_def decode_commit_def)
qed

text \<open>A commit without its header is refused.\<close>

lemma decode_lines_no_info:
  "(\<And>raw. raw \<in> set ts \<Longrightarrow> blank raw \<or> (\<forall>ci. dec (cd_line E) raw \<noteq> Inr (LineCommitInfo ci))) \<Longrightarrow>
   decode_lines E key n ts info acc = Inr (info', acc') \<Longrightarrow> info' = info"
  by (induction E key n ts info acc rule: decode_lines.induct)
     (auto split: if_splits sum.splits line.splits)

section \<open>Facts about keys\<close>

lemma slash_notin_digits: "list_all is_digit s \<Longrightarrow> CHR ''/'' \<notin> set s"
  by (auto simp: list_all_iff)

lemma commit_key_prefix [simp]: "starts_with (commit_key v) ''_uc_log/''"
  by (simp only: commit_key_def starts_with_append)

lemma version_from_commit_key [simp]:
  assumes "v \<le> u64_max"
  shows "version_from_key (commit_key v) = Some v"
proof -
  have slash: "CHR ''/'' \<notin> set (pad0 20 v @ ''.json'')"
    using slash_notin_digits [OF pad0_digits, of 20 v] by auto
  have stem: "\<not> ends_with (pad0 20 v) ''.checkpoint''"
  proof
    assume "ends_with (pad0 20 v) ''.checkpoint''"
    then obtain t where "pad0 20 v = t @ ''.checkpoint''"
      by (auto simp: ends_with_iff)
    then have "CHR ''.'' \<in> set (pad0 20 v)" by simp
    with pad0_digits [of 20 v] show False by (auto simp: list_all_iff)
  qed
  have "strip_prefix ''_uc_log/'' (commit_key v) = Some (pad0 20 v @ ''.json'')"
    by (simp only: commit_key_def strip_prefix_append)
  moreover have "strip_suffix ''.json'' (pad0 20 v @ ''.json'') = Some (pad0 20 v)"
    by (rule strip_suffix_append)
  ultimately show ?thesis
    using slash stem assms by (simp only: version_from_key_def option.case if_False) simp
qed

lemma version_from_checkpoint_key [simp]: "version_from_key (checkpoint_key v) = None"
proof -
  have 1: "strip_prefix ''_uc_log/'' (checkpoint_key v) = Some (pad0 20 v @ ''.checkpoint.json'')"
    by (simp only: checkpoint_key_def strip_prefix_append)
  have 2: "strip_suffix ''.json'' (pad0 20 v @ ''.checkpoint.json'') = Some (pad0 20 v @ ''.checkpoint'')"
    using strip_suffix_append [of "''.json''" "pad0 20 v @ ''.checkpoint''"] by simp
  show ?thesis
    by (simp only: version_from_key_def 1 2 option.case ends_with_append) simp
qed

lemma version_from_last_checkpoint [simp]: "version_from_key last_checkpoint_key = None"
  by (simp add: version_from_key_def last_checkpoint_key_def strip_prefix_def starts_with_def
      strip_suffix_def ends_with_def)

lemma version_from_nested_key:
  "CHR ''/'' \<in> set rest \<Longrightarrow> version_from_key (''_uc_log/'' @ rest) = None"
  by (simp only: version_from_key_def strip_prefix_append option.case if_True)

lemma commit_key_less_iff:
  assumes "v \<le> u64_max" "w \<le> u64_max"
  shows "commit_key v < commit_key w \<longleftrightarrow> v < w"
  using assms u64_fits_20 [of v] u64_fits_20 [of w]
  by (simp add: commit_key_def append_less_same_length length_pad0 pad0_less_iff)

lemma commit_key_inj: "v \<le> u64_max \<Longrightarrow> w \<le> u64_max \<Longrightarrow> commit_key v = commit_key w \<longleftrightarrow> v = w"
  by (metis commit_key_less_iff less_irrefl linorder_neqE_nat)

end
