(* ===== verification/OMap.thy ===== *)
theory OMap
  imports Prelude
begin

text \<open>
  Ordered association lists: the model of \<^verbatim>\<open>BTreeMap\<close>, and of \<^verbatim>\<open>HashMap\<close> with its iteration
  order fixed to key order. Lookup is \<open>map_of\<close>; a map is \<open>om_ok\<close> when its keys are strictly
  increasing, and then it is determined by its lookups.
\<close>

type_synonym ('k, 'v) omap = "('k \<times> 'v) list"

fun om_insert :: "'k::linorder \<Rightarrow> 'v \<Rightarrow> ('k, 'v) omap \<Rightarrow> ('k, 'v) omap" where
  "om_insert k v [] = [(k, v)]"
| "om_insert k v ((k', v') # m) =
     (if k = k' then (k, v) # m
      else if k < k' then (k, v) # (k', v') # m
      else (k', v') # om_insert k v m)"

definition om_remove :: "'k \<Rightarrow> ('k, 'v) omap \<Rightarrow> ('k, 'v) omap" where
  "om_remove k m = filter (\<lambda>(k', _). k' \<noteq> k) m"

definition om_ok :: "('k::linorder, 'v) omap \<Rightarrow> bool" where
  "om_ok m \<longleftrightarrow> sorted_wrt (<) (map fst m)"

text \<open>\<open>range(lo..)\<close> of a \<^verbatim>\<open>BTreeMap\<close>.\<close>

definition om_from :: "'k::linorder \<Rightarrow> ('k, 'v) omap \<Rightarrow> ('k, 'v) omap" where
  "om_from lo m = dropWhile (\<lambda>(k, _). k < lo) m"

section \<open>Lookup after each operation\<close>

lemma map_of_om_insert [simp, omap_simps]: "map_of (om_insert k v m) = (map_of m)(k \<mapsto> v)"
  by (induction k v m rule: om_insert.induct) auto

lemma map_of_om_remove [simp, omap_simps]: "map_of (om_remove k m) = (map_of m)(k := None)"
  by (induction m) (auto simp: om_remove_def)

lemma om_ok_Nil [simp]: "om_ok []"
  by (simp add: om_ok_def)

lemma om_ok_Cons: "om_ok ((k, v) # m) \<longleftrightarrow> (\<forall>k' \<in> fst ` set m. k < k') \<and> om_ok m"
  by (auto simp: om_ok_def)

lemma om_ok_sub: "om_ok (xs @ ys) \<Longrightarrow> om_ok xs \<and> om_ok ys"
  by (simp add: om_ok_def sorted_wrt_append)

lemma fst_set_om_insert: "fst ` set (om_insert k v m) = insert k (fst ` set m)"
  by (metis dom_fun_upd dom_map_of_conv_image_fst map_of_om_insert option.distinct(1))

lemma om_ok_insert [simp]: "om_ok m \<Longrightarrow> om_ok (om_insert k v m)"
  by (induction k v m rule: om_insert.induct)
     (auto simp: om_ok_Cons fst_set_om_insert)

lemma om_ok_filter: "om_ok m \<Longrightarrow> om_ok (filter p m)"
  by (induction m) (auto simp: om_ok_Cons)

lemma om_ok_remove [simp]: "om_ok m \<Longrightarrow> om_ok (om_remove k m)"
  by (simp add: om_remove_def om_ok_filter)

lemma om_ok_sorted_distinct: "om_ok m \<longleftrightarrow> sorted (map fst m) \<and> distinct (map fst m)"
  by (simp add: om_ok_def strict_sorted_iff)

lemma om_ok_distinct: "om_ok m \<Longrightarrow> distinct (map fst m)"
  by (simp add: om_ok_sorted_distinct)

lemma map_of_iff_set: "om_ok m \<Longrightarrow> map_of m k = Some v \<longleftrightarrow> (k, v) \<in> set m"
  by (simp add: om_ok_distinct)

lemma om_ext:
  assumes "om_ok m" "om_ok m'" "map_of m = map_of m'"
  shows "m = m'"
proof -
  have "distinct (map fst m)" "distinct (map fst m')"
    using assms by (simp_all add: om_ok_distinct)
  with assms(3) have "set m = set m'"
    by (metis map_of_inject_set)
  with \<open>distinct (map fst m)\<close> show ?thesis
    using assms(1,2) unfolding om_ok_sorted_distinct
    by (intro map_sorted_distinct_set_unique [where f = fst]) (simp_all add: distinct_map)
qed

section \<open>Range scans\<close>

lemma om_from_eq_filter: "om_ok m \<Longrightarrow> om_from lo m = filter (\<lambda>(k, _). lo \<le> k) m"
proof (induction m)
  case (Cons kv m)
  obtain k v where kv: "kv = (k, v)" by force
  show ?case
  proof (cases "k < lo")
    case True
    with Cons kv show ?thesis by (simp add: om_from_def om_ok_Cons)
  next
    case False
    with Cons.prems kv have "\<forall>x \<in> set m. lo \<le> fst x"
      by (fastforce simp: om_ok_Cons)
    then have "filter (\<lambda>(k, _). lo \<le> k) m = m"
      by (simp add: filter_id_conv case_prod_unfold)
    with False kv show ?thesis by (simp add: om_from_def)
  qed
qed (simp add: om_from_def)

lemma sorted_takeWhile_eq_filter:
  assumes "sorted_wrt R xs"
    and "\<And>x y. x \<in> set xs \<Longrightarrow> y \<in> set xs \<Longrightarrow> R x y \<Longrightarrow> P y \<Longrightarrow> P x"
  shows "takeWhile P xs = filter P xs"
  using assms
proof (induction xs)
  case (Cons x xs)
  show ?case
  proof (cases "P x")
    case False
    with Cons.prems have "filter P xs = []"
      by (auto simp: filter_empty_conv)
    with False show ?thesis by simp
  next
    case True
    have "takeWhile P xs = filter P xs"
      by (rule Cons.IH) (use Cons.prems in auto)
    with True show ?thesis by simp
  qed
qed simp

lemma om_ok_map_fst_filter: "om_ok m \<Longrightarrow> sorted_wrt (<) (map fst (filter p m))"
  using om_ok_filter om_ok_def by blast

end
