(* ===== verification/Snapshot.thy ===== *)
theory Snapshot
  imports Action OMap
begin

text \<open>
  The materialised state of \<^verbatim>\<open>store::Snapshot\<close>: rows by kind and id, the natural-key index, the
  ordered scans, the application of one action, and the checkpoint body. The invariant
  \<open>snap_ok\<close> says that the index is exactly the natural keys of the resident rows, which makes
  those keys unique.
\<close>

record snapshot =
  version :: nat
  entities :: "(entity_kind, (uuid, row) omap) omap"
  by_natural_key :: "(entity_kind \<times> string, uuid) omap"

definition empty_snapshot :: snapshot where
  "empty_snapshot = \<lparr>version = 0, entities = [], by_natural_key = []\<rparr>"

text \<open>The rows of one kind; a missing table reads as an empty one.\<close>

definition kind_table :: "snapshot \<Rightarrow> entity_kind \<Rightarrow> (uuid, row) omap" where
  "kind_table s kind = (case map_of (entities s) kind of None \<Rightarrow> [] | Some m \<Rightarrow> m)"

section \<open>Queries\<close>

definition snap_get :: "snapshot \<Rightarrow> entity_kind \<Rightarrow> uuid \<Rightarrow> row option" where
  "snap_get s kind i = (case map_of (entities s) kind of None \<Rightarrow> None | Some m \<Rightarrow> map_of m i)"

definition id_by_natural_key :: "snapshot \<Rightarrow> entity_kind \<Rightarrow> string \<Rightarrow> uuid option" where
  "id_by_natural_key s kind key = map_of (by_natural_key s) (kind, key)"

definition get_by_natural_key :: "snapshot \<Rightarrow> entity_kind \<Rightarrow> string \<Rightarrow> row option" where
  "get_by_natural_key s kind key =
     (case map_of (by_natural_key s) (kind, key) of None \<Rightarrow> None | Some i \<Rightarrow> snap_get s kind i)"

definition scan :: "snapshot \<Rightarrow> entity_kind \<Rightarrow> string option \<Rightarrow> nat \<Rightarrow> row list" where
  "scan s kind after limit =
     (let lower = (case after of None \<Rightarrow> [] | Some a \<Rightarrow> a);
          ranged = takeWhile (\<lambda>((k, _), _). k = kind) (om_from (kind, lower) (by_natural_key s));
          later = filter (\<lambda>((_, nk), _). case after of None \<Rightarrow> True | Some a \<Rightarrow> a < nk) ranged
      in take limit (List.map_filter (\<lambda>(_, i). snap_get s kind i) later))"

definition scan_prefix ::
  "snapshot \<Rightarrow> entity_kind \<Rightarrow> string \<Rightarrow> string option \<Rightarrow> nat \<Rightarrow> row list" where
  "scan_prefix s kind pfx after limit =
     (let start = pfx @ (case after of None \<Rightarrow> [] | Some a \<Rightarrow> a);
          ranged = takeWhile (\<lambda>((k, nk), _). k = kind \<and> starts_with nk pfx)
                     (om_from (kind, start) (by_natural_key s));
          later = filter (\<lambda>((_, nk), _). case after of None \<Rightarrow> True | Some a \<Rightarrow> a < drop (length pfx) nk)
                     ranged
      in take limit (List.map_filter (\<lambda>(_, i). snap_get s kind i) later))"

definition snap_iter :: "snapshot \<Rightarrow> entity_kind \<Rightarrow> row list" where
  "snap_iter s kind = map snd (kind_table s kind)"

definition counts :: "snapshot \<Rightarrow> (entity_kind \<times> nat) list" where
  "counts s = map (\<lambda>(k, m). (k, length m)) (entities s)"

definition iter_by_id :: "snapshot \<Rightarrow> entity_kind \<Rightarrow> (uuid \<times> row) list" where
  "iter_by_id s kind = sort_key fst (kind_table s kind)"

definition ids_under_prefix :: "snapshot \<Rightarrow> entity_kind \<Rightarrow> string \<Rightarrow> uuid list" where
  "ids_under_prefix s kind pfx =
     map snd (takeWhile (\<lambda>((k, nk), _). k = kind \<and> starts_with nk pfx)
                (om_from (kind, pfx) (by_natural_key s)))"

section \<open>Natural keys\<close>

definition pad_i64 :: "int \<Rightarrow> string" where
  "pad_i64 v = (if v < 0 then CHR 0x2D # pad0_int 19 (i64_max + v + 1) else CHR 0x30 # pad0_int 19 v)"

definition nul_join :: "string list \<Rightarrow> string" where
  "nul_join parts = (case parts of [] \<Rightarrow> [] | p # ps \<Rightarrow> p @ concat (map (\<lambda>s. NUL # s) ps))"

fun natural_key_for :: "('j, 'z) row_codecs_scheme \<Rightarrow> row \<Rightarrow> string option" where
  "natural_key_for E (RowCatalog r) = Some (cat_name r)"
| "natural_key_for E (RowSchema r) = Some (uuid_text E (sch_catalog_id r) @ NUL # sch_name r)"
| "natural_key_for E (RowTable r) = Some (uuid_text E (tab_schema_id r) @ NUL # tab_name r)"
| "natural_key_for E (RowVolume r) = Some (uuid_text E (vol_schema_id r) @ NUL # vol_name r)"
| "natural_key_for E (RowFunction r) = Some (uuid_text E (fn_schema_id r) @ NUL # fn_name r)"
| "natural_key_for E (RowRegisteredModel r) = Some (uuid_text E (mdl_schema_id r) @ NUL # mdl_name r)"
| "natural_key_for E (RowColumn r) =
     Some (uuid_text E (col_table_id r) @ NUL # pad_i64 (col_ordinal_position r))"
| "natural_key_for E (RowProperty r) =
     Some (uuid_text E (prop_entity_id r) @ NUL # prop_entity_type r @ NUL # prop_property_key r)"
| "natural_key_for E (RowUser r) = Some (usr_name r)"
| "natural_key_for E (RowCredential r) = Some (crd_name r)"
| "natural_key_for E (RowExternalLocation r) = Some (loc_name r)"
| "natural_key_for E (RowCasbinRule r) =
     Some (nul_join [cr_ptype r, cr_v0 r, cr_v1 r, cr_v2 r, cr_v3 r, cr_v4 r, cr_v5 r])"
| "natural_key_for E (RowMetastore _) = None"
| "natural_key_for E (RowFunctionParameter _) = None"
| "natural_key_for E (RowModelVersion _) = None"
| "natural_key_for E (RowStagingTable _) = None"

section \<open>Applying actions\<close>

text \<open>The index after an upsert: the stale entry of the row it replaces goes first.\<close>

definition reindex ::
  "('j, 'z) row_codecs_scheme \<Rightarrow> snapshot \<Rightarrow> entity_kind \<Rightarrow> uuid \<Rightarrow> row \<Rightarrow>
     (entity_kind \<times> string, uuid) omap" where
  "reindex E s kind i r =
     (let dropped = (case snap_get s kind i of
                       None \<Rightarrow> by_natural_key s
                     | Some prev \<Rightarrow>
                        (case natural_key_for E prev of
                           None \<Rightarrow> by_natural_key s
                         | Some old \<Rightarrow> om_remove (kind, old) (by_natural_key s)))
      in (case natural_key_for E r of None \<Rightarrow> dropped | Some nk \<Rightarrow> om_insert (kind, nk) i dropped))"

definition upsert_row :: "('j, 'z) row_codecs_scheme \<Rightarrow> snapshot \<Rightarrow> entity_kind \<Rightarrow> uuid \<Rightarrow> row \<Rightarrow> snapshot" where
  "upsert_row E s kind i r =
     s\<lparr>by_natural_key := reindex E s kind i r,
       entities := om_insert kind (om_insert i r (kind_table s kind)) (entities s)\<rparr>"

definition remove_row :: "('j, 'z) row_codecs_scheme \<Rightarrow> snapshot \<Rightarrow> entity_kind \<Rightarrow> uuid \<Rightarrow> snapshot" where
  "remove_row E s kind i =
     (let s' = s\<lparr>entities := om_insert kind (om_remove i (kind_table s kind)) (entities s)\<rparr> in
      case map_of (kind_table s kind) i of
        None \<Rightarrow> s'
      | Some prev \<Rightarrow>
         (case natural_key_for E prev of
            None \<Rightarrow> s'
          | Some nk \<Rightarrow> s'\<lparr>by_natural_key := om_remove (kind, nk) (by_natural_key s')\<rparr>))"

fun apply_action :: "('j, 'z) row_codecs_scheme \<Rightarrow> snapshot \<Rightarrow> 'j action \<Rightarrow> unit res \<times> snapshot" where
  "apply_action E s (Upsert kind i body) =
     (case from_body E kind body of
        Inl e \<Rightarrow> (Inl e, s)
      | Inr r \<Rightarrow> (Inr (), upsert_row E s kind i r))"
| "apply_action E s (Remove kind i) = (Inr (), remove_row E s kind i)"

text \<open>The loop \<open>for act in &actions { state.apply(act)?; }\<close>: an error leaves what came before it.\<close>

fun apply_all :: "('j, 'z) row_codecs_scheme \<Rightarrow> snapshot \<Rightarrow> 'j action list \<Rightarrow> unit res \<times> snapshot" where
  "apply_all E s [] = (Inr (), s)"
| "apply_all E s (a # as) =
     (case apply_action E s a of
        (Inl e, s') \<Rightarrow> (Inl e, s')
      | (Inr _, s') \<Rightarrow> apply_all E s' as)"

section \<open>Checkpoints\<close>

text \<open>The rows in the order they are written: by kind, then by id.\<close>

definition all_rows :: "snapshot \<Rightarrow> (entity_kind \<times> uuid \<times> row) list" where
  "all_rows s = concat (map (\<lambda>(kind, m). map (\<lambda>(i, r). (kind, i, r)) m) (entities s))"

fun encode_rows ::
  "('j, 'z) env_scheme \<Rightarrow> (entity_kind \<times> uuid \<times> row) list \<Rightarrow> (string \<times> nat) res" where
  "encode_rows E [] = Inr ([], 0)"
| "encode_rows E ((kind, i, r) # rest) =
     rbind (to_body E r) (\<lambda>b.
     rbind (json_err (enc (cd_line E) (LineUpsert kind i b))) (\<lambda>t.
     rbind (encode_rows E rest) (\<lambda>(out, n). Inr (t @ NL # out, Suc n))))"

definition encode_checkpoint :: "('j, 'z) env_scheme \<Rightarrow> snapshot \<Rightarrow> (string \<times> nat) res" where
  "encode_checkpoint E s = encode_rows E (all_rows s)"

fun decode_checkpoint_lines ::
  "('j, 'z) env_scheme \<Rightarrow> nat \<Rightarrow> string list \<Rightarrow> snapshot \<Rightarrow> snapshot res" where
  "decode_checkpoint_lines E n [] snap = Inr snap"
| "decode_checkpoint_lines E n (raw # rest) snap =
     (if blank raw then decode_checkpoint_lines E (Suc n) rest snap
      else (case dec (cd_line E) raw of
          Inl e \<Rightarrow> Inl (uc_err Internal (''checkpoint line '' @ show_nat (Suc n) @ '': '' @ e))
        | Inr (LineUpsert k i b) \<Rightarrow>
            (case apply_action E snap (Upsert k i b) of
               (Inl e, _) \<Rightarrow> Inl e
             | (Inr _, snap') \<Rightarrow> decode_checkpoint_lines E (Suc n) rest snap')
        | Inr _ \<Rightarrow>
            Inl (uc_err Internal (''checkpoint line '' @ show_nat (Suc n) @ '' is not an upsert''))))"

definition decode_checkpoint :: "('j, 'z) env_scheme \<Rightarrow> string \<Rightarrow> snapshot res" where
  "decode_checkpoint E bytes =
     (if \<not> utf8_valid bytes then Inl (uc_err Internal ''checkpoint not utf-8'')
      else decode_checkpoint_lines E 0 (str_lines bytes) empty_snapshot)"

end
