(* ===== verification/ObjectLog.thy ===== *)
theory ObjectLog
  imports Action OMap
begin

text \<open>
  The object-store log of \<^verbatim>\<open>store::log\<close>: the trait \<open>ObjectLog\<close> as a record of operations over an
  abstract log state, its contract as a locale, the draining listing, the replay reader and the
  checkpoint resolution; and \<^verbatim>\<open>store::memory\<close>, which provides the contract. An operation that
  writes returns the new log state; a listing loop that need not end returns an \<open>option\<close>.
\<close>

datatype put_result = PutCreated | PutAlreadyExists

record 'l log_ops =
  op_put_if_absent :: "string \<Rightarrow> string \<Rightarrow> 'l \<Rightarrow> put_result res \<times> 'l"
  op_get :: "string \<Rightarrow> 'l \<Rightarrow> string option res"
  op_list_after :: "string \<Rightarrow> string \<Rightarrow> 'l \<Rightarrow> string list res"
  op_put :: "string \<Rightarrow> string \<Rightarrow> 'l \<Rightarrow> unit res \<times> 'l"

definition max_commit_attempts :: nat where
  "max_commit_attempts = 8"

definition checkpoint_interval :: nat where
  "checkpoint_interval = 100"

record last_checkpoint =
  lc_version :: nat
  lc_size :: nat
  lc_checksum :: "string option"

record 'j log_env = "'j env" +
  cd_last_checkpoint :: "(last_checkpoint, string) codec"

section \<open>Content hash\<close>

text \<open>FNV-1a on 64 bits, with \<open>wrapping_mul\<close>.\<close>

definition fnv_step :: "64 word \<Rightarrow> char \<Rightarrow> 64 word" where
  "fnv_step h b = xor h (of_nat (byte b)) * 0x100000001b3"

definition content_hash :: "string \<Rightarrow> string" where
  "content_hash bytes = hex16 (foldl fnv_step 0xcbf29ce484222325 bytes)"

section \<open>Draining a listing\<close>

definition ignored_start_after :: "string \<Rightarrow> string \<Rightarrow> uc_error" where
  "ignored_start_after lst cursor =
     uc_err Internal (''object log ignored start_after: '' @ quoted lst @ '' <= '' @ quoted cursor)"

partial_function (option) list_all_loop ::
  "'l log_ops \<Rightarrow> 'l \<Rightarrow> string \<Rightarrow> string option \<Rightarrow> string \<Rightarrow> string list \<Rightarrow> string list res option"
where
  "list_all_loop ops l pfx stop_at cursor all =
     (case op_list_after ops pfx cursor l of
        Inl e \<Rightarrow> Some (Inl e)
      | Inr pg \<Rightarrow>
         (if pg = [] then Some (Inr all)
          else if (case stop_at of None \<Rightarrow> False | Some stop \<Rightarrow> stop < last pg)
          then Some (Inr (all @ takeWhile (\<lambda>k. k \<le> the stop_at) pg))
          else if last pg \<le> cursor then Some (Inl (ignored_start_after (last pg) cursor))
          else list_all_loop ops l pfx stop_at (last pg) (all @ pg)))"

definition list_all_in_range ::
  "'l log_ops \<Rightarrow> 'l \<Rightarrow> string \<Rightarrow> string \<Rightarrow> string option \<Rightarrow> string list res option" where
  "list_all_in_range ops l pfx start_after stop_at = list_all_loop ops l pfx stop_at start_after []"

definition list_all_after :: "'l log_ops \<Rightarrow> 'l \<Rightarrow> string \<Rightarrow> string \<Rightarrow> string list res option" where
  "list_all_after ops l pfx start_after = list_all_in_range ops l pfx start_after None"

section \<open>Reading commits\<close>

type_synonym 'j commit = "nat \<times> commit_info \<times> 'j action list"

fun read_keys ::
  "('j, 'z) env_scheme \<Rightarrow> 'l log_ops \<Rightarrow> 'l \<Rightarrow> nat \<Rightarrow> string list \<Rightarrow> 'j commit list res" where
  "read_keys E ops l from_version [] = Inr []"
| "read_keys E ops l from_version (key # keys) =
     (case version_from_key key of
        None \<Rightarrow> read_keys E ops l from_version keys
      | Some v \<Rightarrow>
         (if v \<le> from_version then read_keys E ops l from_version keys
          else rbind (op_get ops key l) (\<lambda>found.
               case found of
                 None \<Rightarrow> Inl (uc_err Internal
                   (''log hole: '' @ key @ '' was listed but could not be read''))
               | Some bytes \<Rightarrow>
                   rbind (decode_commit E key bytes) (\<lambda>(info, actions).
                   rbind (read_keys E ops l from_version keys) (\<lambda>out.
                   Inr ((v, info, actions) # out))))))"

fun check_gapless :: "nat \<Rightarrow> nat \<Rightarrow> 'j commit list \<Rightarrow> unit res" where
  "check_gapless from_version i [] = Inr ()"
| "check_gapless from_version i ((v, _, _) # out) =
     (let expected = wadd64 (wadd64 from_version 1) i in
      if v \<noteq> expected
      then Inl (uc_err Internal (''log gap: expected version '' @ show_nat expected @
             '', found version '' @ show_nat v))
      else check_gapless from_version (Suc i) out)"

definition read_commits_after ::
  "('j, 'z) env_scheme \<Rightarrow> 'l log_ops \<Rightarrow> 'l \<Rightarrow> nat \<Rightarrow> 'j commit list res option" where
  "read_commits_after E ops l from_version =
     map_option (\<lambda>keys_res.
       rbind keys_res (\<lambda>keys.
       rbind (read_keys E ops l from_version keys) (\<lambda>out.
       rbind (check_gapless from_version 0 out) (\<lambda>_. Inr out))))
     (list_all_after ops l ''_uc_log/'' (commit_key from_version))"

definition count_newlines :: "string \<Rightarrow> nat" where
  "count_newlines bytes = length (filter (\<lambda>b. b = NL) bytes)"

definition resolve_checkpoint ::
  "('j, 'z) log_env_scheme \<Rightarrow> 'l log_ops \<Rightarrow> 'l \<Rightarrow> (nat \<times> string) option res" where
  "resolve_checkpoint E ops l =
     rbind (op_get ops last_checkpoint_key l) (\<lambda>ptr_opt.
     case ptr_opt of
       None \<Rightarrow> Inr None
     | Some ptr \<Rightarrow>
        (case dec (cd_last_checkpoint E) ptr of
           Inl _ \<Rightarrow> Inr None
         | Inr parsed \<Rightarrow>
            rbind (op_get ops (checkpoint_key (lc_version parsed)) l) (\<lambda>body_opt.
            case body_opt of
              None \<Rightarrow> Inr None
            | Some body \<Rightarrow>
               (if count_newlines body \<noteq> lc_size parsed then Inr None
                else (case lc_checksum parsed of
                        None \<Rightarrow> Inr (Some (lc_version parsed, body))
                      | Some expected \<Rightarrow>
                         (if content_hash body \<noteq> expected then Inr None
                          else Inr (Some (lc_version parsed, body))))))))"

section \<open>The contract of the trait\<close>

text \<open>The keys of a map under a prefix and after a key, in order.\<close>

definition keys_after :: "(string \<rightharpoonup> string) \<Rightarrow> string \<Rightarrow> string \<Rightarrow> string list" where
  "keys_after m pfx start_after =
     sorted_list_of_set {k \<in> dom m. starts_with k pfx \<and> start_after < k}"

definition keys_in_range ::
  "(string \<rightharpoonup> string) \<Rightarrow> string \<Rightarrow> string \<Rightarrow> string option \<Rightarrow> string list" where
  "keys_in_range m pfx start_after stop_at =
     filter (\<lambda>k. case stop_at of None \<Rightarrow> True | Some stop \<Rightarrow> k \<le> stop) (keys_after m pfx start_after)"

text \<open>
  \<open>put_if_absent\<close> never overwrites, and a failed write has had its effect or none; a listing is a
  prefix of the remaining keys, empty only when none remain.
\<close>

locale object_log =
  fixes ops :: "'l log_ops"
    and objs :: "'l \<Rightarrow> (string \<rightharpoonup> string)"
    and linv :: "'l \<Rightarrow> bool"
  assumes finite_objs: "linv l \<Longrightarrow> finite (dom (objs l))"
    and put_absent_inv: "linv l \<Longrightarrow> linv (snd (op_put_if_absent ops k b l))"
    and put_inv: "linv l \<Longrightarrow> linv (snd (op_put ops k b l))"
    and put_created: "linv l \<Longrightarrow> op_put_if_absent ops k b l = (Inr PutCreated, l') \<Longrightarrow>
          objs l k = None \<and> objs l' = (objs l)(k \<mapsto> b)"
    and put_exists: "linv l \<Longrightarrow> op_put_if_absent ops k b l = (Inr PutAlreadyExists, l') \<Longrightarrow>
          objs l k \<noteq> None \<and> objs l' = objs l"
    and put_absent_err: "linv l \<Longrightarrow> op_put_if_absent ops k b l = (Inl e, l') \<Longrightarrow>
          objs l' = objs l \<or> objs l k = None \<and> objs l' = (objs l)(k \<mapsto> b)"
    and put_done: "linv l \<Longrightarrow> op_put ops k b l = (Inr u, l') \<Longrightarrow> objs l' = (objs l)(k \<mapsto> b)"
    and put_err: "linv l \<Longrightarrow> op_put ops k b l = (Inl e, l') \<Longrightarrow>
          objs l' = objs l \<or> objs l' = (objs l)(k \<mapsto> b)"
    and get_objs: "linv l \<Longrightarrow> op_get ops k l = Inr v \<Longrightarrow> v = objs l k"
    and list_objs: "linv l \<Longrightarrow> op_list_after ops p a l = Inr ks \<Longrightarrow>
          \<exists>rest. keys_after (objs l) p a = ks @ rest \<and> (ks = [] \<longrightarrow> rest = [])"

lemma sorted_list_of_set_filter:
  "finite A \<Longrightarrow> filter P (sorted_list_of_set A) = sorted_list_of_set {x \<in> A. P x}"
  by (rule sorted_distinct_set_unique) (auto simp: sorted_wrt_filter)

lemma keys_after_sorted: "sorted_wrt (<) (keys_after m p a)"
  by (simp add: keys_after_def)

lemma keys_after_set:
  "finite (dom m) \<Longrightarrow> set (keys_after m p a) = {k \<in> dom m. starts_with k p \<and> a < k}"
  by (simp add: keys_after_def)

lemma keys_after_later:
  assumes "finite (dom m)" "a \<le> b"
  shows "keys_after m p b = filter (\<lambda>k. b < k) (keys_after m p a)"
proof -
  have "{k \<in> dom m. starts_with k p \<and> b < k} = {k \<in> {k \<in> dom m. starts_with k p \<and> a < k}. b < k}"
    using assms(2) by auto
  then show ?thesis
    using assms(1) by (simp add: keys_after_def sorted_list_of_set_filter)
qed

lemma keys_after_split:
  assumes "finite (dom m)" "keys_after m p a = ks @ rest" "ks \<noteq> []"
  shows "a < last ks" "keys_after m p (last ks) = rest" "\<forall>k \<in> set ks. k \<le> last ks"
    "\<forall>k \<in> set rest. last ks < k"
proof -
  have "last ks \<in> set (keys_after m p a)"
    using assms by simp
  then show a: "a < last ks"
    using keys_after_set [OF assms(1)] by blast
  have s: "sorted_wrt (<) (ks @ rest)"
    using keys_after_sorted [of m p a] assms(2) by simp
  with assms(3) show rest: "\<forall>k \<in> set rest. last ks < k"
    by (auto simp: sorted_wrt_append)
  show ks: "\<forall>k \<in> set ks. k \<le> last ks"
  proof
    fix k assume "k \<in> set ks"
    then have "k \<in> set (butlast ks) \<or> k = last ks"
      by (metis append_butlast_last_id assms(3) in_set_conv_decomp_last rotate1.simps(2) set_ConsD set_rotate1)
    moreover have "sorted_wrt (<) (butlast ks @ [last ks])"
      using s assms(3) by (simp add: sorted_wrt_append)
    ultimately show "k \<le> last ks"
      by (auto simp: sorted_wrt_append)
  qed
  have "filter (\<lambda>k. last ks < k) ks = []"
    using ks by (auto simp: filter_empty_conv)
  moreover have "filter (\<lambda>k. last ks < k) rest = rest"
    using rest by (simp add: filter_id_conv)
  ultimately show "keys_after m p (last ks) = rest"
    using keys_after_later [OF assms(1) less_imp_le [OF a]] assms(2) by simp
qed

context object_log begin

text \<open>
  The listing loop ends whatever the page size, and what it returns is exactly the keys of the
  range, in order.
\<close>

lemma list_all_loop_drains:
  assumes "linv l"
  shows "(\<exists>e p' a'. list_all_loop ops l p stop a acc = Some (Inl e) \<and> op_list_after ops p' a' l = Inl e) \<or>
    list_all_loop ops l p stop a acc = Some (Inr (acc @ keys_in_range (objs l) p a stop))"
proof (induction "length (keys_after (objs l) p a)" arbitrary: a acc rule: less_induct)
  case less
  have fin: "finite (dom (objs l))"
    by (rule finite_objs [OF assms])
  show ?case
  proof (cases "op_list_after ops p a l")
    case (Inl e)
    then show ?thesis by (auto simp: list_all_loop.simps)
  next
    case (Inr pg)
    from list_objs [OF assms Inr] obtain rest where
      rest: "keys_after (objs l) p a = pg @ rest" "pg = [] \<longrightarrow> rest = []" by blast
    show ?thesis
    proof (cases "pg = []")
      case True
      with Inr rest show ?thesis
        by (simp add: list_all_loop.simps keys_in_range_def)
    next
      case False
      note split = keys_after_split [OF fin rest(1) False]
      show ?thesis
      proof (cases "\<exists>s. stop = Some s \<and> s < last pg")
        case True
        then obtain s where s: "stop = Some s" "s < last pg" by blast
        have "sorted_wrt (<) pg"
          using keys_after_sorted [of "objs l" p a] rest(1) by (simp add: sorted_wrt_append)
        then have "takeWhile (\<lambda>k. k \<le> s) pg = filter (\<lambda>k. k \<le> s) pg"
          by (rule sorted_takeWhile_eq_filter) simp
        moreover have "filter (\<lambda>k. k \<le> s) rest = []"
          using split(4) s(2) by (auto simp: filter_empty_conv)
        ultimately show ?thesis
          using Inr False s rest(1) by (simp add: list_all_loop.simps keys_in_range_def)
      next
        case False
        have "length (keys_after (objs l) p (last pg)) < length (keys_after (objs l) p a)"
          using split(2) rest(1) \<open>pg \<noteq> []\<close> by simp
        note IH = less [OF this, of "acc @ pg"]
        have "filter (\<lambda>k. case stop of None \<Rightarrow> True | Some s \<Rightarrow> k \<le> s) pg = pg"
          using False split(3) by (force simp: filter_id_conv split: option.splits)
        then have "acc @ pg @ keys_in_range (objs l) p (last pg) stop = acc @ keys_in_range (objs l) p a stop"
          using split(2) rest(1) by (simp add: keys_in_range_def)
        moreover have "list_all_loop ops l p stop a acc = list_all_loop ops l p stop (last pg) (acc @ pg)"
          using Inr \<open>pg \<noteq> []\<close> False split(1)
          by (subst list_all_loop.simps) (auto split: option.splits)
        ultimately show ?thesis
          using IH by simp
      qed
    qed
  qed
qed

lemma list_all_in_range_total:
  "linv l \<Longrightarrow> \<exists>r. list_all_in_range ops l p a stop = Some r"
  using list_all_loop_drains [of l p stop a "[]"] by (auto simp: list_all_in_range_def)

lemma list_all_in_range_sound:
  "linv l \<Longrightarrow> list_all_in_range ops l p a stop = Some (Inr ks) \<Longrightarrow>
   ks = keys_in_range (objs l) p a stop"
  using list_all_loop_drains [of l p stop a "[]"] by (auto simp: list_all_in_range_def)

lemma list_all_in_range_complete:
  assumes "linv l" "\<And>p' a'. \<exists>ks. op_list_after ops p' a' l = Inr ks"
  shows "list_all_in_range ops l p a stop = Some (Inr (keys_in_range (objs l) p a stop))"
  using list_all_loop_drains [OF assms(1), of p stop a "[]"] assms(2)
  by (auto simp: list_all_in_range_def) (metis Inl_Inr_False)

lemma list_all_after_sound:
  "linv l \<Longrightarrow> list_all_after ops l p a = Some (Inr ks) \<Longrightarrow> ks = keys_after (objs l) p a"
  using list_all_in_range_sound [of l p a None ks]
  by (simp add: list_all_after_def keys_in_range_def)

lemma list_all_after_complete:
  assumes "linv l" "\<And>p' a'. \<exists>ks. op_list_after ops p' a' l = Inr ks"
  shows "list_all_after ops l p a = Some (Inr (keys_after (objs l) p a))"
  using list_all_in_range_complete [OF assms, of p a None]
  by (simp add: list_all_after_def keys_in_range_def)

end

section \<open>The in-memory log\<close>

record memory_log =
  objects :: "(string, string) omap"

definition memory_new :: memory_log where
  "memory_new = \<lparr>objects = []\<rparr>"

definition memory_len :: "memory_log \<Rightarrow> nat" where
  "memory_len m = length (objects m)"

definition memory_remove :: "string \<Rightarrow> memory_log \<Rightarrow> string option \<times> memory_log" where
  "memory_remove key m = (map_of (objects m) key, m\<lparr>objects := om_remove key (objects m)\<rparr>)"

definition memory_put_if_absent ::
  "string \<Rightarrow> string \<Rightarrow> memory_log \<Rightarrow> put_result res \<times> memory_log" where
  "memory_put_if_absent key body m =
     (if map_of (objects m) key \<noteq> None then (Inr PutAlreadyExists, m)
      else (Inr PutCreated, m\<lparr>objects := om_insert key body (objects m)\<rparr>))"

definition memory_get :: "string \<Rightarrow> memory_log \<Rightarrow> string option res" where
  "memory_get key m = Inr (map_of (objects m) key)"

definition memory_list_after :: "string \<Rightarrow> string \<Rightarrow> memory_log \<Rightarrow> string list res" where
  "memory_list_after pfx start_after m =
     Inr (filter (\<lambda>k. starts_with k pfx \<and> start_after < k) (map fst (objects m)))"

definition memory_put :: "string \<Rightarrow> string \<Rightarrow> memory_log \<Rightarrow> unit res \<times> memory_log" where
  "memory_put key body m = (Inr (), m\<lparr>objects := om_insert key body (objects m)\<rparr>)"

definition memory_ops :: "memory_log log_ops" where
  "memory_ops = \<lparr>op_put_if_absent = memory_put_if_absent, op_get = memory_get,
     op_list_after = memory_list_after, op_put = memory_put\<rparr>"

definition memory_objs :: "memory_log \<Rightarrow> (string \<rightharpoonup> string)" where
  "memory_objs m = map_of (objects m)"

definition memory_ok :: "memory_log \<Rightarrow> bool" where
  "memory_ok m \<longleftrightarrow> om_ok (objects m)"

lemmas memory_defs = memory_ops_def memory_put_if_absent_def memory_get_def
  memory_list_after_def memory_put_def memory_objs_def memory_ok_def

lemma memory_list_keys:
  assumes "memory_ok m"
  shows "filter (\<lambda>k. starts_with k p \<and> a < k) (map fst (objects m)) = keys_after (memory_objs m) p a"
  unfolding keys_after_def using assms
  by (intro sorted_distinct_set_unique)
     (auto simp: memory_defs om_ok_sorted_distinct dom_map_of_conv_image_fst sorted_wrt_filter
       finite_dom_map_of)

interpretation mem: object_log memory_ops memory_objs memory_ok
proof (unfold_locales, goal_cases)
  case (10 l p a ks)
  then have "ks = keys_after (memory_objs l) p a"
    using memory_list_keys [of l p a] by (simp add: memory_ops_def memory_list_after_def)
  then show ?case by simp
qed (auto simp: memory_defs finite_dom_map_of split: if_splits)

text \<open>
  The adversarial backend of the store's tests (\<open>TruncatingLog\<close>): at most \<open>n\<close> keys per listing,
  as a paginating object store answers. It keeps the contract for every positive page size.
\<close>

definition truncating_list_after :: "nat \<Rightarrow> string \<Rightarrow> string \<Rightarrow> memory_log \<Rightarrow> string list res" where
  "truncating_list_after pg pfx start_after m =
     rbind (memory_list_after pfx start_after m) (\<lambda>ks. Inr (take pg ks))"

definition truncating_ops :: "nat \<Rightarrow> memory_log log_ops" where
  "truncating_ops pg = memory_ops\<lparr>op_list_after := truncating_list_after pg\<rparr>"

interpretation trunc: object_log "truncating_ops (Suc pg)" memory_objs memory_ok for pg
proof (unfold_locales, goal_cases)
  case (10 l p a ks)
  then have "ks = take (Suc pg) (keys_after (memory_objs l) p a)"
    using memory_list_keys [of l p a]
    by (simp add: truncating_ops_def truncating_list_after_def memory_list_after_def)
  then show ?case
    by (intro exI [of _ "drop (Suc pg) (keys_after (memory_objs l) p a)"]) auto
qed (auto simp: truncating_ops_def memory_defs finite_dom_map_of split: if_splits)

end
