(* ===== verification/Store.thy ===== *)
theory Store
  imports Snapshot ObjectLog
begin

text \<open>
  The store of \<^verbatim>\<open>store/mod.rs\<close>: a log and the snapshot materialised from it, catching up with the
  log, the commit loop, and checkpoint writing. What surrounds a commit and is not the store's own
  is the record \<open>world\<close>: what other replicas do to the shared log between the build and the
  conditional PUT of an attempt, the clock at an attempt, and the actor of the request.
\<close>

record 'l store =
  log :: 'l
  state :: snapshot

record 'l world =
  others :: "nat \<Rightarrow> 'l \<Rightarrow> 'l"
  clock :: "nat \<Rightarrow> int"
  current_actor :: "actor option"

section \<open>Catching up\<close>

fun apply_commits ::
  "('j, 'z) row_codecs_scheme \<Rightarrow> snapshot \<Rightarrow> 'j commit list \<Rightarrow> unit res \<times> snapshot" where
  "apply_commits E s [] = (Inr (), s)"
| "apply_commits E s ((v, _, actions) # commits) =
     (case apply_all E s actions of
        (Inl e, s') \<Rightarrow> (Inl e, s')
      | (Inr _, s') \<Rightarrow> apply_commits E (s'\<lparr>version := v\<rparr>) commits)"

definition start_state ::
  "('j, 'z) log_env_scheme \<Rightarrow> 'l log_ops \<Rightarrow> 'l \<Rightarrow> snapshot \<Rightarrow> snapshot res" where
  "start_state E ops l s =
     (if version s = 0 then
        rbind (resolve_checkpoint E ops l) (\<lambda>found.
        case found of
          None \<Rightarrow> Inr s
        | Some (v, body) \<Rightarrow> rbind (decode_checkpoint E body) (\<lambda>s'. Inr (s'\<lparr>version := v\<rparr>)))
      else Inr s)"

definition catch_up ::
  "('j, 'z) log_env_scheme \<Rightarrow> 'l log_ops \<Rightarrow> 'l store \<Rightarrow> (unit res \<times> 'l store) option" where
  "catch_up E ops st =
     (case start_state E ops (log st) (state st) of
        Inl e \<Rightarrow> Some (Inl e, st)
      | Inr s0 \<Rightarrow>
         (case read_commits_after E ops (log st) (version s0) of
            None \<Rightarrow> None
          | Some (Inl e) \<Rightarrow> Some (Inl e, st\<lparr>state := s0\<rparr>)
          | Some (Inr commits) \<Rightarrow>
             (let (r, s') = apply_commits E s0 commits in Some (r, st\<lparr>state := s'\<rparr>))))"

definition store_open ::
  "('j, 'z) log_env_scheme \<Rightarrow> 'l log_ops \<Rightarrow> 'l \<Rightarrow> 'l store res option" where
  "store_open E ops l =
     map_option (\<lambda>(r, st). rbind r (\<lambda>_. Inr st)) (catch_up E ops \<lparr>log = l, state = empty_snapshot\<rparr>)"

section \<open>Checkpoints\<close>

definition write_checkpoint ::
  "('j, 'z) log_env_scheme \<Rightarrow> 'l log_ops \<Rightarrow> nat \<Rightarrow> 'l store \<Rightarrow> unit res \<times> 'l store" where
  "write_checkpoint E ops v st =
     (if version (state st) \<noteq> v then (Inr (), st)
      else case encode_checkpoint E (state st) of
        Inl e \<Rightarrow> (Inl e, st)
      | Inr (body, rows) \<Rightarrow>
         (case op_put_if_absent ops (checkpoint_key v) body (log st) of
            (Inl e, l1) \<Rightarrow> (Inl e, st\<lparr>log := l1\<rparr>)
          | (Inr _, l1) \<Rightarrow>
             (case json_err (enc (cd_last_checkpoint E)
                 \<lparr>lc_version = v, lc_size = rows, lc_checksum = Some (content_hash body)\<rparr>) of
                Inl e \<Rightarrow> (Inl e, st\<lparr>log := l1\<rparr>)
              | Inr ptr \<Rightarrow>
                 (let (r, l2) = op_put ops last_checkpoint_key ptr l1 in (r, st\<lparr>log := l2\<rparr>)))))"

definition maybe_checkpoint ::
  "('j, 'z) log_env_scheme \<Rightarrow> 'l log_ops \<Rightarrow> nat \<Rightarrow> 'l store \<Rightarrow> 'l store" where
  "maybe_checkpoint E ops v st =
     (if v mod checkpoint_interval \<noteq> 0 then st else snd (write_checkpoint E ops v st))"

section \<open>The commit loop\<close>

definition commit_contention :: uc_error where
  "commit_contention = uc_err Internal ''commit contention: exceeded max attempts''"

text \<open>Taking the won version into memory, when this store is still next in line.\<close>

definition adopt ::
  "('j, 'z) row_codecs_scheme \<Rightarrow> nat \<Rightarrow> 'j action list \<Rightarrow> snapshot \<Rightarrow> unit res \<times> snapshot" where
  "adopt E target actions s =
     (if wadd64 (version s) 1 = target then
        (case apply_all E s actions of
           (Inl e, s') \<Rightarrow> (Inl e, s')
         | (Inr _, s') \<Rightarrow> (Inr (), s'\<lparr>version := target\<rparr>))
      else (Inr (), s))"

definition commit_header :: "'l world \<Rightarrow> nat \<Rightarrow> string \<Rightarrow> commit_info" where
  "commit_header w attempt operation =
     \<lparr>ci_format = format_version, ci_timestamp = clock w attempt, ci_operation = Some operation,
      ci_actor = current_actor w\<rparr>"

fun commit_attempts ::
  "('j, 'z) log_env_scheme \<Rightarrow> 'l log_ops \<Rightarrow> 'l world \<Rightarrow> string \<Rightarrow>
   (nat \<Rightarrow> snapshot \<Rightarrow> ('j action list \<times> 'a) res) \<Rightarrow> nat list \<Rightarrow> 'l store \<Rightarrow>
   ('a res \<times> 'l store) option"
where
  "commit_attempts E ops w operation build [] st = Some (Inl commit_contention, st)"
| "commit_attempts E ops w operation build (attempt # later) st =
     (case build attempt (state st) of
        Inl e \<Rightarrow> Some (Inl e, st)
      | Inr (actions, out) \<Rightarrow>
         (if actions = [] then Some (Inr out, st)
          else
            let target = wadd64 (version (state st)) 1 in
            (case encode_commit E (commit_header w attempt operation) actions of
               Inl e \<Rightarrow> Some (Inl e, st)
             | Inr body \<Rightarrow>
                (case op_put_if_absent ops (commit_key target) body (others w attempt (log st)) of
                   (Inl e, l1) \<Rightarrow> Some (Inl e, st\<lparr>log := l1\<rparr>)
                 | (Inr PutCreated, l1) \<Rightarrow>
                    (case adopt E target actions (state st) of
                       (Inl e, s') \<Rightarrow> Some (Inl e, \<lparr>log = l1, state = s'\<rparr>)
                     | (Inr _, s') \<Rightarrow>
                        Some (Inr out, maybe_checkpoint E ops target \<lparr>log = l1, state = s'\<rparr>))
                 | (Inr PutAlreadyExists, l1) \<Rightarrow>
                    (case catch_up E ops (st\<lparr>log := l1\<rparr>) of
                       None \<Rightarrow> None
                     | Some (Inl e, st') \<Rightarrow> Some (Inl e, st')
                     | Some (Inr _, st') \<Rightarrow>
                        commit_attempts E ops w operation build later st')))))"

definition commit ::
  "('j, 'z) log_env_scheme \<Rightarrow> 'l log_ops \<Rightarrow> 'l world \<Rightarrow> string \<Rightarrow>
   (nat \<Rightarrow> snapshot \<Rightarrow> ('j action list \<times> 'a) res) \<Rightarrow> 'l store \<Rightarrow> ('a res \<times> 'l store) option" where
  "commit E ops w operation build st =
     commit_attempts E ops w operation build [1..<Suc max_commit_attempts] st"

end
