(* ===== verification/SnapInv.thy ===== *)
theory SnapInv
  imports Snapshot
begin

text \<open>
  The invariant of the materialised state and what follows from it: the index is sound and
  complete, every operation keeps it, the scans return the rows in natural-key order, and a
  checkpoint decodes to the state it was taken from.
\<close>

section \<open>The invariant\<close>

text \<open>The id a row carries itself; a casbin rule carries none.\<close>

fun row_id :: "row \<Rightarrow> uuid option" where
  "row_id (RowMetastore r) = Some (met_id r)"
| "row_id (RowCatalog r) = Some (cat_id r)"
| "row_id (RowSchema r) = Some (sch_id r)"
| "row_id (RowTable r) = Some (tab_id r)"
| "row_id (RowColumn r) = Some (col_id r)"
| "row_id (RowVolume r) = Some (vol_id r)"
| "row_id (RowFunction r) = Some (fn_id r)"
| "row_id (RowFunctionParameter r) = Some (par_id r)"
| "row_id (RowRegisteredModel r) = Some (mdl_id r)"
| "row_id (RowModelVersion r) = Some (mv_id r)"
| "row_id (RowStagingTable r) = Some (stg_id r)"
| "row_id (RowUser r) = Some (usr_id r)"
| "row_id (RowCredential r) = Some (crd_id r)"
| "row_id (RowExternalLocation r) = Some (loc_id r)"
| "row_id (RowProperty r) = Some (prop_id r)"
| "row_id (RowCasbinRule r) = None"

definition nk_of :: "('j, 'z) row_codecs_scheme \<Rightarrow> snapshot \<Rightarrow> entity_kind \<Rightarrow> uuid \<Rightarrow> string option" where
  "nk_of E s kind i = (case snap_get s kind i of None \<Rightarrow> None | Some r \<Rightarrow> natural_key_for E r)"

definition maps_ok :: "snapshot \<Rightarrow> bool" where
  "maps_ok s \<longleftrightarrow> om_ok (entities s) \<and> (\<forall>(k, m) \<in> set (entities s). om_ok m) \<and> om_ok (by_natural_key s)"

definition rows_ok :: "snapshot \<Rightarrow> bool" where
  "rows_ok s \<longleftrightarrow> (\<forall>k i r. snap_get s k i = Some r \<longrightarrow> row_kind r = k \<and> (row_id r = None \<or> row_id r = Some i))"

definition index_ok :: "('j, 'z) row_codecs_scheme \<Rightarrow> snapshot \<Rightarrow> bool" where
  "index_ok E s \<longleftrightarrow> (\<forall>k nk i. id_by_natural_key s k nk = Some i \<longleftrightarrow> nk_of E s k i = Some nk)"

definition snap_ok :: "('j, 'z) row_codecs_scheme \<Rightarrow> snapshot \<Rightarrow> bool" where
  "snap_ok E s \<longleftrightarrow> maps_ok s \<and> rows_ok s \<and> index_ok E s"

text \<open>
  The precondition of an upsert: the row is of the kind and id it is stored under, and its natural
  key is free or already its own.
\<close>

definition upsert_ok :: "('j, 'z) row_codecs_scheme \<Rightarrow> snapshot \<Rightarrow> entity_kind \<Rightarrow> uuid \<Rightarrow> row \<Rightarrow> bool" where
  "upsert_ok E s kind i r \<longleftrightarrow>
     row_kind r = kind \<and> (row_id r = None \<or> row_id r = Some i) \<and>
     (\<forall>nk i'. natural_key_for E r = Some nk \<longrightarrow> id_by_natural_key s kind nk = Some i' \<longrightarrow> i' = i)"

section \<open>Lookup after each operation\<close>

lemma snap_get_table: "snap_get s k i = map_of (kind_table s k) i"
  by (simp add: snap_get_def kind_table_def split: option.splits)

lemma kind_table_upsert:
  "kind_table (upsert_row E s kind i r) k = (if k = kind then om_insert i r (kind_table s k) else kind_table s k)"
  by (simp add: kind_table_def upsert_row_def)

lemma kind_table_remove:
  "kind_table (remove_row E s kind i) k = (if k = kind then om_remove i (kind_table s k) else kind_table s k)"
  by (simp add: kind_table_def remove_row_def Let_def split: option.splits)

lemma snap_get_upsert [simp]:
  "snap_get (upsert_row E s kind i r) k j = (if k = kind \<and> j = i then Some r else snap_get s k j)"
  by (simp add: snap_get_table kind_table_upsert)

lemma snap_get_remove [simp]:
  "snap_get (remove_row E s kind i) k j = (if k = kind \<and> j = i then None else snap_get s k j)"
  by (simp add: snap_get_table kind_table_remove)

lemma snap_get_empty [simp]: "snap_get empty_snapshot k i = None"
  by (simp add: snap_get_def empty_snapshot_def)

lemma version_upsert [simp]: "version (upsert_row E s kind i r) = version s"
  by (simp add: upsert_row_def)

lemma version_remove [simp]: "version (remove_row E s kind i) = version s"
  by (simp add: remove_row_def Let_def split: option.splits)

lemma snap_get_version [simp]: "snap_get (s\<lparr>version := v\<rparr>) = snap_get s"
  by (simp add: snap_get_def fun_eq_iff)

lemma id_by_natural_key_version [simp]: "id_by_natural_key (s\<lparr>version := v\<rparr>) = id_by_natural_key s"
  by (simp add: id_by_natural_key_def fun_eq_iff)

lemma nk_of_upsert:
  "nk_of E (upsert_row E s kind i r) k j = (if k = kind \<and> j = i then natural_key_for E r else nk_of E s k j)"
  by (simp add: nk_of_def)

lemma nk_of_remove:
  "nk_of E (remove_row E s kind i) k j = (if k = kind \<and> j = i then None else nk_of E s k j)"
  by (simp add: nk_of_def)

lemma id_by_natural_key_upsert:
  "id_by_natural_key (upsert_row E s kind i r) k nk =
     (if k = kind \<and> natural_key_for E r = Some nk then Some i
      else if k = kind \<and> nk_of E s kind i = Some nk then None
      else id_by_natural_key s k nk)"
  by (auto simp: id_by_natural_key_def upsert_row_def reindex_def Let_def nk_of_def split: option.splits)

lemma id_by_natural_key_remove:
  "id_by_natural_key (remove_row E s kind i) k nk =
     (if k = kind \<and> nk_of E s kind i = Some nk then None else id_by_natural_key s k nk)"
  by (auto simp: id_by_natural_key_def remove_row_def Let_def nk_of_def snap_get_table split: option.splits)

section \<open>Every operation keeps the invariant\<close>

lemma maps_ok_tables: "maps_ok s \<Longrightarrow> om_ok (kind_table s k)"
  by (auto simp: maps_ok_def kind_table_def split: option.splits dest!: map_of_SomeD)

lemma set_om_insert_subset: "set (om_insert k v m) \<subseteq> insert (k, v) (set m)"
  by (induction k v m rule: om_insert.induct) auto

lemma maps_ok_upsert:
  assumes "maps_ok s"
  shows "maps_ok (upsert_row E s kind i r)"
proof -
  have "\<forall>(k, m) \<in> set (om_insert kind (om_insert i r (kind_table s kind)) (entities s)). om_ok m"
    using set_om_insert_subset [of kind "om_insert i r (kind_table s kind)" "entities s"]
      maps_ok_tables [OF assms, of kind] assms by (auto simp: maps_ok_def)
  with assms show ?thesis
    by (auto simp: maps_ok_def upsert_row_def reindex_def Let_def split: option.splits)
qed

lemma maps_ok_remove:
  assumes "maps_ok s"
  shows "maps_ok (remove_row E s kind i)"
proof -
  have "\<forall>(k, m) \<in> set (om_insert kind (om_remove i (kind_table s kind)) (entities s)). om_ok m"
    using set_om_insert_subset [of kind "om_remove i (kind_table s kind)" "entities s"]
      maps_ok_tables [OF assms, of kind] assms by (auto simp: maps_ok_def)
  with assms show ?thesis
    by (auto simp: maps_ok_def remove_row_def Let_def split: option.splits)
qed

lemma index_ok_upsert:
  assumes "index_ok E s" "upsert_ok E s kind i r"
  shows "index_ok E (upsert_row E s kind i r)"
  using assms unfolding index_ok_def upsert_ok_def id_by_natural_key_upsert nk_of_upsert
  by (smt (verit) option.inject option.distinct(1))

lemma index_ok_remove:
  assumes "index_ok E s"
  shows "index_ok E (remove_row E s kind i)"
  using assms unfolding index_ok_def id_by_natural_key_remove nk_of_remove
  by (smt (verit) option.inject option.distinct(1))

lemma snap_ok_upsert:
  assumes "snap_ok E s" "upsert_ok E s kind i r"
  shows "snap_ok E (upsert_row E s kind i r)"
  using assms maps_ok_upsert index_ok_upsert
  by (fastforce simp: snap_ok_def rows_ok_def upsert_ok_def)

lemma snap_ok_remove:
  assumes "snap_ok E s"
  shows "snap_ok E (remove_row E s kind i)"
  using assms maps_ok_remove index_ok_remove by (fastforce simp: snap_ok_def rows_ok_def)

lemma snap_ok_empty [simp]: "snap_ok E empty_snapshot"
  by (simp add: snap_ok_def maps_ok_def rows_ok_def index_ok_def nk_of_def)
     (simp add: empty_snapshot_def id_by_natural_key_def)

lemma snap_ok_version [simp]: "snap_ok E (s\<lparr>version := v\<rparr>) = snap_ok E s"
  by (simp add: snap_ok_def maps_ok_def rows_ok_def index_ok_def nk_of_def)

section \<open>What the index gives\<close>

lemma get_by_natural_key_eq:
  "get_by_natural_key s kind key =
     (case id_by_natural_key s kind key of None \<Rightarrow> None | Some i \<Rightarrow> snap_get s kind i)"
  by (simp add: get_by_natural_key_def id_by_natural_key_def)

lemma id_by_natural_key_iff:
  "snap_ok E s \<Longrightarrow> id_by_natural_key s kind nk = Some i \<longleftrightarrow>
     (\<exists>r. snap_get s kind i = Some r \<and> natural_key_for E r = Some nk)"
  by (auto simp: snap_ok_def index_ok_def nk_of_def split: option.splits)

lemma get_by_natural_key_iff:
  assumes "snap_ok E s"
  shows "get_by_natural_key s kind nk = Some r \<longleftrightarrow>
    (\<exists>i. snap_get s kind i = Some r \<and> natural_key_for E r = Some nk)"
  using id_by_natural_key_iff [OF assms, of kind nk]
  by (auto simp: get_by_natural_key_eq split: option.splits) (metis option.inject)

lemma get_by_natural_key_None:
  assumes "snap_ok E s"
  shows "get_by_natural_key s kind nk = None \<longleftrightarrow> id_by_natural_key s kind nk = None"
  using id_by_natural_key_iff [OF assms, of kind nk]
  by (auto simp: get_by_natural_key_eq split: option.splits)

lemma natural_key_unique:
  assumes "snap_ok E s"
    and "snap_get s kind i = Some r" "snap_get s kind j = Some q"
    and "natural_key_for E r = Some nk" "natural_key_for E q = Some nk"
  shows "i = j"
  using assms id_by_natural_key_iff [OF assms(1), of kind nk] by (metis option.inject)

lemma snap_ok_row:
  assumes "snap_ok E s" "snap_get s kind i = Some r"
  shows "row_kind r = kind" "row_id r = None \<or> row_id r = Some i"
  using assms by (auto simp: snap_ok_def rows_ok_def)

section \<open>States with the same rows\<close>

lemma same_rows_same_tables:
  assumes "maps_ok s" "maps_ok t" "snap_get s = snap_get t"
  shows "kind_table s k = kind_table t k"
  using assms by (intro om_ext) (auto simp: maps_ok_tables snap_get_table [symmetric] fun_eq_iff)

lemma same_rows_same_index:
  assumes "snap_ok E s" "snap_ok E t" "snap_get s = snap_get t"
  shows "by_natural_key s = by_natural_key t"
proof (rule om_ext)
  show "om_ok (by_natural_key s)" "om_ok (by_natural_key t)"
    using assms by (auto simp: snap_ok_def maps_ok_def)
  have "id_by_natural_key s k nk = id_by_natural_key t k nk" for k nk
    using id_by_natural_key_iff [OF assms(1), of k nk] id_by_natural_key_iff [OF assms(2), of k nk]
      assms(3) by (metis not_None_eq)
  then show "map_of (by_natural_key s) = map_of (by_natural_key t)"
    by (auto simp: id_by_natural_key_def fun_eq_iff)
qed

section \<open>Applying a list of actions\<close>

text \<open>
  What an action does once its body has been decoded, and when it is admissible. \<open>acts_ok\<close> is the
  condition under which a commit keeps the invariant.
\<close>

fun act_ok :: "('j, 'z) row_codecs_scheme \<Rightarrow> snapshot \<Rightarrow> 'j action \<Rightarrow> bool" where
  "act_ok E s (Upsert kind i body) = (\<exists>r. from_body E kind body = Inr r \<and> upsert_ok E s kind i r)"
| "act_ok E s (Remove kind i) = True"

fun acts_ok :: "('j, 'z) row_codecs_scheme \<Rightarrow> snapshot \<Rightarrow> 'j action list \<Rightarrow> bool" where
  "acts_ok E s [] = True"
| "acts_ok E s (a # as) = (act_ok E s a \<and> acts_ok E (snd (apply_action E s a)) as)"

lemma act_ok_apply: "act_ok E s a \<Longrightarrow> \<exists>s'. apply_action E s a = (Inr (), s')"
  by (cases a) auto

lemma act_ok_inv:
  "snap_ok E s \<Longrightarrow> act_ok E s a \<Longrightarrow> snap_ok E (snd (apply_action E s a))"
  by (cases a) (auto simp: snap_ok_upsert snap_ok_remove)

lemma acts_ok_apply: "acts_ok E s as \<Longrightarrow> fst (apply_all E s as) = Inr ()"
proof (induction as arbitrary: s)
  case (Cons a as)
  then obtain s' where "apply_action E s a = (Inr (), s')"
    using act_ok_apply by force
  with Cons show ?case by simp
qed simp

lemma acts_ok_inv:
  "snap_ok E s \<Longrightarrow> acts_ok E s as \<Longrightarrow> snap_ok E (snd (apply_all E s as))"
proof (induction as arbitrary: s)
  case (Cons a as)
  then obtain s' where s': "apply_action E s a = (Inr (), s')"
    using act_ok_apply by force
  with Cons act_ok_inv [of E s a] show ?case by simp
qed simp

lemma version_apply_action [simp]: "version (snd (apply_action E s a)) = version s"
  by (cases a) (auto split: sum.splits)

lemma version_apply_all [simp]: "version (snd (apply_all E s as)) = version s"
proof (induction as arbitrary: s)
  case (Cons a as)
  obtain r s' where s': "apply_action E s a = (r, s')" by force
  with version_apply_action [of E s a] Cons show ?case
    by (cases r) auto
qed simp

lemma apply_all_append:
  "fst (apply_all E s as) = Inr () \<Longrightarrow>
   apply_all E s (as @ bs) = apply_all E (snd (apply_all E s as)) bs"
  by (induction as arbitrary: s) (auto split: prod.splits sum.splits)

lemma acts_ok_append:
  "acts_ok E s (as @ bs) \<longleftrightarrow> acts_ok E s as \<and> acts_ok E (snd (apply_all E s as)) bs"
proof (induction as arbitrary: s)
  case (Cons a as)
  show ?case
  proof (cases "act_ok E s a")
    case True
    then obtain s' where "apply_action E s a = (Inr (), s')"
      using act_ok_apply by blast
    with Cons True show ?thesis by simp
  qed simp
qed simp

text \<open>The rows after a list of removals.\<close>

lemma apply_all_removes:
  "apply_all E s (map (Remove k) is) = (Inr (), fold (\<lambda>i t. remove_row E t k i) is s)"
  by (induction "is" arbitrary: s) auto

lemma snap_get_fold_remove:
  "snap_get (fold (\<lambda>i t. remove_row E t kind i) is s) k j =
     (if k = kind \<and> j \<in> set is then None else snap_get s k j)"
  by (induction "is" arbitrary: s) auto

lemma acts_ok_removes [simp]: "acts_ok E s (map (Remove k) is)"
  by (induction "is" arbitrary: s) auto

lemma snap_ok_fold_remove:
  "snap_ok E s \<Longrightarrow> snap_ok E (fold (\<lambda>i t. remove_row E t kind i) is s)"
  by (induction "is" arbitrary: s) (auto simp: snap_ok_remove)

section \<open>Upserts that check nothing\<close>

text \<open>
  A row stored under a natural key that another row holds: both rows stay, the key leads to the new
  one only, and the state is no longer consistent.
\<close>

lemma upsert_clash:
  assumes "snap_get s kind i = Some q" "natural_key_for E q = Some nk"
    and "natural_key_for E r = Some nk" "j \<noteq> i"
  shows "snap_get (upsert_row E s kind j r) kind i = Some q"
    "get_by_natural_key (upsert_row E s kind j r) kind nk = Some r"
    "\<not> snap_ok E (upsert_row E s kind j r)"
proof -
  let ?t = "upsert_row E s kind j r"
  show "snap_get ?t kind i = Some q" using assms by simp
  show "get_by_natural_key ?t kind nk = Some r"
    using assms(3) by (simp add: get_by_natural_key_eq id_by_natural_key_upsert)
  show "\<not> snap_ok E ?t"
    using natural_key_unique [of E ?t kind i q j r nk] assms by auto
qed

end
