(* ===== verification/Checkpoint.thy ===== *)
theory Checkpoint
  imports SnapInv ObjectLog
begin

text \<open>
  Checkpoints: two snapshots that answer every query alike, and the round trip of the checkpoint
  body. A checkpoint stores the rows only; the index is recomputed, and the proof that it comes out
  the same rests on the uniqueness of natural keys.
\<close>

section \<open>Snapshots that answer alike\<close>

text \<open>The tables may differ in kinds with no rows, which no query but \<open>counts\<close> sees.\<close>

definition snap_eq :: "snapshot \<Rightarrow> snapshot \<Rightarrow> bool" where
  "snap_eq s t \<longleftrightarrow> version s = version t \<and> by_natural_key s = by_natural_key t \<and>
     kind_table s = kind_table t"

lemma snap_eq_refl [simp]: "snap_eq s s"
  by (simp add: snap_eq_def)

lemma snap_eq_sym: "snap_eq s t \<Longrightarrow> snap_eq t s"
  by (simp add: snap_eq_def)

lemma snap_eq_trans: "snap_eq s t \<Longrightarrow> snap_eq t u \<Longrightarrow> snap_eq s u"
  by (simp add: snap_eq_def)

lemma kind_table_version [simp]: "kind_table (s\<lparr>version := v\<rparr>) = kind_table s"
  by (simp add: kind_table_def fun_eq_iff)

lemma snap_eq_version: "snap_eq s t \<Longrightarrow> snap_eq (s\<lparr>version := v\<rparr>) (t\<lparr>version := v\<rparr>)"
  by (simp add: snap_eq_def)

lemma snap_eq_queries:
  assumes "snap_eq s t"
  shows "snap_get s = snap_get t" "id_by_natural_key s = id_by_natural_key t"
    "get_by_natural_key s = get_by_natural_key t" "scan s = scan t" "scan_prefix s = scan_prefix t"
    "snap_iter s = snap_iter t" "iter_by_id s = iter_by_id t" "ids_under_prefix s = ids_under_prefix t"
    "nk_of E s = nk_of E t" "version s = version t"
proof -
  show get: "snap_get s = snap_get t"
    using assms by (simp add: snap_eq_def snap_get_table fun_eq_iff)
  have nk: "by_natural_key s = by_natural_key t" "kind_table s = kind_table t"
    using assms by (simp_all add: snap_eq_def)
  show "id_by_natural_key s = id_by_natural_key t"
    "get_by_natural_key s = get_by_natural_key t" "scan s = scan t" "scan_prefix s = scan_prefix t"
    "snap_iter s = snap_iter t" "iter_by_id s = iter_by_id t" "ids_under_prefix s = ids_under_prefix t"
    "nk_of E s = nk_of E t" "version s = version t"
    unfolding fun_eq_iff id_by_natural_key_def get_by_natural_key_def scan_def scan_prefix_def
      snap_iter_def iter_by_id_def ids_under_prefix_def nk_of_def get nk
    using assms by (simp_all add: snap_eq_def)
qed

lemma snap_eq_upsert:
  assumes "snap_eq s t"
  shows "snap_eq (upsert_row E s k i r) (upsert_row E t k i r)"
proof -
  have eq: "by_natural_key s = by_natural_key t" "snap_get s = snap_get t"
    using assms snap_eq_queries(1) [OF assms] by (simp_all add: snap_eq_def)
  have "reindex E s k i r = reindex E t k i r"
    unfolding reindex_def eq ..
  with assms show ?thesis
    by (simp add: snap_eq_def fun_eq_iff kind_table_upsert) (simp add: upsert_row_def)
qed

lemma snap_eq_remove:
  assumes "snap_eq s t"
  shows "snap_eq (remove_row E s k i) (remove_row E t k i)"
proof -
  have "by_natural_key (remove_row E s k i) = by_natural_key (remove_row E t k i)"
    using assms by (simp add: snap_eq_def remove_row_def Let_def split: option.splits)
  with assms show ?thesis
    by (simp add: snap_eq_def fun_eq_iff kind_table_remove)
qed

lemma snap_eq_apply_action:
  assumes "snap_eq s t"
  shows "fst (apply_action E s a) = fst (apply_action E t a) \<and>
    snap_eq (snd (apply_action E s a)) (snd (apply_action E t a))"
  using assms by (cases a) (auto simp: snap_eq_upsert snap_eq_remove split: sum.splits)

lemma snap_eq_apply_all:
  "snap_eq s t \<Longrightarrow> fst (apply_all E s as) = fst (apply_all E t as) \<and>
    snap_eq (snd (apply_all E s as)) (snd (apply_all E t as))"
proof (induction as arbitrary: s t)
  case (Cons a as)
  obtain r s' where s: "apply_action E s a = (r, s')" by force
  obtain q t' where t: "apply_action E t a = (q, t')" by force
  from snap_eq_apply_action [OF Cons.prems, of E a] s t have "r = q" "snap_eq s' t'" by auto
  with s t Cons.IH [of s' t'] show ?case by (cases r) auto
qed simp

lemma snap_eq_upsert_ok: "snap_eq s t \<Longrightarrow> upsert_ok E s k i r = upsert_ok E t k i r"
  by (simp add: upsert_ok_def snap_eq_queries [of s t])

lemma snap_eq_act_ok: "snap_eq s t \<Longrightarrow> act_ok E s a = act_ok E t a"
  by (cases a) (simp_all add: snap_eq_upsert_ok)

lemma snap_eq_acts_ok: "snap_eq s t \<Longrightarrow> acts_ok E s as = acts_ok E t as"
proof (induction as arbitrary: s t)
  case (Cons a as)
  with snap_eq_apply_action [of s t E a] snap_eq_act_ok [of s t E a] show ?case by auto
qed simp

lemma snap_ok_same_rows:
  assumes "snap_ok E s" "snap_ok E t" "snap_get s = snap_get t" "version s = version t"
  shows "snap_eq s t"
  using assms same_rows_same_tables [of s t] same_rows_same_index [OF assms(1-3)]
  by (simp add: snap_eq_def fun_eq_iff snap_ok_def)

section \<open>The rows of a snapshot\<close>

lemma set_all_rows:
  assumes "maps_ok s"
  shows "(k, i, r) \<in> set (all_rows s) \<longleftrightarrow> snap_get s k i = Some r"
proof -
  have e: "om_ok (entities s)" and m: "\<And>k m. (k, m) \<in> set (entities s) \<Longrightarrow> om_ok m"
    using assms by (auto simp: maps_ok_def)
  have "(k, i, r) \<in> set (all_rows s) \<longleftrightarrow> (\<exists>m. (k, m) \<in> set (entities s) \<and> (i, r) \<in> set m)"
    by (force simp: all_rows_def)
  also have "\<dots> \<longleftrightarrow> (\<exists>m. map_of (entities s) k = Some m \<and> map_of m i = Some r)"
    using map_of_iff_set [OF e, of k] m map_of_iff_set [of _ i r] by blast
  also have "\<dots> \<longleftrightarrow> snap_get s k i = Some r"
    by (auto simp: snap_get_def split: option.splits)
  finally show ?thesis .
qed

text \<open>Loading rows into a snapshot, one upsert each.\<close>

definition load_rows ::
  "('j, 'z) row_codecs_scheme \<Rightarrow> (entity_kind \<times> uuid \<times> row) list \<Rightarrow> snapshot \<Rightarrow> snapshot" where
  "load_rows E rs s = fold (\<lambda>(k, i, r) t. upsert_row E t k i r) rs s"

definition rows_within :: "snapshot \<Rightarrow> snapshot \<Rightarrow> bool" where
  "rows_within a s \<longleftrightarrow> (\<forall>k i r. snap_get a k i = Some r \<longrightarrow> snap_get s k i = Some r)"

lemma upsert_ok_within:
  assumes "snap_ok E s" "snap_ok E a" "rows_within a s" "snap_get s k i = Some r"
  shows "upsert_ok E a k i r"
proof -
  have "i' = i" if "natural_key_for E r = Some nk" "id_by_natural_key a k nk = Some i'" for nk i'
    using natural_key_unique [OF assms(1) _ assms(4), of i'] that assms(3)
      id_by_natural_key_iff [OF assms(2), of k nk i'] by (auto simp: rows_within_def)
  with snap_ok_row [OF assms(1,4)] show ?thesis by (auto simp: upsert_ok_def)
qed

lemma load_rows_ok:
  assumes "snap_ok E s" "snap_ok E a" "rows_within a s"
    and "\<forall>(k, i, r) \<in> set rs. snap_get s k i = Some r"
  shows "snap_ok E (load_rows E rs a) \<and> rows_within (load_rows E rs a) s \<and>
    rows_within a (load_rows E rs a) \<and>
    (\<forall>(k, i, r) \<in> set rs. snap_get (load_rows E rs a) k i = Some r)"
  using assms(2-4)
proof (induction rs arbitrary: a)
  case Nil
  then show ?case by (simp add: load_rows_def rows_within_def)
next
  case (Cons x rs)
  obtain k i r where x: "x = (k, i, r)" by (cases x)
  let ?a = "upsert_row E a k i r"
  have r: "snap_get s k i = Some r"
    using Cons.prems x by simp
  have a: "snap_ok E ?a"
    by (rule snap_ok_upsert [OF Cons.prems(1) upsert_ok_within [OF assms(1) Cons.prems(1,2) r]])
  have w: "rows_within ?a s" "rows_within a ?a"
    using Cons.prems(2) r by (auto simp: rows_within_def)
  from Cons.IH [OF a w(1)] Cons.prems(3)
  have IH: "snap_ok E (load_rows E rs ?a)" "rows_within (load_rows E rs ?a) s"
    "rows_within ?a (load_rows E rs ?a)"
    "\<forall>(k, i, r) \<in> set rs. snap_get (load_rows E rs ?a) k i = Some r" by auto
  from IH(3) have "snap_get (load_rows E rs ?a) k i = Some r"
    by (simp add: rows_within_def)
  moreover have "load_rows E (x # rs) a = load_rows E rs ?a"
    by (simp add: load_rows_def x)
  ultimately show ?case
    using IH w(2) x by (auto simp: rows_within_def)
qed

lemma version_load_rows [simp]: "version (load_rows E rs s) = version s"
  by (induction rs arbitrary: s) (auto simp: load_rows_def)

lemma load_all_rows:
  assumes "snap_ok E s"
  shows "snap_ok E (load_rows E (all_rows s) empty_snapshot) \<and>
    snap_eq ((load_rows E (all_rows s) empty_snapshot)\<lparr>version := version s\<rparr>) s"
proof -
  have rows: "\<forall>(k, i, r) \<in> set (all_rows s). snap_get s k i = Some r"
    using set_all_rows [of s] assms by (auto simp: snap_ok_def)
  let ?t = "load_rows E (all_rows s) empty_snapshot"
  have t: "snap_ok E ?t" "rows_within ?t s" "\<forall>(k, i, r) \<in> set (all_rows s). snap_get ?t k i = Some r"
    using load_rows_ok [OF assms snap_ok_empty _ rows] by (auto simp: rows_within_def)
  have "rows_within s ?t"
    unfolding rows_within_def
  proof (intro allI impI)
    fix k i r assume "snap_get s k i = Some r"
    then have "(k, i, r) \<in> set (all_rows s)"
      using set_all_rows [of s] assms by (simp add: snap_ok_def)
    with t(3) show "snap_get ?t k i = Some r" by blast
  qed
  with t(2) have "snap_get ?t = snap_get s"
    unfolding rows_within_def fun_eq_iff by (metis not_None_eq)
  with t(1) assms show ?thesis
    by (intro conjI snap_ok_same_rows [of E]) simp_all
qed

section \<open>Round trip\<close>

text \<open>What the body of a checkpoint relies on, for each row of the snapshot.\<close>

definition row_line_ok :: "('j, 'z) env_scheme \<Rightarrow> entity_kind \<times> uuid \<times> row \<Rightarrow> bool" where
  "row_line_ok E x \<longleftrightarrow> (case x of (k, i, r) \<Rightarrow>
     \<exists>b. to_body E r = Inr b \<and> from_body E k b = Inr r \<and> line_ok E (LineUpsert k i b))"

lemma encode_rows_lines:
  assumes "\<forall>x \<in> set rs. row_line_ok E x"
  shows "\<exists>ts bytes. encode_rows E rs = Inr (bytes, length rs) \<and> str_lines bytes = ts \<and>
    utf8_valid bytes \<and> count_newlines bytes = length rs \<and>
    list_all2 (\<lambda>(k, i, r) t. (\<exists>b. from_body E k b = Inr r \<and> dec (cd_line E) t = Inr (LineUpsert k i b)) \<and>
      \<not> blank t) rs ts"
  using assms
proof (induction rs)
  case Nil
  then show ?case by (simp add: utf8_valid_def utf8_chars_def count_newlines_def)
next
  case (Cons x rs)
  obtain k i r where x: "x = (k, i, r)" by (cases x)
  from Cons.prems x obtain b where b: "to_body E r = Inr b" "from_body E k b = Inr r"
    "line_ok E (LineUpsert k i b)" by (auto simp: row_line_ok_def)
  from Cons obtain ts bytes where IH: "encode_rows E rs = Inr (bytes, length rs)"
    "str_lines bytes = ts" "utf8_valid bytes" "count_newlines bytes = length rs"
    "list_all2 (\<lambda>(k, i, r) t. (\<exists>b. from_body E k b = Inr r \<and> dec (cd_line E) t = Inr (LineUpsert k i b)) \<and>
      \<not> blank t) rs ts" by auto
  from b(3) obtain t where t: "enc (cd_line E) (LineUpsert k i b) = Inr t"
    "dec (cd_line E) t = Inr (LineUpsert k i b)" "utf8_valid t" "NL \<notin> set t"
    "CHR 0x0D \<notin> set t" "\<not> blank t" by (auto simp: line_ok_def)
  have "strip_cr t = t"
    using t(5) by (metis last_in_set strip_cr_def)
  moreover have "filter (\<lambda>c. c = NL) t = []"
    using t(4) by (auto simp: filter_empty_conv)
  moreover have "utf8_valid (t @ NL # bytes)"
    using t(3) IH(3) by (rule utf8_valid_line)
  ultimately show ?case
    using IH t b x by (auto simp: json_err_def str_lines_append count_newlines_def)
qed

lemma decode_checkpoint_rows:
  assumes "list_all2 (\<lambda>(k, i, r) t. (\<exists>b. from_body E k b = Inr r \<and>
      dec (cd_line E) t = Inr (LineUpsert k i b)) \<and> \<not> blank t) rs ts"
  shows "decode_checkpoint_lines E n ts a = Inr (load_rows E rs a)"
  using assms
proof (induction rs arbitrary: n ts a)
  case (Cons x rs)
  obtain k i r where x: "x = (k, i, r)" by (cases x)
  with Cons.prems obtain t us b where ts: "ts = t # us" "from_body E k b = Inr r"
    "dec (cd_line E) t = Inr (LineUpsert k i b)" "\<not> blank t"
    "list_all2 (\<lambda>(k, i, r) t. (\<exists>b. from_body E k b = Inr r \<and>
      dec (cd_line E) t = Inr (LineUpsert k i b)) \<and> \<not> blank t) rs us"
    by (auto simp: list_all2_Cons1)
  then show ?case
    using Cons.IH [OF ts(5)] x by (simp add: load_rows_def)
qed (simp add: load_rows_def)

lemma decode_encode_checkpoint:
  assumes "snap_ok E s" "\<forall>x \<in> set (all_rows s). row_line_ok E x"
  shows "\<exists>bytes s'. encode_checkpoint E s = Inr (bytes, length (all_rows s)) \<and>
    count_newlines bytes = length (all_rows s) \<and>
    decode_checkpoint E bytes = Inr s' \<and> snap_ok E s' \<and> snap_eq (s'\<lparr>version := version s\<rparr>) s"
proof -
  obtain ts bytes where b: "encode_rows E (all_rows s) = Inr (bytes, length (all_rows s))"
    "str_lines bytes = ts" "utf8_valid bytes" "count_newlines bytes = length (all_rows s)"
    "list_all2 (\<lambda>(k, i, r) t. (\<exists>b. from_body E k b = Inr r \<and>
      dec (cd_line E) t = Inr (LineUpsert k i b)) \<and> \<not> blank t) (all_rows s) ts"
    using encode_rows_lines [OF assms(2)] by blast
  have "decode_checkpoint E bytes = Inr (load_rows E (all_rows s) empty_snapshot)"
    using b decode_checkpoint_rows [OF b(5)] by (simp add: decode_checkpoint_def)
  with b load_all_rows [OF assms(1)] show ?thesis
    by (simp add: encode_checkpoint_def)
qed

end
