(* ===== verification/Replay.thy ===== *)
theory Replay
  imports Store Checkpoint
begin

text \<open>
  What the store is a refinement of: the log is a list of commits, and the state at a version is
  the replay of that many of them. Replaying what a log holds reaches exactly the replay of its
  commits, from any state on the way and through any checkpoint, whatever the page size of the
  listing.
\<close>

declare upt_Suc [simp del]

section \<open>The specification\<close>

definition replay_step :: "('j, 'z) row_codecs_scheme \<Rightarrow> snapshot \<Rightarrow> 'j action list \<Rightarrow> snapshot" where
  "replay_step E s actions = (snd (apply_all E s actions))\<lparr>version := Suc (version s)\<rparr>"

definition replay :: "('j, 'z) row_codecs_scheme \<Rightarrow> 'j action list list \<Rightarrow> snapshot" where
  "replay E commits = foldl (replay_step E) empty_snapshot commits"

text \<open>Every commit was admissible in the state it was appended to.\<close>

definition replay_ok :: "('j, 'z) row_codecs_scheme \<Rightarrow> 'j action list list \<Rightarrow> bool" where
  "replay_ok E commits \<longleftrightarrow>
     (\<forall>n < length commits. acts_ok E (replay E (take n commits)) (commits ! n))"

text \<open>The objects of a log hold these commits, at versions one to their number, and no others.\<close>

definition log_holds ::
  "('j, 'z) env_scheme \<Rightarrow> (string \<rightharpoonup> string) \<Rightarrow> 'j action list list \<Rightarrow> bool" where
  "log_holds E m commits \<longleftrightarrow> length commits < u64_max \<and>
     (\<forall>n < length commits. \<exists>bytes info. m (commit_key (Suc n)) = Some bytes \<and>
        decode_commit E (commit_key (Suc n)) bytes = Inr (info, commits ! n)) \<and>
     (\<forall>k \<in> dom m. \<forall>v. version_from_key k = Some v \<longrightarrow>
        1 \<le> v \<and> v \<le> length commits \<and> k = commit_key v)"

text \<open>A snapshot that is the state of the log at a version, in every answer it gives.\<close>

definition state_at ::
  "('j, 'z) row_codecs_scheme \<Rightarrow> snapshot \<Rightarrow> nat \<Rightarrow> 'j action list list \<Rightarrow> bool" where
  "state_at E s n commits \<longleftrightarrow>
     n \<le> length commits \<and> maps_ok s \<and> snap_eq s (replay E (take n commits))"

text \<open>Every checkpoint object is the state at its version.\<close>

definition checkpoints_ok ::
  "('j, 'z) env_scheme \<Rightarrow> (string \<rightharpoonup> string) \<Rightarrow> 'j action list list \<Rightarrow> bool" where
  "checkpoints_ok E m commits \<longleftrightarrow>
     (\<forall>v body. m (checkpoint_key v) = Some body \<longrightarrow>
        (\<exists>s. decode_checkpoint E body = Inr s \<and> state_at E (s\<lparr>version := v\<rparr>) v commits))"

text \<open>
  What the text of a commit's actions relies on: each body comes from a row and reads back as it,
  and each line reads back as itself.
\<close>

definition act_fine :: "('j, 'z) env_scheme \<Rightarrow> 'j action \<Rightarrow> bool" where
  "act_fine E a \<longleftrightarrow> line_ok E (line_of_action a) \<and>
     (case a of Remove _ _ \<Rightarrow> True
      | Upsert k i b \<Rightarrow> \<exists>r. to_body E r = Inr b \<and> from_body E k b = Inr r)"

text \<open>The invariant of the shared log: what it holds, and that all of it was admissible.\<close>

definition log_good ::
  "('j, 'z) env_scheme \<Rightarrow> ('l \<Rightarrow> (string \<rightharpoonup> string)) \<Rightarrow> ('l \<Rightarrow> bool) \<Rightarrow> 'l \<Rightarrow> 'j action list list \<Rightarrow> bool"
where
  "log_good E objs linv l commits \<longleftrightarrow> linv l \<and> log_holds E (objs l) commits \<and>
     checkpoints_ok E (objs l) commits \<and> replay_ok E commits \<and>
     (\<forall>c \<in> set commits. \<forall>a \<in> set c. act_fine E a)"

section \<open>Facts about replay\<close>

lemma replay_Nil [simp]: "replay E [] = empty_snapshot"
  by (simp add: replay_def)

lemma replay_snoc [simp]: "replay E (cs @ [c]) = replay_step E (replay E cs) c"
  by (simp add: replay_def)

lemma version_replay [simp]: "version (replay E cs) = length cs"
proof (induction cs rule: rev_induct)
  case Nil
  then show ?case by (simp add: empty_snapshot_def)
qed (simp add: replay_step_def)

lemma replay_take_Suc:
  "n < length cs \<Longrightarrow> replay E (take (Suc n) cs) = replay_step E (replay E (take n cs)) (cs ! n)"
  by (simp add: take_Suc_conv_app_nth)

lemma replay_ok_Nil [simp]: "replay_ok E []"
  by (simp add: replay_ok_def)

lemma replay_ok_snoc:
  "replay_ok E (cs @ [c]) \<longleftrightarrow> replay_ok E cs \<and> acts_ok E (replay E cs) c"
  by (auto simp: replay_ok_def nth_append less_Suc_eq)

lemma replay_ok_take: "replay_ok E cs \<Longrightarrow> replay_ok E (take n cs)"
  by (simp add: replay_ok_def min_def)

lemma replay_snap_ok: "replay_ok E cs \<Longrightarrow> snap_ok E (replay E cs)"
proof (induction cs rule: rev_induct)
  case (snoc c cs)
  then show ?case
    using acts_ok_inv [of E "replay E cs" c] by (simp add: replay_ok_snoc replay_step_def)
qed simp

lemma snap_eq_replay_step:
  assumes "snap_eq s t"
  shows "snap_eq (replay_step E s c) (replay_step E t c)"
  using assms snap_eq_apply_all [OF assms, of E c]
  by (simp add: replay_step_def snap_eq_queries [OF assms] snap_eq_version)

lemma maps_ok_version [simp]: "maps_ok (s\<lparr>version := v\<rparr>) = maps_ok s"
  by (simp add: maps_ok_def)

lemma maps_ok_apply_action: "maps_ok s \<Longrightarrow> maps_ok (snd (apply_action E s a))"
  by (cases a) (auto simp: maps_ok_upsert maps_ok_remove split: sum.splits)

lemma maps_ok_apply_all: "maps_ok s \<Longrightarrow> maps_ok (snd (apply_all E s as))"
proof (induction as arbitrary: s)
  case (Cons a as)
  obtain r s' where "apply_action E s a = (r, s')" by force
  with maps_ok_apply_action [OF Cons.prems, of E a] Cons.IH [of s'] show ?case
    by (cases r) auto
qed simp

lemma snap_eq_ok: "snap_eq s t \<Longrightarrow> maps_ok s \<Longrightarrow> snap_ok E t \<Longrightarrow> snap_ok E s"
  by (simp add: snap_ok_def rows_ok_def index_ok_def snap_eq_queries [of s t])

text \<open>Replaying the rest of a log from a state on the way.\<close>

lemma apply_commits_replay:
  assumes "replay_ok E cs" "state_at E s n cs"
    and "map fst out = [Suc n..<Suc (length cs)]" "map (snd \<circ> snd) out = drop n cs"
  shows "\<exists>s'. apply_commits E s out = (Inr (), s') \<and> state_at E s' (length cs) cs"
  using assms(2-4)
proof (induction out arbitrary: n s)
  case Nil
  then have "n = length cs" by (simp add: state_at_def)
  with Nil show ?case by simp
next
  case (Cons x out)
  obtain v info actions where x: "x = (v, info, actions)" by (cases x)
  have eq: "n \<le> length cs" "maps_ok s" "snap_eq s (replay E (take n cs))"
    using Cons.prems(1) by (simp_all add: state_at_def)
  have n: "n < length cs"
    using eq(1) Cons.prems(2)
    by (metis Suc_le_mono le_neq_implies_less list.distinct(1) list.simps(9) upt_conv_Nil)
  have v: "v = Suc n" "map fst out = [Suc (Suc n)..<Suc (length cs)]"
    using Cons.prems(2) n x by (simp_all add: upt_conv_Cons)
  have a: "actions = cs ! n" "map (snd \<circ> snd) out = drop (Suc n) cs"
    using Cons.prems(3) n x by (simp_all add: Cons_nth_drop_Suc [symmetric] comp_def)
  let ?r = "replay E (take n cs)"
  have ok: "acts_ok E s actions"
    using assms(1) n a(1) snap_eq_acts_ok [OF eq(3), of E actions] by (simp add: replay_ok_def)
  obtain s' where s': "apply_all E s actions = (Inr (), s')"
    using acts_ok_apply [OF ok] by (metis prod.collapse)
  have "version s = n"
    using eq(1) snap_eq_queries(10) [OF eq(3)] by simp
  then have "s'\<lparr>version := v\<rparr> = replay_step E s actions"
    using s' v by (simp add: replay_step_def)
  then have "snap_eq (s'\<lparr>version := v\<rparr>) (replay E (take (Suc n) cs))"
    using snap_eq_replay_step [OF eq(3), of E actions] a n by (simp add: replay_take_Suc)
  moreover have "maps_ok s'"
    using maps_ok_apply_all [OF eq(2), of E actions] s' by simp
  ultimately have "state_at E (s'\<lparr>version := v\<rparr>) (Suc n) cs"
    using n by (simp add: state_at_def)
  from Cons.IH [OF this v(2) a(2)] s' x show ?case by simp
qed

section \<open>Keys of the log\<close>

lemma read_keys_skip:
  "read_keys E ops l from_version ks =
   read_keys E ops l from_version (filter (\<lambda>k. \<exists>v. version_from_key k = Some v \<and> from_version < v) ks)"
  by (induction ks) (auto split: option.splits)

lemma log_holds_keys:
  assumes "finite (dom m)" "log_holds E m cs" "n \<le> length cs"
  shows "filter (\<lambda>k. \<exists>v. version_from_key k = Some v \<and> n < v) (keys_after m ''_uc_log/'' (commit_key n)) =
    map commit_key [Suc n..<Suc (length cs)]" (is "filter ?P ?ks = map commit_key ?vs")
proof (rule sorted_distinct_set_unique)
  have b: "\<And>v. v \<le> length cs \<Longrightarrow> v \<le> u64_max"
    using assms(2) by (simp add: log_holds_def)
  show "sorted (filter ?P ?ks)" "distinct (filter ?P ?ks)"
    using keys_after_sorted [of m "''_uc_log/''" "commit_key n"]
    by (simp_all add: strict_sorted_iff sorted_wrt_filter)
  have "sorted_wrt (\<lambda>v w. commit_key v < commit_key w) ?vs"
    by (rule sorted_wrt_mono_rel [of _ "(<)"]) (auto simp: commit_key_less_iff b)
  then have "sorted_wrt (<) (map commit_key ?vs)"
    by (simp add: sorted_wrt_map)
  then show "sorted (map commit_key ?vs)" "distinct (map commit_key ?vs)"
    by (simp_all add: strict_sorted_iff)
  show "set (filter ?P ?ks) = set (map commit_key ?vs)"
  proof (rule set_eqI)
    fix k
    have "k \<in> set (filter ?P ?ks) \<longleftrightarrow> k \<in> dom m \<and> starts_with k ''_uc_log/'' \<and> commit_key n < k \<and>
        (\<exists>v. version_from_key k = Some v \<and> n < v)"
      using keys_after_set [OF assms(1), of "''_uc_log/''" "commit_key n"] by auto
    also have "\<dots> \<longleftrightarrow> (\<exists>v. n < v \<and> v \<le> length cs \<and> k = commit_key v)" (is "?L \<longleftrightarrow> ?R")
    proof
      assume ?L
      with assms(2) show ?R unfolding log_holds_def by blast
    next
      assume ?R
      then obtain v where v: "n < v" "v \<le> length cs" "k = commit_key v" by blast
      then obtain i where "v = Suc i" "i < length cs" by (cases v) auto
      moreover from \<open>i < length cs\<close> obtain bytes where "m (commit_key (Suc i)) = Some bytes"
        using assms(2) unfolding log_holds_def by blast
      ultimately have "k \<in> dom m"
        using v by auto
      with v show ?L
        using b [of v] b [of n] assms(3) by (auto simp: commit_key_less_iff)
    qed
    also have "\<dots> \<longleftrightarrow> k \<in> set (map commit_key ?vs)"
      by (auto simp: image_iff Suc_le_eq less_Suc_eq_le)
    finally show "k \<in> set (filter ?P ?ks) \<longleftrightarrow> k \<in> set (map commit_key ?vs)" .
  qed
qed

lemma check_gapless_ok:
  assumes "map fst out = [Suc (n + i)..<Suc m]" "m < u64_max"
  shows "check_gapless n i out = Inr ()"
  using assms
proof (induction out arbitrary: i)
  case (Cons x out)
  obtain v c where x: "x = (v, c)" by (cases x)
  have le: "n + i < m"
    using Cons.prems(1) by (cases "n + i < m") auto
  with Cons.prems x have v: "v = Suc (n + i)" "map fst out = [Suc (n + Suc i)..<Suc m]"
    by (simp_all add: upt_conv_Cons)
  have "wadd64 (wadd64 n 1) i = Suc (n + i)"
    using le Cons.prems(2) by (simp add: wadd64_def u64_max_def)
  with Cons.IH [OF v(2) Cons.prems(2)] v(1) x show ?case
    by (cases c) simp
qed simp

definition reliable :: "'l log_ops \<Rightarrow> bool" where
  "reliable ops \<longleftrightarrow> (\<forall>k l. \<exists>v. op_get ops k l = Inr v) \<and>
     (\<forall>p a l. \<exists>ks. op_list_after ops p a l = Inr ks) \<and>
     (\<forall>k b l. \<exists>r l'. op_put_if_absent ops k b l = (Inr r, l')) \<and>
     (\<forall>k b l. \<exists>l'. op_put ops k b l = (Inr (), l'))"

lemma reliable_memory [simp]: "reliable memory_ops"
  by (simp add: reliable_def memory_defs)

lemma reliable_truncating [simp]: "reliable (truncating_ops n)"
  by (simp add: reliable_def truncating_ops_def truncating_list_after_def memory_defs)

section \<open>Reading and catching up over any log that keeps the contract\<close>

context object_log begin

lemma read_keys_spec:
  assumes "linv l" "log_holds E (objs l) cs" "n \<le> m" "m \<le> length cs"
  shows "\<exists>r. read_keys E ops l n (map commit_key [Suc m..<Suc (length cs)]) = r \<and>
    (\<forall>out. r = Inr out \<longrightarrow> map fst out = [Suc m..<Suc (length cs)] \<and> map (snd \<circ> snd) out = drop m cs) \<and>
    (reliable ops \<longrightarrow> (\<exists>out. r = Inr out))"
  using assms(3,4)
proof (induction "length cs - m" arbitrary: m)
  case 0
  then show ?case by simp
next
  case (Suc d)
  then have m: "m < length cs" "d = length cs - Suc m" by auto
  let ?k = "commit_key (Suc m)"
  from assms(2) m(1) obtain bytes info where b: "objs l ?k = Some bytes"
    "decode_commit E ?k bytes = Inr (info, cs ! m)" "Suc m \<le> u64_max"
    by (force simp: log_holds_def)
  have split: "[Suc m..<Suc (length cs)] = Suc m # [Suc (Suc m)..<Suc (length cs)]"
    using m(1) by (simp add: upt_conv_Cons)
  have rest: "drop m cs = cs ! m # drop (Suc m) cs"
    using m(1) by (simp add: Cons_nth_drop_Suc)
  have lt: "\<not> Suc m \<le> n" using Suc.prems by simp
  show ?case
  proof (cases "op_get ops ?k l")
    case (Inl e)
    then have "\<not> reliable ops"
      unfolding reliable_def by (metis Inl_Inr_False)
    with Inl show ?thesis
      unfolding split using b lt by simp
  next
    case (Inr v)
    with get_objs [OF assms(1) Inr] b have v: "op_get ops ?k l = Inr (Some bytes)" by simp
    let ?r = "read_keys E ops l n (map commit_key [Suc (Suc m)..<Suc (length cs)])"
    have IH: "(\<forall>out. ?r = Inr out \<longrightarrow> map fst out = [Suc (Suc m)..<Suc (length cs)] \<and>
        map (snd \<circ> snd) out = drop (Suc m) cs) \<and> (reliable ops \<longrightarrow> (\<exists>out. ?r = Inr out))"
      using Suc.hyps(1) [OF m(2)] Suc.prems m(1) by simp
    have step: "read_keys E ops l n (map commit_key [Suc m..<Suc (length cs)]) =
        rbind ?r (\<lambda>out. Inr ((Suc m, info, cs ! m) # out))"
      unfolding split using v b lt by simp
    show ?thesis
      unfolding step using IH split rest
      by (cases ?r) auto
  qed
qed

lemma read_commits_spec:
  assumes "linv l" "log_holds E (objs l) cs" "n \<le> length cs"
  shows "\<exists>r. read_commits_after E ops l n = Some r \<and>
    (\<forall>out. r = Inr out \<longrightarrow> map fst out = [Suc n..<Suc (length cs)] \<and> map (snd \<circ> snd) out = drop n cs) \<and>
    (reliable ops \<longrightarrow> (\<exists>out. r = Inr out))"
proof -
  let ?p = "''_uc_log/''"
  obtain r where r: "list_all_after ops l ?p (commit_key n) = Some r"
    using list_all_in_range_total [OF assms(1)] unfolding list_all_after_def by blast
  have len: "length cs < u64_max" using assms(2) by (simp add: log_holds_def)
  show ?thesis
  proof (cases r)
    case (Inl e)
    have "\<not> reliable ops"
      using list_all_after_complete [OF assms(1), of ?p "commit_key n"] r Inl
      by (auto simp: reliable_def)
    with r Inl show ?thesis by (simp add: read_commits_after_def)
  next
    case (Inr ks)
    have ks: "filter (\<lambda>k. \<exists>v. version_from_key k = Some v \<and> n < v) ks =
        map commit_key [Suc n..<Suc (length cs)]"
      using list_all_after_sound [OF assms(1), of ?p "commit_key n" ks] r Inr
        log_holds_keys [OF finite_objs [OF assms(1)] assms(2,3)] by simp
    let ?r = "read_keys E ops l n (map commit_key [Suc n..<Suc (length cs)])"
    have eq: "read_commits_after E ops l n =
        Some (rbind ?r (\<lambda>out. rbind (check_gapless n 0 out) (\<lambda>_. Inr out)))"
      using r Inr read_keys_skip [of E ops l n ks] ks by (simp add: read_commits_after_def)
    from read_keys_spec [OF assms(1,2) order_refl assms(3)]
    have spec: "\<And>out. ?r = Inr out \<Longrightarrow> map fst out = [Suc n..<Suc (length cs)] \<and>
        map (snd \<circ> snd) out = drop n cs" "reliable ops \<Longrightarrow> \<exists>out. ?r = Inr out" by auto
    show ?thesis
    proof (cases ?r)
      case (Inl e)
      then show ?thesis using eq spec(2) by auto
    next
      case (Inr out)
      then have "check_gapless n 0 out = Inr ()"
        using spec(1) [OF Inr] len by (intro check_gapless_ok) simp_all
      then show ?thesis using eq Inr spec(1) [OF Inr] by auto
    qed
  qed
qed

text \<open>
  Catching up never goes back, and when it succeeds the state is the replay of the whole log. It can
  fail only on an error of the backend.
\<close>

lemma resolve_checkpoint_spec:
  assumes "linv l" "resolve_checkpoint E ops l = Inr (Some (v, body))"
  shows "objs l (checkpoint_key v) = Some body"
proof -
  from assms(2) obtain ptr p where ptr: "op_get ops last_checkpoint_key l = Inr (Some ptr)"
    "dec (cd_last_checkpoint E) ptr = Inr p"
    by (cases "op_get ops last_checkpoint_key l")
       (auto simp: resolve_checkpoint_def split: option.splits sum.splits)
  from assms(2) ptr obtain b where b: "op_get ops (checkpoint_key (lc_version p)) l = Inr (Some b)"
    by (cases "op_get ops (checkpoint_key (lc_version p)) l")
       (auto simp: resolve_checkpoint_def split: option.splits)
  from assms(2) ptr b have "v = lc_version p" "body = b"
    by (auto simp: resolve_checkpoint_def split: option.splits if_splits)
  with get_objs [OF assms(1) b] show ?thesis by simp
qed

lemma start_state_spec:
  assumes "log_good E objs linv l cs" "state_at E s n cs"
  shows "\<forall>s0. start_state E ops l s = Inr s0 \<longrightarrow> (\<exists>m \<ge> n. state_at E s0 m cs)"
    and "reliable ops \<Longrightarrow> \<exists>s0. start_state E ops l s = Inr s0"
proof -
  have l: "linv l" "checkpoints_ok E (objs l) cs"
    using assms(1) by (simp_all add: log_good_def)
  have v: "version s = n"
    using assms(2) snap_eq_queries(10) [of s "replay E (take n cs)"] by (simp add: state_at_def)
  have found: "\<exists>s'. decode_checkpoint E body = Inr s' \<and> state_at E (s'\<lparr>version := w\<rparr>) w cs"
    if "resolve_checkpoint E ops l = Inr (Some (w, body))" for w body
    using resolve_checkpoint_spec [OF l(1) that] l(2) by (auto simp: checkpoints_ok_def)
  show "\<forall>s0. start_state E ops l s = Inr s0 \<longrightarrow> (\<exists>m \<ge> n. state_at E s0 m cs)"
  proof (intro allI impI)
    fix s0 assume s0: "start_state E ops l s = Inr s0"
    show "\<exists>m \<ge> n. state_at E s0 m cs"
    proof (cases "n = 0 \<and> (\<exists>c. resolve_checkpoint E ops l = Inr (Some c))")
      case True
      then obtain w body where "n = 0" "resolve_checkpoint E ops l = Inr (Some (w, body))" by auto
      with found [of w body] s0 v show ?thesis
        by (auto simp: start_state_def)
    next
      case False
      with s0 v have "s0 = s"
        by (cases "resolve_checkpoint E ops l")
           (auto simp: start_state_def split: option.splits if_splits)
      with assms(2) show ?thesis by blast
    qed
  qed
  show "\<exists>s0. start_state E ops l s = Inr s0" if "reliable ops"
  proof -
    have get: "\<exists>v. op_get ops k l = Inr v" for k
      using that by (simp add: reliable_def)
    obtain ptr where ptr: "op_get ops last_checkpoint_key l = Inr ptr"
      using get by blast
    have "\<exists>f. resolve_checkpoint E ops l = Inr f"
    proof (cases "\<exists>p. ptr = Some p \<and> (\<exists>q. dec (cd_last_checkpoint E) p = Inr q)")
      case True
      then obtain p q where p: "ptr = Some p" "dec (cd_last_checkpoint E) p = Inr q" by blast
      obtain b where "op_get ops (checkpoint_key (lc_version q)) l = Inr b"
        using get by blast
      with ptr p show ?thesis
        by (auto simp: resolve_checkpoint_def split: option.splits)
    next
      case False
      with ptr show ?thesis
        by (cases ptr) (auto simp: resolve_checkpoint_def split: sum.splits)
    qed
    then obtain f where f: "resolve_checkpoint E ops l = Inr f" by blast
    show ?thesis
      using f found by (cases f) (auto simp: start_state_def)
  qed
qed

text \<open>From whatever state catching up starts, it ends at the state of the whole log.\<close>

lemma catch_up_from:
  assumes "linv (log st)" "log_holds E (objs (log st)) cs" "replay_ok E cs"
    and "start_state E ops (log st) (state st) = Inr s0" "state_at E s0 m cs"
  shows "\<exists>r st'. catch_up E ops st = Some (r, st') \<and> log st' = log st \<and>
    (\<exists>k \<ge> m. state_at E (state st') k cs) \<and>
    (r = Inr () \<longrightarrow> state_at E (state st') (length cs) cs) \<and> (reliable ops \<longrightarrow> r = Inr ())"
proof -
  have v: "version s0 = m" and m: "m \<le> length cs"
    using assms(5) snap_eq_queries(10) [of s0 "replay E (take m cs)"] by (simp_all add: state_at_def)
  from read_commits_spec [OF assms(1,2) m] obtain r where
    r: "read_commits_after E ops (log st) m = Some r"
    "\<And>out. r = Inr out \<Longrightarrow> map fst out = [Suc m..<Suc (length cs)] \<and> map (snd \<circ> snd) out = drop m cs"
    "reliable ops \<Longrightarrow> \<exists>out. r = Inr out" by blast
  show ?thesis
  proof (cases r)
    case (Inl e)
    with r assms(4,5) v show ?thesis by (auto simp: catch_up_def)
  next
    case (Inr out)
    from apply_commits_replay [OF assms(3,5)] r(2) [OF Inr] obtain s' where
      "apply_commits E s0 out = (Inr (), s')" "state_at E s' (length cs) cs" by blast
    with r(1) v m Inr assms(4) show ?thesis by (auto simp: catch_up_def)
  qed
qed

lemma catch_up_spec:
  assumes "log_good E objs linv (log st) cs" "state_at E (state st) n cs"
  shows "\<exists>r st'. catch_up E ops st = Some (r, st') \<and> log st' = log st \<and>
    (\<exists>m \<ge> n. state_at E (state st') m cs) \<and>
    (r = Inr () \<longrightarrow> state_at E (state st') (length cs) cs) \<and> (reliable ops \<longrightarrow> r = Inr ())"
proof (cases "start_state E ops (log st) (state st)")
  case (Inl e)
  then show ?thesis
    using start_state_spec(2) [OF assms] assms(2) by (auto simp: catch_up_def)
next
  case (Inr s0)
  then obtain m where m: "n \<le> m" "state_at E s0 m cs"
    using start_state_spec(1) [OF assms] by blast
  have l: "linv (log st)" "log_holds E (objs (log st)) cs" "replay_ok E cs"
    using assms(1) by (simp_all add: log_good_def)
  from catch_up_from [OF l Inr m(2)] obtain r st' k where
    "catch_up E ops st = Some (r, st')" "log st' = log st" "m \<le> k" "state_at E (state st') k cs"
    "r = Inr () \<longrightarrow> state_at E (state st') (length cs) cs" "reliable ops \<longrightarrow> r = Inr ()" by blast
  with m(1) show ?thesis
    by (intro exI [of _ r] exI [of _ st'] conjI exI [of _ k]) auto
qed

end

end
