(* ===== verification/Pagination.thy ===== *)
theory Pagination
  imports Prelude
begin

text \<open>
  The module \<^verbatim>\<open>uc_db::pagination\<close>: how many rows a list operation over-fetches, and how the
  over-fetched rows become a page and a token. \<open>max_results\<close> is an \<open>i64\<close>, and \<open>usize\<close> has
  64 bits, so the conversion of a non-negative \<open>i64\<close> never fails.
\<close>

definition limit_of :: "int \<Rightarrow> nat" where
  "limit_of max_results = nat (max max_results 0)"

definition page :: "'a list \<Rightarrow> int \<Rightarrow> ('a \<Rightarrow> string) \<Rightarrow> 'a list \<times> string option" where
  "page rows max_results key =
    (let limit = limit_of max_results in
     if limit = 0 then ([], None)
     else
       let has_more = length rows > limit;
           rows' = take limit rows;
           next = (if has_more then (if rows' = [] then None else Some (key (last rows'))) else None)
       in (rows', next))"

definition over_fetch :: "int \<Rightarrow> nat" where
  "over_fetch max_results = min u64_max (limit_of max_results + 1)"

lemma over_fetch_eq: "max_results \<le> i64_max \<Longrightarrow> over_fetch max_results = limit_of max_results + 1"
  by (simp add: over_fetch_def limit_of_def u64_max_def i64_max_def)

lemma page_over_fetched:
  assumes "0 < m" "m \<le> i64_max"
  shows "page (take (over_fetch m) rows) m key =
    (take (nat m) rows, if nat m < length rows then Some (key (rows ! (nat m - 1))) else None)"
proof -
  have "limit_of m = nat m" "over_fetch m = nat m + 1"
    using assms by (simp_all add: limit_of_def over_fetch_eq)
  with assms(1) show ?thesis
    by (auto simp: page_def Let_def min_def last_conv_nth)
qed

end
