(* ===== verification/Scans.thy ===== *)
theory Scans
  imports SnapInv Pagination
begin

text \<open>
  The ordered scans behind every list operation: what a scan returns is the rows of the kind, in the
  byte order of their natural keys, strictly after the token and cut at the limit; and a client that
  follows the tokens gets every row once.
\<close>

section \<open>Byte order and prefixes\<close>

lemma le_append: "(p :: string) \<le> p @ t"
proof (induction p)
  case Nil
  then show ?case by (cases t) simp_all
qed simp

lemma between_prefix:
  "(p :: string) \<le> x \<Longrightarrow> x \<le> p @ t \<Longrightarrow> starts_with x p"
proof (induction p arbitrary: x)
  case (Cons c p)
  then show ?case
    by (cases x) (auto simp: starts_with_def)
qed simp

lemma append_le_iff_prefix [simp]: "(p @ s :: string) \<le> p @ t \<longleftrightarrow> s \<le> t"
  by (induction p) auto

section \<open>The rows of a kind in key order\<close>

definition keyed_rows :: "snapshot \<Rightarrow> entity_kind \<Rightarrow> (string \<times> row) list" where
  "keyed_rows s kind =
     List.map_filter (\<lambda>((k, nk), i). if k = kind then map_option (Pair nk) (snap_get s k i) else None)
       (by_natural_key s)"

lemma map_filter_filter:
  "List.map_filter f (filter P xs) = List.map_filter (\<lambda>x. if P x then f x else None) xs"
  by (induction xs) (auto simp: List.map_filter_simps split: option.splits)

lemma map_filter_map_snd:
  "List.map_filter (\<lambda>x. map_option snd (g x)) xs = map snd (List.map_filter g xs)"
  by (induction xs) (auto simp: List.map_filter_simps split: option.splits)

lemma filter_map_filter:
  "filter P (List.map_filter g xs) = List.map_filter (\<lambda>x. case g x of None \<Rightarrow> None | Some y \<Rightarrow> if P y then Some y else None) xs"
  by (induction xs) (auto simp: List.map_filter_simps split: option.splits)

lemma map_filter_cong:
  "(\<And>x. x \<in> set xs \<Longrightarrow> f x = g x) \<Longrightarrow> List.map_filter f xs = List.map_filter g xs"
  by (induction xs) (auto simp: List.map_filter_simps split: option.splits)

lemma sorted_map_filter:
  assumes "sorted_wrt R xs"
    and "\<And>x y a b. R x y \<Longrightarrow> g x = Some a \<Longrightarrow> g y = Some b \<Longrightarrow> S a b"
  shows "sorted_wrt S (List.map_filter g xs)"
  using assms(1)
proof (induction xs)
  case (Cons x xs)
  then show ?case
    using assms(2) by (cases "g x") (auto simp: List.map_filter_simps List.map_filter_def)
qed (simp add: List.map_filter_simps)

lemma keyed_rows_sorted:
  assumes "maps_ok s"
  shows "sorted_wrt (\<lambda>a b. fst a < fst b) (keyed_rows s kind)"
proof -
  have "sorted_wrt (\<lambda>a b. fst a < fst b) (by_natural_key s)"
    using assms by (simp add: maps_ok_def om_ok_def sorted_wrt_map)
  then show ?thesis
    unfolding keyed_rows_def
    by (rule sorted_map_filter) (auto split: if_splits prod.splits simp: less_prod_def)
qed

lemma set_keyed_rows:
  assumes "snap_ok E s"
  shows "(nk, r) \<in> set (keyed_rows s kind) \<longleftrightarrow>
    (\<exists>i. snap_get s kind i = Some r \<and> natural_key_for E r = Some nk)"
proof -
  have ok: "om_ok (by_natural_key s)"
    using assms by (simp add: snap_ok_def maps_ok_def)
  have "(nk, r) \<in> set (keyed_rows s kind) \<longleftrightarrow>
      (\<exists>i. ((kind, nk), i) \<in> set (by_natural_key s) \<and> snap_get s kind i = Some r)"
    by (force simp: keyed_rows_def List.map_filter_def split: if_splits)
  also have "\<dots> \<longleftrightarrow> (\<exists>i. id_by_natural_key s kind nk = Some i \<and> snap_get s kind i = Some r)"
    using map_of_iff_set [OF ok] by (simp add: id_by_natural_key_def)
  also have "\<dots> \<longleftrightarrow> (\<exists>i. snap_get s kind i = Some r \<and> natural_key_for E r = Some nk)"
    using id_by_natural_key_iff [OF assms, of kind nk] by (metis option.inject)
  finally show ?thesis .
qed

lemma distinct_keyed_rows: "maps_ok s \<Longrightarrow> distinct (map fst (keyed_rows s kind))"
  using keyed_rows_sorted [of s kind]
  by (simp add: strict_sorted_iff sorted_wrt_map [symmetric])

lemma length_map_filter: "length (List.map_filter f xs) \<le> length xs"
  by (induction xs) (auto simp: List.map_filter_simps split: option.splits)

lemma length_keyed_rows: "length (keyed_rows s kind) \<le> length (by_natural_key s)"
  by (simp add: keyed_rows_def length_map_filter)

section \<open>The scans\<close>

definition later_than :: "string option \<Rightarrow> string \<Rightarrow> bool" where
  "later_than after nk \<longleftrightarrow> (case after of None \<Rightarrow> True | Some a \<Rightarrow> a < nk)"

lemma later_than_None: "later_than None nk"
  by (simp add: later_than_def)

lemma later_than_Some: "later_than (Some a) nk \<longleftrightarrow> a < nk"
  by (simp add: later_than_def)

lemma later_than_trans: "later_than after a \<Longrightarrow> a < b \<Longrightarrow> later_than after b"
  by (auto simp: later_than_def split: option.splits)

lemma scan_eq:
  assumes "snap_ok E s"
  shows "scan s kind after limit =
    take limit (map snd (filter (\<lambda>(nk, _). later_than after nk) (keyed_rows s kind)))"
proof -
  let ?m = "by_natural_key s"
  let ?lo = "case after of None \<Rightarrow> [] | Some a \<Rightarrow> a"
  have ok: "om_ok ?m" using assms by (simp add: snap_ok_def maps_ok_def)
  then have sorted: "sorted_wrt (\<lambda>a b. fst a < fst b) ?m"
    by (simp add: om_ok_def sorted_wrt_map)
  have from': "om_from (kind, ?lo) ?m = filter (\<lambda>(k, _). (kind, ?lo) \<le> k) ?m"
    by (rule om_from_eq_filter [OF ok])
  have tw: "takeWhile (\<lambda>((k, _), _). k = kind) (om_from (kind, ?lo) ?m) =
      filter (\<lambda>((k, _), _). k = kind) (om_from (kind, ?lo) ?m)"
    unfolding from'
    by (rule sorted_takeWhile_eq_filter [OF sorted_wrt_filter [OF sorted]])
       (auto simp: less_eq_prod_def less_prod_def split: prod.splits)
  then have "scan s kind after limit =
      take limit (List.map_filter (\<lambda>((k, nk), i). if k = kind \<and> later_than after nk then snap_get s kind i else None) ?m)"
    unfolding scan_def Let_def tw unfolding from' map_filter_filter
    by (intro arg_cong [of _ _ "take limit"] map_filter_cong)
       (auto simp: later_than_def less_eq_prod_def split: option.splits)
  also have "List.map_filter (\<lambda>((k, nk), i). if k = kind \<and> later_than after nk then snap_get s kind i else None) ?m =
      map snd (filter (\<lambda>(nk, _). later_than after nk) (keyed_rows s kind))"
    unfolding keyed_rows_def filter_map_filter map_filter_map_snd [symmetric]
    by (rule map_filter_cong) (auto split: option.splits if_splits)
  finally show ?thesis .
qed

lemma scan_prefix_eq:
  assumes "snap_ok E s"
  shows "scan_prefix s kind p after limit =
    take limit (map snd (filter (\<lambda>(nk, _). starts_with nk p \<and> later_than after (drop (length p) nk))
      (keyed_rows s kind)))"
proof -
  let ?m = "by_natural_key s"
  let ?lo = "p @ (case after of None \<Rightarrow> [] | Some a \<Rightarrow> a)"
  let ?P = "\<lambda>nk. starts_with nk p \<and> later_than after (drop (length p) nk)"
  have ok: "om_ok ?m" using assms by (simp add: snap_ok_def maps_ok_def)
  then have sorted: "sorted_wrt (\<lambda>a b. fst a < fst b) ?m"
    by (simp add: om_ok_def sorted_wrt_map)
  have from': "om_from (kind, ?lo) ?m = filter (\<lambda>(k, _). (kind, ?lo) \<le> k) ?m"
    by (rule om_from_eq_filter [OF ok])
  have within: "starts_with x p" if lo: "?lo \<le> x" and lt: "x < y" and y: "starts_with y p" for x y
  proof -
    obtain t where "y = p @ t" using y by (auto simp: starts_with_iff)
    moreover have "p \<le> x" using le_append lo by (rule order_trans)
    ultimately show ?thesis using lt between_prefix [of p x t] by simp
  qed
  have tw: "takeWhile (\<lambda>((k, nk), _). k = kind \<and> starts_with nk p) (om_from (kind, ?lo) ?m) =
      filter (\<lambda>((k, nk), _). k = kind \<and> starts_with nk p) (om_from (kind, ?lo) ?m)"
    unfolding from'
    by (rule sorted_takeWhile_eq_filter [OF sorted_wrt_filter [OF sorted]])
       (auto simp: less_eq_prod_def less_prod_def split: prod.splits intro: within)
  then have "scan_prefix s kind p after limit =
      take limit (List.map_filter (\<lambda>((k, nk), i). if k = kind \<and> ?P nk then snap_get s kind i else None) ?m)"
    unfolding scan_prefix_def Let_def tw unfolding from' map_filter_filter
    by (intro arg_cong [of _ _ "take limit"] map_filter_cong)
       (auto simp: later_than_def less_eq_prod_def starts_with_iff le_append split: option.splits if_splits)
  also have "List.map_filter (\<lambda>((k, nk), i). if k = kind \<and> ?P nk then snap_get s kind i else None) ?m =
      map snd (filter (\<lambda>(nk, _). ?P nk) (keyed_rows s kind))"
    unfolding keyed_rows_def filter_map_filter map_filter_map_snd [symmetric]
    by (rule map_filter_cong) (auto split: option.splits if_splits)
  finally show ?thesis .
qed

lemma in_map_snd_filter:
  "i \<in> set (map snd (filter Q (filter P m))) \<longleftrightarrow> (\<exists>k. (k, i) \<in> set m \<and> P (k, i) \<and> Q (k, i))"
  by force

lemma ids_under_prefix_iff:
  assumes "snap_ok E s"
  shows "i \<in> set (ids_under_prefix s kind p) \<longleftrightarrow>
    (\<exists>r nk. snap_get s kind i = Some r \<and> natural_key_for E r = Some nk \<and> starts_with nk p)"
proof -
  let ?m = "by_natural_key s"
  have ok: "om_ok ?m" using assms by (simp add: snap_ok_def maps_ok_def)
  then have sorted: "sorted_wrt (\<lambda>a b. fst a < fst b) ?m"
    by (simp add: om_ok_def sorted_wrt_map)
  have from': "om_from (kind, p) ?m = filter (\<lambda>(k, _). (kind, p) \<le> k) ?m"
    by (rule om_from_eq_filter [OF ok])
  have within: "starts_with x p" if lo: "p \<le> x" and lt: "x < y" and y: "starts_with y p" for x y
  proof -
    obtain t where "y = p @ t" using y by (auto simp: starts_with_iff)
    with lo lt show ?thesis using between_prefix [of p x t] by simp
  qed
  have tw: "takeWhile (\<lambda>((k, nk), _). k = kind \<and> starts_with nk p) (om_from (kind, p) ?m) =
      filter (\<lambda>((k, nk), _). k = kind \<and> starts_with nk p) (om_from (kind, p) ?m)"
    unfolding from'
    by (rule sorted_takeWhile_eq_filter [OF sorted_wrt_filter [OF sorted]])
       (auto simp: less_eq_prod_def less_prod_def split: prod.splits intro: within)
  have le: "p \<le> nk" if "starts_with nk p" for nk
    using that le_append by (auto simp: starts_with_iff)
  have "i \<in> set (ids_under_prefix s kind p) \<longleftrightarrow>
      (\<exists>nk. ((kind, nk), i) \<in> set ?m \<and> starts_with nk p)"
    unfolding ids_under_prefix_def tw unfolding from' in_map_snd_filter
    by (auto simp: less_eq_prod_def le)
  also have "\<dots> \<longleftrightarrow> (\<exists>nk. id_by_natural_key s kind nk = Some i \<and> starts_with nk p)"
    using map_of_iff_set [OF ok] by (simp add: id_by_natural_key_def)
  finally show ?thesis
    using id_by_natural_key_iff [OF assms] by auto
qed

text \<open>The rows of a group, fetched one by one from the ids under the prefix.\<close>

lemma rows_under_prefix_eq:
  assumes "snap_ok E s"
  shows "List.map_filter (snap_get s kind) (ids_under_prefix s kind p) =
    map snd (filter (\<lambda>(nk, _). starts_with nk p) (keyed_rows s kind))"
proof -
  let ?ids = "om_from (kind, p) (by_natural_key s)"
  have "List.map_filter (snap_get s kind) (ids_under_prefix s kind p) =
      scan_prefix s kind p None (length (by_natural_key s))"
  proof -
    have none: "filter (\<lambda>_. True) xs = xs" for xs :: "((entity_kind \<times> string) \<times> uuid) list" by simp
    have mf: "List.map_filter f (map g xs) = List.map_filter (\<lambda>x. f (g x)) xs" for f g and xs :: "((entity_kind \<times> string) \<times> uuid) list"
      by (induction xs) (auto simp: List.map_filter_simps split: option.splits)
    have short: "length (takeWhile P ?ids) \<le> length (by_natural_key s)" for P
      by (metis dual_order.trans length_dropWhile_le length_takeWhile_le om_from_def)
    show ?thesis
      unfolding ids_under_prefix_def scan_prefix_def Let_def mf
      by (simp add: case_prod_unfold take_all [OF order_trans [OF length_map_filter short]])
  qed
  also have "\<dots> = take (length (by_natural_key s))
      (map snd (filter (\<lambda>(nk, _). starts_with nk p) (keyed_rows s kind)))"
    by (simp add: scan_prefix_eq [OF assms] later_than_def)
  also have "\<dots> = map snd (filter (\<lambda>(nk, _). starts_with nk p) (keyed_rows s kind))"
    by (rule take_all, unfold length_map)
       (rule order_trans [OF length_filter_le length_keyed_rows])
  finally show ?thesis .
qed

section \<open>Integers in a key\<close>

lemma pad_i64_less_iff:
  assumes "i64_min \<le> a" "a \<le> i64_max" "i64_min \<le> b" "b \<le> i64_max"
  shows "pad_i64 a < pad_i64 b \<longleftrightarrow> a < b"
proof -
  have bound: "nat z < 10 ^ 19" if "z \<le> i64_max" for z
    using that by (simp add: i64_max_def)
  have less: "pad0 19 (nat x) < pad0 19 (nat y) \<longleftrightarrow> x < y" if "0 \<le> x" "0 \<le> y" "x \<le> i64_max" "y \<le> i64_max" for x y
    using that pad0_less_iff [of "nat x" 19 "nat y"] bound [of x] bound [of y]
    by (simp add: zless_nat_eq_int_zless)
  have neg: "0 \<le> i64_max + z + 1" "i64_max + z + 1 \<le> i64_max" if "i64_min \<le> z" "z < 0" for z
    using that by (simp_all add: i64_min_def i64_max_def)
  show ?thesis
    using assms less [of a b] less [of "i64_max + a + 1" "i64_max + b + 1"] neg [of a] neg [of b]
    by (cases "a < 0"; cases "b < 0") (auto simp: pad_i64_def pad0_int_def)
qed

section \<open>Following the tokens\<close>

text \<open>A client that asks for pages until no token comes back, for at most \<open>fuel\<close> pages.\<close>

fun follow :: "(string option \<Rightarrow> 'a list \<times> string option) \<Rightarrow> nat \<Rightarrow> string option \<Rightarrow> 'a list \<times> bool" where
  "follow fetch 0 token = ([], False)"
| "follow fetch (Suc fuel) token =
     (let (rows, next) = fetch token in
      case next of
        None \<Rightarrow> (rows, True)
      | Some t \<Rightarrow> (let (rest, done) = follow fetch fuel (Some t) in (rows @ rest, done)))"

text \<open>
  A listing a client can walk: every request succeeds, and following the tokens ends with every
  present row exactly once, in name order.
\<close>

definition walk_ok ::
  "(string option \<Rightarrow> ('a list \<times> string option) res) \<Rightarrow> nat \<Rightarrow> ('a \<Rightarrow> string) \<Rightarrow> ('a \<Rightarrow> bool) \<Rightarrow> bool" where
  "walk_ok fetch fuel name present \<longleftrightarrow>
     (\<forall>t. \<exists>pg. fetch t = Inr pg) \<and>
     (\<exists>rows. follow (\<lambda>t. projr (fetch t)) fuel None = (rows, True) \<and>
        sorted_wrt (\<lambda>a b. name a < name b) rows \<and> (\<forall>r. r \<in> set rows \<longleftrightarrow> present r))"

lemma follow_pages:
  assumes "sorted_wrt (\<lambda>a b. key a < key b) all" "0 < m" "m \<le> i64_max"
    and "\<And>t. fetch t = page (take (over_fetch m) (filter (\<lambda>x. later_than t (key x)) all)) m key"
    and "length (filter (\<lambda>x. later_than token (key x)) all) < fuel"
  shows "follow fetch fuel token = (filter (\<lambda>x. later_than token (key x)) all, True)"
  using assms(5)
proof (induction fuel arbitrary: token)
  case (Suc fuel)
  let ?rows = "filter (\<lambda>x. later_than token (key x)) all"
  have page: "fetch token = (take (nat m) ?rows,
      if nat m < length ?rows then Some (key (?rows ! (nat m - 1))) else None)"
    unfolding assms(4) by (rule page_over_fetched [OF assms(2,3)])
  show ?case
  proof (cases "nat m < length ?rows")
    case False
    with page show ?thesis by simp
  next
    case True
    let ?t = "key (?rows ! (nat m - 1))"
    have m: "0 < nat m" using assms(2) by simp
    have sorted: "sorted_wrt (\<lambda>a b. key a < key b) ?rows"
      by (rule sorted_wrt_filter [OF assms(1)])
    have "filter (\<lambda>x. ?t < key x) ?rows = drop (nat m) ?rows"
    proof -
      have split: "?rows = take (nat m) ?rows @ drop (nat m) ?rows" by simp
      have "\<not> ?t < key x" if x: "x \<in> set (take (nat m) ?rows)" for x
      proof -
        obtain j where "j < nat m" "x = ?rows ! j" using x True by (auto simp: in_set_conv_nth)
        moreover have "j = nat m - 1" if "\<not> j < nat m - 1"
          using \<open>j < nat m\<close> that m by linarith
        moreover have "key (?rows ! j) < ?t" if "j < nat m - 1"
          using sorted True that m unfolding sorted_wrt_iff_nth_less by auto
        ultimately show ?thesis by (cases "j < nat m - 1") auto
      qed
      moreover have "?t < key x" if x: "x \<in> set (drop (nat m) ?rows)" for x
      proof -
        obtain j where j: "nat m + j < length ?rows" "x = ?rows ! (nat m + j)"
          using x True unfolding in_set_conv_nth by (metis add.commute less_diff_conv length_drop nth_drop less_imp_le)
        with m have "nat m - 1 < nat m + j" by simp
        with sorted j show ?thesis unfolding sorted_wrt_iff_nth_less by blast
      qed
      ultimately have "filter (\<lambda>x. ?t < key x) (take (nat m) ?rows) = []"
        "filter (\<lambda>x. ?t < key x) (drop (nat m) ?rows) = drop (nat m) ?rows"
        unfolding filter_empty_conv filter_id_conv by blast+
      then show ?thesis
        using filter_append [of "\<lambda>x. ?t < key x" "take (nat m) ?rows" "drop (nat m) ?rows"]
        by (simp only: append_take_drop_id append_Nil)
    qed
    moreover have "filter (\<lambda>x. later_than (Some ?t) (key x)) all = filter (\<lambda>x. ?t < key x) ?rows"
    proof -
      have "later_than token ?t"
        using nth_mem [of "nat m - 1" ?rows] True by (simp del: nth_mem)
      then have "later_than token (key x)" if "?t < key x" for x
        using that by (rule later_than_trans)
      then show ?thesis
        unfolding filter_filter later_than_Some by (intro filter_cong refl) blast
    qed
    ultimately have rest: "filter (\<lambda>x. later_than (Some ?t) (key x)) all = drop (nat m) ?rows" by simp
    then have "follow fetch fuel (Some ?t) = (drop (nat m) ?rows, True)"
      using Suc.IH [of "Some ?t"] Suc.prems True m by simp
    with page True show ?thesis by (simp del: follow.simps(1))
  qed
qed simp

end
