(* ===== verification/RepoBase.thy ===== *)
theory RepoBase
  imports Replay Scans
begin

text \<open>
  What the repository modules share: the typed view of a row (\<open>typed_row!\<close>), the fallible steps of
  a build, the admissibility of a build, and the interface of an entity kind with a natural key,
  from which every module takes the facts about its lookups, writes and listings.
\<close>

section \<open>Typed rows and small steps\<close>

definition wrong_row :: "string \<Rightarrow> row \<Rightarrow> uc_error" where
  "wrong_row what v = uc_err Internal (''expected '' @ what @ '' row, found '' @ kind_debug (row_kind v))"

text \<open>\<open>if let Some(x) = new { row.field = Some(x) }\<close>, and the same for a field that is no option.\<close>

definition coalesce :: "'a option \<Rightarrow> 'a option \<Rightarrow> 'a option" where
  "coalesce new old = (case new of None \<Rightarrow> old | Some x \<Rightarrow> Some x)"

definition override :: "'a option \<Rightarrow> 'a \<Rightarrow> 'a" where
  "override new old = (case new of None \<Rightarrow> old | Some x \<Rightarrow> x)"

lemma coalesce_simps [simp]: "coalesce None old = old" "coalesce (Some x) old = Some x"
  by (simp_all add: coalesce_def)

lemma override_simps [simp]: "override None old = old" "override (Some x) old = x"
  by (simp_all add: override_def)

text \<open>The key of a child: parent id, NUL, name.\<close>

definition child_key :: "('j, 'z) row_codecs_scheme \<Rightarrow> uuid \<Rightarrow> string \<Rightarrow> string" where
  "child_key E parent name = uuid_text E parent @ NUL # name"

definition child_prefix :: "('j, 'z) row_codecs_scheme \<Rightarrow> uuid \<Rightarrow> string" where
  "child_prefix E parent = uuid_text E parent @ [NUL]"

text \<open>The one action of a write of one row, and what the build returns with it.\<close>

definition write_row ::
  "('j, 'z) row_codecs_scheme \<Rightarrow> uuid \<Rightarrow> row \<Rightarrow> 'a \<Rightarrow> ('j action list \<times> 'a) res" where
  "write_row E i r out = rbind (to_body E r) (\<lambda>body. Inr ([Upsert (row_kind r) i body], out))"

section \<open>Admissible builds\<close>

definition body_ok :: "('j, 'z) row_codecs_scheme \<Rightarrow> 'j action \<Rightarrow> bool" where
  "body_ok E a \<longleftrightarrow>
     (case a of Remove _ _ \<Rightarrow> True
      | Upsert k i b \<Rightarrow> \<exists>r. to_body E r = Inr b \<and> from_body E k b = Inr r)"

text \<open>
  In every consistent state the build makes actions that keep it consistent, each with a body that
  reads back.
\<close>

definition admissible ::
  "('j, 'z) row_codecs_scheme \<Rightarrow> (snapshot \<Rightarrow> ('j action list \<times> 'a) res) \<Rightarrow> bool" where
  "admissible E build \<longleftrightarrow> (\<forall>s acts out. snap_ok E s \<longrightarrow> build s = Inr (acts, out) \<longrightarrow>
     acts_ok E s acts \<and> (\<forall>a \<in> set acts. body_ok E a))"

named_theorems admissible_intros \<open>builds that keep the state consistent\<close>

lemma admissibleI:
  "(\<And>s acts out. snap_ok E s \<Longrightarrow> build s = Inr (acts, out) \<Longrightarrow>
     acts_ok E s acts \<and> (\<forall>a \<in> set acts. body_ok E a)) \<Longrightarrow> admissible E build"
  by (auto simp: admissible_def)

lemma admissibleD:
  assumes "admissible E build" "snap_ok E s" "build s = Inr (acts, out)"
  shows "acts_ok E s acts" "\<forall>a \<in> set acts. body_ok E a" "snap_ok E (snd (apply_all E s acts))"
  using assms acts_ok_inv [OF assms(2)] by (auto simp: admissible_def)

lemma write_row_Inr:
  assumes "codecs_ok E" "write_row E i r out = Inr (acts, out')"
  shows "\<exists>b. acts = [Upsert (row_kind r) i b] \<and> out' = out \<and> to_body E r = Inr b \<and>
    from_body E (row_kind r) b = Inr r"
  using assms to_body_from_body [OF assms(1), of r] by (auto simp: write_row_def)

lemma write_row_total: "codecs_ok E \<Longrightarrow> \<exists>acts. write_row E i r out = Inr (acts, out)"
  using to_body_from_body [of E r] by (auto simp: write_row_def)

lemma write_row_ok:
  assumes "codecs_ok E" "write_row E i r out = Inr (acts, out')" "upsert_ok E s (row_kind r) i r"
  shows "acts_ok E s acts \<and> (\<forall>a \<in> set acts. body_ok E a)"
  using write_row_Inr [OF assms(1,2)] assms(3) by (auto simp: body_ok_def)

lemma write_row_effect:
  assumes "codecs_ok E" "write_row E i r out = Inr (acts, out')"
  shows "snd (apply_all E s acts) = upsert_row E s (row_kind r) i r" "out' = out" "acts \<noteq> []"
  using write_row_Inr [OF assms] by auto

lemma removes_ok:
  "acts_ok E s (map (Remove k) is) \<and> (\<forall>a \<in> set (map (Remove k) is). body_ok E a)"
  by (auto simp: body_ok_def)

text \<open>Removals alone are always admissible.\<close>

lemma acts_ok_all_removes:
  "(\<And>a. a \<in> set acts \<Longrightarrow> \<exists>k i. a = Remove k i) \<Longrightarrow> acts_ok E s acts \<and> (\<forall>a \<in> set acts. body_ok E a)"
proof (induction acts arbitrary: s)
  case (Cons a acts)
  obtain k i where "a = Remove k i" using Cons.prems [of a] by auto
  moreover have "acts_ok E t acts \<and> (\<forall>a \<in> set acts. body_ok E a)" for t
    by (rule Cons.IH) (use Cons.prems in auto)
  ultimately show ?case by (simp add: body_ok_def)
qed simp

text \<open>Rows without a natural key: any write of a row under its own id is admissible.\<close>

lemma keyless_write_ok:
  assumes "codecs_ok E" "write_row E i r out' = Inr (acts, out)"
    and "natural_key_for E r = None" "row_id r = Some i"
  shows "acts_ok E s acts \<and> (\<forall>a \<in> set acts. body_ok E a)"
  using write_row_ok [OF assms(1,2)] assms(3,4) by (simp add: upsert_ok_def)

section \<open>Writes of several rows\<close>

text \<open>The loop that pushes one upsert per row; the first row that does not encode ends it.\<close>

definition write_rows ::
  "('j, 'z) row_codecs_scheme \<Rightarrow> (uuid \<times> row) list \<Rightarrow> 'j action list res" where
  "write_rows E rows =
     collect_res (\<lambda>(i, r). rbind (to_body E r) (\<lambda>body. Inr (Upsert (row_kind r) i body))) rows"

definition upsert_rows ::
  "('j, 'z) row_codecs_scheme \<Rightarrow> (uuid \<times> row) list \<Rightarrow> snapshot \<Rightarrow> snapshot" where
  "upsert_rows E rows s = fold (\<lambda>(i, r) t. upsert_row E t (row_kind r) i r) rows s"

fun upserts_ok :: "('j, 'z) row_codecs_scheme \<Rightarrow> snapshot \<Rightarrow> (uuid \<times> row) list \<Rightarrow> bool" where
  "upserts_ok E s [] = True"
| "upserts_ok E s ((i, r) # rows) =
     (upsert_ok E s (row_kind r) i r \<and> upserts_ok E (upsert_row E s (row_kind r) i r) rows)"

lemma write_rows_ok:
  assumes "codecs_ok E" "write_rows E rows = Inr acts"
  shows "snd (apply_all E s acts) = upsert_rows E rows s" "acts_ok E s acts \<longleftrightarrow> upserts_ok E s rows"
    "\<forall>a \<in> set acts. body_ok E a" "length acts = length rows"
proof -
  have "snd (apply_all E s acts) = upsert_rows E rows s \<and> (acts_ok E s acts \<longleftrightarrow> upserts_ok E s rows) \<and>
      (\<forall>a \<in> set acts. body_ok E a) \<and> length acts = length rows"
    using assms(2)
  proof (induction rows arbitrary: s acts)
    case Nil
    then show ?case by (simp add: write_rows_def upsert_rows_def)
  next
    case (Cons x rows)
    obtain i r where x: "x = (i, r)" by (cases x)
    obtain b where b: "to_body E r = Inr b" "from_body E (row_kind r) b = Inr r"
      using to_body_from_body [OF assms(1)] by blast
    with Cons.prems x obtain rest where rest: "write_rows E rows = Inr rest"
      "acts = Upsert (row_kind r) i b # rest"
      by (auto simp: write_rows_def split: sum.splits)
    from Cons.IH [OF rest(1)] b rest(2) x show ?case
      by (auto simp: upsert_rows_def body_ok_def)
  qed
  then show "snd (apply_all E s acts) = upsert_rows E rows s" "acts_ok E s acts \<longleftrightarrow> upserts_ok E s rows"
    "\<forall>a \<in> set acts. body_ok E a" "length acts = length rows" by blast+
qed

lemma write_rows_total: "codecs_ok E \<Longrightarrow> \<exists>acts. write_rows E rows = Inr acts"
proof (induction rows)
  case (Cons x rows)
  obtain i r where x: "x = (i, r)" by (cases x)
  obtain b where "to_body E r = Inr b"
    using to_body_from_body [OF Cons.prems] by blast
  with Cons x show ?case by (auto simp: write_rows_def)
qed (simp add: write_rows_def)

lemma upserts_ok_keyless:
  "(\<And>i r. (i, r) \<in> set rows \<Longrightarrow> natural_key_for E r = None \<and> (row_id r = None \<or> row_id r = Some i)) \<Longrightarrow>
   upserts_ok E s rows"
proof (induction rows arbitrary: s)
  case (Cons x rows)
  obtain i r where x: "x = (i, r)" by (cases x)
  with Cons.prems [of i r] have "upsert_ok E s (row_kind r) i r" by (simp add: upsert_ok_def)
  moreover have "upserts_ok E t rows" for t
    by (rule Cons.IH) (use Cons.prems in auto)
  ultimately show ?case using x by simp
qed simp

text \<open>Rows of one kind with pairwise different keys that are all free.\<close>

lemma upserts_ok_distinct:
  assumes "distinct (map (\<lambda>(_, r). natural_key_for E r) rows)"
    and "\<And>i r. (i, r) \<in> set rows \<Longrightarrow> row_kind r = kind \<and> (row_id r = None \<or> row_id r = Some i) \<and>
      (\<exists>nk. natural_key_for E r = Some nk \<and> id_by_natural_key s kind nk = None)"
  shows "upserts_ok E s rows"
  using assms
proof (induction rows arbitrary: s)
  case (Cons x rows)
  obtain i r where x: "x = (i, r)" by (cases x)
  have r: "row_kind r = kind" "row_id r = None \<or> row_id r = Some i"
    and nk: "\<exists>nk. natural_key_for E r = Some nk \<and> id_by_natural_key s kind nk = None"
    using Cons.prems(2) [of i r] x by auto
  have "upsert_ok E s kind i r"
    using r nk by (auto simp: upsert_ok_def)
  moreover have "upserts_ok E (upsert_row E s kind i r) rows"
  proof (rule Cons.IH)
    show "distinct (map (\<lambda>(_, r). natural_key_for E r) rows)" using Cons.prems(1) by simp
    fix j q assume q: "(j, q) \<in> set rows"
    then have "natural_key_for E q \<noteq> natural_key_for E r"
      using Cons.prems(1) x by force
    moreover obtain nq where "row_kind q = kind" "row_id q = None \<or> row_id q = Some j"
      "natural_key_for E q = Some nq" "id_by_natural_key s kind nq = None"
      using Cons.prems(2) [of j q] q by auto
    ultimately show "row_kind q = kind \<and> (row_id q = None \<or> row_id q = Some j) \<and>
        (\<exists>nk. natural_key_for E q = Some nk \<and> id_by_natural_key (upsert_row E s kind i r) kind nk = None)"
      by (simp add: id_by_natural_key_upsert)
  qed
  ultimately show ?case using x r(1) by simp
qed simp

lemma acts_ok_removes_then:
  "acts_ok E s (map (Remove k) is @ acts) \<longleftrightarrow>
   acts_ok E (fold (\<lambda>i t. remove_row E t k i) is s) acts"
  by (simp add: acts_ok_append apply_all_removes)

section \<open>Kinds with a natural key\<close>

text \<open>
  The two shapes of an admissible write of one row: a row whose key is free, and a row that replaces
  itself under its own key or a free one. The parameters are those of the interface.
\<close>

definition single_write ::
  "('j, 'z) row_codecs_scheme \<Rightarrow> ('r \<Rightarrow> row) \<Rightarrow> entity_kind \<Rightarrow> ('r \<Rightarrow> string) \<Rightarrow> ('r \<Rightarrow> uuid) \<Rightarrow>
   snapshot \<Rightarrow> 'j action list \<Rightarrow> 'a \<Rightarrow> bool" where
  "single_write E con kind key rid s acts out \<longleftrightarrow> acts = [] \<or>
     (\<exists>row out'. write_row E (rid row) (con row) out' = Inr (acts, out) \<and>
        (get_by_natural_key s kind (key row) = None \<or>
         (\<exists>q. snap_get s kind (rid row) = Some (con q) \<and> key row = key q)))"

text \<open>The typed rows of a kind, in key order, and those of one parent.\<close>

definition typed_rows :: "(row \<Rightarrow> 'r res) \<Rightarrow> entity_kind \<Rightarrow> snapshot \<Rightarrow> 'r list" where
  "typed_rows sel kind s = map (\<lambda>(_, v). projr (sel v)) (keyed_rows s kind)"

definition children ::
  "(row \<Rightarrow> 'r res) \<Rightarrow> entity_kind \<Rightarrow> ('r \<Rightarrow> uuid) \<Rightarrow> snapshot \<Rightarrow> uuid \<Rightarrow> 'r list" where
  "children sel kind parent s p = filter (\<lambda>r. parent r = p) (typed_rows sel kind s)"

locale keyed_kind =
  fixes E :: "('j, 'z) row_codecs_scheme"
    and con :: "'r \<Rightarrow> row"
    and sel :: "row \<Rightarrow> 'r res"
    and kind :: entity_kind
    and key :: "'r \<Rightarrow> string"
    and rid :: "'r \<Rightarrow> uuid"
  assumes con_kind: "row_kind (con r) = kind"
    and con_id: "row_id (con r) = Some (rid r)"
    and con_key: "natural_key_for E (con r) = Some (key r)"
    and sel_con: "sel (con r) = Inr r"
    and con_surj: "row_kind v = kind \<Longrightarrow> \<exists>r. v = con r"
begin

lemma con_inj: "con r = con q \<longleftrightarrow> r = q"
  by (metis sel_con sum.inject(2))

lemma get_typed:
  assumes "snap_ok E s" "snap_get s kind i = Some v"
  shows "\<exists>r. v = con r \<and> rid r = i \<and> sel v = Inr r"
  using snap_ok_row [OF assms] con_surj [of v] con_id sel_con by force

lemma found_typed:
  assumes "snap_ok E s" "get_by_natural_key s kind nk = Some v"
  shows "\<exists>r. v = con r \<and> key r = nk \<and> sel v = Inr r \<and> snap_get s kind (rid r) = Some v"
proof -
  obtain i where i: "snap_get s kind i = Some v" "natural_key_for E v = Some nk"
    using get_by_natural_key_iff [OF assms(1)] assms(2) by blast
  with get_typed [OF assms(1) i(1)] con_key show ?thesis by force
qed

lemma found_iff:
  assumes "snap_ok E s"
  shows "get_by_natural_key s kind nk = Some (con r) \<longleftrightarrow> snap_get s kind (rid r) = Some (con r) \<and> key r = nk"
  using get_by_natural_key_iff [OF assms, of kind nk "con r"] get_typed [OF assms] con_key con_inj
  by force

lemma upsert_new:
  assumes "snap_ok E s" "get_by_natural_key s kind (key r) = None"
  shows "upsert_ok E s kind (rid r) (con r)"
  using assms get_by_natural_key_None [OF assms(1), of kind "key r"] con_kind con_id con_key
  by (simp add: upsert_ok_def)

lemma upsert_same:
  assumes "snap_ok E s" "snap_get s kind (rid r) = Some (con q)"
    and "key r = key q \<or> get_by_natural_key s kind (key r) = None"
  shows "upsert_ok E s kind (rid r) (con r)"
proof (cases "get_by_natural_key s kind (key r) = None")
  case True
  then show ?thesis by (rule upsert_new [OF assms(1)])
next
  case False
  with assms(3) have "id_by_natural_key s kind (key r) = Some (rid r)"
    using id_by_natural_key_iff [OF assms(1), of kind "key r" "rid r"] assms(2) con_key by simp
  then show ?thesis
    using con_kind con_id con_key by (simp add: upsert_ok_def)
qed

lemma after_upsert:
  assumes "snap_ok E s" "upsert_ok E s kind (rid r) (con r)"
  shows "get_by_natural_key (upsert_row E s kind (rid r) (con r)) kind (key r) = Some (con r)"
  using found_iff [OF snap_ok_upsert [OF assms]] by simp

lemma single_write_none: "single_write E con kind key rid s [] out"
  by (simp add: single_write_def)

lemma single_write_new:
  "write_row E (rid row) (con row) out' = Inr (acts, out) \<Longrightarrow>
   get_by_natural_key s kind (key row) = None \<Longrightarrow> single_write E con kind key rid s acts out"
  by (auto simp: single_write_def)

lemma single_write_same:
  "write_row E i (con row) out' = Inr (acts, out) \<Longrightarrow> snap_get s kind i = Some (con q) \<Longrightarrow> rid row = i \<Longrightarrow>
   key row = key q \<or> get_by_natural_key s kind (key row) = None \<Longrightarrow> single_write E con kind key rid s acts out"
  by (auto simp: single_write_def)

lemma write_admissibleI:
  assumes "codecs_ok E"
    and "\<And>s acts out. snap_ok E s \<Longrightarrow> build s = Inr (acts, out) \<Longrightarrow> single_write E con kind key rid s acts out"
  shows "admissible E build"
proof (rule admissibleI)
  fix s acts out
  assume ok: "snap_ok E s" and b: "build s = Inr (acts, out)"
  show "acts_ok E s acts \<and> (\<forall>a \<in> set acts. body_ok E a)"
  proof (cases "acts = []")
    case False
    with assms(2) [OF ok b] obtain row out' where w: "write_row E (rid row) (con row) out' = Inr (acts, out)"
      "get_by_natural_key s kind (key row) = None \<or>
       (\<exists>q. snap_get s kind (rid row) = Some (con q) \<and> key row = key q)"
      unfolding single_write_def by blast
    from w(2) have "upsert_ok E s kind (rid row) (con row)"
      using upsert_new [OF ok] upsert_same [OF ok] by blast
    with write_row_ok [OF assms(1) w(1)] show ?thesis by (simp add: con_kind)
  qed simp
qed

text \<open>A row that the write neither replaces nor stores keeps its name.\<close>

lemma after_upsert_other:
  assumes "snap_ok E s" "upsert_ok E s kind (rid r) (con r)" "rid q \<noteq> rid r"
  shows "get_by_natural_key (upsert_row E s kind (rid r) (con r)) kind nk = Some (con q) \<longleftrightarrow>
    get_by_natural_key s kind nk = Some (con q)"
  using found_iff [OF snap_ok_upsert [OF assms(1,2)], of nk q] found_iff [OF assms(1), of nk q] assms(3)
  by simp

lemma after_remove:
  assumes "snap_ok E s" "snap_get s kind (rid r) = Some (con r)"
  shows "get_by_natural_key (remove_row E s kind (rid r)) kind (key r) = None"
proof (rule ccontr)
  let ?t = "remove_row E s kind (rid r)"
  assume "\<not> ?thesis"
  then obtain v where v: "get_by_natural_key ?t kind (key r) = Some v" by blast
  from found_typed [OF snap_ok_remove [OF assms(1)] v] obtain q where
    q: "v = con q" "key q = key r" "snap_get ?t kind (rid q) = Some v" by blast
  then have "rid q \<noteq> rid r" "snap_get s kind (rid q) = Some (con q)"
    by (auto split: if_splits)
  with natural_key_unique [OF assms(1) _ assms(2), of "rid q"] q(2) con_key show False by force
qed

lemma keyed_row_typed:
  assumes "snap_ok E s" "(nk, v) \<in> set (keyed_rows s kind)"
  shows "\<exists>r. v = con r \<and> sel v = Inr r \<and> key r = nk"
  using assms set_keyed_rows [OF assms(1), of nk v kind] get_typed [OF assms(1), of _ v] con_key by force

lemma typed_rows_keyed:
  assumes "snap_ok E s"
  shows "keyed_rows s kind = map (\<lambda>r. (key r, con r)) (typed_rows sel kind s)"
  unfolding typed_rows_def map_map
  by (rule sym, rule map_idI) (use keyed_row_typed [OF assms] in force)

lemma collect_con: "collect_res sel (map con rs) = Inr rs"
  by (induction rs) (auto simp: sel_con)

text \<open>All rows of the kind, as the unordered iteration gives them.\<close>

lemma iter_typed:
  assumes "snap_ok E s"
  shows "\<exists>rs. collect_res sel (snap_iter s kind) = Inr rs \<and>
    (\<forall>r. r \<in> set rs \<longleftrightarrow> snap_get s kind (rid r) = Some (con r))"
proof -
  have om: "om_ok (kind_table s kind)"
    using assms by (auto simp: snap_ok_def maps_ok_def kind_table_def dest: map_of_SomeD split: option.splits)
  have get: "snap_get s kind i = Some v \<longleftrightarrow> (i, v) \<in> set (kind_table s kind)" for i v
    by (simp add: snap_get_table map_of_iff_set [OF om])
  have typed: "\<exists>r. v = con r \<and> sel v = Inr r" if "v \<in> set (snap_iter s kind)" for v
  proof -
    from that obtain i where "snap_get s kind i = Some v"
      by (auto simp: snap_iter_def get)
    from get_typed [OF assms this] show ?thesis by blast
  qed
  let ?rs = "map (\<lambda>v. projr (sel v)) (snap_iter s kind)"
  have con: "map con ?rs = snap_iter s kind"
    unfolding map_map by (rule map_idI) (use typed in force)
  have "collect_res sel (snap_iter s kind) = Inr ?rs"
    using collect_con [of ?rs] con by simp
  moreover have "r \<in> set ?rs \<longleftrightarrow> snap_get s kind (rid r) = Some (con r)" for r
  proof -
    have "r \<in> set ?rs \<longleftrightarrow> con r \<in> set (snap_iter s kind)"
      using con con_inj by (metis (no_types, lifting) image_iff list.set_map)
    also have "\<dots> \<longleftrightarrow> (\<exists>i. snap_get s kind i = Some (con r))"
      by (force simp: snap_iter_def get image_iff)
    also have "\<dots> \<longleftrightarrow> snap_get s kind (rid r) = Some (con r)"
      using get_typed [OF assms] con_inj by metis
    finally show ?thesis .
  qed
  ultimately show ?thesis by blast
qed

lemma set_typed_rows:
  assumes "snap_ok E s"
  shows "r \<in> set (typed_rows sel kind s) \<longleftrightarrow> snap_get s kind (rid r) = Some (con r)"
proof -
  have "r \<in> set (typed_rows sel kind s) \<longleftrightarrow> (key r, con r) \<in> set (keyed_rows s kind)"
    using typed_rows_keyed [OF assms] con_inj by auto
  then show ?thesis
    using set_keyed_rows [OF assms, of "key r" "con r" kind] get_typed [OF assms] con_key con_inj by force
qed

lemma typed_rows_sorted:
  assumes "snap_ok E s"
  shows "sorted_wrt (\<lambda>a b. key a < key b) (typed_rows sel kind s)"
  using keyed_rows_sorted [of s kind] typed_rows_keyed [OF assms] assms
  by (simp add: sorted_wrt_map snap_ok_def)

lemma length_typed_rows: "length (typed_rows sel kind s) \<le> length (by_natural_key s)"
  using length_keyed_rows [of s kind] by (simp add: typed_rows_def)

lemma collect_typed:
  assumes "snap_ok E s"
  shows "collect_res sel (map snd (filter P (keyed_rows s kind))) =
    Inr (filter (\<lambda>r. P (key r, con r)) (typed_rows sel kind s))"
  unfolding typed_rows_keyed [OF assms] filter_map map_map comp_def snd_conv
  by (rule collect_con)

text \<open>The rows of a group, in key order.\<close>

lemma group_typed:
  assumes "snap_ok E s"
  shows "collect_res sel (List.map_filter (snap_get s kind) (ids_under_prefix s kind p)) =
    Inr (filter (\<lambda>r. starts_with (key r) p) (typed_rows sel kind s))"
  using collect_typed [OF assms, of "\<lambda>(nk, _). starts_with nk p"]
  by (simp add: rows_under_prefix_eq [OF assms])

lemma collect_take: "collect_res f xs = Inr ys \<Longrightarrow> collect_res f (take n xs) = Inr (take n ys)"
  by (induction xs arbitrary: n ys) (auto split: sum.splits nat.splits simp: take_Cons)

lemma scan_typed:
  assumes "snap_ok E s"
  shows "collect_res sel (scan s kind after limit) =
    Inr (take limit (filter (\<lambda>r. later_than after (key r)) (typed_rows sel kind s)))"
  using collect_take [OF collect_typed [OF assms, of "\<lambda>(nk, _). later_than after nk"]]
  by (simp add: scan_eq [OF assms])

lemma scan_prefix_typed:
  assumes "snap_ok E s"
  shows "collect_res sel (scan_prefix s kind p after limit) =
    Inr (take limit (filter (\<lambda>r. starts_with (key r) p \<and> later_than after (drop (length p) (key r)))
      (typed_rows sel kind s)))"
  using collect_take [OF collect_typed [OF assms, of
      "\<lambda>(nk, _). starts_with nk p \<and> later_than after (drop (length p) nk)"]]
  by (simp add: scan_prefix_eq [OF assms])

text \<open>
  A listing of the whole kind returns one page of the rows after the token, and following the tokens
  gives every row once, in key order.
\<close>

lemma list_page:
  assumes "snap_ok E s"
  shows "rbind (collect_res sel (scan s kind token (over_fetch m))) (\<lambda>rows. Inr (page rows m key)) =
    (Inr (page (take (over_fetch m) (filter (\<lambda>r. later_than token (key r)) (typed_rows sel kind s))) m key) ::
      ('r list \<times> string option) res)"
  by (simp add: scan_typed [OF assms])

lemma list_follow:
  assumes "snap_ok E s" "0 < m" "m \<le> i64_max" "length (typed_rows sel kind s) < fuel"
    and "\<And>t. fetch t = rbind (collect_res sel (scan s kind t (over_fetch m))) (\<lambda>rows. Inr (page rows m key))"
  shows "follow (\<lambda>t. projr (fetch t)) fuel None = (typed_rows sel kind s, True)"
proof -
  have "follow (\<lambda>t. projr (fetch t)) fuel None =
      (filter (\<lambda>r. later_than None (key r)) (typed_rows sel kind s), True)"
    by (rule follow_pages [OF typed_rows_sorted [OF assms(1)] assms(2,3)])
       (use assms(4) in \<open>auto simp: assms(5) list_page [OF assms(1)] later_than_None\<close>)
  then show ?thesis by (simp add: later_than_None)
qed

lemma list_walk:
  assumes "snap_ok E s" "0 < m" "m \<le> i64_max" "length (by_natural_key s) < fuel"
    and "\<And>t. fetch t = rbind (collect_res sel (scan s kind t (over_fetch m))) (\<lambda>rows. Inr (page rows m key))"
  shows "walk_ok fetch fuel key (\<lambda>r. snap_get s kind (rid r) = Some (con r))"
proof -
  have "length (typed_rows sel kind s) < fuel"
    using length_typed_rows [of s] assms(4) by simp
  from list_follow [OF assms(1-3) this assms(5)] show ?thesis
    using typed_rows_sorted [OF assms(1)] set_typed_rows [OF assms(1)] assms(5)
    by (simp add: walk_ok_def list_page [OF assms(1)])
qed

end

section \<open>Kinds whose rows belong to a parent\<close>

lemma child_prefix_iff:
  assumes "uuid_text_ok (uuid_text E)"
  shows "starts_with (child_key E p n) (child_prefix E q) \<longleftrightarrow> p = q"
    and "drop (length (child_prefix E p)) (child_key E p n) = n"
proof -
  have len: "\<And>p. length (uuid_text E p) = 36" and inj: "inj (uuid_text E)"
    using assms by (auto simp: uuid_text_ok_def)
  show "starts_with (child_key E p n) (child_prefix E q) \<longleftrightarrow> p = q"
    using len [of p] len [of q] inj
    by (auto simp: starts_with_iff child_key_def child_prefix_def inj_eq append_eq_append_conv)
  show "drop (length (child_prefix E p)) (child_key E p n) = n"
    by (simp add: child_key_def child_prefix_def)
qed

lemma child_key_eq:
  assumes "uuid_text_ok (uuid_text E)"
  shows "child_key E p n = child_key E q m \<longleftrightarrow> p = q \<and> n = m"
  using child_prefix_iff [OF assms] by (metis append_eq_conv_conj child_key_def child_prefix_def starts_with_iff)

locale child_kind = keyed_kind E con sel kind key rid
  for E :: "('j, 'z) row_codecs_scheme" and con :: "'r \<Rightarrow> row" and sel kind key rid +
  fixes parent :: "'r \<Rightarrow> uuid"
    and name :: "'r \<Rightarrow> string"
  assumes key_child: "key r = child_key E (parent r) (name r)"
begin

lemma set_children:
  "snap_ok E s \<Longrightarrow> r \<in> set (children sel kind parent s p) \<longleftrightarrow> snap_get s kind (rid r) = Some (con r) \<and> parent r = p"
  by (auto simp: children_def set_typed_rows)

lemma children_sorted:
  assumes "snap_ok E s"
  shows "sorted_wrt (\<lambda>a b. name a < name b) (children sel kind parent s p)"
proof -
  have "sorted_wrt (\<lambda>a b. key a < key b) (children sel kind parent s p)"
    unfolding children_def by (rule sorted_wrt_filter [OF typed_rows_sorted [OF assms]])
  then show ?thesis
    by (rule sorted_wrt_mono_rel [rotated])
       (auto simp: children_def key_child child_key_def)
qed

lemma length_children: "length (children sel kind parent s p) \<le> length (by_natural_key s)"
  unfolding children_def using order_trans [OF length_filter_le length_typed_rows] .

text \<open>The group of one parent, in the order of the names.\<close>

lemma child_group:
  assumes "snap_ok E s" "uuid_text_ok (uuid_text E)"
  shows "collect_res sel (List.map_filter (snap_get s kind) (ids_under_prefix s kind (child_prefix E p))) =
    Inr (children sel kind parent s p)"
  unfolding group_typed [OF assms(1)] children_def
  by (simp add: key_child child_prefix_iff [OF assms(2)])

lemma child_page:
  assumes "snap_ok E s" "uuid_text_ok (uuid_text E)"
  shows "rbind (collect_res sel (scan_prefix s kind (child_prefix E p) token (over_fetch m)))
      (\<lambda>rows. Inr (page rows m name)) =
    (Inr (page (take (over_fetch m) (filter (\<lambda>r. later_than token (name r)) (children sel kind parent s p))) m name) ::
      ('r list \<times> string option) res)"
proof -
  have "filter (\<lambda>r. starts_with (key r) (child_prefix E p) \<and>
        later_than token (drop (length (child_prefix E p)) (key r))) (typed_rows sel kind s) =
      filter (\<lambda>r. later_than token (name r)) (children sel kind parent s p)"
    unfolding children_def filter_filter
    by (rule filter_cong) (auto simp: key_child child_prefix_iff [OF assms(2)])
  then show ?thesis
    by (simp add: scan_prefix_typed [OF assms(1)])
qed

lemma child_follow:
  assumes "snap_ok E s" "uuid_text_ok (uuid_text E)"
    and "0 < m" "m \<le> i64_max" "length (children sel kind parent s p) < fuel"
    and "\<And>t. fetch t = rbind (collect_res sel (scan_prefix s kind (child_prefix E p) t (over_fetch m)))
      (\<lambda>rows. Inr (page rows m name))"
  shows "follow (\<lambda>t. projr (fetch t)) fuel None = (children sel kind parent s p, True)"
proof -
  have "follow (\<lambda>t. projr (fetch t)) fuel None =
      (filter (\<lambda>r. later_than None (name r)) (children sel kind parent s p), True)"
    by (rule follow_pages [OF children_sorted [OF assms(1)] assms(3,4)])
       (use assms(5) in \<open>auto simp: assms(6) child_page [OF assms(1,2)] later_than_None\<close>)
  then show ?thesis by (simp add: later_than_None)
qed

lemma child_walk:
  assumes "snap_ok E s" "uuid_text_ok (uuid_text E)"
    and "0 < m" "m \<le> i64_max" "length (by_natural_key s) < fuel"
    and "\<And>t. fetch t = rbind (collect_res sel (scan_prefix s kind (child_prefix E p) t (over_fetch m)))
      (\<lambda>rows. Inr (page rows m name))"
  shows "walk_ok fetch fuel name (\<lambda>r. snap_get s kind (rid r) = Some (con r) \<and> parent r = p)"
proof -
  have "length (children sel kind parent s p) < fuel"
    using length_children [of s p] assms(5) by simp
  from child_follow [OF assms(1-4) this assms(6)] show ?thesis
    using children_sorted [OF assms(1)] set_children [OF assms(1)] assms(6)
    by (simp add: walk_ok_def child_page [OF assms(1,2)])
qed

text \<open>Names are unique among the children of one parent.\<close>

lemma child_unique:
  assumes "snap_ok E s"
    and "snap_get s kind (rid r) = Some (con r)" "snap_get s kind (rid q) = Some (con q)"
    and "parent r = parent q" "name r = name q"
  shows "r = q"
proof -
  have "rid r = rid q"
    using natural_key_unique [OF assms(1-3)] assms(4,5) con_key key_child by simp
  then have "con r = con q"
    using assms(2,3) by (metis option.inject)
  then show ?thesis by (simp only: con_inj)
qed

end

end
