(* ===== verification/RepoNamespaces.thy ===== *)
theory RepoNamespaces
  imports RepoBase
begin

text \<open>
  The modules \<^verbatim>\<open>repos::catalog\<close> and \<^verbatim>\<open>repos::schema\<close>. A write is a build, run by the commit loop
  on the snapshot of each attempt; a read looks at one snapshot. The checks of SQL's UNIQUE
  constraints are in the builds, which is why the lemmas are about builds.
\<close>

section \<open>Catalogs\<close>

definition catalog_of :: "row \<Rightarrow> catalog_row res" where
  "catalog_of v = (case v of RowCatalog r \<Rightarrow> Inr r | _ \<Rightarrow> Inl (wrong_row ''catalog'' v))"

definition catalog_not_found :: "string \<Rightarrow> uc_error" where
  "catalog_not_found name = uc_err CatalogNotFound (''Catalog '' @ quoted name @ '' not found'')"

definition catalog_exists :: "string \<Rightarrow> uc_error" where
  "catalog_exists name = uc_err CatalogAlreadyExists (''Catalog '' @ quoted name @ '' already exists'')"

definition catalog_create_build ::
  "('j, 'z) row_codecs_scheme \<Rightarrow> catalog_row \<Rightarrow> snapshot \<Rightarrow> ('j action list \<times> catalog_row) res" where
  "catalog_create_build E row s =
     (if get_by_natural_key s EkCatalog (cat_name row) \<noteq> None then Inl (catalog_exists (cat_name row))
      else write_row E (cat_id row) (RowCatalog row) row)"

definition catalog_create ::
  "('j, 'z) log_env_scheme \<Rightarrow> 'l log_ops \<Rightarrow> 'l world \<Rightarrow> uuid \<Rightarrow> string \<Rightarrow> string option \<Rightarrow>
   string option \<Rightarrow> string option \<Rightarrow> string option \<Rightarrow> int \<Rightarrow> 'l store \<Rightarrow>
   (catalog_row res \<times> 'l store) option" where
  "catalog_create E ops w i name comment owner created_by storage_root created_at st =
     (let row = \<lparr>cat_id = i, cat_name = name, cat_comment = comment, cat_owner = owner,
                 cat_created_at = created_at, cat_created_by = created_by, cat_updated_at = None,
                 cat_updated_by = None, cat_storage_root = storage_root, cat_storage_location = None\<rparr>
      in commit E ops w ''CREATE CATALOG'' (\<lambda>_. catalog_create_build E row) st)"

definition catalog_get_by_name :: "snapshot \<Rightarrow> string \<Rightarrow> catalog_row res" where
  "catalog_get_by_name s name =
     rbind (ok_or (catalog_not_found name) (get_by_natural_key s EkCatalog name)) catalog_of"

definition catalog_get_by_id :: "('j, 'z) row_codecs_scheme \<Rightarrow> snapshot \<Rightarrow> uuid \<Rightarrow> catalog_row res" where
  "catalog_get_by_id E s i =
     rbind (ok_or (catalog_not_found (uuid_text E i)) (snap_get s EkCatalog i)) catalog_of"

definition catalog_list :: "snapshot \<Rightarrow> string option \<Rightarrow> int \<Rightarrow> (catalog_row list \<times> string option) res" where
  "catalog_list s token max_results =
     rbind (collect_res catalog_of (scan s EkCatalog token (over_fetch max_results))) (\<lambda>rows.
     Inr (page rows max_results cat_name))"

definition catalog_update_build ::
  "('j, 'z) row_codecs_scheme \<Rightarrow> string \<Rightarrow> string option \<Rightarrow> string option \<Rightarrow> string option \<Rightarrow>
   string option \<Rightarrow> int \<Rightarrow> snapshot \<Rightarrow> ('j action list \<times> catalog_row) res" where
  "catalog_update_build E name new_name comment owner updated_by updated_at s =
     rbind (ok_or (catalog_not_found name) (get_by_natural_key s EkCatalog name)) (\<lambda>current.
     rbind (catalog_of current) (\<lambda>row.
     rbind (case new_name of
              None \<Rightarrow> Inr row
            | Some target \<Rightarrow>
                if target \<noteq> name \<and> get_by_natural_key s EkCatalog target \<noteq> None
                then Inl (catalog_exists target)
                else Inr (row\<lparr>cat_name := target\<rparr>)) (\<lambda>row.
     let row = row\<lparr>cat_comment := coalesce comment (cat_comment row),
                   cat_owner := coalesce owner (cat_owner row),
                   cat_updated_at := Some updated_at, cat_updated_by := updated_by\<rparr>
     in write_row E (cat_id row) (RowCatalog row) row)))"

definition catalog_update ::
  "('j, 'z) log_env_scheme \<Rightarrow> 'l log_ops \<Rightarrow> 'l world \<Rightarrow> string \<Rightarrow> string option \<Rightarrow> string option \<Rightarrow>
   string option \<Rightarrow> string option \<Rightarrow> int \<Rightarrow> 'l store \<Rightarrow> (catalog_row res \<times> 'l store) option" where
  "catalog_update E ops w name new_name comment owner updated_by updated_at st =
     commit E ops w ''UPDATE CATALOG''
       (\<lambda>_. catalog_update_build E name new_name comment owner updated_by updated_at) st"

definition catalog_delete_build :: "string \<Rightarrow> snapshot \<Rightarrow> ('j action list \<times> unit) res" where
  "catalog_delete_build name s =
     rbind (ok_or (catalog_not_found name) (get_by_natural_key s EkCatalog name)) (\<lambda>current.
     rbind (catalog_of current) (\<lambda>row. Inr ([Remove EkCatalog (cat_id row)], ())))"

definition catalog_delete ::
  "('j, 'z) log_env_scheme \<Rightarrow> 'l log_ops \<Rightarrow> 'l world \<Rightarrow> string \<Rightarrow> 'l store \<Rightarrow>
   (unit res \<times> 'l store) option" where
  "catalog_delete E ops w name st = commit E ops w ''DROP CATALOG'' (\<lambda>_. catalog_delete_build name) st"

interpretation catalog: keyed_kind E RowCatalog catalog_of EkCatalog cat_name cat_id
  for E :: "('j, 'z) row_codecs_scheme"
proof unfold_locales
  fix v :: row
  show "row_kind v = EkCatalog \<Longrightarrow> \<exists>r. v = RowCatalog r" by (cases v) auto
qed (auto simp: catalog_of_def)

lemma catalog_create_admissible [admissible_intros]:
  "codecs_ok E \<Longrightarrow> admissible E (catalog_create_build E row)"
  by (erule catalog.write_admissibleI) (auto simp: catalog_create_build_def split: if_splits intro: catalog.single_write_new)

lemma catalog_update_admissible [admissible_intros]:
  assumes "codecs_ok E"
  shows "admissible E (catalog_update_build E name new_name comment owner updated_by updated_at)"
proof (rule catalog.write_admissibleI [OF assms])
  fix s acts out
  assume ok: "snap_ok E s"
    and b: "catalog_update_build E name new_name comment owner updated_by updated_at s = Inr (acts, out)"
  from b obtain v where v: "get_by_natural_key s EkCatalog name = Some v"
    by (auto simp: catalog_update_build_def rbind_eq_Inr)
  with catalog.found_typed [OF ok] obtain q where
    q: "catalog_of v = Inr q" "cat_name q = name" "snap_get s EkCatalog (cat_id q) = Some (RowCatalog q)"
    by blast
  from b v q obtain row where row: "write_row E (cat_id q) (RowCatalog row) row = Inr (acts, out)"
    "cat_id row = cat_id q" "cat_name row = name \<or> get_by_natural_key s EkCatalog (cat_name row) = None"
    by (auto simp: catalog_update_build_def Let_def rbind_eq_Inr split: option.splits if_splits)
  show "single_write E RowCatalog EkCatalog cat_name cat_id s acts out"
    by (rule catalog.single_write_same [OF row(1) q(3) row(2)]) (use q(2) row(3) in auto)
qed

lemma catalog_delete_admissible [admissible_intros]: "admissible E (catalog_delete_build name)"
  by (intro admissibleI) (auto simp: catalog_delete_build_def rbind_eq_Inr body_ok_def)

text \<open>What each build does, error branches included.\<close>

lemma catalog_get_by_name_iff:
  assumes "snap_ok E s"
  shows "catalog_get_by_name s name = Inr r \<longleftrightarrow>
      snap_get s EkCatalog (cat_id r) = Some (RowCatalog r) \<and> cat_name r = name"
    and "catalog_get_by_name s name = Inl e \<longleftrightarrow>
      get_by_natural_key s EkCatalog name = None \<and> e = catalog_not_found name"
  using catalog.found_typed [OF assms, of name] catalog.found_iff [OF assms, of name r]
  by (cases "get_by_natural_key s EkCatalog name"; force simp: catalog_get_by_name_def)+

lemma catalog_create_effect:
  assumes "snap_ok E s" "codecs_ok E" "catalog_create_build E row s = Inr (acts, out)"
  shows "out = row" "get_by_natural_key s EkCatalog (cat_name row) = None"
    "catalog_get_by_name (snd (apply_all E s acts)) (cat_name row) = Inr row"
    "\<And>r. cat_id r \<noteq> cat_id row \<Longrightarrow>
       catalog_get_by_name (snd (apply_all E s acts)) n = Inr r \<longleftrightarrow> catalog_get_by_name s n = Inr r"
proof -
  have free: "get_by_natural_key s EkCatalog (cat_name row) = None"
    and wr: "write_row E (cat_id row) (RowCatalog row) row = Inr (acts, out)"
    using assms(3) by (auto simp: catalog_create_build_def split: if_splits intro: catalog.single_write_new)
  then show "get_by_natural_key s EkCatalog (cat_name row) = None" by simp
  note eff = write_row_effect [OF assms(2) wr]
  show "out = row" by (rule eff(2))
  have up: "upsert_ok E s EkCatalog (cat_id row) (RowCatalog row)"
    by (rule catalog.upsert_new [OF assms(1) free])
  note ok = snap_ok_upsert [OF assms(1) up]
  show "catalog_get_by_name (snd (apply_all E s acts)) (cat_name row) = Inr row"
    using eff(1) by (simp add: catalog_get_by_name_iff(1) [OF ok])
  show "catalog_get_by_name (snd (apply_all E s acts)) n = Inr r \<longleftrightarrow> catalog_get_by_name s n = Inr r"
    if "cat_id r \<noteq> cat_id row" for r
    using eff(1) that by (simp add: catalog_get_by_name_iff(1) [OF ok] catalog_get_by_name_iff(1) [OF assms(1)])
qed

section \<open>Schemas\<close>

definition schema_of :: "row \<Rightarrow> schema_row res" where
  "schema_of v = (case v of RowSchema r \<Rightarrow> Inr r | _ \<Rightarrow> Inl (wrong_row ''schema'' v))"

definition schema_not_found :: "string \<Rightarrow> uc_error" where
  "schema_not_found name = uc_err SchemaNotFound (''Schema '' @ quoted name @ '' not found'')"

definition schema_exists :: "string \<Rightarrow> uc_error" where
  "schema_exists name = uc_err SchemaAlreadyExists (''Schema '' @ quoted name @ '' already exists'')"

definition schema_create_build ::
  "('j, 'z) row_codecs_scheme \<Rightarrow> schema_row \<Rightarrow> snapshot \<Rightarrow> ('j action list \<times> schema_row) res" where
  "schema_create_build E row s =
     (if get_by_natural_key s EkSchema (child_key E (sch_catalog_id row) (sch_name row)) \<noteq> None
      then Inl (schema_exists (sch_name row))
      else write_row E (sch_id row) (RowSchema row) row)"

definition schema_create ::
  "('j, 'z) log_env_scheme \<Rightarrow> 'l log_ops \<Rightarrow> 'l world \<Rightarrow> uuid \<Rightarrow> uuid \<Rightarrow> string \<Rightarrow> string option \<Rightarrow>
   string option \<Rightarrow> string option \<Rightarrow> string option \<Rightarrow> int \<Rightarrow> 'l store \<Rightarrow>
   (schema_row res \<times> 'l store) option" where
  "schema_create E ops w i catalog_id name comment owner created_by storage_root created_at st =
     (let row = \<lparr>sch_id = i, sch_catalog_id = catalog_id, sch_name = name, sch_comment = comment,
                 sch_owner = owner, sch_created_at = created_at, sch_created_by = created_by,
                 sch_updated_at = None, sch_updated_by = None, sch_storage_root = storage_root,
                 sch_storage_location = None\<rparr>
      in commit E ops w ''CREATE SCHEMA'' (\<lambda>_. schema_create_build E row) st)"

definition schema_get_by_full_name ::
  "('j, 'z) row_codecs_scheme \<Rightarrow> snapshot \<Rightarrow> string \<Rightarrow> string \<Rightarrow> schema_row res" where
  "schema_get_by_full_name E s catalog_name schema_name =
     (let not_found = schema_not_found (catalog_name @ ''.'' @ schema_name) in
      rbind (ok_or not_found (get_by_natural_key s EkCatalog catalog_name)) (\<lambda>catalog.
      rbind (catalog_of catalog) (\<lambda>c.
      rbind (ok_or not_found (get_by_natural_key s EkSchema (child_key E (cat_id c) schema_name)))
        schema_of)))"

definition schema_get_by_id :: "('j, 'z) row_codecs_scheme \<Rightarrow> snapshot \<Rightarrow> uuid \<Rightarrow> schema_row res" where
  "schema_get_by_id E s i =
     rbind (ok_or (schema_not_found (uuid_text E i)) (snap_get s EkSchema i)) schema_of"

definition schema_list ::
  "('j, 'z) row_codecs_scheme \<Rightarrow> snapshot \<Rightarrow> uuid \<Rightarrow> string option \<Rightarrow> int \<Rightarrow>
   (schema_row list \<times> string option) res" where
  "schema_list E s catalog_id token max_results =
     rbind (collect_res schema_of
       (scan_prefix s EkSchema (child_prefix E catalog_id) token (over_fetch max_results))) (\<lambda>rows.
     Inr (page rows max_results sch_name))"

definition schema_update_build ::
  "('j, 'z) row_codecs_scheme \<Rightarrow> uuid \<Rightarrow> string option \<Rightarrow> string option \<Rightarrow> string option \<Rightarrow>
   string option \<Rightarrow> int \<Rightarrow> snapshot \<Rightarrow> ('j action list \<times> schema_row) res" where
  "schema_update_build E i new_name comment owner updated_by updated_at s =
     rbind (ok_or (schema_not_found (uuid_text E i)) (snap_get s EkSchema i)) (\<lambda>current.
     rbind (schema_of current) (\<lambda>row.
     rbind (case new_name of
              None \<Rightarrow> Inr row
            | Some target \<Rightarrow>
                if target \<noteq> sch_name row \<and>
                   get_by_natural_key s EkSchema (child_key E (sch_catalog_id row) target) \<noteq> None
                then Inl (schema_exists target)
                else Inr (row\<lparr>sch_name := target\<rparr>)) (\<lambda>row.
     let row = row\<lparr>sch_comment := coalesce comment (sch_comment row),
                   sch_owner := coalesce owner (sch_owner row),
                   sch_updated_at := Some updated_at, sch_updated_by := updated_by\<rparr>
     in write_row E i (RowSchema row) row)))"

definition schema_update ::
  "('j, 'z) log_env_scheme \<Rightarrow> 'l log_ops \<Rightarrow> 'l world \<Rightarrow> uuid \<Rightarrow> string option \<Rightarrow> string option \<Rightarrow>
   string option \<Rightarrow> string option \<Rightarrow> int \<Rightarrow> 'l store \<Rightarrow> (schema_row res \<times> 'l store) option" where
  "schema_update E ops w i new_name comment owner updated_by updated_at st =
     commit E ops w ''UPDATE SCHEMA''
       (\<lambda>_. schema_update_build E i new_name comment owner updated_by updated_at) st"

definition schema_delete_build ::
  "('j, 'z) row_codecs_scheme \<Rightarrow> uuid \<Rightarrow> snapshot \<Rightarrow> ('j action list \<times> unit) res" where
  "schema_delete_build E i s =
     (if snap_get s EkSchema i = None then Inl (schema_not_found (uuid_text E i))
      else Inr ([Remove EkSchema i], ()))"

definition schema_delete ::
  "('j, 'z) log_env_scheme \<Rightarrow> 'l log_ops \<Rightarrow> 'l world \<Rightarrow> uuid \<Rightarrow> 'l store \<Rightarrow>
   (unit res \<times> 'l store) option" where
  "schema_delete E ops w i st = commit E ops w ''DROP SCHEMA'' (\<lambda>_. schema_delete_build E i) st"

interpretation schema: child_kind E RowSchema schema_of EkSchema
    "\<lambda>r. child_key E (sch_catalog_id r) (sch_name r)" sch_id sch_catalog_id sch_name
  for E :: "('j, 'z) row_codecs_scheme"
proof unfold_locales
  fix v :: row
  show "row_kind v = EkSchema \<Longrightarrow> \<exists>r. v = RowSchema r" by (cases v) auto
qed (auto simp: schema_of_def child_key_def)

lemma schema_create_admissible [admissible_intros]:
  "codecs_ok E \<Longrightarrow> admissible E (schema_create_build E row)"
  by (erule schema.write_admissibleI) (auto simp: schema_create_build_def split: if_splits intro: schema.single_write_new)

lemma schema_update_admissible [admissible_intros]:
  assumes "codecs_ok E"
  shows "admissible E (schema_update_build E i new_name comment owner updated_by updated_at)"
proof (rule schema.write_admissibleI [OF assms])
  fix s acts out
  assume ok: "snap_ok E s"
    and b: "schema_update_build E i new_name comment owner updated_by updated_at s = Inr (acts, out)"
  from b obtain v where v: "snap_get s EkSchema i = Some v"
    by (auto simp: schema_update_build_def rbind_eq_Inr)
  with schema.get_typed [OF ok] obtain q where q: "v = RowSchema q" "sch_id q = i" "schema_of v = Inr q"
    by blast
  from b v q(3) obtain row where row: "write_row E i (RowSchema row) row = Inr (acts, out)"
    "sch_id row = sch_id q" "sch_catalog_id row = sch_catalog_id q"
    "sch_name row = sch_name q \<or>
       get_by_natural_key s EkSchema (child_key E (sch_catalog_id row) (sch_name row)) = None"
    by (auto simp: schema_update_build_def Let_def rbind_eq_Inr split: option.splits if_splits)
  show "single_write E RowSchema EkSchema (\<lambda>r. child_key E (sch_catalog_id r) (sch_name r)) sch_id s acts out"
    by (rule schema.single_write_same [OF row(1)]) (use v q row(2-4) in auto)
qed

lemma schema_delete_admissible [admissible_intros]: "admissible E (schema_delete_build E i)"
  by (intro admissibleI) (auto simp: schema_delete_build_def body_ok_def split: if_splits)

end
