(* ===== verification/RepoTables.thy ===== *)
theory RepoTables
  imports RepoBase
begin

text \<open>
  The modules \<^verbatim>\<open>repos::table\<close> (tables and their columns) and \<^verbatim>\<open>repos::staging\<close>.
\<close>

section \<open>Tables\<close>

definition table_of :: "row \<Rightarrow> table_row res" where
  "table_of v = (case v of RowTable r \<Rightarrow> Inr r | _ \<Rightarrow> Inl (wrong_row ''table'' v))"

definition column_of :: "row \<Rightarrow> column_row res" where
  "column_of v = (case v of RowColumn r \<Rightarrow> Inr r | _ \<Rightarrow> Inl (wrong_row ''column'' v))"

definition table_not_found :: "string \<Rightarrow> uc_error" where
  "table_not_found name = uc_err TableNotFound (''Table '' @ quoted name @ '' not found'')"

definition table_exists :: "string \<Rightarrow> uc_error" where
  "table_exists name = uc_err TableAlreadyExists (''Table '' @ quoted name @ '' already exists'')"

definition table_create_build ::
  "('j, 'z) row_codecs_scheme \<Rightarrow> table_row \<Rightarrow> snapshot \<Rightarrow> ('j action list \<times> table_row) res" where
  "table_create_build E row s =
     (if get_by_natural_key s EkTable (child_key E (tab_schema_id row) (tab_name row)) \<noteq> None
      then Inl (table_exists (tab_name row))
      else write_row E (tab_id row) (RowTable row) row)"

definition table_create ::
  "('j, 'z) log_env_scheme \<Rightarrow> 'l log_ops \<Rightarrow> 'l world \<Rightarrow> table_row \<Rightarrow> 'l store \<Rightarrow>
   (table_row res \<times> 'l store) option" where
  "table_create E ops w row st = commit E ops w ''CREATE TABLE'' (\<lambda>_. table_create_build E row) st"

definition table_get_by_id :: "('j, 'z) row_codecs_scheme \<Rightarrow> snapshot \<Rightarrow> uuid \<Rightarrow> table_row res" where
  "table_get_by_id E s i =
     rbind (ok_or (table_not_found (uuid_text E i)) (snap_get s EkTable i)) table_of"

definition table_get_by_schema_and_name ::
  "('j, 'z) row_codecs_scheme \<Rightarrow> snapshot \<Rightarrow> uuid \<Rightarrow> string \<Rightarrow> table_row res" where
  "table_get_by_schema_and_name E s schema_id name =
     rbind (ok_or (table_not_found name) (get_by_natural_key s EkTable (child_key E schema_id name))) table_of"

definition table_list ::
  "('j, 'z) row_codecs_scheme \<Rightarrow> snapshot \<Rightarrow> uuid \<Rightarrow> string option \<Rightarrow> int \<Rightarrow>
   (table_row list \<times> string option) res" where
  "table_list E s schema_id token max_results =
     rbind (collect_res table_of
       (scan_prefix s EkTable (child_prefix E schema_id) token (over_fetch max_results))) (\<lambda>rows.
     Inr (page rows max_results tab_name))"

definition table_delete_build ::
  "('j, 'z) row_codecs_scheme \<Rightarrow> uuid \<Rightarrow> snapshot \<Rightarrow> ('j action list \<times> unit) res" where
  "table_delete_build E i s =
     (if snap_get s EkTable i = None then Inl (table_not_found (uuid_text E i))
      else Inr ([Remove EkTable i], ()))"

definition table_delete ::
  "('j, 'z) log_env_scheme \<Rightarrow> 'l log_ops \<Rightarrow> 'l world \<Rightarrow> uuid \<Rightarrow> 'l store \<Rightarrow>
   (unit res \<times> 'l store) option" where
  "table_delete E ops w i st = commit E ops w ''DROP TABLE'' (\<lambda>_. table_delete_build E i) st"

definition table_patch_build ::
  "('j, 'z) row_codecs_scheme \<Rightarrow> uuid \<Rightarrow> int option \<Rightarrow> string option \<Rightarrow> int option \<Rightarrow> int option \<Rightarrow>
   int \<Rightarrow> snapshot \<Rightarrow> ('j action list \<times> unit) res" where
  "table_patch_build E i column_count comment iceberg_version iceberg_timestamp updated_at s =
     (case snap_get s EkTable i of
        None \<Rightarrow> Inr ([], ())
      | Some current \<Rightarrow>
          rbind (table_of current) (\<lambda>row.
          write_row E i (RowTable (row\<lparr>
            tab_column_count := coalesce column_count (tab_column_count row),
            tab_comment := coalesce comment (tab_comment row),
            tab_uniform_iceberg_converted_delta_version :=
              coalesce iceberg_version (tab_uniform_iceberg_converted_delta_version row),
            tab_uniform_iceberg_converted_delta_timestamp :=
              coalesce iceberg_timestamp (tab_uniform_iceberg_converted_delta_timestamp row),
            tab_updated_at := Some updated_at\<rparr>)) ()))"

definition table_patch ::
  "('j, 'z) log_env_scheme \<Rightarrow> 'l log_ops \<Rightarrow> 'l world \<Rightarrow> uuid \<Rightarrow> int option \<Rightarrow> string option \<Rightarrow>
   int option \<Rightarrow> int option \<Rightarrow> int \<Rightarrow> 'l store \<Rightarrow> (unit res \<times> 'l store) option" where
  "table_patch E ops w i column_count comment iceberg_version iceberg_timestamp updated_at st =
     commit E ops w ''ALTER TABLE''
       (\<lambda>_. table_patch_build E i column_count comment iceberg_version iceberg_timestamp updated_at) st"

definition table_rename_build ::
  "('j, 'z) row_codecs_scheme \<Rightarrow> uuid \<Rightarrow> string \<Rightarrow> int \<Rightarrow> snapshot \<Rightarrow> ('j action list \<times> unit) res" where
  "table_rename_build E i new_name updated_at s =
     (case snap_get s EkTable i of
        None \<Rightarrow> Inr ([], ())
      | Some current \<Rightarrow>
          rbind (table_of current) (\<lambda>row.
          if new_name \<noteq> tab_name row \<and>
             get_by_natural_key s EkTable (child_key E (tab_schema_id row) new_name) \<noteq> None
          then Inl (table_exists new_name)
          else write_row E i (RowTable (row\<lparr>tab_name := new_name, tab_updated_at := Some updated_at\<rparr>)) ()))"

definition table_rename ::
  "('j, 'z) log_env_scheme \<Rightarrow> 'l log_ops \<Rightarrow> 'l world \<Rightarrow> uuid \<Rightarrow> string \<Rightarrow> int \<Rightarrow> 'l store \<Rightarrow>
   (unit res \<times> 'l store) option" where
  "table_rename E ops w i new_name updated_at st =
     commit E ops w ''RENAME TABLE'' (\<lambda>_. table_rename_build E i new_name updated_at) st"

interpretation table: child_kind E RowTable table_of EkTable
    "\<lambda>r. child_key E (tab_schema_id r) (tab_name r)" tab_id tab_schema_id tab_name
  for E :: "('j, 'z) row_codecs_scheme"
proof unfold_locales
  fix v :: row
  show "row_kind v = EkTable \<Longrightarrow> \<exists>r. v = RowTable r" by (cases v) auto
qed (auto simp: table_of_def child_key_def)

lemma table_create_admissible [admissible_intros]:
  "codecs_ok E \<Longrightarrow> admissible E (table_create_build E row)"
  by (erule table.write_admissibleI) (auto simp: table_create_build_def split: if_splits intro: table.single_write_new)

lemma table_delete_admissible [admissible_intros]: "admissible E (table_delete_build E i)"
  by (intro admissibleI) (auto simp: table_delete_build_def body_ok_def split: if_splits)

lemma table_patch_admissible [admissible_intros]:
  assumes "codecs_ok E"
  shows "admissible E (table_patch_build E i cc c v t u)"
proof (rule table.write_admissibleI [OF assms])
  fix s acts out
  assume ok: "snap_ok E s" and b: "table_patch_build E i cc c v t u s = Inr (acts, out)"
  show "single_write E RowTable EkTable (\<lambda>r. child_key E (tab_schema_id r) (tab_name r)) tab_id s acts out"
  proof (cases "snap_get s EkTable i")
    case None
    with b show ?thesis by (simp add: table_patch_build_def table.single_write_none)
  next
    case (Some cur)
    with table.get_typed [OF ok] obtain q where q: "cur = RowTable q" "tab_id q = i" "table_of cur = Inr q"
      by blast
    with b Some obtain row where row: "write_row E i (RowTable row) () = Inr (acts, out)" "tab_id row = i"
      "tab_schema_id row = tab_schema_id q" "tab_name row = tab_name q"
      by (auto simp: table_patch_build_def)
    show ?thesis
      by (rule table.single_write_same [OF row(1)]) (use Some q row in auto)
  qed
qed

lemma table_rename_admissible [admissible_intros]:
  assumes "codecs_ok E"
  shows "admissible E (table_rename_build E i n u)"
proof (rule table.write_admissibleI [OF assms])
  fix s acts out
  assume ok: "snap_ok E s" and b: "table_rename_build E i n u s = Inr (acts, out)"
  show "single_write E RowTable EkTable (\<lambda>r. child_key E (tab_schema_id r) (tab_name r)) tab_id s acts out"
  proof (cases "snap_get s EkTable i")
    case None
    with b show ?thesis by (simp add: table_rename_build_def table.single_write_none)
  next
    case (Some cur)
    with table.get_typed [OF ok] obtain q where q: "cur = RowTable q" "tab_id q = i" "table_of cur = Inr q"
      by blast
    with b Some obtain row where row: "write_row E i (RowTable row) () = Inr (acts, out)" "tab_id row = i"
      "tab_schema_id row = tab_schema_id q" "tab_name row = tab_name q \<or>
        get_by_natural_key s EkTable (child_key E (tab_schema_id row) (tab_name row)) = None"
      by (auto simp: table_rename_build_def split: if_splits)
    show ?thesis
      by (rule table.single_write_same [OF row(1)]) (use Some q row in auto)
  qed
qed

section \<open>Columns\<close>

definition insert_columns_build ::
  "('j, 'z) row_codecs_scheme \<Rightarrow> column_row list \<Rightarrow> snapshot \<Rightarrow> ('j action list \<times> unit) res" where
  "insert_columns_build E columns s =
     rbind (write_rows E (map (\<lambda>c. (col_id c, RowColumn c)) columns)) (\<lambda>actions. Inr (actions, ()))"

definition insert_columns ::
  "('j, 'z) log_env_scheme \<Rightarrow> 'l log_ops \<Rightarrow> 'l world \<Rightarrow> column_row list \<Rightarrow> 'l store \<Rightarrow>
   (unit res \<times> 'l store) option" where
  "insert_columns E ops w columns st =
     commit E ops w ''ADD COLUMNS'' (\<lambda>_. insert_columns_build E columns) st"

definition get_columns :: "('j, 'z) row_codecs_scheme \<Rightarrow> snapshot \<Rightarrow> uuid \<Rightarrow> column_row list res" where
  "get_columns E s table_id =
     collect_res column_of
       (List.map_filter (\<lambda>i. snap_get s EkColumn i) (ids_under_prefix s EkColumn (child_prefix E table_id)))"

definition delete_columns_build ::
  "('j, 'z) row_codecs_scheme \<Rightarrow> uuid \<Rightarrow> snapshot \<Rightarrow> ('j action list \<times> unit) res" where
  "delete_columns_build E table_id s =
     Inr (map (Remove EkColumn) (ids_under_prefix s EkColumn (child_prefix E table_id)), ())"

definition delete_columns ::
  "('j, 'z) log_env_scheme \<Rightarrow> 'l log_ops \<Rightarrow> 'l world \<Rightarrow> uuid \<Rightarrow> 'l store \<Rightarrow>
   (unit res \<times> 'l store) option" where
  "delete_columns E ops w table_id st =
     commit E ops w ''DROP COLUMNS'' (\<lambda>_. delete_columns_build E table_id) st"

interpretation columns: child_kind E RowColumn column_of EkColumn
    "\<lambda>r. child_key E (col_table_id r) (pad_i64 (col_ordinal_position r))" col_id col_table_id
    "\<lambda>r. pad_i64 (col_ordinal_position r)"
  for E :: "('j, 'z) row_codecs_scheme"
proof unfold_locales
  fix v :: row
  show "row_kind v = EkColumn \<Longrightarrow> \<exists>r. v = RowColumn r" by (cases v) auto
qed (auto simp: column_of_def child_key_def)

lemma delete_columns_admissible [admissible_intros]: "admissible E (delete_columns_build E table_id)"
  by (intro admissibleI) (auto simp: delete_columns_build_def body_ok_def)

text \<open>Fresh columns at distinct free positions of their tables keep the state consistent.\<close>

lemma insert_columns_ok:
  assumes "codecs_ok E" "snap_ok E s" "insert_columns_build E columns s = Inr (acts, out)"
    and "distinct (map (\<lambda>c. child_key E (col_table_id c) (pad_i64 (col_ordinal_position c))) columns)"
    and "\<And>c. c \<in> set columns \<Longrightarrow> get_by_natural_key s EkColumn
      (child_key E (col_table_id c) (pad_i64 (col_ordinal_position c))) = None"
  shows "acts_ok E s acts" "snap_ok E (snd (apply_all E s acts))"
proof -
  let ?rows = "map (\<lambda>c. (col_id c, RowColumn c)) columns"
  have w: "write_rows E ?rows = Inr acts"
    using assms(3) by (auto simp: insert_columns_build_def rbind_eq_Inr)
  have "upserts_ok E s ?rows"
  proof (rule upserts_ok_distinct [where kind = EkColumn])
    show "distinct (map (\<lambda>(_, r). natural_key_for E r) ?rows)"
      using assms(4) by (simp add: comp_def distinct_map inj_on_def child_key_def)
  qed (use assms(5) get_by_natural_key_None [OF assms(2)] in \<open>auto simp: child_key_def\<close>)
  then show "acts_ok E s acts"
    using write_rows_ok(2) [OF assms(1) w] by simp
  then show "snap_ok E (snd (apply_all E s acts))"
    by (rule acts_ok_inv [OF assms(2)])
qed

section \<open>Staging tables\<close>

definition staging_of :: "row \<Rightarrow> staging_table_row res" where
  "staging_of v = (case v of RowStagingTable r \<Rightarrow> Inr r | _ \<Rightarrow> Inl (wrong_row ''staging table'' v))"

definition staging_create_build ::
  "('j, 'z) row_codecs_scheme \<Rightarrow> staging_table_row \<Rightarrow> snapshot \<Rightarrow>
   ('j action list \<times> staging_table_row) res" where
  "staging_create_build E row s = write_row E (stg_id row) (RowStagingTable row) row"

definition staging_create ::
  "('j, 'z) log_env_scheme \<Rightarrow> 'l log_ops \<Rightarrow> 'l world \<Rightarrow> staging_table_row \<Rightarrow> 'l store \<Rightarrow>
   (staging_table_row res \<times> 'l store) option" where
  "staging_create E ops w row st =
     commit E ops w ''CREATE STAGING TABLE'' (\<lambda>_. staging_create_build E row) st"

definition staging_get_by_id ::
  "('j, 'z) row_codecs_scheme \<Rightarrow> snapshot \<Rightarrow> uuid \<Rightarrow> staging_table_row res" where
  "staging_get_by_id E s i =
     rbind (ok_or (uc_err NotFound (''Staging table '' @ quoted (uuid_text E i) @ '' not found''))
       (snap_get s EkStagingTable i)) staging_of"

definition staging_get_by_location :: "snapshot \<Rightarrow> string \<Rightarrow> staging_table_row res" where
  "staging_get_by_location s location =
     rbind (collect_res staging_of (snap_iter s EkStagingTable)) (\<lambda>rows.
     let hits = sort_key stg_id (filter (\<lambda>r. stg_staging_location r = location) rows)
     in case hits of
          [] \<Rightarrow> Inl (uc_err NotFound (''Staging table at '' @ quoted location @ '' not found''))
        | r # _ \<Rightarrow> Inr r)"

definition staging_mark_committed_build ::
  "('j, 'z) row_codecs_scheme \<Rightarrow> uuid \<Rightarrow> int \<Rightarrow> snapshot \<Rightarrow> ('j action list \<times> unit) res" where
  "staging_mark_committed_build E i committed_at s =
     (case snap_get s EkStagingTable i of
        None \<Rightarrow> Inr ([], ())
      | Some current \<Rightarrow>
          rbind (staging_of current) (\<lambda>row.
          write_row E i (RowStagingTable
            (row\<lparr>stg_stage_committed := True, stg_stage_committed_at := Some committed_at\<rparr>)) ()))"

definition staging_mark_committed ::
  "('j, 'z) log_env_scheme \<Rightarrow> 'l log_ops \<Rightarrow> 'l world \<Rightarrow> uuid \<Rightarrow> int \<Rightarrow> 'l store \<Rightarrow>
   (unit res \<times> 'l store) option" where
  "staging_mark_committed E ops w i committed_at st =
     commit E ops w ''COMMIT STAGING TABLE'' (\<lambda>_. staging_mark_committed_build E i committed_at) st"

lemma staging_create_admissible [admissible_intros]:
  "codecs_ok E \<Longrightarrow> admissible E (staging_create_build E row)"
  by (intro admissibleI)
     (auto simp: staging_create_build_def upsert_ok_def dest!: write_row_ok [where s = s for s])

lemma staging_mark_committed_admissible [admissible_intros]:
  assumes "codecs_ok E"
  shows "admissible E (staging_mark_committed_build E i t)"
proof (rule admissibleI)
  fix s acts out
  assume ok: "snap_ok E s" and b: "staging_mark_committed_build E i t s = Inr (acts, out)"
  show "acts_ok E s acts \<and> (\<forall>a \<in> set acts. body_ok E a)"
  proof (cases "snap_get s EkStagingTable i")
    case None
    with b show ?thesis by (simp add: staging_mark_committed_build_def)
  next
    case (Some cur)
    from snap_ok_row [OF ok Some] obtain q where q: "cur = RowStagingTable q" "stg_id q = i"
      by (cases cur) auto
    with b Some obtain row where w: "write_row E i (RowStagingTable row) () = Inr (acts, out)" "stg_id row = i"
      by (auto simp: staging_mark_committed_build_def staging_of_def)
    then show ?thesis
      using write_row_ok [OF assms w(1)] by (simp add: upsert_ok_def)
  qed
qed

end
