(* ===== verification/RepoAssets.thy ===== *)
theory RepoAssets
  imports RepoBase
begin

text \<open>
  The modules \<^verbatim>\<open>repos::volume\<close>, \<^verbatim>\<open>repos::function\<close> and \<^verbatim>\<open>repos::model\<close>. Parameters of a
  function and versions of a model carry no natural key, so their lookups scan the kind.
\<close>

section \<open>Volumes\<close>

definition volume_of :: "row \<Rightarrow> volume_row res" where
  "volume_of v = (case v of RowVolume r \<Rightarrow> Inr r | _ \<Rightarrow> Inl (wrong_row ''volume'' v))"

definition volume_not_found :: "string \<Rightarrow> uc_error" where
  "volume_not_found name = uc_err NotFound (''Volume '' @ quoted name @ '' not found'')"

definition volume_exists :: "string \<Rightarrow> uc_error" where
  "volume_exists name = uc_err ResourceAlreadyExists (''Volume '' @ quoted name @ '' already exists'')"

definition volume_create_build ::
  "('j, 'z) row_codecs_scheme \<Rightarrow> volume_row \<Rightarrow> snapshot \<Rightarrow> ('j action list \<times> volume_row) res" where
  "volume_create_build E row s =
     (if get_by_natural_key s EkVolume (child_key E (vol_schema_id row) (vol_name row)) \<noteq> None
      then Inl (volume_exists (vol_name row))
      else write_row E (vol_id row) (RowVolume row) row)"

definition volume_create ::
  "('j, 'z) log_env_scheme \<Rightarrow> 'l log_ops \<Rightarrow> 'l world \<Rightarrow> volume_row \<Rightarrow> 'l store \<Rightarrow>
   (volume_row res \<times> 'l store) option" where
  "volume_create E ops w row st = commit E ops w ''CREATE VOLUME'' (\<lambda>_. volume_create_build E row) st"

definition volume_get_by_id :: "('j, 'z) row_codecs_scheme \<Rightarrow> snapshot \<Rightarrow> uuid \<Rightarrow> volume_row res" where
  "volume_get_by_id E s i =
     rbind (ok_or (volume_not_found (uuid_text E i)) (snap_get s EkVolume i)) volume_of"

definition volume_get_by_schema_and_name ::
  "('j, 'z) row_codecs_scheme \<Rightarrow> snapshot \<Rightarrow> uuid \<Rightarrow> string \<Rightarrow> volume_row res" where
  "volume_get_by_schema_and_name E s schema_id name =
     rbind (ok_or (volume_not_found name) (get_by_natural_key s EkVolume (child_key E schema_id name)))
       volume_of"

definition volume_list ::
  "('j, 'z) row_codecs_scheme \<Rightarrow> snapshot \<Rightarrow> uuid \<Rightarrow> string option \<Rightarrow> int \<Rightarrow>
   (volume_row list \<times> string option) res" where
  "volume_list E s schema_id token max_results =
     rbind (collect_res volume_of
       (scan_prefix s EkVolume (child_prefix E schema_id) token (over_fetch max_results))) (\<lambda>rows.
     Inr (page rows max_results vol_name))"

definition volume_update_build ::
  "('j, 'z) row_codecs_scheme \<Rightarrow> uuid \<Rightarrow> string option \<Rightarrow> string option \<Rightarrow> string option \<Rightarrow> int \<Rightarrow>
   string option \<Rightarrow> snapshot \<Rightarrow> ('j action list \<times> volume_row) res" where
  "volume_update_build E i new_name comment owner updated_at updated_by s =
     rbind (ok_or (volume_not_found (uuid_text E i)) (snap_get s EkVolume i)) (\<lambda>current.
     rbind (volume_of current) (\<lambda>row.
     rbind (case new_name of
              None \<Rightarrow> Inr row
            | Some target \<Rightarrow>
                if target \<noteq> vol_name row \<and>
                   get_by_natural_key s EkVolume (child_key E (vol_schema_id row) target) \<noteq> None
                then Inl (volume_exists target)
                else Inr (row\<lparr>vol_name := target\<rparr>)) (\<lambda>row.
     let row = row\<lparr>vol_comment := coalesce comment (vol_comment row),
                   vol_owner := coalesce owner (vol_owner row),
                   vol_updated_at := Some updated_at, vol_updated_by := updated_by\<rparr>
     in write_row E i (RowVolume row) row)))"

definition volume_update ::
  "('j, 'z) log_env_scheme \<Rightarrow> 'l log_ops \<Rightarrow> 'l world \<Rightarrow> uuid \<Rightarrow> string option \<Rightarrow> string option \<Rightarrow>
   string option \<Rightarrow> int \<Rightarrow> string option \<Rightarrow> 'l store \<Rightarrow> (volume_row res \<times> 'l store) option" where
  "volume_update E ops w i new_name comment owner updated_at updated_by st =
     commit E ops w ''UPDATE VOLUME''
       (\<lambda>_. volume_update_build E i new_name comment owner updated_at updated_by) st"

definition volume_delete_build ::
  "('j, 'z) row_codecs_scheme \<Rightarrow> uuid \<Rightarrow> snapshot \<Rightarrow> ('j action list \<times> unit) res" where
  "volume_delete_build E i s =
     (if snap_get s EkVolume i = None then Inl (volume_not_found (uuid_text E i))
      else Inr ([Remove EkVolume i], ()))"

definition volume_delete ::
  "('j, 'z) log_env_scheme \<Rightarrow> 'l log_ops \<Rightarrow> 'l world \<Rightarrow> uuid \<Rightarrow> 'l store \<Rightarrow>
   (unit res \<times> 'l store) option" where
  "volume_delete E ops w i st = commit E ops w ''DROP VOLUME'' (\<lambda>_. volume_delete_build E i) st"

interpretation volume: child_kind E RowVolume volume_of EkVolume
    "\<lambda>r. child_key E (vol_schema_id r) (vol_name r)" vol_id vol_schema_id vol_name
  for E :: "('j, 'z) row_codecs_scheme"
proof unfold_locales
  fix v :: row
  show "row_kind v = EkVolume \<Longrightarrow> \<exists>r. v = RowVolume r" by (cases v) auto
qed (auto simp: volume_of_def child_key_def)

lemma volume_create_admissible [admissible_intros]:
  "codecs_ok E \<Longrightarrow> admissible E (volume_create_build E row)"
  by (erule volume.write_admissibleI)
     (auto simp: volume_create_build_def split: if_splits intro: volume.single_write_new)

lemma volume_update_admissible [admissible_intros]:
  assumes "codecs_ok E"
  shows "admissible E (volume_update_build E i n cm ow t u)"
proof (rule volume.write_admissibleI [OF assms])
  fix s acts out
  assume ok: "snap_ok E s" and b: "volume_update_build E i n cm ow t u s = Inr (acts, out)"
  then obtain v where v: "snap_get s EkVolume i = Some v"
    by (auto simp: volume_update_build_def rbind_eq_Inr)
  with volume.get_typed [OF ok] obtain q where q: "v = RowVolume q" "vol_id q = i" "volume_of v = Inr q"
    by blast
  from b v q(3) obtain row where row: "write_row E i (RowVolume row) row = Inr (acts, out)"
    "vol_id row = i" "vol_schema_id row = vol_schema_id q" "vol_name row = vol_name q \<or>
       get_by_natural_key s EkVolume (child_key E (vol_schema_id row) (vol_name row)) = None"
    using q(2) by (auto simp: volume_update_build_def Let_def rbind_eq_Inr split: option.splits if_splits)
  show "single_write E RowVolume EkVolume (\<lambda>r. child_key E (vol_schema_id r) (vol_name r)) vol_id s acts out"
    by (rule volume.single_write_same [OF row(1)]) (use v q row in auto)
qed

lemma volume_delete_admissible [admissible_intros]: "admissible E (volume_delete_build E i)"
  by (intro admissibleI) (auto simp: volume_delete_build_def body_ok_def split: if_splits)

section \<open>Functions\<close>

definition fn_of :: "row \<Rightarrow> function_row res" where
  "fn_of v = (case v of RowFunction r \<Rightarrow> Inr r | _ \<Rightarrow> Inl (wrong_row ''function'' v))"

definition param_of :: "row \<Rightarrow> function_param_row res" where
  "param_of v = (case v of RowFunctionParameter r \<Rightarrow> Inr r | _ \<Rightarrow> Inl (wrong_row ''function parameter'' v))"

definition function_not_found :: "string \<Rightarrow> uc_error" where
  "function_not_found name = uc_err NotFound (''Function '' @ quoted name @ '' not found'')"

definition function_exists :: "string \<Rightarrow> uc_error" where
  "function_exists name = uc_err ResourceAlreadyExists (''Function '' @ quoted name @ '' already exists'')"

definition function_create_build ::
  "('j, 'z) row_codecs_scheme \<Rightarrow> function_row \<Rightarrow> snapshot \<Rightarrow> ('j action list \<times> function_row) res" where
  "function_create_build E row s =
     (if get_by_natural_key s EkFunction (child_key E (fn_schema_id row) (fn_name row)) \<noteq> None
      then Inl (function_exists (fn_name row))
      else write_row E (fn_id row) (RowFunction row) row)"

definition function_create ::
  "('j, 'z) log_env_scheme \<Rightarrow> 'l log_ops \<Rightarrow> 'l world \<Rightarrow> function_row \<Rightarrow> 'l store \<Rightarrow>
   (function_row res \<times> 'l store) option" where
  "function_create E ops w row st =
     commit E ops w ''CREATE FUNCTION'' (\<lambda>_. function_create_build E row) st"

definition insert_params_build ::
  "('j, 'z) row_codecs_scheme \<Rightarrow> function_param_row list \<Rightarrow> snapshot \<Rightarrow> ('j action list \<times> unit) res" where
  "insert_params_build E params s =
     rbind (write_rows E (map (\<lambda>p. (par_id p, RowFunctionParameter p)) params)) (\<lambda>actions. Inr (actions, ()))"

definition insert_params ::
  "('j, 'z) log_env_scheme \<Rightarrow> 'l log_ops \<Rightarrow> 'l world \<Rightarrow> function_param_row list \<Rightarrow> 'l store \<Rightarrow>
   (unit res \<times> 'l store) option" where
  "insert_params E ops w params st =
     commit E ops w ''ADD FUNCTION PARAMS'' (\<lambda>_. insert_params_build E params) st"

definition function_get_by_schema_and_name ::
  "('j, 'z) row_codecs_scheme \<Rightarrow> snapshot \<Rightarrow> uuid \<Rightarrow> string \<Rightarrow> function_row res" where
  "function_get_by_schema_and_name E s schema_id name =
     rbind (ok_or (function_not_found name) (get_by_natural_key s EkFunction (child_key E schema_id name)))
       fn_of"

text \<open>Ordered by position, the inputs (\<open>input_or_return = 0\<close>) split from the returns.\<close>

definition get_params ::
  "snapshot \<Rightarrow> uuid \<Rightarrow> (function_param_row list \<times> function_param_row list) res" where
  "get_params s function_id =
     rbind (collect_res param_of (snap_iter s EkFunctionParameter)) (\<lambda>rows.
     let all = sort_key par_ordinal_position (filter (\<lambda>p. par_function_id p = function_id) rows)
     in Inr (filter (\<lambda>p. par_input_or_return p = 0) all, filter (\<lambda>p. par_input_or_return p \<noteq> 0) all))"

definition function_list ::
  "('j, 'z) row_codecs_scheme \<Rightarrow> snapshot \<Rightarrow> uuid \<Rightarrow> string option \<Rightarrow> int \<Rightarrow>
   (function_row list \<times> string option) res" where
  "function_list E s schema_id token max_results =
     rbind (collect_res fn_of
       (scan_prefix s EkFunction (child_prefix E schema_id) token (over_fetch max_results))) (\<lambda>rows.
     Inr (page rows max_results fn_name))"

definition function_delete_build ::
  "('j, 'z) row_codecs_scheme \<Rightarrow> uuid \<Rightarrow> snapshot \<Rightarrow> ('j action list \<times> unit) res" where
  "function_delete_build E i s =
     (if snap_get s EkFunction i = None then Inl (function_not_found (uuid_text E i))
      else rbind (collect_res param_of (snap_iter s EkFunctionParameter)) (\<lambda>params.
           Inr (Remove EkFunction i #
             map (\<lambda>p. Remove EkFunctionParameter (par_id p)) (filter (\<lambda>p. par_function_id p = i) params), ())))"

definition function_delete ::
  "('j, 'z) log_env_scheme \<Rightarrow> 'l log_ops \<Rightarrow> 'l world \<Rightarrow> uuid \<Rightarrow> 'l store \<Rightarrow>
   (unit res \<times> 'l store) option" where
  "function_delete E ops w i st = commit E ops w ''DROP FUNCTION'' (\<lambda>_. function_delete_build E i) st"

interpretation fn: child_kind E RowFunction fn_of EkFunction
    "\<lambda>r. child_key E (fn_schema_id r) (fn_name r)" fn_id fn_schema_id fn_name
  for E :: "('j, 'z) row_codecs_scheme"
proof unfold_locales
  fix v :: row
  show "row_kind v = EkFunction \<Longrightarrow> \<exists>r. v = RowFunction r" by (cases v) auto
qed (auto simp: fn_of_def child_key_def)

lemma function_create_admissible [admissible_intros]:
  "codecs_ok E \<Longrightarrow> admissible E (function_create_build E row)"
  by (erule fn.write_admissibleI)
     (auto simp: function_create_build_def split: if_splits intro: fn.single_write_new)

lemma insert_params_admissible [admissible_intros]:
  assumes "codecs_ok E"
  shows "admissible E (insert_params_build E params)"
proof (rule admissibleI)
  fix s acts out
  assume b: "insert_params_build E params s = Inr (acts, out)"
  then have w: "write_rows E (map (\<lambda>p. (par_id p, RowFunctionParameter p)) params) = Inr acts"
    by (auto simp: insert_params_build_def rbind_eq_Inr)
  have "upserts_ok E s (map (\<lambda>p. (par_id p, RowFunctionParameter p)) params)"
    by (rule upserts_ok_keyless) auto
  then show "acts_ok E s acts \<and> (\<forall>a \<in> set acts. body_ok E a)"
    using write_rows_ok(2,3) [OF assms w] by simp
qed

lemma function_delete_admissible [admissible_intros]: "admissible E (function_delete_build E i)"
  by (intro admissibleI acts_ok_all_removes)
     (auto simp: function_delete_build_def rbind_eq_Inr split: if_splits)

section \<open>Registered models\<close>

definition model_of :: "row \<Rightarrow> registered_model_row res" where
  "model_of v = (case v of RowRegisteredModel r \<Rightarrow> Inr r | _ \<Rightarrow> Inl (wrong_row ''registered model'' v))"

definition version_of :: "row \<Rightarrow> model_version_row res" where
  "version_of v = (case v of RowModelVersion r \<Rightarrow> Inr r | _ \<Rightarrow> Inl (wrong_row ''model version'' v))"

definition model_exists :: "string \<Rightarrow> uc_error" where
  "model_exists name = uc_err ResourceAlreadyExists (''Model '' @ quoted name @ '' already exists'')"

text \<open>\<open>sort_by_key(|r| (r.version, r.id))\<close>, with \<open>None\<close> before every number.\<close>

definition version_key :: "model_version_row \<Rightarrow> (bool \<times> int) \<times> uuid" where
  "version_key r = (case mv_version r of None \<Rightarrow> (False, 0) | Some v \<Rightarrow> (True, v), mv_id r)"

definition versions_of :: "snapshot \<Rightarrow> uuid \<Rightarrow> model_version_row list res" where
  "versions_of s model_id =
     rbind (collect_res version_of (snap_iter s EkModelVersion)) (\<lambda>rows.
     Inr (sort_key version_key (filter (\<lambda>r. mv_registered_model_id r = model_id) rows)))"

definition model_create_build ::
  "('j, 'z) row_codecs_scheme \<Rightarrow> registered_model_row \<Rightarrow> snapshot \<Rightarrow>
   ('j action list \<times> registered_model_row) res" where
  "model_create_build E row s =
     (if get_by_natural_key s EkRegisteredModel (child_key E (mdl_schema_id row) (mdl_name row)) \<noteq> None
      then Inl (model_exists (mdl_name row))
      else write_row E (mdl_id row) (RowRegisteredModel row) row)"

definition create_model ::
  "('j, 'z) log_env_scheme \<Rightarrow> 'l log_ops \<Rightarrow> 'l world \<Rightarrow> registered_model_row \<Rightarrow> 'l store \<Rightarrow>
   (registered_model_row res \<times> 'l store) option" where
  "create_model E ops w row st = commit E ops w ''CREATE MODEL'' (\<lambda>_. model_create_build E row) st"

definition get_model_by_schema_and_name ::
  "('j, 'z) row_codecs_scheme \<Rightarrow> snapshot \<Rightarrow> uuid \<Rightarrow> string \<Rightarrow> registered_model_row res" where
  "get_model_by_schema_and_name E s schema_id name =
     rbind (ok_or (uc_err NotFound (''Model '' @ quoted name @ '' not found''))
       (get_by_natural_key s EkRegisteredModel (child_key E schema_id name))) model_of"

definition list_models ::
  "('j, 'z) row_codecs_scheme \<Rightarrow> snapshot \<Rightarrow> uuid \<Rightarrow> string option \<Rightarrow> int \<Rightarrow>
   (registered_model_row list \<times> string option) res" where
  "list_models E s schema_id token max_results =
     rbind (collect_res model_of
       (scan_prefix s EkRegisteredModel (child_prefix E schema_id) token (over_fetch max_results))) (\<lambda>rows.
     Inr (page rows max_results mdl_name))"

definition create_version_build ::
  "('j, 'z) row_codecs_scheme \<Rightarrow> model_version_row \<Rightarrow> snapshot \<Rightarrow>
   ('j action list \<times> model_version_row) res" where
  "create_version_build E row s = write_row E (mv_id row) (RowModelVersion row) row"

definition create_version ::
  "('j, 'z) log_env_scheme \<Rightarrow> 'l log_ops \<Rightarrow> 'l world \<Rightarrow> model_version_row \<Rightarrow> 'l store \<Rightarrow>
   (model_version_row res \<times> 'l store) option" where
  "create_version E ops w row st =
     commit E ops w ''CREATE MODEL VERSION'' (\<lambda>_. create_version_build E row) st"

definition get_version :: "snapshot \<Rightarrow> uuid \<Rightarrow> int \<Rightarrow> model_version_row res" where
  "get_version s model_id v =
     rbind (versions_of s model_id) (\<lambda>rows.
     ok_or (uc_err NotFound (''Model version '' @ show_int v @ '' not found''))
       (List.find (\<lambda>r. mv_version r = Some v) rows))"

definition delete_model_build :: "uuid \<Rightarrow> snapshot \<Rightarrow> ('j action list \<times> unit) res" where
  "delete_model_build i s =
     rbind (versions_of s i) (\<lambda>rows.
     Inr (map (\<lambda>r. Remove EkModelVersion (mv_id r)) rows @
       (if snap_get s EkRegisteredModel i \<noteq> None then [Remove EkRegisteredModel i] else []), ()))"

definition delete_model ::
  "('j, 'z) log_env_scheme \<Rightarrow> 'l log_ops \<Rightarrow> 'l world \<Rightarrow> uuid \<Rightarrow> 'l store \<Rightarrow>
   (unit res \<times> 'l store) option" where
  "delete_model E ops w i st = commit E ops w ''DROP MODEL'' (\<lambda>_. delete_model_build i) st"

definition delete_version_build :: "uuid \<Rightarrow> int \<Rightarrow> snapshot \<Rightarrow> ('j action list \<times> unit) res" where
  "delete_version_build model_id v s =
     rbind (versions_of s model_id) (\<lambda>rows.
     Inr (map (\<lambda>r. Remove EkModelVersion (mv_id r)) (filter (\<lambda>r. mv_version r = Some v) rows), ()))"

definition delete_version ::
  "('j, 'z) log_env_scheme \<Rightarrow> 'l log_ops \<Rightarrow> 'l world \<Rightarrow> uuid \<Rightarrow> int \<Rightarrow> 'l store \<Rightarrow>
   (unit res \<times> 'l store) option" where
  "delete_version E ops w model_id v st =
     commit E ops w ''DROP MODEL VERSION'' (\<lambda>_. delete_version_build model_id v) st"

definition update_model_build ::
  "('j, 'z) row_codecs_scheme \<Rightarrow> uuid \<Rightarrow> string option \<Rightarrow> string option \<Rightarrow> string option \<Rightarrow> int \<Rightarrow>
   string option \<Rightarrow> snapshot \<Rightarrow> ('j action list \<times> unit) res" where
  "update_model_build E i new_name comment owner updated_at updated_by s =
     (case snap_get s EkRegisteredModel i of
        None \<Rightarrow> Inr ([], ())
      | Some current \<Rightarrow>
          rbind (model_of current) (\<lambda>row.
          rbind (case new_name of
                   None \<Rightarrow> Inr row
                 | Some target \<Rightarrow>
                     if target \<noteq> mdl_name row \<and>
                        get_by_natural_key s EkRegisteredModel (child_key E (mdl_schema_id row) target) \<noteq> None
                     then Inl (model_exists target)
                     else Inr (row\<lparr>mdl_name := target\<rparr>)) (\<lambda>row.
          write_row E i (RowRegisteredModel (row\<lparr>
            mdl_comment := coalesce comment (mdl_comment row), mdl_owner := coalesce owner (mdl_owner row),
            mdl_updated_at := Some updated_at, mdl_updated_by := updated_by\<rparr>)) ())))"

definition update_model ::
  "('j, 'z) log_env_scheme \<Rightarrow> 'l log_ops \<Rightarrow> 'l world \<Rightarrow> uuid \<Rightarrow> string option \<Rightarrow> string option \<Rightarrow>
   string option \<Rightarrow> int \<Rightarrow> string option \<Rightarrow> 'l store \<Rightarrow> (unit res \<times> 'l store) option" where
  "update_model E ops w i new_name comment owner updated_at updated_by st =
     commit E ops w ''UPDATE MODEL''
       (\<lambda>_. update_model_build E i new_name comment owner updated_at updated_by) st"

definition set_max_version_build ::
  "('j, 'z) row_codecs_scheme \<Rightarrow> uuid \<Rightarrow> int \<Rightarrow> snapshot \<Rightarrow> ('j action list \<times> unit) res" where
  "set_max_version_build E i next s =
     (case snap_get s EkRegisteredModel i of
        None \<Rightarrow> Inr ([], ())
      | Some current \<Rightarrow>
          rbind (model_of current) (\<lambda>row.
          write_row E i (RowRegisteredModel (row\<lparr>mdl_max_version_number := Some next\<rparr>)) ()))"

definition set_max_version ::
  "('j, 'z) log_env_scheme \<Rightarrow> 'l log_ops \<Rightarrow> 'l world \<Rightarrow> uuid \<Rightarrow> int \<Rightarrow> 'l store \<Rightarrow>
   (unit res \<times> 'l store) option" where
  "set_max_version E ops w i next st =
     commit E ops w ''SET MAX VERSION'' (\<lambda>_. set_max_version_build E i next) st"

definition list_versions :: "snapshot \<Rightarrow> uuid \<Rightarrow> model_version_row list res" where
  "list_versions s model_id = versions_of s model_id"

definition update_version_build ::
  "('j, 'z) row_codecs_scheme \<Rightarrow> uuid \<Rightarrow> string option \<Rightarrow> int \<Rightarrow> string option \<Rightarrow> snapshot \<Rightarrow>
   ('j action list \<times> unit) res" where
  "update_version_build E i comment updated_at updated_by s =
     (case snap_get s EkModelVersion i of
        None \<Rightarrow> Inr ([], ())
      | Some current \<Rightarrow>
          rbind (version_of current) (\<lambda>row.
          write_row E i (RowModelVersion (row\<lparr>mv_comment := coalesce comment (mv_comment row),
            mv_updated_at := Some updated_at, mv_updated_by := updated_by\<rparr>)) ()))"

definition update_version ::
  "('j, 'z) log_env_scheme \<Rightarrow> 'l log_ops \<Rightarrow> 'l world \<Rightarrow> uuid \<Rightarrow> string option \<Rightarrow> int \<Rightarrow>
   string option \<Rightarrow> 'l store \<Rightarrow> (unit res \<times> 'l store) option" where
  "update_version E ops w i comment updated_at updated_by st =
     commit E ops w ''UPDATE MODEL VERSION''
       (\<lambda>_. update_version_build E i comment updated_at updated_by) st"

definition set_version_status_build ::
  "('j, 'z) row_codecs_scheme \<Rightarrow> uuid \<Rightarrow> string \<Rightarrow> snapshot \<Rightarrow> ('j action list \<times> unit) res" where
  "set_version_status_build E i status s =
     (case snap_get s EkModelVersion i of
        None \<Rightarrow> Inr ([], ())
      | Some current \<Rightarrow>
          rbind (version_of current) (\<lambda>row.
          write_row E i (RowModelVersion (row\<lparr>mv_status := Some status\<rparr>)) ()))"

definition set_version_status ::
  "('j, 'z) log_env_scheme \<Rightarrow> 'l log_ops \<Rightarrow> 'l world \<Rightarrow> uuid \<Rightarrow> string \<Rightarrow> 'l store \<Rightarrow>
   (unit res \<times> 'l store) option" where
  "set_version_status E ops w i status st =
     commit E ops w ''SET MODEL VERSION STATUS'' (\<lambda>_. set_version_status_build E i status) st"

interpretation model: child_kind E RowRegisteredModel model_of EkRegisteredModel
    "\<lambda>r. child_key E (mdl_schema_id r) (mdl_name r)" mdl_id mdl_schema_id mdl_name
  for E :: "('j, 'z) row_codecs_scheme"
proof unfold_locales
  fix v :: row
  show "row_kind v = EkRegisteredModel \<Longrightarrow> \<exists>r. v = RowRegisteredModel r" by (cases v) auto
qed (auto simp: model_of_def child_key_def)

lemma model_create_admissible [admissible_intros]:
  "codecs_ok E \<Longrightarrow> admissible E (model_create_build E row)"
  by (erule model.write_admissibleI)
     (auto simp: model_create_build_def split: if_splits intro: model.single_write_new)

lemma update_model_admissible [admissible_intros]:
  assumes "codecs_ok E"
  shows "admissible E (update_model_build E i n cm ow t u)"
proof (rule model.write_admissibleI [OF assms])
  fix s acts out
  assume ok: "snap_ok E s" and b: "update_model_build E i n cm ow t u s = Inr (acts, out)"
  show "single_write E RowRegisteredModel EkRegisteredModel
      (\<lambda>r. child_key E (mdl_schema_id r) (mdl_name r)) mdl_id s acts out"
  proof (cases "snap_get s EkRegisteredModel i")
    case None
    with b show ?thesis by (simp add: update_model_build_def model.single_write_none)
  next
    case (Some cur)
    with model.get_typed [OF ok] obtain q where
      q: "cur = RowRegisteredModel q" "mdl_id q = i" "model_of cur = Inr q" by blast
    from b Some q(3) obtain row where row: "write_row E i (RowRegisteredModel row) () = Inr (acts, out)"
      "mdl_id row = i" "mdl_schema_id row = mdl_schema_id q" "mdl_name row = mdl_name q \<or>
        get_by_natural_key s EkRegisteredModel (child_key E (mdl_schema_id row) (mdl_name row)) = None"
      using q(2) by (auto simp: update_model_build_def rbind_eq_Inr split: if_splits option.splits)
    show ?thesis
      by (rule model.single_write_same [OF row(1)]) (use Some q row in auto)
  qed
qed

lemma set_max_version_admissible [admissible_intros]:
  assumes "codecs_ok E"
  shows "admissible E (set_max_version_build E i next)"
proof (rule model.write_admissibleI [OF assms])
  fix s acts out
  assume ok: "snap_ok E s" and b: "set_max_version_build E i next s = Inr (acts, out)"
  show "single_write E RowRegisteredModel EkRegisteredModel
      (\<lambda>r. child_key E (mdl_schema_id r) (mdl_name r)) mdl_id s acts out"
  proof (cases "snap_get s EkRegisteredModel i")
    case None
    with b show ?thesis by (simp add: set_max_version_build_def model.single_write_none)
  next
    case (Some cur)
    with model.get_typed [OF ok] obtain q where
      q: "cur = RowRegisteredModel q" "mdl_id q = i" "model_of cur = Inr q" by blast
    with b Some have "write_row E i (RowRegisteredModel (q\<lparr>mdl_max_version_number := Some next\<rparr>)) () = Inr (acts, out)"
      by (simp add: set_max_version_build_def)
    from model.single_write_same [OF this] Some q show ?thesis by simp
  qed
qed

lemma create_version_admissible [admissible_intros]:
  "codecs_ok E \<Longrightarrow> admissible E (create_version_build E row)"
  by (intro admissibleI) (auto simp: create_version_build_def dest: keyless_write_ok)

lemma version_typed:
  assumes "snap_ok E s" "snap_get s EkModelVersion i = Some v"
  shows "\<exists>r. v = RowModelVersion r \<and> mv_id r = i \<and> version_of v = Inr r"
  using snap_ok_row [OF assms] by (cases v) (auto simp: version_of_def)

lemma update_version_admissible [admissible_intros]:
  assumes "codecs_ok E"
  shows "admissible E (update_version_build E i c t u)"
proof (rule admissibleI)
  fix s acts out
  assume "snap_ok E s" "update_version_build E i c t u s = Inr (acts, out)"
  then show "acts_ok E s acts \<and> (\<forall>a \<in> set acts. body_ok E a)"
    using version_typed [of E s i] keyless_write_ok [OF assms]
    by (cases "snap_get s EkModelVersion i") (force simp: update_version_build_def)+
qed

lemma set_version_status_admissible [admissible_intros]:
  assumes "codecs_ok E"
  shows "admissible E (set_version_status_build E i status)"
proof (rule admissibleI)
  fix s acts out
  assume "snap_ok E s" "set_version_status_build E i status s = Inr (acts, out)"
  then show "acts_ok E s acts \<and> (\<forall>a \<in> set acts. body_ok E a)"
    using version_typed [of E s i] keyless_write_ok [OF assms]
    by (cases "snap_get s EkModelVersion i") (force simp: set_version_status_build_def)+
qed

lemma delete_model_admissible [admissible_intros]: "admissible E (delete_model_build i)"
  by (intro admissibleI acts_ok_all_removes)
     (auto simp: delete_model_build_def rbind_eq_Inr split: if_splits)

lemma delete_version_admissible [admissible_intros]: "admissible E (delete_version_build model_id v)"
  by (intro admissibleI acts_ok_all_removes) (auto simp: delete_version_build_def rbind_eq_Inr)

end
