(* ===== verification/RepoPrincipals.thy ===== *)
theory RepoPrincipals
  imports RepoBase
begin

text \<open>
  The modules \<^verbatim>\<open>repos::user\<close>, \<^verbatim>\<open>repos::credential\<close>, \<^verbatim>\<open>repos::external_location\<close> and
  \<^verbatim>\<open>repos::metastore\<close>. A build that draws a UUIDv7 takes the source of ids as an argument, one id
  per attempt.
\<close>

section \<open>Users\<close>

definition user_of :: "row \<Rightarrow> user_row res" where
  "user_of v = (case v of RowUser r \<Rightarrow> Inr r | _ \<Rightarrow> Inl (wrong_row ''user'' v))"

definition user_not_found :: "string \<Rightarrow> uc_error" where
  "user_not_found name = uc_err NotFound (''User '' @ quoted name @ '' not found'')"

definition user_exists :: "string \<Rightarrow> uc_error" where
  "user_exists name = uc_err ResourceAlreadyExists (''User '' @ quoted name @ '' already exists'')"

definition first_where :: "snapshot \<Rightarrow> (user_row \<Rightarrow> bool) \<Rightarrow> user_row option res" where
  "first_where s pred =
     rbind (collect_res user_of (snap_iter s EkUser)) (\<lambda>rows.
     case sort_key usr_id (filter pred rows) of [] \<Rightarrow> Inr None | r # _ \<Rightarrow> Inr (Some r))"

definition user_create_build ::
  "('j, 'z) row_codecs_scheme \<Rightarrow> user_row \<Rightarrow> snapshot \<Rightarrow> ('j action list \<times> user_row) res" where
  "user_create_build E row s =
     (if get_by_natural_key s EkUser (usr_name row) \<noteq> None then Inl (user_exists (usr_name row))
      else write_row E (usr_id row) (RowUser row) row)"

definition user_create ::
  "('j, 'z) log_env_scheme \<Rightarrow> 'l log_ops \<Rightarrow> 'l world \<Rightarrow> uuid \<Rightarrow> string \<Rightarrow> string option \<Rightarrow>
   string option \<Rightarrow> string \<Rightarrow> int \<Rightarrow> 'l store \<Rightarrow> (user_row res \<times> 'l store) option" where
  "user_create E ops w i name email external_id user_state created_at st =
     (let row = \<lparr>usr_id = i, usr_name = name, usr_email = email, usr_external_id = external_id,
                 usr_state = Some user_state, usr_created_at = Some created_at,
                 usr_updated_at = None, usr_picture_url = None\<rparr>
      in commit E ops w ''CREATE USER'' (\<lambda>_. user_create_build E row) st)"

definition user_get_by_id :: "('j, 'z) row_codecs_scheme \<Rightarrow> snapshot \<Rightarrow> uuid \<Rightarrow> user_row res" where
  "user_get_by_id E s i = rbind (ok_or (user_not_found (uuid_text E i)) (snap_get s EkUser i)) user_of"

definition user_get_by_name :: "snapshot \<Rightarrow> string \<Rightarrow> user_row res" where
  "user_get_by_name s name =
     rbind (ok_or (user_not_found name) (get_by_natural_key s EkUser name)) user_of"

definition user_get_by_email :: "snapshot \<Rightarrow> string \<Rightarrow> user_row option res" where
  "user_get_by_email s email = first_where s (\<lambda>u. usr_email u = Some email)"

definition user_get_by_external_id :: "snapshot \<Rightarrow> string \<Rightarrow> user_row option res" where
  "user_get_by_external_id s external_id = first_where s (\<lambda>u. usr_external_id u = Some external_id)"

definition find_or_create_build ::
  "('j, 'z) row_codecs_scheme \<Rightarrow> int \<Rightarrow> string \<Rightarrow> uuid \<Rightarrow> snapshot \<Rightarrow> ('j action list \<times> user_row) res" where
  "find_or_create_build E now external_id fresh s =
     rbind (first_where s (\<lambda>u. usr_external_id u = Some external_id)) (\<lambda>found.
     case found of
       Some existing \<Rightarrow> Inr ([], existing)
     | None \<Rightarrow>
         (let row = \<lparr>usr_id = fresh, usr_name = external_id, usr_email = None,
                     usr_external_id = Some external_id, usr_state = Some ''ENABLED'',
                     usr_created_at = Some now, usr_updated_at = None, usr_picture_url = None\<rparr>
          in write_row E (usr_id row) (RowUser row) row))"

definition find_or_create_by_external_id ::
  "('j, 'z) log_env_scheme \<Rightarrow> 'l log_ops \<Rightarrow> 'l world \<Rightarrow> (nat \<Rightarrow> uuid) \<Rightarrow> int \<Rightarrow> string \<Rightarrow> 'l store \<Rightarrow>
   (user_row res \<times> 'l store) option" where
  "find_or_create_by_external_id E ops w fresh now external_id st =
     commit E ops w ''FIND OR CREATE USER''
       (\<lambda>attempt. find_or_create_build E now external_id (fresh attempt)) st"

definition user_list :: "snapshot \<Rightarrow> string option \<Rightarrow> int \<Rightarrow> (user_row list \<times> string option) res" where
  "user_list s token max_results =
     rbind (collect_res user_of (scan s EkUser token (over_fetch max_results))) (\<lambda>rows.
     Inr (page rows max_results usr_name))"

definition user_update_build ::
  "('j, 'z) row_codecs_scheme \<Rightarrow> uuid \<Rightarrow> string option \<Rightarrow> string option \<Rightarrow> string option \<Rightarrow> int \<Rightarrow>
   snapshot \<Rightarrow> ('j action list \<times> user_row) res" where
  "user_update_build E i name email user_state updated_at s =
     rbind (ok_or (user_not_found (uuid_text E i)) (snap_get s EkUser i)) (\<lambda>current.
     rbind (user_of current) (\<lambda>row.
     rbind (case name of
              None \<Rightarrow> Inr row
            | Some target \<Rightarrow>
                if target \<noteq> usr_name row \<and> get_by_natural_key s EkUser target \<noteq> None
                then Inl (user_exists target)
                else Inr (row\<lparr>usr_name := target\<rparr>)) (\<lambda>row.
     let row = row\<lparr>usr_email := coalesce email (usr_email row),
                   usr_state := coalesce user_state (usr_state row),
                   usr_updated_at := Some updated_at\<rparr>
     in write_row E i (RowUser row) row)))"

definition user_update ::
  "('j, 'z) log_env_scheme \<Rightarrow> 'l log_ops \<Rightarrow> 'l world \<Rightarrow> uuid \<Rightarrow> string option \<Rightarrow> string option \<Rightarrow>
   string option \<Rightarrow> int \<Rightarrow> 'l store \<Rightarrow> (user_row res \<times> 'l store) option" where
  "user_update E ops w i name email user_state updated_at st =
     commit E ops w ''UPDATE USER'' (\<lambda>_. user_update_build E i name email user_state updated_at) st"

definition user_delete_build ::
  "('j, 'z) row_codecs_scheme \<Rightarrow> uuid \<Rightarrow> snapshot \<Rightarrow> ('j action list \<times> unit) res" where
  "user_delete_build E i s =
     (if snap_get s EkUser i = None then Inl (user_not_found (uuid_text E i))
      else Inr ([Remove EkUser i], ()))"

definition user_delete ::
  "('j, 'z) log_env_scheme \<Rightarrow> 'l log_ops \<Rightarrow> 'l world \<Rightarrow> uuid \<Rightarrow> 'l store \<Rightarrow>
   (unit res \<times> 'l store) option" where
  "user_delete E ops w i st = commit E ops w ''DROP USER'' (\<lambda>_. user_delete_build E i) st"

interpretation user: keyed_kind E RowUser user_of EkUser usr_name usr_id
  for E :: "('j, 'z) row_codecs_scheme"
proof unfold_locales
  fix v :: row
  show "row_kind v = EkUser \<Longrightarrow> \<exists>r. v = RowUser r" by (cases v) auto
qed (auto simp: user_of_def)

lemma user_create_admissible [admissible_intros]:
  "codecs_ok E \<Longrightarrow> admissible E (user_create_build E row)"
  by (erule user.write_admissibleI)
     (auto simp: user_create_build_def split: if_splits intro: user.single_write_new)

lemma user_update_admissible [admissible_intros]:
  assumes "codecs_ok E"
  shows "admissible E (user_update_build E i n em us t)"
proof (rule user.write_admissibleI [OF assms])
  fix s acts out
  assume ok: "snap_ok E s" and b: "user_update_build E i n em us t s = Inr (acts, out)"
  then obtain v where v: "snap_get s EkUser i = Some v"
    by (auto simp: user_update_build_def rbind_eq_Inr)
  with user.get_typed [OF ok] obtain q where q: "v = RowUser q" "usr_id q = i" "user_of v = Inr q"
    by blast
  from b v q(3) obtain row where row: "write_row E i (RowUser row) row = Inr (acts, out)"
    "usr_id row = i" "usr_name row = usr_name q \<or> get_by_natural_key s EkUser (usr_name row) = None"
    using q(2) by (auto simp: user_update_build_def Let_def rbind_eq_Inr split: option.splits if_splits)
  show "single_write E RowUser EkUser usr_name usr_id s acts out"
    by (rule user.single_write_same [OF row(1)]) (use v q row in auto)
qed

lemma user_delete_admissible [admissible_intros]: "admissible E (user_delete_build E i)"
  by (intro admissibleI) (auto simp: user_delete_build_def body_ok_def split: if_splits)

text \<open>
  \<open>find_or_create_by_external_id\<close> looks for the external id only. It keeps the state consistent when
  no user has taken the external id as a name.
\<close>

lemma find_or_create_ok:
  assumes "codecs_ok E" "snap_ok E s" "find_or_create_build E now x fresh s = Inr (acts, out)"
    and "get_by_natural_key s EkUser x = None"
  shows "acts_ok E s acts" "snap_ok E (snd (apply_all E s acts))"
proof -
  have "acts_ok E s acts"
  proof (cases "acts = []")
    case False
    let ?row = "\<lparr>usr_id = fresh, usr_name = x, usr_email = None, usr_external_id = Some x,
      usr_state = Some ''ENABLED'', usr_created_at = Some now, usr_updated_at = None, usr_picture_url = None\<rparr>"
    from False assms(3) have w: "write_row E fresh (RowUser ?row) ?row = Inr (acts, out)"
      by (auto simp: find_or_create_build_def Let_def rbind_eq_Inr split: option.splits)
    with user.upsert_new [OF assms(2), of ?row] assms(4) write_row_ok [OF assms(1) w] show ?thesis by simp
  qed simp
  then show "acts_ok E s acts" "snap_ok E (snd (apply_all E s acts))"
    using acts_ok_inv [OF assms(2)] by auto
qed

section \<open>Credentials\<close>

definition credential_of :: "row \<Rightarrow> credential_row res" where
  "credential_of v = (case v of RowCredential r \<Rightarrow> Inr r | _ \<Rightarrow> Inl (wrong_row ''credential'' v))"

definition credential_not_found :: "string \<Rightarrow> uc_error" where
  "credential_not_found name = uc_err NotFound (''Credential '' @ quoted name @ '' not found'')"

definition credential_exists :: "string \<Rightarrow> uc_error" where
  "credential_exists name =
     uc_err StorageCredentialAlreadyExists (''Credential '' @ quoted name @ '' already exists'')"

definition credential_create_build ::
  "('j, 'z) row_codecs_scheme \<Rightarrow> credential_row \<Rightarrow> snapshot \<Rightarrow> ('j action list \<times> credential_row) res" where
  "credential_create_build E row s =
     (if get_by_natural_key s EkCredential (crd_name row) \<noteq> None
      then Inl (credential_exists (crd_name row))
      else write_row E (crd_id row) (RowCredential row) row)"

definition credential_create ::
  "('j, 'z) log_env_scheme \<Rightarrow> 'l log_ops \<Rightarrow> 'l world \<Rightarrow> credential_row \<Rightarrow> 'l store \<Rightarrow>
   (credential_row res \<times> 'l store) option" where
  "credential_create E ops w row st =
     commit E ops w ''CREATE CREDENTIAL'' (\<lambda>_. credential_create_build E row) st"

definition credential_get_by_name :: "snapshot \<Rightarrow> string \<Rightarrow> credential_row res" where
  "credential_get_by_name s name =
     rbind (ok_or (credential_not_found name) (get_by_natural_key s EkCredential name)) credential_of"

definition credential_get_by_id ::
  "('j, 'z) row_codecs_scheme \<Rightarrow> snapshot \<Rightarrow> uuid \<Rightarrow> credential_row res" where
  "credential_get_by_id E s i =
     rbind (ok_or (credential_not_found (uuid_text E i)) (snap_get s EkCredential i)) credential_of"

definition credential_list ::
  "snapshot \<Rightarrow> string option \<Rightarrow> int \<Rightarrow> (credential_row list \<times> string option) res" where
  "credential_list s token max_results =
     rbind (collect_res credential_of (scan s EkCredential token (over_fetch max_results))) (\<lambda>rows.
     Inr (page rows max_results crd_name))"

definition credential_delete_build :: "string \<Rightarrow> snapshot \<Rightarrow> ('j action list \<times> unit) res" where
  "credential_delete_build name s =
     rbind (ok_or (credential_not_found name) (get_by_natural_key s EkCredential name)) (\<lambda>current.
     rbind (credential_of current) (\<lambda>row. Inr ([Remove EkCredential (crd_id row)], ())))"

definition credential_delete ::
  "('j, 'z) log_env_scheme \<Rightarrow> 'l log_ops \<Rightarrow> 'l world \<Rightarrow> string \<Rightarrow> 'l store \<Rightarrow>
   (unit res \<times> 'l store) option" where
  "credential_delete E ops w name st =
     commit E ops w ''DROP CREDENTIAL'' (\<lambda>_. credential_delete_build name) st"

definition credential_update_build ::
  "('j, 'z) row_codecs_scheme \<Rightarrow> uuid \<Rightarrow> string option \<Rightarrow> string option \<Rightarrow> string option \<Rightarrow>
   string option \<Rightarrow> int \<Rightarrow> string option \<Rightarrow> snapshot \<Rightarrow> ('j action list \<times> unit) res" where
  "credential_update_build E i new_name comment owner credential updated_at updated_by s =
     (case snap_get s EkCredential i of
        None \<Rightarrow> Inr ([], ())
      | Some current \<Rightarrow>
          rbind (credential_of current) (\<lambda>row.
          rbind (case new_name of
                   None \<Rightarrow> Inr row
                 | Some target \<Rightarrow>
                     if target \<noteq> crd_name row \<and> get_by_natural_key s EkCredential target \<noteq> None
                     then Inl (credential_exists target)
                     else Inr (row\<lparr>crd_name := target\<rparr>)) (\<lambda>row.
          write_row E i (RowCredential (row\<lparr>
            crd_comment := coalesce comment (crd_comment row), crd_owner := coalesce owner (crd_owner row),
            crd_credential := override credential (crd_credential row),
            crd_updated_at := Some updated_at, crd_updated_by := updated_by\<rparr>)) ())))"

definition credential_update ::
  "('j, 'z) log_env_scheme \<Rightarrow> 'l log_ops \<Rightarrow> 'l world \<Rightarrow> uuid \<Rightarrow> string option \<Rightarrow> string option \<Rightarrow>
   string option \<Rightarrow> string option \<Rightarrow> int \<Rightarrow> string option \<Rightarrow> 'l store \<Rightarrow> (unit res \<times> 'l store) option" where
  "credential_update E ops w i new_name comment owner credential updated_at updated_by st =
     commit E ops w ''UPDATE CREDENTIAL''
       (\<lambda>_. credential_update_build E i new_name comment owner credential updated_at updated_by) st"

interpretation credential: keyed_kind E RowCredential credential_of EkCredential crd_name crd_id
  for E :: "('j, 'z) row_codecs_scheme"
proof unfold_locales
  fix v :: row
  show "row_kind v = EkCredential \<Longrightarrow> \<exists>r. v = RowCredential r" by (cases v) auto
qed (auto simp: credential_of_def)

lemma credential_create_admissible [admissible_intros]:
  "codecs_ok E \<Longrightarrow> admissible E (credential_create_build E row)"
  by (erule credential.write_admissibleI)
     (auto simp: credential_create_build_def split: if_splits intro: credential.single_write_new)

lemma credential_delete_admissible [admissible_intros]: "admissible E (credential_delete_build name)"
  by (intro admissibleI) (auto simp: credential_delete_build_def rbind_eq_Inr body_ok_def)

lemma credential_update_admissible [admissible_intros]:
  assumes "codecs_ok E"
  shows "admissible E (credential_update_build E i n cm ow cr t u)"
proof (rule credential.write_admissibleI [OF assms])
  fix s acts out
  assume ok: "snap_ok E s" and b: "credential_update_build E i n cm ow cr t u s = Inr (acts, out)"
  show "single_write E RowCredential EkCredential crd_name crd_id s acts out"
  proof (cases "snap_get s EkCredential i")
    case None
    with b show ?thesis by (simp add: credential_update_build_def credential.single_write_none)
  next
    case (Some cur)
    with credential.get_typed [OF ok] obtain q where
      q: "cur = RowCredential q" "crd_id q = i" "credential_of cur = Inr q" by blast
    from b Some q(3) obtain row where row: "write_row E i (RowCredential row) () = Inr (acts, out)"
      "crd_id row = i" "crd_name row = crd_name q \<or> get_by_natural_key s EkCredential (crd_name row) = None"
      using q(2) by (auto simp: credential_update_build_def rbind_eq_Inr split: if_splits option.splits)
    show ?thesis
      by (rule credential.single_write_same [OF row(1)]) (use Some q row in auto)
  qed
qed

section \<open>External locations\<close>

definition location_of :: "row \<Rightarrow> external_location_row res" where
  "location_of v = (case v of RowExternalLocation r \<Rightarrow> Inr r | _ \<Rightarrow> Inl (wrong_row ''external location'' v))"

definition location_not_found :: "string \<Rightarrow> uc_error" where
  "location_not_found name = uc_err NotFound (''External location '' @ quoted name @ '' not found'')"

definition location_exists :: "string \<Rightarrow> uc_error" where
  "location_exists name =
     uc_err ExternalLocationAlreadyExists (''External location '' @ quoted name @ '' already exists'')"

definition location_create_build ::
  "('j, 'z) row_codecs_scheme \<Rightarrow> external_location_row \<Rightarrow> snapshot \<Rightarrow>
   ('j action list \<times> external_location_row) res" where
  "location_create_build E row s =
     (if get_by_natural_key s EkExternalLocation (loc_name row) \<noteq> None
      then Inl (location_exists (loc_name row))
      else write_row E (loc_id row) (RowExternalLocation row) row)"

definition location_create ::
  "('j, 'z) log_env_scheme \<Rightarrow> 'l log_ops \<Rightarrow> 'l world \<Rightarrow> external_location_row \<Rightarrow> 'l store \<Rightarrow>
   (external_location_row res \<times> 'l store) option" where
  "location_create E ops w row st =
     commit E ops w ''CREATE EXTERNAL LOCATION'' (\<lambda>_. location_create_build E row) st"

definition location_get_by_name :: "snapshot \<Rightarrow> string \<Rightarrow> external_location_row res" where
  "location_get_by_name s name =
     rbind (ok_or (location_not_found name) (get_by_natural_key s EkExternalLocation name)) location_of"

definition location_list ::
  "snapshot \<Rightarrow> string option \<Rightarrow> int \<Rightarrow> (external_location_row list \<times> string option) res" where
  "location_list s token max_results =
     rbind (collect_res location_of (scan s EkExternalLocation token (over_fetch max_results))) (\<lambda>rows.
     Inr (page rows max_results loc_name))"

definition location_delete_build :: "string \<Rightarrow> snapshot \<Rightarrow> ('j action list \<times> unit) res" where
  "location_delete_build name s =
     rbind (ok_or (location_not_found name) (get_by_natural_key s EkExternalLocation name)) (\<lambda>current.
     rbind (location_of current) (\<lambda>row. Inr ([Remove EkExternalLocation (loc_id row)], ())))"

definition location_delete ::
  "('j, 'z) log_env_scheme \<Rightarrow> 'l log_ops \<Rightarrow> 'l world \<Rightarrow> string \<Rightarrow> 'l store \<Rightarrow>
   (unit res \<times> 'l store) option" where
  "location_delete E ops w name st =
     commit E ops w ''DROP EXTERNAL LOCATION'' (\<lambda>_. location_delete_build name) st"

text \<open>Longest url first, then the smaller id.\<close>

definition location_rank :: "external_location_row \<Rightarrow> int \<times> uuid" where
  "location_rank l = (- int (length (loc_url l)), loc_id l)"

definition find_by_path_prefix :: "snapshot \<Rightarrow> string \<Rightarrow> external_location_row option res" where
  "find_by_path_prefix s path =
     rbind (collect_res location_of (snap_iter s EkExternalLocation)) (\<lambda>rows.
     case sort_key location_rank (filter (\<lambda>l. starts_with path (loc_url l)) rows) of
       [] \<Rightarrow> Inr None
     | l # _ \<Rightarrow> Inr (Some l))"

definition location_update_build ::
  "('j, 'z) row_codecs_scheme \<Rightarrow> uuid \<Rightarrow> string option \<Rightarrow> string option \<Rightarrow> string option \<Rightarrow>
   string option \<Rightarrow> uuid option \<Rightarrow> int \<Rightarrow> string option \<Rightarrow> snapshot \<Rightarrow> ('j action list \<times> unit) res" where
  "location_update_build E i new_name url comment owner credential_id updated_at updated_by s =
     (case snap_get s EkExternalLocation i of
        None \<Rightarrow> Inr ([], ())
      | Some current \<Rightarrow>
          rbind (location_of current) (\<lambda>row.
          rbind (case new_name of
                   None \<Rightarrow> Inr row
                 | Some target \<Rightarrow>
                     if target \<noteq> loc_name row \<and> get_by_natural_key s EkExternalLocation target \<noteq> None
                     then Inl (location_exists target)
                     else Inr (row\<lparr>loc_name := target\<rparr>)) (\<lambda>row.
          write_row E i (RowExternalLocation (row\<lparr>
            loc_url := override url (loc_url row),
            loc_comment := coalesce comment (loc_comment row), loc_owner := coalesce owner (loc_owner row),
            loc_credential_id := override credential_id (loc_credential_id row),
            loc_updated_at := Some updated_at, loc_updated_by := updated_by\<rparr>)) ())))"

definition location_update ::
  "('j, 'z) log_env_scheme \<Rightarrow> 'l log_ops \<Rightarrow> 'l world \<Rightarrow> uuid \<Rightarrow> string option \<Rightarrow> string option \<Rightarrow>
   string option \<Rightarrow> string option \<Rightarrow> uuid option \<Rightarrow> int \<Rightarrow> string option \<Rightarrow> 'l store \<Rightarrow>
   (unit res \<times> 'l store) option" where
  "location_update E ops w i new_name url comment owner credential_id updated_at updated_by st =
     commit E ops w ''UPDATE EXTERNAL LOCATION''
       (\<lambda>_. location_update_build E i new_name url comment owner credential_id updated_at updated_by) st"

interpretation location: keyed_kind E RowExternalLocation location_of EkExternalLocation loc_name loc_id
  for E :: "('j, 'z) row_codecs_scheme"
proof unfold_locales
  fix v :: row
  show "row_kind v = EkExternalLocation \<Longrightarrow> \<exists>r. v = RowExternalLocation r" by (cases v) auto
qed (auto simp: location_of_def)

lemma location_create_admissible [admissible_intros]:
  "codecs_ok E \<Longrightarrow> admissible E (location_create_build E row)"
  by (erule location.write_admissibleI)
     (auto simp: location_create_build_def split: if_splits intro: location.single_write_new)

lemma location_delete_admissible [admissible_intros]: "admissible E (location_delete_build name)"
  by (intro admissibleI) (auto simp: location_delete_build_def rbind_eq_Inr body_ok_def)

lemma location_update_admissible [admissible_intros]:
  assumes "codecs_ok E"
  shows "admissible E (location_update_build E i n url cm ow cr t u)"
proof (rule location.write_admissibleI [OF assms])
  fix s acts out
  assume ok: "snap_ok E s" and b: "location_update_build E i n url cm ow cr t u s = Inr (acts, out)"
  show "single_write E RowExternalLocation EkExternalLocation loc_name loc_id s acts out"
  proof (cases "snap_get s EkExternalLocation i")
    case None
    with b show ?thesis by (simp add: location_update_build_def location.single_write_none)
  next
    case (Some cur)
    with location.get_typed [OF ok] obtain q where
      q: "cur = RowExternalLocation q" "loc_id q = i" "location_of cur = Inr q" by blast
    from b Some q(3) obtain row where row: "write_row E i (RowExternalLocation row) () = Inr (acts, out)"
      "loc_id row = i"
      "loc_name row = loc_name q \<or> get_by_natural_key s EkExternalLocation (loc_name row) = None"
      using q(2) by (auto simp: location_update_build_def rbind_eq_Inr split: if_splits option.splits)
    show ?thesis
      by (rule location.single_write_same [OF row(1)]) (use Some q row in auto)
  qed
qed

section \<open>Metastore\<close>

definition metastore_of :: "row \<Rightarrow> metastore_row res" where
  "metastore_of v = (case v of RowMetastore r \<Rightarrow> Inr r | _ \<Rightarrow> Inl (wrong_row ''metastore'' v))"

definition get_or_init_build ::
  "('j, 'z) row_codecs_scheme \<Rightarrow> string \<Rightarrow> uuid \<Rightarrow> snapshot \<Rightarrow> ('j action list \<times> metastore_row) res" where
  "get_or_init_build E name fresh s =
     (case snap_iter s EkMetastore of
        existing # _ \<Rightarrow> rbind (metastore_of existing) (\<lambda>r. Inr ([], r))
      | [] \<Rightarrow>
         (let row = \<lparr>met_id = fresh, met_name = name\<rparr>
          in write_row E (met_id row) (RowMetastore row) row))"

definition get_or_init ::
  "('j, 'z) log_env_scheme \<Rightarrow> 'l log_ops \<Rightarrow> 'l world \<Rightarrow> (nat \<Rightarrow> uuid) \<Rightarrow> string \<Rightarrow> 'l store \<Rightarrow>
   (metastore_row res \<times> 'l store) option" where
  "get_or_init E ops w fresh name st =
     commit E ops w ''INIT METASTORE'' (\<lambda>attempt. get_or_init_build E name (fresh attempt)) st"

definition metastore_get :: "snapshot \<Rightarrow> metastore_row res" where
  "metastore_get s =
     (case snap_iter s EkMetastore of
        [] \<Rightarrow> Inl (uc_err Internal ''Metastore not initialised'')
      | found # _ \<Rightarrow> metastore_of found)"

lemma get_or_init_admissible [admissible_intros]:
  assumes "codecs_ok E"
  shows "admissible E (get_or_init_build E name fresh)"
proof (rule admissibleI)
  fix s acts out
  assume b: "get_or_init_build E name fresh s = Inr (acts, out)"
  show "acts_ok E s acts \<and> (\<forall>a \<in> set acts. body_ok E a)"
  proof (cases "snap_iter s EkMetastore")
    case Nil
    with b keyless_write_ok [OF assms, of fresh "RowMetastore \<lparr>met_id = fresh, met_name = name\<rparr>"]
    show ?thesis by (simp add: get_or_init_build_def Let_def)
  next
    case (Cons v vs)
    with b show ?thesis by (auto simp: get_or_init_build_def rbind_eq_Inr)
  qed
qed

end
