(* ===== verification/RepoPolicy.thy ===== *)
theory RepoPolicy
  imports RepoBase
begin

text \<open>
  The modules \<^verbatim>\<open>repos::property\<close> and \<^verbatim>\<open>repos::casbin\<close>, whose writes replace a whole group of
  rows in one commit. A build that draws several UUIDv7s takes the ids of the attempt as a sequence.
\<close>

section \<open>Properties\<close>

definition property_of :: "row \<Rightarrow> property_row res" where
  "property_of v = (case v of RowProperty r \<Rightarrow> Inr r | _ \<Rightarrow> Inl (wrong_row ''property'' v))"

definition property_prefix :: "('j, 'z) row_codecs_scheme \<Rightarrow> uuid \<Rightarrow> string \<Rightarrow> string" where
  "property_prefix E entity_id entity_type = uuid_text E entity_id @ NUL # entity_type @ [NUL]"

definition get_for_entity ::
  "('j, 'z) row_codecs_scheme \<Rightarrow> snapshot \<Rightarrow> uuid \<Rightarrow> string \<Rightarrow> (string, string) omap res" where
  "get_for_entity E s entity_id entity_type =
     rbind (collect_res property_of (List.map_filter (snap_get s EkProperty)
       (ids_under_prefix s EkProperty (property_prefix E entity_id entity_type)))) (\<lambda>rows.
     Inr (fold (\<lambda>r m. om_insert (prop_property_key r) (prop_property_value r) m) rows []))"

definition property_rows ::
  "uuid \<Rightarrow> string \<Rightarrow> (nat \<Rightarrow> uuid) \<Rightarrow> (string \<times> string) list \<Rightarrow> property_row list" where
  "property_rows entity_id entity_type fresh entries =
     map (\<lambda>(n, key, value). \<lparr>prop_id = fresh n, prop_entity_id = entity_id,
         prop_entity_type = entity_type, prop_property_key = key, prop_property_value = value\<rparr>)
       (enumerate 0 entries)"

definition property_replace_build ::
  "('j, 'z) row_codecs_scheme \<Rightarrow> uuid \<Rightarrow> string \<Rightarrow> (string \<times> string) list \<Rightarrow> (nat \<Rightarrow> uuid) \<Rightarrow>
   snapshot \<Rightarrow> ('j action list \<times> unit) res" where
  "property_replace_build E entity_id entity_type properties fresh s =
     (let removes = map (Remove EkProperty)
            (ids_under_prefix s EkProperty (property_prefix E entity_id entity_type));
          entries = sort_key fst properties
      in rbind (write_rows E (map (\<lambda>r. (prop_id r, RowProperty r))
           (property_rows entity_id entity_type fresh entries))) (\<lambda>upserts. Inr (removes @ upserts, ())))"

definition property_replace ::
  "('j, 'z) log_env_scheme \<Rightarrow> 'l log_ops \<Rightarrow> 'l world \<Rightarrow> (nat \<Rightarrow> nat \<Rightarrow> uuid) \<Rightarrow> uuid \<Rightarrow> string \<Rightarrow>
   (string \<times> string) list \<Rightarrow> 'l store \<Rightarrow> (unit res \<times> 'l store) option" where
  "property_replace E ops w fresh entity_id entity_type properties st =
     commit E ops w ''SET PROPERTIES''
       (\<lambda>attempt. property_replace_build E entity_id entity_type properties (fresh attempt)) st"

definition property_delete_build ::
  "('j, 'z) row_codecs_scheme \<Rightarrow> uuid \<Rightarrow> string \<Rightarrow> snapshot \<Rightarrow> ('j action list \<times> unit) res" where
  "property_delete_build E entity_id entity_type s =
     Inr (map (Remove EkProperty)
       (ids_under_prefix s EkProperty (property_prefix E entity_id entity_type)), ())"

definition property_delete_for_entity ::
  "('j, 'z) log_env_scheme \<Rightarrow> 'l log_ops \<Rightarrow> 'l world \<Rightarrow> uuid \<Rightarrow> string \<Rightarrow> 'l store \<Rightarrow>
   (unit res \<times> 'l store) option" where
  "property_delete_for_entity E ops w entity_id entity_type st =
     commit E ops w ''UNSET PROPERTIES'' (\<lambda>_. property_delete_build E entity_id entity_type) st"

definition property_set_build ::
  "('j, 'z) row_codecs_scheme \<Rightarrow> uuid \<Rightarrow> string \<Rightarrow> string \<Rightarrow> string \<Rightarrow> uuid \<Rightarrow> snapshot \<Rightarrow>
   ('j action list \<times> unit) res" where
  "property_set_build E entity_id entity_type key value fresh s =
     rbind (case get_by_natural_key s EkProperty (property_prefix E entity_id entity_type @ key) of
              None \<Rightarrow> Inr fresh
            | Some v \<Rightarrow> rbind (property_of v) (\<lambda>r. Inr (prop_id r))) (\<lambda>i.
     write_row E i (RowProperty \<lparr>prop_id = i, prop_entity_id = entity_id,
       prop_entity_type = entity_type, prop_property_key = key, prop_property_value = value\<rparr>) ())"

definition property_set ::
  "('j, 'z) log_env_scheme \<Rightarrow> 'l log_ops \<Rightarrow> 'l world \<Rightarrow> (nat \<Rightarrow> uuid) \<Rightarrow> uuid \<Rightarrow> string \<Rightarrow> string \<Rightarrow>
   string \<Rightarrow> 'l store \<Rightarrow> (unit res \<times> 'l store) option" where
  "property_set E ops w fresh entity_id entity_type key value st =
     commit E ops w ''SET PROPERTY''
       (\<lambda>attempt. property_set_build E entity_id entity_type key value (fresh attempt)) st"

definition property_delete_key_build ::
  "('j, 'z) row_codecs_scheme \<Rightarrow> uuid \<Rightarrow> string \<Rightarrow> string \<Rightarrow> snapshot \<Rightarrow> ('j action list \<times> unit) res" where
  "property_delete_key_build E entity_id entity_type key s =
     (case get_by_natural_key s EkProperty (property_prefix E entity_id entity_type @ key) of
        None \<Rightarrow> Inr ([], ())
      | Some existing \<Rightarrow>
          rbind (property_of existing) (\<lambda>row. Inr ([Remove EkProperty (prop_id row)], ())))"

definition property_delete_key ::
  "('j, 'z) log_env_scheme \<Rightarrow> 'l log_ops \<Rightarrow> 'l world \<Rightarrow> uuid \<Rightarrow> string \<Rightarrow> string \<Rightarrow> 'l store \<Rightarrow>
   (unit res \<times> 'l store) option" where
  "property_delete_key E ops w entity_id entity_type key st =
     commit E ops w ''UNSET PROPERTY'' (\<lambda>_. property_delete_key_build E entity_id entity_type key) st"

definition property_key_of :: "('j, 'z) row_codecs_scheme \<Rightarrow> property_row \<Rightarrow> string" where
  "property_key_of E r = property_prefix E (prop_entity_id r) (prop_entity_type r) @ prop_property_key r"

interpretation property: keyed_kind E RowProperty property_of EkProperty "property_key_of E" prop_id
  for E :: "('j, 'z) row_codecs_scheme"
proof unfold_locales
  fix v :: row
  show "row_kind v = EkProperty \<Longrightarrow> \<exists>r. v = RowProperty r" by (cases v) auto
qed (auto simp: property_of_def property_key_of_def property_prefix_def)

text \<open>After a group has been removed its keys are free, and the rows of no other group have gone.\<close>

lemma group_removed:
  assumes "snap_ok E s" "starts_with nk p"
  shows "id_by_natural_key (fold (\<lambda>i t. remove_row E t k i) (ids_under_prefix s k p) s) k nk = None"
proof (rule ccontr)
  let ?t = "fold (\<lambda>i t. remove_row E t k i) (ids_under_prefix s k p) s"
  assume "\<not> ?thesis"
  then obtain i where "id_by_natural_key ?t k nk = Some i" by blast
  then obtain r where "snap_get ?t k i = Some r" "natural_key_for E r = Some nk"
    using id_by_natural_key_iff [OF snap_ok_fold_remove [OF assms(1)]] by blast
  with assms(2) ids_under_prefix_iff [OF assms(1), of i k p] show False
    by (auto simp: snap_get_fold_remove split: if_splits)
qed

lemma property_replace_rows:
  "(i, v) \<in> set (map (\<lambda>r. (prop_id r, RowProperty r)) (property_rows e t fresh entries)) \<Longrightarrow>
   \<exists>key value. v = RowProperty \<lparr>prop_id = i, prop_entity_id = e, prop_entity_type = t,
     prop_property_key = key, prop_property_value = value\<rparr>"
  by (auto simp: property_rows_def)

lemma property_replace_upserts_ok:
  assumes "snap_ok E s" "distinct (map fst properties)"
  shows "upserts_ok E (fold (\<lambda>i t. remove_row E t EkProperty i)
      (ids_under_prefix s EkProperty (property_prefix E e t)) s)
    (map (\<lambda>r. (prop_id r, RowProperty r)) (property_rows e t fresh (sort_key fst properties)))"
    (is "upserts_ok E ?s ?rows")
proof (rule upserts_ok_distinct [where kind = EkProperty])
  have "map (\<lambda>(_, r). natural_key_for E r) ?rows =
      map (\<lambda>k. Some (property_prefix E e t @ k)) (map fst (sort_key fst properties))"
    by (rule nth_equalityI)
       (simp_all add: property_rows_def property_prefix_def case_prod_unfold nth_enumerate_eq)
  moreover have "distinct (map fst (sort_key fst properties))"
    using assms(2) by (metis distinct_map distinct_sort set_sort)
  ultimately show "distinct (map (\<lambda>(_, r). natural_key_for E r) ?rows)"
    by (simp add: distinct_map inj_on_def)
  fix i r assume "(i, r) \<in> set ?rows"
  then obtain key val where r: "r = RowProperty \<lparr>prop_id = i, prop_entity_id = e, prop_entity_type = t,
      prop_property_key = key, prop_property_value = val\<rparr>"
    using property_replace_rows by blast
  then have "natural_key_for E r = Some (property_prefix E e t @ key)"
    by (simp add: property_prefix_def)
  moreover have "row_kind r = EkProperty" "row_id r = Some i"
    by (simp_all add: r)
  ultimately show "row_kind r = EkProperty \<and> (row_id r = None \<or> row_id r = Some i) \<and>
      (\<exists>nk. natural_key_for E r = Some nk \<and> id_by_natural_key ?s EkProperty nk = None)"
    using group_removed [OF assms(1), of "property_prefix E e t @ key" "property_prefix E e t" EkProperty]
    by simp
qed

lemma property_replace_admissible [admissible_intros]:
  assumes "codecs_ok E" "distinct (map fst properties)"
  shows "admissible E (property_replace_build E e t properties fresh)"
proof (rule admissibleI)
  fix s acts out
  assume ok: "snap_ok E s" and b: "property_replace_build E e t properties fresh s = Inr (acts, out)"
  from b obtain ups where w: "write_rows E (map (\<lambda>r. (prop_id r, RowProperty r))
      (property_rows e t fresh (sort_key fst properties))) = Inr ups"
    "acts = map (Remove EkProperty) (ids_under_prefix s EkProperty (property_prefix E e t)) @ ups"
    by (auto simp: property_replace_build_def Let_def rbind_eq_Inr)
  then show "acts_ok E s acts \<and> (\<forall>a \<in> set acts. body_ok E a)"
    using write_rows_ok(2,3) [OF assms(1) w(1)] property_replace_upserts_ok [OF ok assms(2)]
    by (auto simp: acts_ok_removes_then body_ok_def)
qed

lemma property_delete_admissible [admissible_intros]: "admissible E (property_delete_build E e t)"
  by (intro admissibleI acts_ok_all_removes) (auto simp: property_delete_build_def)

lemma property_delete_key_admissible [admissible_intros]:
  "admissible E (property_delete_key_build E e t key)"
  by (intro admissibleI acts_ok_all_removes)
     (auto simp: property_delete_key_build_def rbind_eq_Inr split: option.splits)

lemma property_set_admissible [admissible_intros]:
  assumes "codecs_ok E"
  shows "admissible E (property_set_build E e t key value fresh)"
proof (rule property.write_admissibleI [OF assms])
  fix s acts out
  assume ok: "snap_ok E s" and b: "property_set_build E e t key value fresh s = Inr (acts, out)"
  let ?nk = "property_prefix E e t @ key"
  let ?row = "\<lambda>i. \<lparr>prop_id = i, prop_entity_id = e, prop_entity_type = t,
      prop_property_key = key, prop_property_value = value\<rparr>"
  have key: "property_key_of E (?row i) = ?nk" for i by (simp add: property_key_of_def)
  show "single_write E RowProperty EkProperty (property_key_of E) prop_id s acts out"
  proof (cases "get_by_natural_key s EkProperty ?nk")
    case None
    with b have "write_row E (prop_id (?row fresh)) (RowProperty (?row fresh)) () = Inr (acts, out)"
      by (simp add: property_set_build_def)
    then show ?thesis
      by (rule property.single_write_new) (simp add: key None)
  next
    case (Some v)
    from property.found_typed [OF ok Some] obtain q where q: "v = RowProperty q"
      "property_key_of E q = ?nk" "property_of v = Inr q" "snap_get s EkProperty (prop_id q) = Some v" by blast
    with b Some have "write_row E (prop_id q) (RowProperty (?row (prop_id q))) () = Inr (acts, out)"
      by (simp add: property_set_build_def)
    then show ?thesis
      by (rule property.single_write_same) (use q(1,4) in simp, simp, simp add: q(2) key)
  qed
qed

text \<open>After a replace, reading the properties of the entity gives exactly the new ones.\<close>

lemma fold_om_insert:
  assumes "distinct (map f rows)" "om_ok m" "\<And>r. r \<in> set rows \<Longrightarrow> map_of m (f r) = None"
  shows "om_ok (fold (\<lambda>r m. om_insert (f r) (g r) m) rows m) \<and>
    (\<forall>k v. map_of (fold (\<lambda>r m. om_insert (f r) (g r) m) rows m) k = Some v \<longleftrightarrow>
       map_of m k = Some v \<or> (\<exists>r \<in> set rows. f r = k \<and> g r = v))"
  using assms
proof (induction rows arbitrary: m)
  case (Cons r rows)
  have "map_of (om_insert (f r) (g r) m) (f q) = None" if "q \<in> set rows" for q
    using Cons.prems(1,3) that by (auto simp: image_iff)
  with Cons.IH [of "om_insert (f r) (g r) m"] Cons.prems show ?case by auto
qed simp

lemma snap_get_upsert_rows_other:
  "snap_get (upsert_rows E rows s) k i = Some v \<Longrightarrow>
   snap_get s k i = Some v \<or> (\<exists>r. (i, r) \<in> set rows \<and> row_kind r = k \<and> v = r)"
  by (induction rows arbitrary: s) (fastforce simp: upsert_rows_def split: if_splits)+

lemma snap_get_upsert_rows_new:
  "distinct (map fst rows) \<Longrightarrow> (i, r) \<in> set rows \<Longrightarrow>
   snap_get (upsert_rows E rows s) (row_kind r) i = Some r"
proof (induction rows arbitrary: s rule: rev_induct)
  case (snoc x rows)
  then show ?case
    by (cases x) (auto simp: upsert_rows_def rev_image_eqI)
qed simp

lemma property_replace_get:
  assumes "codecs_ok E" "snap_ok E s" "distinct (map fst properties)"
    and "inj_on fresh {..<length properties}"
    and "property_replace_build E e t properties fresh s = Inr (acts, out)"
  shows "\<exists>m. get_for_entity E (snd (apply_all E s acts)) e t = Inr m \<and> om_ok m \<and>
    map_of m = map_of properties"
proof -
  let ?p = "property_prefix E e t" and ?props = "sort_key fst properties"
  let ?new = "property_rows e t fresh ?props"
  let ?rows = "map (\<lambda>r. (prop_id r, RowProperty r)) ?new"
  let ?t = "fold (\<lambda>i t. remove_row E t EkProperty i) (ids_under_prefix s EkProperty ?p) s"
  let ?s = "snd (apply_all E s acts)"
  obtain ups where w: "write_rows E ?rows = Inr ups"
    and acts: "acts = map (Remove EkProperty) (ids_under_prefix s EkProperty ?p) @ ups"
    using assms(5) by (auto simp: property_replace_build_def Let_def rbind_eq_Inr)
  have final: "?s = upsert_rows E ?rows ?t"
    unfolding acts using write_rows_ok(1) [OF assms(1) w] by (simp add: apply_all_append apply_all_removes)
  have ok: "snap_ok E ?s"
    by (rule admissibleD(3) [OF property_replace_admissible [OF assms(1,3)] assms(2,5)])
  have ids: "distinct (map fst ?rows)"
    using assms(4) by (auto simp: property_rows_def distinct_conv_nth nth_enumerate_eq case_prod_unfold inj_on_eq_iff)
  have new: "prop_entity_id r = e \<and> prop_entity_type r = t" if "r \<in> set ?new" for r
    using that by (auto simp: property_rows_def)
  let ?group = "filter (\<lambda>r. starts_with (property_key_of E r) ?p) (typed_rows property_of EkProperty ?s)"
  have group: "r \<in> set ?group \<longleftrightarrow> r \<in> set ?new" for r
  proof
    assume "r \<in> set ?group"
    then have r: "snap_get ?s EkProperty (prop_id r) = Some (RowProperty r)" "starts_with (property_key_of E r) ?p"
      using property.set_typed_rows [OF ok] by auto
    have "snap_get ?t EkProperty (prop_id r) \<noteq> Some (RowProperty r)"
    proof
      assume "snap_get ?t EkProperty (prop_id r) = Some (RowProperty r)"
      then have "id_by_natural_key ?t EkProperty (property_key_of E r) = Some (prop_id r)"
        using id_by_natural_key_iff [OF snap_ok_fold_remove [OF assms(2)]] property.con_key by blast
      with group_removed [OF assms(2) r(2), of EkProperty] show False by simp
    qed
    with snap_get_upsert_rows_other [of E ?rows ?t] r(1) final show "r \<in> set ?new" by fastforce
  next
    assume r: "r \<in> set ?new"
    then have "(prop_id r, RowProperty r) \<in> set ?rows" by simp
    from snap_get_upsert_rows_new [OF ids this] have "snap_get ?s EkProperty (prop_id r) = Some (RowProperty r)"
      using final by simp
    moreover have "starts_with (property_key_of E r) ?p"
      using new [OF r] by (simp add: property_key_of_def)
    ultimately show "r \<in> set ?group"
      using property.set_typed_rows [OF ok] by simp
  qed
  have "sorted_wrt (\<lambda>a b. property_key_of E a < property_key_of E b) ?group"
    by (rule sorted_wrt_filter [OF property.typed_rows_sorted [OF ok]])
  then have "distinct (map (property_key_of E) ?group)"
    by (simp add: sorted_wrt_map [symmetric] strict_sorted_iff)
  then have keys: "distinct (map prop_property_key ?group)"
    unfolding distinct_map inj_on_def using group new by (auto simp: property_key_of_def)
  define m where "m = fold (\<lambda>r m. om_insert (prop_property_key r) (prop_property_value r) m) ?group []"
  have m: "om_ok m" "\<And>k v. map_of m k = Some v \<longleftrightarrow> (\<exists>r \<in> set ?group. prop_property_key r = k \<and> prop_property_value r = v)"
    using fold_om_insert [OF keys, of "[]" prop_property_value] by (auto simp: m_def)
  have "(\<exists>r \<in> set ?new. prop_property_key r = k \<and> prop_property_value r = v) \<longleftrightarrow> (k, v) \<in> set properties" for k v
  proof -
    have "map (\<lambda>r. (prop_property_key r, prop_property_value r)) ?new = ?props"
      by (rule nth_equalityI) (simp_all add: property_rows_def case_prod_unfold nth_enumerate_eq)
    then have "set (map (\<lambda>r. (prop_property_key r, prop_property_value r)) ?new) = set properties"
      by (metis set_sort)
    then show ?thesis by (force simp: image_iff)
  qed
  then have "map_of m k = Some v \<longleftrightarrow> map_of properties k = Some v" for k v
    unfolding m(2) using group assms(3) by simp
  then have "map_of m = map_of properties"
    unfolding fun_eq_iff by (metis not_None_eq)
  moreover have "get_for_entity E ?s e t = Inr m"
    by (simp add: get_for_entity_def property.group_typed [OF ok] m_def)
  ultimately show ?thesis using m(1) by blast
qed

section \<open>Casbin rules\<close>

definition rule_of :: "row \<Rightarrow> casbin_rule res" where
  "rule_of v = (case v of RowCasbinRule r \<Rightarrow> Inr r | _ \<Rightarrow> Inl (wrong_row ''casbin rule'' v))"

definition rule_key :: "casbin_rule \<Rightarrow> string" where
  "rule_key r = nul_join [cr_ptype r, cr_v0 r, cr_v1 r, cr_v2 r, cr_v3 r, cr_v4 r, cr_v5 r]"

definition casbin_load_all :: "snapshot \<Rightarrow> casbin_rule list res" where
  "casbin_load_all s = collect_res (\<lambda>(_, v). rule_of v) (iter_by_id s EkCasbinRule)"

definition casbin_insert_build ::
  "('j, 'z) row_codecs_scheme \<Rightarrow> casbin_rule \<Rightarrow> uuid \<Rightarrow> snapshot \<Rightarrow> ('j action list \<times> bool) res" where
  "casbin_insert_build E rule fresh s =
     (if get_by_natural_key s EkCasbinRule (rule_key rule) \<noteq> None then Inr ([], False)
      else write_row E fresh (RowCasbinRule rule) True)"

definition casbin_insert ::
  "('j, 'z) log_env_scheme \<Rightarrow> 'l log_ops \<Rightarrow> 'l world \<Rightarrow> (nat \<Rightarrow> uuid) \<Rightarrow> casbin_rule \<Rightarrow> 'l store \<Rightarrow>
   (bool res \<times> 'l store) option" where
  "casbin_insert E ops w fresh rule st =
     commit E ops w ''ADD POLICY'' (\<lambda>attempt. casbin_insert_build E rule (fresh attempt)) st"

definition casbin_delete_build :: "casbin_rule \<Rightarrow> snapshot \<Rightarrow> ('j action list \<times> bool) res" where
  "casbin_delete_build rule s =
     (case id_by_natural_key s EkCasbinRule (rule_key rule) of
        None \<Rightarrow> Inr ([], False)
      | Some i \<Rightarrow> Inr ([Remove EkCasbinRule i], True))"

definition casbin_delete ::
  "('j, 'z) log_env_scheme \<Rightarrow> 'l log_ops \<Rightarrow> 'l world \<Rightarrow> casbin_rule \<Rightarrow> 'l store \<Rightarrow>
   (bool res \<times> 'l store) option" where
  "casbin_delete E ops w rule st = commit E ops w ''REMOVE POLICY'' (\<lambda>_. casbin_delete_build rule) st"

definition casbin_delete_many_build ::
  "casbin_rule list \<Rightarrow> snapshot \<Rightarrow> ('j action list \<times> bool) res" where
  "casbin_delete_many_build rules s =
     (let actions = map (Remove EkCasbinRule)
            (List.map_filter (id_by_natural_key s EkCasbinRule) (map rule_key rules))
      in Inr (actions, actions \<noteq> []))"

definition casbin_delete_many ::
  "('j, 'z) log_env_scheme \<Rightarrow> 'l log_ops \<Rightarrow> 'l world \<Rightarrow> casbin_rule list \<Rightarrow> 'l store \<Rightarrow>
   (bool res \<times> 'l store) option" where
  "casbin_delete_many E ops w rules st =
     commit E ops w ''REMOVE POLICIES'' (\<lambda>_. casbin_delete_many_build rules) st"

text \<open>The loop with the set of keys seen.\<close>

fun dedup_rules :: "string list \<Rightarrow> casbin_rule list \<Rightarrow> casbin_rule list" where
  "dedup_rules seen [] = []"
| "dedup_rules seen (r # rs) =
     (if rule_key r \<in> set seen then dedup_rules seen rs
      else r # dedup_rules (rule_key r # seen) rs)"

definition casbin_replace_all_build ::
  "('j, 'z) row_codecs_scheme \<Rightarrow> casbin_rule list \<Rightarrow> (nat \<Rightarrow> uuid) \<Rightarrow> snapshot \<Rightarrow>
   ('j action list \<times> unit) res" where
  "casbin_replace_all_build E rules fresh s =
     rbind (write_rows E (map (\<lambda>(n, r). (fresh n, RowCasbinRule r)) (enumerate 0 (dedup_rules [] rules))))
       (\<lambda>upserts. Inr (map (Remove EkCasbinRule) (map fst (iter_by_id s EkCasbinRule)) @ upserts, ()))"

definition casbin_replace_all ::
  "('j, 'z) log_env_scheme \<Rightarrow> 'l log_ops \<Rightarrow> 'l world \<Rightarrow> (nat \<Rightarrow> nat \<Rightarrow> uuid) \<Rightarrow> casbin_rule list \<Rightarrow>
   'l store \<Rightarrow> (unit res \<times> 'l store) option" where
  "casbin_replace_all E ops w fresh rules st =
     commit E ops w ''SAVE POLICY'' (\<lambda>attempt. casbin_replace_all_build E rules (fresh attempt)) st"

definition casbin_clear_build :: "snapshot \<Rightarrow> ('j action list \<times> unit) res" where
  "casbin_clear_build s = Inr (map (Remove EkCasbinRule) (map fst (iter_by_id s EkCasbinRule)), ())"

definition casbin_clear ::
  "('j, 'z) log_env_scheme \<Rightarrow> 'l log_ops \<Rightarrow> 'l world \<Rightarrow> 'l store \<Rightarrow> (unit res \<times> 'l store) option" where
  "casbin_clear E ops w st = commit E ops w ''CLEAR POLICY'' (\<lambda>_. casbin_clear_build) st"

lemma rule_key_natural: "natural_key_for E (RowCasbinRule r) = Some (rule_key r)"
  by (simp add: rule_key_def)

lemma casbin_insert_admissible [admissible_intros]:
  assumes "codecs_ok E"
  shows "admissible E (casbin_insert_build E rule fresh)"
proof (rule admissibleI)
  fix s acts out
  assume ok: "snap_ok E s" and b: "casbin_insert_build E rule fresh s = Inr (acts, out)"
  show "acts_ok E s acts \<and> (\<forall>a \<in> set acts. body_ok E a)"
  proof (cases "get_by_natural_key s EkCasbinRule (rule_key rule)")
    case None
    with b have w: "write_row E fresh (RowCasbinRule rule) True = Inr (acts, out)"
      by (simp add: casbin_insert_build_def)
    have "upsert_ok E s EkCasbinRule fresh (RowCasbinRule rule)"
      using get_by_natural_key_None [OF ok] None by (simp add: upsert_ok_def rule_key_natural del: natural_key_for.simps)
    with write_row_ok [OF assms w] show ?thesis by simp
  next
    case (Some v)
    with b show ?thesis by (simp add: casbin_insert_build_def)
  qed
qed

lemma casbin_delete_admissible [admissible_intros]: "admissible E (casbin_delete_build rule)"
  by (intro admissibleI acts_ok_all_removes) (auto simp: casbin_delete_build_def split: option.splits)

lemma casbin_delete_many_admissible [admissible_intros]: "admissible E (casbin_delete_many_build rules)"
  by (intro admissibleI acts_ok_all_removes) (auto simp: casbin_delete_many_build_def Let_def)

lemma casbin_clear_admissible [admissible_intros]: "admissible E casbin_clear_build"
  by (intro admissibleI acts_ok_all_removes) (auto simp: casbin_clear_build_def)

lemma dedup_rules_keys:
  "distinct (map rule_key (dedup_rules seen rules)) \<and>
   set (map rule_key (dedup_rules seen rules)) = set (map rule_key rules) - set seen"
  by (induction rules arbitrary: seen) auto

lemma dedup_rules_length: "length (dedup_rules seen rules) \<le> length rules"
  by (induction seen rules rule: dedup_rules.induct) auto

lemma all_ids_removed:
  "snap_get (fold (\<lambda>i t. remove_row E t k i) (map fst (iter_by_id s k)) s) k i = None"
proof -
  have "snap_get s k i = None" if "i \<notin> set (map fst (iter_by_id s k))"
    using that by (simp add: iter_by_id_def snap_get_table map_of_eq_None_iff)
  then show ?thesis unfolding snap_get_fold_remove by auto
qed

lemma casbin_replace_upserts_ok:
  assumes "snap_ok E s"
  shows "upserts_ok E (fold (\<lambda>i t. remove_row E t EkCasbinRule i) (map fst (iter_by_id s EkCasbinRule)) s)
    (map (\<lambda>(n, r). (fresh n, RowCasbinRule r)) (enumerate 0 (dedup_rules [] rules)))"
    (is "upserts_ok E ?s ?rows")
proof (rule upserts_ok_distinct [where kind = EkCasbinRule])
  have "map (\<lambda>(_, r). natural_key_for E r) ?rows = map (\<lambda>r. Some (rule_key r)) (dedup_rules [] rules)"
    by (rule nth_equalityI)
       (simp_all add: case_prod_unfold nth_enumerate_eq rule_key_natural del: natural_key_for.simps)
  then show "distinct (map (\<lambda>(_, r). natural_key_for E r) ?rows)"
    using dedup_rules_keys [of "[]" rules] by (simp add: distinct_map inj_on_def)
  fix i r assume "(i, r) \<in> set ?rows"
  then obtain q where r: "r = RowCasbinRule q" by auto
  have "id_by_natural_key ?s EkCasbinRule (rule_key q) = None"
  proof (rule ccontr)
    assume "\<not> ?thesis"
    then obtain j where "id_by_natural_key ?s EkCasbinRule (rule_key q) = Some j" by blast
    then show False
      using id_by_natural_key_iff [OF snap_ok_fold_remove [OF assms]] all_ids_removed [of E EkCasbinRule s j]
      by fastforce
  qed
  with r show "row_kind r = EkCasbinRule \<and> (row_id r = None \<or> row_id r = Some i) \<and>
      (\<exists>nk. natural_key_for E r = Some nk \<and> id_by_natural_key ?s EkCasbinRule nk = None)"
    by (simp add: rule_key_natural del: natural_key_for.simps)
qed

lemma casbin_replace_all_cases:
  assumes "casbin_replace_all_build E rules fresh s = Inr (acts, out)"
  shows "\<exists>ups. write_rows E (map (\<lambda>(n, r). (fresh n, RowCasbinRule r))
        (enumerate 0 (dedup_rules [] rules))) = Inr ups \<and>
      acts = map (Remove EkCasbinRule) (map fst (iter_by_id s EkCasbinRule)) @ ups"
  using assms by (auto simp: casbin_replace_all_build_def rbind_eq_Inr)

lemma casbin_replace_all_admissible [admissible_intros]:
  assumes "codecs_ok E"
  shows "admissible E (casbin_replace_all_build E rules fresh)"
proof (rule admissibleI)
  fix s acts out
  assume ok: "snap_ok E s" and b: "casbin_replace_all_build E rules fresh s = Inr (acts, out)"
  from casbin_replace_all_cases [OF b] obtain ups where
    w: "write_rows E (map (\<lambda>(n, r). (fresh n, RowCasbinRule r)) (enumerate 0 (dedup_rules [] rules))) = Inr ups"
    and acts: "acts = map (Remove EkCasbinRule) (map fst (iter_by_id s EkCasbinRule)) @ ups" by blast
  show "acts_ok E s acts \<and> (\<forall>a \<in> set acts. body_ok E a)"
    unfolding acts acts_ok_removes_then
    using write_rows_ok(2,3) [OF assms w] casbin_replace_upserts_ok [OF ok]
    by (auto simp: body_ok_def)
qed

text \<open>
  Saving a policy and loading it gives the rules back, duplicates dropped, in the order they were
  saved, when the ids drawn are increasing, as UUIDv7 documents.
\<close>

lemma casbin_save_load:
  assumes "codecs_ok E" "snap_ok E s" "casbin_replace_all_build E rules fresh s = Inr (acts, out)"
    and "\<And>n m. n < m \<Longrightarrow> m < length rules \<Longrightarrow> fresh n < fresh m"
  shows "casbin_load_all (snd (apply_all E s acts)) = Inr (dedup_rules [] rules)"
proof -
  let ?rules = "dedup_rules [] rules"
  let ?rows = "map (\<lambda>(n, r). (fresh n, RowCasbinRule r)) (enumerate 0 ?rules)"
  let ?s = "fold (\<lambda>i t. remove_row E t EkCasbinRule i) (map fst (iter_by_id s EkCasbinRule)) s"
  obtain ups where w: "write_rows E ?rows = Inr ups"
    and acts: "acts = map (Remove EkCasbinRule) (map fst (iter_by_id s EkCasbinRule)) @ ups"
    using casbin_replace_all_cases [OF assms(3)] by blast
  have final: "snd (apply_all E s acts) = upsert_rows E ?rows ?s"
    unfolding acts using write_rows_ok(1) [OF assms(1) w]
    by (simp add: apply_all_append apply_all_removes del: map_map)
  have get: "snap_get (upsert_rows E xs t) EkCasbinRule i =
      (case map_of (rev xs) i of None \<Rightarrow> snap_get t EkCasbinRule i | Some v \<Rightarrow> Some v)"
    if "\<forall>(_, v) \<in> set xs. row_kind v = EkCasbinRule" for xs t i
    using that
  proof (induction xs arbitrary: t)
    case (Cons x xs)
    then show ?case
      by (cases x) (auto simp: upsert_rows_def map_add_def split: option.splits)
  qed (simp add: upsert_rows_def)
  have inc: "sorted_wrt (<) (map fst ?rows)"
    using assms(4) dedup_rules_length [of "[]" rules] by (auto simp: sorted_wrt_iff_nth_less nth_enumerate_eq)
  then have ok_rows: "om_ok ?rows" by (simp add: om_ok_def)
  have "snap_ok E (upsert_rows E ?rows ?s)"
    using admissibleD(3) [OF casbin_replace_all_admissible [OF assms(1)] assms(2,3)] final by simp
  then have ok_table: "om_ok (kind_table (upsert_rows E ?rows ?s) EkCasbinRule)"
    by (simp add: maps_ok_tables snap_ok_def)
  have "map_of (kind_table (upsert_rows E ?rows ?s) EkCasbinRule) = map_of ?rows"
  proof
    fix i
    have "map_of (rev ?rows) = map_of ?rows"
      using om_ok_distinct [OF ok_rows] map_of_inject_set [of "rev ?rows" ?rows]
      by (simp add: rev_map [symmetric] del: map_map)
    moreover have "\<forall>(_, v) \<in> set ?rows. row_kind v = EkCasbinRule" by auto
    ultimately show "map_of (kind_table (upsert_rows E ?rows ?s) EkCasbinRule) i = map_of ?rows i"
      using get [of ?rows ?s i] all_ids_removed [of E EkCasbinRule s i]
      unfolding snap_get_table [symmetric] by (simp only:) (simp split: option.split)
  qed
  then have "kind_table (upsert_rows E ?rows ?s) EkCasbinRule = ?rows"
    by (rule om_ext [OF ok_table ok_rows])
  moreover have "sort_key fst ?rows = ?rows"
    using inc by (intro sort_key_id_if_sorted) (simp add: strict_sorted_iff del: map_map)
  ultimately have "casbin_load_all (snd (apply_all E s acts)) = collect_res (\<lambda>(_, v). rule_of v) ?rows"
    by (simp add: final casbin_load_all_def iter_by_id_def)
  also have "\<dots> = Inr (map (\<lambda>(_, v). projr (rule_of v)) ?rows)"
    by (rule collect_res_all_Inr) (auto simp: rule_of_def)
  also have "map (\<lambda>(_, v). projr (rule_of v)) ?rows = ?rules"
    by (simp add: comp_def case_prod_unfold rule_of_def enumerate_eq_zip)
  finally show ?thesis .
qed

end
