(* ===== verification/CommitSpec.thy ===== *)
theory CommitSpec
  imports Replay
begin

text \<open>
  The commit loop against its specification. While other replicas append to the shared log between
  a build and the conditional PUT, whatever a commit returns was decided on the replay of exactly
  the commits that precede it, the log only grows by admissible commits, and every checkpoint
  written is the state at its version.
\<close>

section \<open>Keys\<close>

lemma checkpoint_key_commit_key: "v \<le> u64_max \<Longrightarrow> checkpoint_key w \<noteq> commit_key v"
  by (metis option.distinct(1) version_from_checkpoint_key version_from_commit_key)

lemma last_checkpoint_key_commit_key: "v \<le> u64_max \<Longrightarrow> last_checkpoint_key \<noteq> commit_key v"
  by (metis option.distinct(1) version_from_last_checkpoint version_from_commit_key)

lemma checkpoint_key_inj: "checkpoint_key v = checkpoint_key w \<longleftrightarrow> v = w"
proof
  assume "checkpoint_key v = checkpoint_key w"
  then have "pad0 20 v = pad0 20 w"
    by (simp add: checkpoint_key_def)
  then show "v = w"
    by (metis dec_value_pad0)
qed simp

lemma last_checkpoint_key_neq: "last_checkpoint_key \<noteq> checkpoint_key v"
proof
  assume "last_checkpoint_key = checkpoint_key v"
  then have "last last_checkpoint_key = last (checkpoint_key v)" by simp
  then show False
    by (simp add: last_checkpoint_key_def checkpoint_key_def)
qed

section \<open>The log grows\<close>

lemma state_at_append: "state_at E s n cs \<Longrightarrow> state_at E s n (cs @ ext)"
  by (simp add: state_at_def)

lemma state_at_version: "state_at E s n cs \<Longrightarrow> version s = n"
  using snap_eq_queries(10) [of s "replay E (take n cs)"] by (simp add: state_at_def)

lemma state_at_snap_ok: "replay_ok E cs \<Longrightarrow> state_at E s n cs \<Longrightarrow> snap_ok E s"
  by (auto simp: state_at_def intro: snap_eq_ok replay_snap_ok replay_ok_take)

lemma log_holds_append:
  assumes "log_holds E m cs" "Suc (length cs) < u64_max"
    and "decode_commit E (commit_key (Suc (length cs))) bytes = Inr (info, acts)"
  shows "log_holds E (m(commit_key (Suc (length cs)) \<mapsto> bytes)) (cs @ [acts])"
  unfolding log_holds_def
proof (intro conjI allI impI ballI)
  let ?k = "commit_key (Suc (length cs))"
  show "length (cs @ [acts]) < u64_max" using assms(2) by simp
  show "\<exists>bytes' info. (m(?k \<mapsto> bytes)) (commit_key (Suc n)) = Some bytes' \<and>
      decode_commit E (commit_key (Suc n)) bytes' = Inr (info, (cs @ [acts]) ! n)"
    if "n < length (cs @ [acts])" for n
  proof (cases "n = length cs")
    case True
    with assms(3) show ?thesis by simp
  next
    case False
    with that have n: "n < length cs" by simp
    with assms(2) have "commit_key (Suc n) \<noteq> ?k"
      by (simp add: commit_key_inj)
    with n assms(1) show ?thesis
      by (simp add: log_holds_def nth_append)
  qed
  show "1 \<le> v" "v \<le> length (cs @ [acts])" "k = commit_key v"
    if "k \<in> dom (m(?k \<mapsto> bytes))" "version_from_key k = Some v" for k v
  proof -
    have "k = ?k \<and> v = Suc (length cs) \<or> 1 \<le> v \<and> v \<le> length cs \<and> k = commit_key v"
      using that assms by (cases "k = ?k") (auto simp: log_holds_def)
    then show "1 \<le> v" "v \<le> length (cs @ [acts])" "k = commit_key v" by auto
  qed
qed

lemma log_holds_other_key:
  assumes "log_holds E m cs" "version_from_key k = None"
  shows "log_holds E (m(k \<mapsto> b)) cs"
proof -
  have "commit_key (Suc n) \<noteq> k" if "n < length cs" for n
    using that assms version_from_commit_key [of "Suc n"] by (auto simp: log_holds_def)
  with assms show ?thesis by (auto simp: log_holds_def)
qed

lemma log_holds_next_free:
  assumes "log_holds E m cs" "n \<le> length cs" "m (commit_key (Suc n)) = None"
  shows "n = length cs"
proof (rule ccontr)
  assume "n \<noteq> length cs"
  with assms(2) have "n < length cs" by simp
  then obtain bytes where "m (commit_key (Suc n)) = Some bytes"
    using assms(1) unfolding log_holds_def by blast
  with assms(3) show False by simp
qed

lemma checkpoints_ok_append:
  assumes "checkpoints_ok E m cs" "v \<le> u64_max"
  shows "checkpoints_ok E (m(commit_key v \<mapsto> bytes)) (cs @ [acts])"
  using assms checkpoint_key_commit_key [OF assms(2)] state_at_append [of E _ _ cs "[acts]"]
  by (fastforce simp: checkpoints_ok_def)

lemma log_good_append:
  assumes "log_good E objs linv l cs" "Suc (length cs) < u64_max"
    and "linv l'" "objs l' = (objs l)(commit_key (Suc (length cs)) \<mapsto> bytes)"
    and "decode_commit E (commit_key (Suc (length cs))) bytes = Inr (info, acts)"
    and "acts_ok E (replay E cs) acts" "\<forall>a \<in> set acts. act_fine E a"
  shows "log_good E objs linv l' (cs @ [acts])"
  using assms
  by (auto simp: log_good_def replay_ok_snoc log_holds_append intro: checkpoints_ok_append)

lemma log_good_same:
  "log_good E objs linv l cs \<Longrightarrow> linv l' \<Longrightarrow> objs l' = objs l \<Longrightarrow> log_good E objs linv l' cs"
  by (simp add: log_good_def)

section \<open>The rows of a replayed log can be written again\<close>

lemma rows_fine_apply_all:
  assumes "\<And>k i r. snap_get s k i = Some r \<Longrightarrow> row_line_ok E (k, i, r)"
    and "\<forall>a \<in> set as. act_fine E a" "snap_get (snd (apply_all E s as)) k i = Some r"
  shows "row_line_ok E (k, i, r)"
  using assms
proof (induction as arbitrary: s)
  case Nil
  then show ?case by simp
next
  case (Cons a as)
  obtain q s' where s': "apply_action E s a = (q, s')" by force
  have rows: "row_line_ok E (k, i, r)" if "snap_get s' k i = Some r" for k i r
  proof (cases a)
    case (Upsert k' i' b)
    with Cons.prems(2) obtain r' where "to_body E r' = Inr b" "from_body E k' b = Inr r'"
      "line_ok E (LineUpsert k' i' b)" by (auto simp: act_fine_def)
    with that s' Upsert Cons.prems(1) show ?thesis
      by (auto simp: row_line_ok_def split: if_splits)
  next
    case (Remove k' i')
    with that s' Cons.prems(1) show ?thesis by (auto split: if_splits)
  qed
  show ?case
  proof (cases q)
    case (Inl e)
    with Cons.prems(3) s' rows show ?thesis by simp
  next
    case (Inr u)
    with Cons.IH [OF rows] Cons.prems(2,3) s' show ?thesis by simp
  qed
qed

lemma rows_fine_replay:
  assumes "\<forall>c \<in> set cs. \<forall>a \<in> set c. act_fine E a" "snap_get (replay E cs) k i = Some r"
  shows "row_line_ok E (k, i, r)"
  using assms
proof (induction cs arbitrary: k i r rule: rev_induct)
  case (snoc c cs)
  then show ?case
    using rows_fine_apply_all [of "replay E cs" E c] by (simp add: replay_step_def)
qed simp

lemma state_at_rows_fine:
  assumes "log_good E objs linv l cs" "state_at E s n cs"
  shows "\<forall>x \<in> set (all_rows s). row_line_ok E x"
proof
  fix x assume "x \<in> set (all_rows s)"
  moreover obtain k i r where x: "x = (k, i, r)" by (cases x)
  ultimately have "snap_get (replay E (take n cs)) k i = Some r"
    using assms(2) set_all_rows [of s] snap_eq_queries(1) [of s "replay E (take n cs)"]
    by (simp add: state_at_def)
  moreover have "\<forall>c \<in> set (take n cs). \<forall>a \<in> set c. act_fine E a"
    using assms(1) set_take_subset [of n cs] by (auto simp: log_good_def)
  ultimately show "row_line_ok E x"
    unfolding x by (rule rows_fine_replay [rotated])
qed

section \<open>The protocol over any log that keeps the contract\<close>

text \<open>What other replicas may do meanwhile: append at most \<open>M\<close> admissible commits.\<close>

definition rely ::
  "('j, 'z) env_scheme \<Rightarrow> ('l \<Rightarrow> (string \<rightharpoonup> string)) \<Rightarrow> ('l \<Rightarrow> bool) \<Rightarrow> nat \<Rightarrow> 'l world \<Rightarrow> bool" where
  "rely E objs linv M w \<longleftrightarrow> (\<forall>a l cs. log_good E objs linv l cs \<longrightarrow>
     (\<exists>ext. length ext \<le> M \<and> log_good E objs linv (others w a l) (cs @ ext)))"

text \<open>What a build must keep to: admissible actions that read back from the log.\<close>

definition build_ok ::
  "('j, 'z) env_scheme \<Rightarrow> (nat \<Rightarrow> snapshot \<Rightarrow> ('j action list \<times> 'a) res) \<Rightarrow> bool" where
  "build_ok E build \<longleftrightarrow> (\<forall>a s acts out. snap_ok E s \<longrightarrow> build a s = Inr (acts, out) \<longrightarrow>
     acts_ok E s acts \<and> (\<forall>x \<in> set acts. act_fine E x))"

text \<open>
  A successful commit: the actions and the result are what the build made of the state at the
  version right before its own, and the store has adopted them.
\<close>

definition decided ::
  "('j, 'z) env_scheme \<Rightarrow> (nat \<Rightarrow> snapshot \<Rightarrow> ('j action list \<times> 'a) res) \<Rightarrow> snapshot \<Rightarrow>
     'j action list list \<Rightarrow> 'a \<Rightarrow> bool" where
  "decided E build s cs out \<longleftrightarrow>
     (\<exists>a. build a s = Inr ([], out)) \<or>
     (\<exists>a before acts s0. cs = before @ [acts] \<and> acts \<noteq> [] \<and> state_at E s0 (length before) before \<and>
        build a s0 = Inr (acts, out) \<and> state_at E s (length cs) cs)"

text \<open>
  In a log of admissible commits, a successful build ran on a consistent state, and the store's
  snapshot answers every query as that state with the build's actions applied.
\<close>

lemma decided_effect:
  assumes "decided E build s cs out" "replay_ok E cs" "state_at E s n cs"
  shows "\<exists>a s0 acts. snap_ok E s0 \<and> build a s0 = Inr (acts, out) \<and>
    snap_eq s ((snd (apply_all E s0 acts))\<lparr>version := version s\<rparr>)"
  using assms(1) unfolding decided_def
proof (elim disjE exE conjE)
  fix a assume "build a s = Inr ([], out)"
  moreover have "snap_ok E s" using assms(2,3) by (rule state_at_snap_ok)
  ultimately show ?thesis by (intro exI [of _ a] exI [of _ s] exI [of _ "[]"]) simp
next
  fix a before acts s0
  assume cs: "cs = before @ [acts]" and s0: "state_at E s0 (length before) before"
    and b: "build a s0 = Inr (acts, out)" and s: "state_at E s (length cs) cs"
  have "replay_ok E before"
    using replay_ok_take [OF assms(2), of "length before"] cs by simp
  then have "snap_ok E s0" using s0 by (rule state_at_snap_ok)
  moreover have "snap_eq s (replay_step E (replay E before) acts)"
    using s cs by (simp add: state_at_def)
  moreover have "snap_eq (snd (apply_all E s0 acts)) (snd (apply_all E (replay E before) acts))"
    using s0 snap_eq_apply_all [of s0 "replay E before" E acts] by (simp add: state_at_def)
  ultimately show ?thesis
    using b by (intro exI [of _ a] exI [of _ s0] exI [of _ acts]) (auto simp: snap_eq_def replay_step_def kind_table_def)
qed

context object_log begin

lemma put_if_absent_cases:
  assumes "linv l" "op_put_if_absent ops k b l = (r, l')"
  shows "linv l'" "objs l' = objs l \<or> objs l k = None \<and> objs l' = (objs l)(k \<mapsto> b)"
  using put_absent_inv [OF assms(1), of k b] put_created [OF assms(1), of k b l']
    put_exists [OF assms(1), of k b l'] put_absent_err [OF assms(1), of k b _ l'] assms(2)
  by (cases r; (cases "projr r")?; auto)+

lemma put_cases:
  assumes "linv l" "op_put ops k b l = (r, l')"
  shows "linv l'" "objs l' = objs l \<or> objs l' = (objs l)(k \<mapsto> b)"
  using put_inv [OF assms(1), of k b] put_done [OF assms(1), of k b _ l']
    put_err [OF assms(1), of k b _ l'] assms(2)
  by (cases r; auto)+

lemma write_checkpoint_spec:
  assumes "log_good E objs linv (log st) cs" "state_at E (state st) n cs"
  shows "state (snd (write_checkpoint E ops v st)) = state st"
    "log_good E objs linv (log (snd (write_checkpoint E ops v st))) cs"
proof -
  let ?s = "state st"
  have ver: "version ?s = n" using assms(2) by (rule state_at_version)
  have ok: "snap_ok E ?s"
    using assms by (auto simp: log_good_def intro: state_at_snap_ok)
  obtain body s' where enc: "encode_checkpoint E ?s = Inr (body, length (all_rows ?s))"
    "decode_checkpoint E body = Inr s'" "snap_ok E s'" "snap_eq (s'\<lparr>version := n\<rparr>) ?s"
    using decode_encode_checkpoint [OF ok state_at_rows_fine [OF assms]] ver by auto
  have s': "state_at E (s'\<lparr>version := n\<rparr>) n cs"
    using assms(2) enc(3,4) snap_eq_trans by (auto simp: state_at_def snap_ok_def)
  have good1: "log_good E objs linv l1 cs"
    if "op_put_if_absent ops (checkpoint_key n) body (log st) = (r, l1)" for r l1
  proof -
    have "objs l1 = objs (log st) \<or> objs l1 = (objs (log st))(checkpoint_key n \<mapsto> body)" "linv l1"
      using put_if_absent_cases [OF _ that] assms(1) by (auto simp: log_good_def)
    moreover have "checkpoints_ok E ((objs (log st))(checkpoint_key n \<mapsto> body)) cs"
      using assms(1) s' enc(2) by (auto simp: log_good_def checkpoints_ok_def checkpoint_key_inj)
    ultimately show ?thesis
      using assms(1) by (auto simp: log_good_def log_holds_other_key)
  qed
  have good2: "log_good E objs linv l2 cs"
    if "log_good E objs linv l1 cs" "op_put ops last_checkpoint_key ptr l1 = (r, l2)" for r l1 l2 ptr
  proof -
    have "objs l2 = objs l1 \<or> objs l2 = (objs l1)(last_checkpoint_key \<mapsto> ptr)" "linv l2"
      using put_cases [OF _ that(2)] that(1) by (auto simp: log_good_def)
    moreover have "checkpoints_ok E ((objs l1)(last_checkpoint_key \<mapsto> ptr)) cs"
      using that(1) last_checkpoint_key_neq [symmetric]
      by (simp add: log_good_def checkpoints_ok_def)
    ultimately show ?thesis
      using that(1) by (auto simp: log_good_def log_holds_other_key)
  qed
  obtain r1 l1 where p1: "op_put_if_absent ops (checkpoint_key n) body (log st) = (r1, l1)" by force
  show "state (snd (write_checkpoint E ops v st)) = ?s"
    using p1 enc(1) ver
    by (cases r1) (auto simp: write_checkpoint_def split: sum.splits prod.splits)
  show "log_good E objs linv (log (snd (write_checkpoint E ops v st))) cs"
    using p1 enc(1) ver good1 [OF p1] assms(1) good2
    by (cases r1) (auto simp: write_checkpoint_def split: sum.splits prod.splits)
qed

lemma maybe_checkpoint_spec:
  assumes "log_good E objs linv (log st) cs" "state_at E (state st) n cs"
  shows "state (maybe_checkpoint E ops v st) = state st"
    "log_good E objs linv (log (maybe_checkpoint E ops v st)) cs"
  using assms write_checkpoint_spec [OF assms] by (auto simp: maybe_checkpoint_def)

text \<open>The conditional PUT of a commit built at version \<open>n\<close>, with \<open>ext\<close> appended meanwhile.\<close>

lemma commit_put_spec:
  assumes "log_good E objs linv l cs" "state_at E s n cs" "Suc n < u64_max"
    and "acts_ok E s acts" "\<forall>a \<in> set acts. act_fine E a"
    and "line_ok E (LineCommitInfo info)" "ci_format info \<le> format_version"
    and "encode_commit E info acts = Inr body"
    and "op_put_if_absent ops (commit_key (Suc n)) body l = (r, l')"
  shows "r = Inr PutCreated \<Longrightarrow> n = length cs \<and> log_good E objs linv l' (cs @ [acts])"
    and "r = Inr PutAlreadyExists \<Longrightarrow> log_good E objs linv l' cs"
    and "log_good E objs linv l' cs \<or> n = length cs \<and> log_good E objs linv l' (cs @ [acts])"
proof -
  have l: "linv l" "log_holds E (objs l) cs" "n \<le> length cs"
    using assms(1,2) by (simp_all add: log_good_def state_at_def)
  note put = put_if_absent_cases [OF l(1) assms(9)]
  have "decode_commit E (commit_key (Suc n)) body = Inr (info, acts)"
    using decode_encode_commit [OF assms(6,7), of acts "commit_key (Suc n)"] assms(5,8)
    by (auto simp: act_fine_def)
  moreover have "acts_ok E (replay E cs) acts" if "n = length cs"
    using that assms(2,4) snap_eq_acts_ok [of s "replay E cs" E acts] by (simp add: state_at_def)
  ultimately have landed: "n = length cs \<and> log_good E objs linv l' (cs @ [acts])"
    if "objs l (commit_key (Suc n)) = None" "objs l' = (objs l)(commit_key (Suc n) \<mapsto> body)"
    using that log_holds_next_free [OF l(2,3)] log_good_append [OF assms(1) _ put(1)] assms(3,5) by auto
  show "n = length cs \<and> log_good E objs linv l' (cs @ [acts])" if "r = Inr PutCreated"
    using landed put_created [OF l(1), of "commit_key (Suc n)" body l'] assms(9) that by auto
  show "log_good E objs linv l' cs" if "r = Inr PutAlreadyExists"
    using put_exists [OF l(1), of "commit_key (Suc n)" body l'] assms(1,9) put(1) that log_good_same by auto
  show "log_good E objs linv l' cs \<or> n = length cs \<and> log_good E objs linv l' (cs @ [acts])"
    using put(2) landed log_good_same [OF assms(1) put(1)] by auto
qed

lemma adopt_spec:
  assumes "replay_ok E cs" "state_at E s n cs" "Suc n < u64_max" "n < length cs"
  shows "\<exists>s'. adopt E (Suc n) (cs ! n) s = (Inr (), s') \<and> state_at E s' (Suc n) cs"
proof -
  have s: "maps_ok s" "snap_eq s (replay E (take n cs))" "version s = n"
    using assms(2) state_at_version [OF assms(2)] by (simp_all add: state_at_def)
  have "acts_ok E s (cs ! n)"
    using assms(1,4) snap_eq_acts_ok [OF s(2), of E "cs ! n"] by (simp add: replay_ok_def)
  then obtain s' where s': "apply_all E s (cs ! n) = (Inr (), s')"
    using acts_ok_apply by (metis prod.collapse)
  then have "s'\<lparr>version := Suc n\<rparr> = replay_step E s (cs ! n)"
    using s(3) by (simp add: replay_step_def)
  then have "snap_eq (s'\<lparr>version := Suc n\<rparr>) (replay E (take (Suc n) cs))"
    using snap_eq_replay_step [OF s(2)] assms(4) by (simp add: replay_take_Suc)
  moreover have "maps_ok s'"
    using maps_ok_apply_all [OF s(1), of E "cs ! n"] s' by simp
  ultimately show ?thesis
    using s' s(3) assms(3,4) wadd64_Suc [of n] by (simp add: adopt_def state_at_def)
qed

lemma commit_attempts_spec:
  fixes build :: "nat \<Rightarrow> snapshot \<Rightarrow> ('j action list \<times> 'a) res"
  assumes "log_good E objs linv (log st) cs" "state_at E (state st) n cs"
    and "rely E objs linv M w" "build_ok E build"
    and "\<And>a. line_ok E (LineCommitInfo (commit_header w a operation))"
    and "length cs + length ns * Suc M + 1 < u64_max"
  shows "\<exists>r st' cs'. commit_attempts E ops w operation build ns st = Some (r, st') \<and>
    log_good E objs linv (log st') (cs @ cs') \<and> (\<exists>m \<ge> n. state_at E (state st') m (cs @ cs')) \<and>
    (\<forall>out. r = Inr out \<longrightarrow> decided E build (state st') (cs @ cs') out) \<and>
    (\<forall>e. r = Inl e \<longrightarrow> reliable ops \<longrightarrow> e = commit_contention \<or>
       (\<exists>a s0 k. n \<le> k \<and> state_at E s0 k (cs @ cs') \<and> build a s0 = Inl e))"
    (is "\<exists>r st' cs'. ?run ns st r st' \<and> ?post cs n r st' cs'")
  using assms(1,2,6)
proof (induction ns arbitrary: st cs n)
  case Nil
  then have "?post cs n (Inl commit_contention) st []" by auto
  moreover have "?run [] st (Inl commit_contention) st" by simp
  ultimately show ?case by blast
next
  case (Cons a later)
  let ?s = "state st"
  have ok: "snap_ok E ?s"
    using Cons.prems(1,2) by (auto simp: log_good_def intro: state_at_snap_ok)
  show ?case
  proof (cases "build a ?s")
    case (Inl e)
    then have "?post cs n (Inl e) st []" using Cons.prems by auto
    moreover have "?run (a # later) st (Inl e) st" using Inl by simp
    ultimately show ?thesis by blast
  next
    case (Inr ao)
    then obtain acts out where b: "build a ?s = Inr (acts, out)" by (cases ao) auto
    show ?thesis
    proof (cases "acts = []")
      case True
      with b have "?post cs n (Inr out) st []"
        using Cons.prems by (auto simp: decided_def)
      moreover have "?run (a # later) st (Inr out) st" using b True by simp
      ultimately show ?thesis by blast
    next
      case False
      have fine: "acts_ok E ?s acts" "\<forall>x \<in> set acts. act_fine E x"
        using assms(4) ok b unfolding build_ok_def by blast+
      let ?info = "commit_header w a operation"
      have info: "ci_format ?info \<le> format_version" by (simp add: commit_header_def)
      obtain body where body: "encode_commit E ?info acts = Inr body"
        using decode_encode_commit [OF assms(5) info, of acts] fine(2) by (auto simp: act_fine_def)
      obtain ext where ext: "length ext \<le> M" "log_good E objs linv (others w a (log st)) (cs @ ext)"
        using assms(3) Cons.prems(1) unfolding rely_def by blast
      let ?cs = "cs @ ext"
      have s: "state_at E ?s n ?cs" using Cons.prems(2) by (rule state_at_append)
      have len: "Suc (length ?cs) < u64_max" using Cons.prems(3) ext(1) by simp
      have target: "wadd64 (version ?s) 1 = Suc n"
        using state_at_version [OF Cons.prems(2)] s len wadd64_Suc [of n] by (simp add: state_at_def)
      obtain r l1 where put: "op_put_if_absent ops (commit_key (Suc n)) body (others w a (log st)) = (r, l1)"
        by force
      have lenn: "Suc n < u64_max" using s len by (simp add: state_at_def)
      note spec = commit_put_spec [OF ext(2) s lenn fine assms(5) info body put]
      consider (err) e where "r = Inl e" | (won) "r = Inr PutCreated" | (lost) "r = Inr PutAlreadyExists"
        by (cases r) (auto intro: put_result.exhaust)
      then show ?thesis
      proof cases
        case err
        obtain cs' where cs': "log_good E objs linv l1 (?cs @ cs')"
          using spec(3) append_Nil2 by metis
        have "\<not> reliable ops" using put err unfolding reliable_def by (metis Inl_Inr_False prod.inject)
        with cs' s have "?post cs n (Inl e) (st\<lparr>log := l1\<rparr>) (ext @ cs')"
          using state_at_append [OF s, of cs'] by auto
        moreover have "?run (a # later) st (Inl e) (st\<lparr>log := l1\<rparr>)"
          using b False body target put err by simp
        ultimately show ?thesis by blast
      next
        case won
        with spec(1) have w: "n = length ?cs" "log_good E objs linv l1 (?cs @ [acts])" by auto
        obtain s' where s': "adopt E (Suc n) acts ?s = (Inr (), s')" "state_at E s' (Suc n) (?cs @ [acts])"
          using adopt_spec [of E "?cs @ [acts]" ?s n] w state_at_append [OF s, of "[acts]"] lenn
          by (auto simp: log_good_def nth_append)
        let ?st = "maybe_checkpoint E ops (Suc n) \<lparr>log = l1, state = s'\<rparr>"
        have ck: "state ?st = s'" "log_good E objs linv (log ?st) (?cs @ [acts])"
          using maybe_checkpoint_spec [of E "\<lparr>log = l1, state = s'\<rparr>" "?cs @ [acts]" "Suc n"] w(2) s'(2)
          by simp_all
        have "decided E build (state ?st) (?cs @ [acts]) out"
          unfolding decided_def using False b s w(1) s'(2) ck(1)
          by (intro disjI2 exI [of _ a] exI [of _ ?cs] exI [of _ acts] exI [of _ ?s]) simp
        moreover have "\<exists>m \<ge> n. state_at E (state ?st) m (?cs @ [acts])"
          using ck(1) s'(2) by (intro exI [of _ "Suc n"]) simp
        ultimately have "?post cs n (Inr out) ?st (ext @ [acts])"
          using ck(2) by simp
        moreover have "?run (a # later) st (Inr out) ?st"
          using b False body target put won s'(1) by simp
        ultimately show ?thesis by blast
      next
        case lost
        then have g: "log_good E objs linv l1 ?cs" by (rule spec(2))
        obtain q st' m where cu: "catch_up E ops (st\<lparr>log := l1\<rparr>) = Some (q, st')" "log st' = l1"
          "n \<le> m" "state_at E (state st') m ?cs" "reliable ops \<longrightarrow> q = Inr ()"
          using catch_up_spec [of E "st\<lparr>log := l1\<rparr>" ?cs n] g s by auto
        show ?thesis
        proof (cases q)
          case (Inl e)
          with cu g have "?post cs n (Inl e) st' ext" by auto
          moreover have "?run (a # later) st (Inl e) st'"
            using b False body target put lost cu(1) Inl by simp
          ultimately show ?thesis by blast
        next
          case (Inr u)
          have "length ?cs + length later * Suc M + 1 < u64_max"
            using Cons.prems(3) ext(1) by simp
          then obtain r2 st2 cs2 where IH: "?run later st' r2 st2" "?post ?cs m r2 st2 cs2"
            using Cons.IH [of st' ?cs m] cu(2,4) g by blast
          have "?post cs n r2 st2 (ext @ cs2)"
            using IH(2) cu(3) le_trans by fastforce
          moreover have "?run (a # later) st r2 st2"
            using IH(1) b False body target put lost cu(1) Inr by simp
          ultimately show ?thesis by blast
        qed
      qed
    qed
  qed
qed

lemma commit_spec:
  fixes build :: "nat \<Rightarrow> snapshot \<Rightarrow> ('j action list \<times> 'a) res"
  assumes "log_good E objs linv (log st) cs" "state_at E (state st) n cs"
    and "rely E objs linv M w" "build_ok E build"
    and "\<And>a. line_ok E (LineCommitInfo (commit_header w a operation))"
    and "length cs + max_commit_attempts * Suc M + 1 < u64_max"
  shows "\<exists>r st' cs'. commit E ops w operation build st = Some (r, st') \<and>
    log_good E objs linv (log st') (cs @ cs') \<and> (\<exists>m \<ge> n. state_at E (state st') m (cs @ cs')) \<and>
    (\<forall>out. r = Inr out \<longrightarrow> decided E build (state st') (cs @ cs') out) \<and>
    (\<forall>e. r = Inl e \<longrightarrow> reliable ops \<longrightarrow> e = commit_contention \<or>
       (\<exists>a s0 k. n \<le> k \<and> state_at E s0 k (cs @ cs') \<and> build a s0 = Inl e))"
proof -
  have len: "length [1..<Suc max_commit_attempts] = max_commit_attempts" by simp
  show ?thesis
    unfolding commit_def
    by (rule commit_attempts_spec [OF assms(1-5)]) (use assms(6) len in presburger)
qed

text \<open>
  With nobody else writing, one retry is enough: a commit returns what its build decided and never
  reports contention.
\<close>

lemma commit_at_head:
  assumes "log_good E objs linv (log st) cs" "state_at E (state st) (length cs) cs"
    and "others w = (\<lambda>_ l. l)" "build_ok E build" "reliable ops"
    and "\<And>a. line_ok E (LineCommitInfo (commit_header w a operation))"
    and "Suc (length cs) < u64_max"
  shows "\<exists>r st'. commit_attempts E ops w operation build (a # later) st = Some (r, st') \<and>
    (case r of Inl e \<Rightarrow> build a (state st) = Inl e | Inr out \<Rightarrow> \<exists>acts. build a (state st) = Inr (acts, out))"
proof (cases "build a (state st)")
  case (Inl e)
  then show ?thesis by simp
next
  case (Inr ao)
  then obtain acts out where b: "build a (state st) = Inr (acts, out)" by (cases ao) auto
  have ok: "snap_ok E (state st)"
    using assms(1,2) by (auto simp: log_good_def intro: state_at_snap_ok)
  have fine: "acts_ok E (state st) acts" "\<forall>x \<in> set acts. act_fine E x"
    using assms(4) ok b unfolding build_ok_def by blast+
  let ?info = "commit_header w a operation"
  have info: "ci_format ?info \<le> format_version" by (simp add: commit_header_def)
  obtain body where body: "encode_commit E ?info acts = Inr body"
    using decode_encode_commit [OF assms(6) info, of acts] fine(2) by (auto simp: act_fine_def)
  have target: "wadd64 (version (state st)) 1 = Suc (length cs)"
    using state_at_version [OF assms(2)] assms(7) wadd64_Suc [of "length cs"] by simp
  obtain r l1 where put: "op_put_if_absent ops (commit_key (Suc (length cs))) body (log st) = (Inr r, l1)"
    using assms(5) unfolding reliable_def by blast
  note spec = commit_put_spec [OF assms(1,2,7) fine assms(6) info body put]
  have "r = PutCreated"
  proof (rule ccontr)
    assume "r \<noteq> PutCreated"
    then have "r = PutAlreadyExists" by (cases r) auto
    then have "commit_key (Suc (length cs)) \<in> dom (objs (log st))"
      using put_exists [of "log st"] put assms(1) by (auto simp: log_good_def)
    moreover have "version_from_key (commit_key (Suc (length cs))) = Some (Suc (length cs))"
      using assms(7) by simp
    ultimately have "Suc (length cs) \<le> length cs"
      using assms(1) unfolding log_good_def log_holds_def by blast
    then show False by simp
  qed
  moreover from this have "log_good E objs linv l1 (cs @ [acts])" using spec(1) by simp
  then obtain s' where "adopt E (Suc (length cs)) acts (state st) = (Inr (), s')"
    using adopt_spec [of E "cs @ [acts]" "state st" "length cs"] assms(7)
      state_at_append [OF assms(2), of "[acts]"] by (auto simp: log_good_def nth_append)
  ultimately show ?thesis
    using b body target put assms(3) by (cases "acts = []") auto
qed

lemma commit_uncontended:
  assumes "log_good E objs linv (log st) cs" "state_at E (state st) n cs"
    and "others w = (\<lambda>_ l. l)" "build_ok E build" "reliable ops"
    and "\<And>a. line_ok E (LineCommitInfo (commit_header w a operation))"
    and "Suc (length cs) < u64_max"
  shows "\<exists>r st' a s0. commit_attempts E ops w operation build (a1 # a2 # later) st = Some (r, st') \<and>
    (\<exists>m. state_at E s0 m cs) \<and>
    (case r of Inl e \<Rightarrow> build a s0 = Inl e | Inr out \<Rightarrow> \<exists>acts. build a s0 = Inr (acts, out))"
proof (cases "n = length cs")
  case True
  then show ?thesis
    using commit_at_head [OF assms(1) _ assms(3-7), of a1 "a2 # later"] assms(2) by blast
next
  case False
  have n: "n < length cs" using False assms(2) by (simp add: state_at_def)
  show ?thesis
  proof (cases "\<exists>acts out. build a1 (state st) = Inr (acts, out) \<and> acts \<noteq> []")
    case False
    then have "\<exists>r. commit_attempts E ops w operation build (a1 # a2 # later) st = Some (r, st) \<and>
        (case r of Inl e \<Rightarrow> build a1 (state st) = Inl e
         | Inr out \<Rightarrow> \<exists>acts. build a1 (state st) = Inr (acts, out))"
      by (cases "build a1 (state st)") auto
    with assms(2) show ?thesis by blast
  next
    case True
    then obtain acts out where b: "build a1 (state st) = Inr (acts, out)" "acts \<noteq> []" by blast
    have ok: "snap_ok E (state st)"
      using assms(1,2) by (auto simp: log_good_def intro: state_at_snap_ok)
    have fine: "acts_ok E (state st) acts" "\<forall>x \<in> set acts. act_fine E x"
      using assms(4) ok b(1) unfolding build_ok_def by blast+
    let ?info = "commit_header w a1 operation"
    have info: "ci_format ?info \<le> format_version" by (simp add: commit_header_def)
    obtain body where body: "encode_commit E ?info acts = Inr body"
      using decode_encode_commit [OF assms(6) info, of acts] fine(2) by (auto simp: act_fine_def)
    have lenn: "Suc n < u64_max" using n assms(7) by simp
    have target: "wadd64 (version (state st)) 1 = Suc n"
      using state_at_version [OF assms(2)] lenn wadd64_Suc [of n] by simp
    obtain r l1 where put: "op_put_if_absent ops (commit_key (Suc n)) body (log st) = (Inr r, l1)"
      using assms(5) unfolding reliable_def by blast
    note spec = commit_put_spec [OF assms(1,2) lenn fine assms(6) info body put]
    have r: "r = PutAlreadyExists"
      using spec(1) n by (cases r) auto
    then have g: "log_good E objs linv l1 cs" using spec(2) by simp
    obtain st' where cu: "catch_up E ops (st\<lparr>log := l1\<rparr>) = Some (Inr (), st')" "log st' = l1"
      "state_at E (state st') (length cs) cs"
      using catch_up_spec [of E "st\<lparr>log := l1\<rparr>" cs n] g assms(2,5) by auto
    have "commit_attempts E ops w operation build (a1 # a2 # later) st =
        commit_attempts E ops w operation build (a2 # later) st'"
      using b body target put r cu(1) assms(3) by simp
    then show ?thesis
      using commit_at_head [OF _ cu(3) assms(3-7), of a2 later] cu(2,3) g by auto
  qed
qed

end

end
