(* ===== verification/Cluster.thy ===== *)
theory Cluster
  imports CommitSpec
begin

text \<open>
  Several replicas of the server on one log. Each replica keeps its own snapshot; requests run as
  tasks whose build, conditional PUT and adoption are separate steps that interleave freely with
  those of other tasks, with catch-ups, checkpoints and restarts. A step uses the store's own
  operations. The runs of the commit loop are among the runs of this relation: after a lost race a
  task is idle and may build again.
\<close>

datatype 'j task =
    Idle
  | Building nat nat "'j action list" string   \<comment> \<open>replica, target version, actions, encoded commit\<close>
  | Won nat nat "'j action list"               \<comment> \<open>PUT has succeeded, not yet in the snapshot\<close>

fun task_replica :: "'j task \<Rightarrow> nat option" where
  "task_replica Idle = None"
| "task_replica (Building r _ _ _) = Some r"
| "task_replica (Won r _ _) = Some r"

record ('j, 'l) cluster =
  shared :: 'l
  replica :: "nat \<Rightarrow> snapshot"
  task :: "nat \<Rightarrow> 'j task"

type_synonym ('j, 'a) builds = "nat \<Rightarrow> nat \<Rightarrow> snapshot \<Rightarrow> ('j action list \<times> 'a) res"

definition replica_store :: "('j, 'l) cluster \<Rightarrow> nat \<Rightarrow> 'l store" where
  "replica_store c r = \<lparr>log = shared c, state = replica c r\<rparr>"

inductive cluster_step ::
  "('j, 'z) log_env_scheme \<Rightarrow> 'l log_ops \<Rightarrow> ('j, 'a) builds \<Rightarrow> commit_info set \<Rightarrow>
   ('j, 'l) cluster \<Rightarrow> ('j, 'l) cluster \<Rightarrow> bool"
  for E :: "('j, 'z) log_env_scheme" and ops :: "'l log_ops" and builds :: "('j, 'a) builds"
  and headers :: "commit_info set"
where
  build: "task c t = Idle \<Longrightarrow> builds p a (replica c r) = Inr (acts, out) \<Longrightarrow> acts \<noteq> [] \<Longrightarrow>
    info \<in> headers \<Longrightarrow> encode_commit E info acts = Inr body \<Longrightarrow>
    Suc (version (replica c r)) < u64_max \<Longrightarrow>
    cluster_step E ops builds headers c
      (c\<lparr>task := (task c)(t := Building r (wadd64 (version (replica c r)) 1) acts body)\<rparr>)"
| put: "task c t = Building r target acts body \<Longrightarrow>
    op_put_if_absent ops (commit_key target) body (shared c) = (q, l') \<Longrightarrow>
    cluster_step E ops builds headers c
      (c\<lparr>shared := l',
         task := (task c)(t := if q = Inr PutCreated then Won r target acts else Idle)\<rparr>)"
| adopt: "task c t = Won r target acts \<Longrightarrow> adopt E target acts (replica c r) = (q, s') \<Longrightarrow>
    cluster_step E ops builds headers c
      (c\<lparr>replica := (replica c)(r := s'), task := (task c)(t := Idle)\<rparr>)"
| catch_up: "catch_up E ops (replica_store c r) = Some (q, st') \<Longrightarrow>
    cluster_step E ops builds headers c
      (c\<lparr>shared := log st', replica := (replica c)(r := state st')\<rparr>)"
| checkpoint: "write_checkpoint E ops v (replica_store c r) = (q, st') \<Longrightarrow>
    cluster_step E ops builds headers c (c\<lparr>shared := log st'\<rparr>)"
| restart: "cluster_step E ops builds headers c
      (c\<lparr>replica := (replica c)(r := empty_snapshot),
         task := (\<lambda>t. if task_replica (task c t) = Some r then Idle else task c t)\<rparr>)"

definition cluster_start :: "'l \<Rightarrow> ('j, 'l) cluster" where
  "cluster_start l = \<lparr>shared = l, replica = (\<lambda>_. empty_snapshot), task = (\<lambda>_. Idle)\<rparr>"

inductive cluster_run ::
  "('j, 'z) log_env_scheme \<Rightarrow> 'l log_ops \<Rightarrow> ('j, 'a) builds \<Rightarrow> commit_info set \<Rightarrow>
   ('j, 'l) cluster \<Rightarrow> ('j, 'l) cluster \<Rightarrow> bool"
  for E :: "('j, 'z) log_env_scheme" and ops :: "'l log_ops" and builds :: "('j, 'a) builds"
  and headers :: "commit_info set"
where
  none: "cluster_run E ops builds headers c c"
| step: "cluster_run E ops builds headers c c' \<Longrightarrow> cluster_step E ops builds headers c' c'' \<Longrightarrow>
    cluster_run E ops builds headers c c''"

section \<open>The invariant\<close>

text \<open>Commit number \<open>n\<close> was built on the state at exactly the commits before it.\<close>

definition serial ::
  "('j, 'z) env_scheme \<Rightarrow> ('j, 'a) builds \<Rightarrow> 'j action list list \<Rightarrow> bool" where
  "serial E builds cs \<longleftrightarrow> (\<forall>n < length cs. \<exists>p a s0 out.
     state_at E s0 n cs \<and> builds p a s0 = Inr (cs ! n, out))"

definition task_ok ::
  "('j, 'z) env_scheme \<Rightarrow> ('j, 'a) builds \<Rightarrow> commit_info set \<Rightarrow> 'j action list list \<Rightarrow> 'j task \<Rightarrow> bool"
where
  "task_ok E builds headers cs t = (case t of
     Idle \<Rightarrow> True
   | Building r target acts body \<Rightarrow>
       \<exists>n p a s0 out info. target = Suc n \<and> Suc n < u64_max \<and> state_at E s0 n cs \<and>
         builds p a s0 = Inr (acts, out) \<and> info \<in> headers \<and> encode_commit E info acts = Inr body
   | Won r target acts \<Rightarrow>
       \<exists>n. target = Suc n \<and> Suc n < u64_max \<and> n < length cs \<and> acts = cs ! n)"

definition cluster_ok ::
  "('j, 'z) env_scheme \<Rightarrow> ('l \<Rightarrow> (string \<rightharpoonup> string)) \<Rightarrow> ('l \<Rightarrow> bool) \<Rightarrow> ('j, 'a) builds \<Rightarrow> commit_info set \<Rightarrow>
   ('j, 'l) cluster \<Rightarrow> 'j action list list \<Rightarrow> bool"
where
  "cluster_ok E objs linv builds headers c cs \<longleftrightarrow> log_good E objs linv (shared c) cs \<and>
     (\<forall>r. \<exists>n. state_at E (replica c r) n cs) \<and> (\<forall>t. task_ok E builds headers cs (task c t)) \<and>
     serial E builds cs"

lemma state_at_empty [simp]: "state_at E empty_snapshot 0 cs"
  using snap_ok_empty [of E] by (simp add: state_at_def snap_ok_def)

lemma serial_snoc:
  assumes "serial E builds cs" "state_at E s0 (length cs) cs" "builds p a s0 = Inr (acts, out)"
  shows "serial E builds (cs @ [acts])"
  unfolding serial_def
proof (intro allI impI)
  fix n assume n: "n < length (cs @ [acts])"
  show "\<exists>p a s0 out. state_at E s0 n (cs @ [acts]) \<and> builds p a s0 = Inr ((cs @ [acts]) ! n, out)"
  proof (cases "n = length cs")
    case True
    with assms(2,3) show ?thesis
      using state_at_append [of E s0 n cs "[acts]"] by (auto simp: nth_append)
  next
    case False
    with n have "n < length cs" by simp
    moreover from this assms(1) obtain p a s out where
      "state_at E s n cs" "builds p a s = Inr (cs ! n, out)" unfolding serial_def by blast
    ultimately show ?thesis
      using state_at_append [of E s n cs "[acts]"] by (auto simp: nth_append)
  qed
qed

lemma task_ok_append:
  assumes "task_ok E builds headers cs t"
  shows "task_ok E builds headers (cs @ ext) t"
  using assms state_at_append [of E _ _ cs ext]
  by (cases t) (fastforce simp: task_ok_def nth_append)+

lemma task_ok_Idle [simp]: "task_ok E builds headers cs Idle"
  by (simp add: task_ok_def)

definition builds_ok :: "('j, 'z) env_scheme \<Rightarrow> ('j, 'a) builds \<Rightarrow> bool" where
  "builds_ok E builds \<longleftrightarrow> (\<forall>p. build_ok E (builds p))"

definition headers_ok :: "('j, 'z) env_scheme \<Rightarrow> commit_info set \<Rightarrow> bool" where
  "headers_ok E headers \<longleftrightarrow>
     (\<forall>i \<in> headers. line_ok E (LineCommitInfo i) \<and> ci_format i \<le> format_version)"

context object_log begin

lemma cluster_put_ok:
  assumes "cluster_ok E objs linv builds headers c cs" "builds_ok E builds" "headers_ok E headers"
    and "task c t = Building r target acts body"
    and "op_put_if_absent ops (commit_key target) body (shared c) = (q, l')"
  shows "\<exists>ext. log_good E objs linv l' (cs @ ext) \<and> serial E builds (cs @ ext) \<and>
    (q = Inr PutCreated \<longrightarrow> task_ok E builds headers (cs @ ext) (Won r target acts))"
proof -
  have good: "log_good E objs linv (shared c) cs" "serial E builds cs"
    using assms(1) by (simp_all add: cluster_ok_def)
  have "task_ok E builds headers cs (Building r target acts body)"
    using assms(1,4) by (metis cluster_ok_def)
  then obtain n p a s0 out info where b: "target = Suc n" "Suc n < u64_max" "state_at E s0 n cs"
    "builds p a s0 = Inr (acts, out)" "info \<in> headers" "encode_commit E info acts = Inr body"
    by (auto simp: task_ok_def)
  have "snap_ok E s0"
    using good(1) b(3) by (auto simp: log_good_def intro: state_at_snap_ok)
  then have fine: "acts_ok E s0 acts" "\<forall>x \<in> set acts. act_fine E x"
    using assms(2) b(4) unfolding builds_ok_def build_ok_def by blast+
  have info: "line_ok E (LineCommitInfo info)" "ci_format info \<le> format_version"
    using assms(3) b(5) by (auto simp: headers_ok_def)
  note spec = commit_put_spec [OF good(1) b(3,2) fine info b(6) assms(5) [unfolded b(1)]]
  show ?thesis
  proof (cases "n = length cs \<and> log_good E objs linv l' (cs @ [acts])")
    case True
    then have "serial E builds (cs @ [acts])"
      using serial_snoc [OF good(2) _ b(4)] b(3) by simp
    with True b(1,2) show ?thesis
      by (intro exI [of _ "[acts]"]) (auto simp: task_ok_def nth_append)
  next
    case False
    then have "log_good E objs linv l' cs" "q \<noteq> Inr PutCreated"
      using spec(1,3) by auto
    with good(2) show ?thesis by (intro exI [of _ "[]"]) simp
  qed
qed

lemma cluster_step_ok:
  assumes "cluster_step E ops builds headers c c'" "cluster_ok E objs linv builds headers c cs"
    and "builds_ok E builds" "headers_ok E headers"
  shows "\<exists>ext. cluster_ok E objs linv builds headers c' (cs @ ext)"
  using assms(1)
proof (cases rule: cluster_step.cases)
  case (build t p a r acts out info body)
  obtain n where n: "state_at E (replica c r) n cs"
    using assms(2) by (auto simp: cluster_ok_def)
  have "wadd64 (version (replica c r)) 1 = Suc n" "Suc n < u64_max"
    using state_at_version [OF n] build wadd64_Suc [of n] by simp_all
  then have "task_ok E builds headers cs (Building r (wadd64 (version (replica c r)) 1) acts body)"
    using build n by (fastforce simp: task_ok_def)
  then have "cluster_ok E objs linv builds headers c' (cs @ [])"
    using assms(2) build by (simp add: cluster_ok_def)
  then show ?thesis ..
next
  case (put t r target acts body q l')
  from cluster_put_ok [OF assms(2-4) put(2,3)] obtain ext where
    ext: "log_good E objs linv l' (cs @ ext)" "serial E builds (cs @ ext)"
    "q = Inr PutCreated \<longrightarrow> task_ok E builds headers (cs @ ext) (Won r target acts)" by blast
  have "\<forall>r. \<exists>n. state_at E (replica c r) n (cs @ ext)"
    using assms(2) state_at_append unfolding cluster_ok_def by blast
  moreover have "\<forall>t. task_ok E builds headers (cs @ ext) (task c t)"
    using assms(2) task_ok_append unfolding cluster_ok_def by blast
  ultimately have "cluster_ok E objs linv builds headers c' (cs @ ext)"
    using put(1) ext by (simp add: cluster_ok_def)
  then show ?thesis ..
next
  case (adopt t r target acts q s')
  obtain n where n: "state_at E (replica c r) n cs"
    using assms(2) by (auto simp: cluster_ok_def)
  have "task_ok E builds headers cs (Won r target acts)"
    using assms(2) adopt by (metis cluster_ok_def)
  then obtain m where m: "target = Suc m" "Suc m < u64_max" "m < length cs" "acts = cs ! m"
    by (auto simp: task_ok_def)
  have "\<exists>k. state_at E s' k cs"
  proof (cases "n = m")
    case True
    then show ?thesis
      using adopt_spec [of E cs "replica c r" n] assms(2) n m adopt(3)
      by (auto simp: cluster_ok_def log_good_def)
  next
    case False
    have "n < u64_max"
      using n assms(2) by (auto simp: state_at_def cluster_ok_def log_good_def log_holds_def)
    then have "s' = replica c r"
      using adopt(3) False m(1) state_at_version [OF n] wadd64_Suc [of n]
      by (auto simp: adopt_def split: if_splits)
    with n show ?thesis by blast
  qed
  then have "cluster_ok E objs linv builds headers c' (cs @ [])"
    using assms(2) adopt(1) by (simp add: cluster_ok_def)
  then show ?thesis ..
next
  case (catch_up r q st')
  obtain n where n: "state_at E (replica c r) n cs" and good: "log_good E objs linv (shared c) cs"
    using assms(2) by (auto simp: cluster_ok_def)
  then have "log st' = shared c" "\<exists>m. state_at E (state st') m cs"
    using catch_up_spec [of E "replica_store c r" cs n] catch_up(2) by (auto simp: replica_store_def)
  then have "cluster_ok E objs linv builds headers c' (cs @ [])"
    using assms(2) catch_up(1) by (simp add: cluster_ok_def)
  then show ?thesis ..
next
  case (checkpoint v r q st')
  obtain n where n: "state_at E (replica c r) n cs" and good: "log_good E objs linv (shared c) cs"
    using assms(2) by (auto simp: cluster_ok_def)
  then have "log_good E objs linv (log st') cs"
    using write_checkpoint_spec(2) [of E "replica_store c r" cs n v] checkpoint(2)
    by (simp add: replica_store_def)
  then have "cluster_ok E objs linv builds headers c' (cs @ [])"
    using assms(2) checkpoint(1) by (simp add: cluster_ok_def)
  then show ?thesis ..
next
  case (restart r)
  have "\<exists>n. state_at E empty_snapshot n cs" by (rule exI [of _ 0]) simp
  then have "cluster_ok E objs linv builds headers c' (cs @ [])"
    using assms(2) restart by (simp add: cluster_ok_def)
  then show ?thesis ..
qed

lemma cluster_run_ok:
  assumes "cluster_run E ops builds headers c c'" "cluster_ok E objs linv builds headers c cs"
    and "builds_ok E builds" "headers_ok E headers"
  shows "\<exists>ext. cluster_ok E objs linv builds headers c' (cs @ ext)"
  using assms(1,2)
proof (induction rule: cluster_run.induct)
  case (none c)
  then show ?case by (intro exI [of _ "[]"]) simp
next
  case (step c c' c'')
  then obtain ext where "cluster_ok E objs linv builds headers c' (cs @ ext)" by blast
  from cluster_step_ok [OF step(2) this assms(3,4)] show ?case
    by (metis append.assoc)
qed

lemma cluster_start_ok:
  assumes "linv l" "objs l = Map.empty"
  shows "cluster_ok E objs linv builds headers (cluster_start l) []"
proof -
  have "\<exists>n. state_at E empty_snapshot n []" by (rule exI [of _ 0]) simp
  then show ?thesis
    using assms
    by (simp add: cluster_ok_def cluster_start_def log_good_def log_holds_def checkpoints_ok_def
        serial_def u64_max_def)
qed

end

end
