(* ===== verification/Repositories.thy ===== *)
theory Repositories
  imports RepoNamespaces RepoTables RepoAssets RepoPrincipals RepoPolicy Cluster
begin

text \<open>
  The writes of the repository layer as one family of builds, run by the replicas of a cluster.
  \<open>insert_columns\<close> and \<open>find_or_create_by_external_id\<close> are not in it: they check no UNIQUE
  constraint, and the root theory shows what follows from that.
\<close>

text \<open>A build whose result is dropped.\<close>

definition forget :: "('j action list \<times> 'a) res \<Rightarrow> ('j action list \<times> unit) res" where
  "forget r = rbind r (\<lambda>(acts, _). Inr (acts, ()))"

inductive repo_build ::
  "('j, 'z) row_codecs_scheme \<Rightarrow> (nat \<Rightarrow> snapshot \<Rightarrow> ('j action list \<times> unit) res) \<Rightarrow> bool"
  for E :: "('j, 'z) row_codecs_scheme"
where
  "repo_build E (\<lambda>_ s. forget (catalog_create_build E catalog s))"
| "repo_build E (\<lambda>_ s. forget (catalog_update_build E name new_name comment owner by at s))"
| "repo_build E (\<lambda>_ s. catalog_delete_build name s)"
| "repo_build E (\<lambda>_ s. forget (schema_create_build E schema s))"
| "repo_build E (\<lambda>_ s. forget (schema_update_build E i new_name comment owner by at s))"
| "repo_build E (\<lambda>_ s. schema_delete_build E i s)"
| "repo_build E (\<lambda>_ s. forget (table_create_build E table s))"
| "repo_build E (\<lambda>_ s. table_delete_build E i s)"
| "repo_build E (\<lambda>_ s. table_patch_build E i count comment ver tm at s)"
| "repo_build E (\<lambda>_ s. table_rename_build E i name at s)"
| "repo_build E (\<lambda>_ s. delete_columns_build E i s)"
| "repo_build E (\<lambda>_ s. forget (staging_create_build E staging s))"
| "repo_build E (\<lambda>_ s. staging_mark_committed_build E i at s)"
| "repo_build E (\<lambda>_ s. forget (volume_create_build E volume s))"
| "repo_build E (\<lambda>_ s. forget (volume_update_build E i new_name comment owner at by s))"
| "repo_build E (\<lambda>_ s. volume_delete_build E i s)"
| "repo_build E (\<lambda>_ s. forget (function_create_build E func s))"
| "repo_build E (\<lambda>_ s. insert_params_build E params s)"
| "repo_build E (\<lambda>_ s. function_delete_build E i s)"
| "repo_build E (\<lambda>_ s. forget (model_create_build E model s))"
| "repo_build E (\<lambda>_ s. update_model_build E i new_name comment owner at by s)"
| "repo_build E (\<lambda>_ s. set_max_version_build E i v s)"
| "repo_build E (\<lambda>_ s. delete_model_build i s)"
| "repo_build E (\<lambda>_ s. forget (create_version_build E model_version s))"
| "repo_build E (\<lambda>_ s. update_version_build E i comment at by s)"
| "repo_build E (\<lambda>_ s. set_version_status_build E i status s)"
| "repo_build E (\<lambda>_ s. delete_version_build i v s)"
| "repo_build E (\<lambda>_ s. forget (user_create_build E user s))"
| "repo_build E (\<lambda>_ s. forget (user_update_build E i name' email status' at s))"
| "repo_build E (\<lambda>_ s. user_delete_build E i s)"
| "repo_build E (\<lambda>_ s. forget (credential_create_build E cred s))"
| "repo_build E (\<lambda>_ s. credential_update_build E i new_name comment owner secret at by s)"
| "repo_build E (\<lambda>_ s. credential_delete_build name s)"
| "repo_build E (\<lambda>_ s. forget (location_create_build E location s))"
| "repo_build E (\<lambda>_ s. location_update_build E i new_name url comment owner cred_id at by s)"
| "repo_build E (\<lambda>_ s. location_delete_build name s)"
| "repo_build E (\<lambda>a s. forget (get_or_init_build E name (fresh a) s))"
| "distinct (map fst props) \<Longrightarrow>
    repo_build E (\<lambda>a s. property_replace_build E i type props (fresh' a) s)"
| "repo_build E (\<lambda>_ s. property_delete_build E i type s)"
| "repo_build E (\<lambda>a s. property_set_build E i type key val (fresh a) s)"
| "repo_build E (\<lambda>_ s. property_delete_key_build E i type key s)"
| "repo_build E (\<lambda>a s. forget (casbin_insert_build E rule (fresh a) s))"
| "repo_build E (\<lambda>_ s. forget (casbin_delete_build rule s))"
| "repo_build E (\<lambda>_ s. forget (casbin_delete_many_build rules s))"
| "repo_build E (\<lambda>a s. casbin_replace_all_build E rules (fresh' a) s)"
| "repo_build E (\<lambda>_ s. casbin_clear_build s)"

lemma admissible_forget [admissible_intros]:
  assumes "admissible E build"
  shows "admissible E (\<lambda>s. forget (build s))"
proof (rule admissibleI)
  fix s acts out
  assume "snap_ok E s" "forget (build s) = Inr (acts, out)"
  then obtain x where "build s = Inr (acts, x)"
    by (auto simp: forget_def rbind_eq_Inr)
  with admissibleD [OF assms \<open>snap_ok E s\<close>] show "acts_ok E s acts \<and> (\<forall>a \<in> set acts. body_ok E a)" by blast
qed

lemma repo_build_admissible:
  assumes "repo_build E b" "codecs_ok E"
  shows "admissible E (b a)"
  using assms(1) by cases (auto intro!: admissible_intros assms(2))

text \<open>What is left to ask of a build in a cluster: that serde gives its lines back.\<close>

definition lines_ok :: "('j, 'z) env_scheme \<Rightarrow> (nat \<Rightarrow> snapshot \<Rightarrow> ('j action list \<times> 'a) res) \<Rightarrow> bool" where
  "lines_ok E b \<longleftrightarrow> (\<forall>a s acts out. snap_ok E s \<longrightarrow> b a s = Inr (acts, out) \<longrightarrow>
     (\<forall>x \<in> set acts. line_ok E (line_of_action x)))"

lemma admissible_build_ok:
  assumes "\<And>a. admissible E (b a)" "lines_ok E b"
  shows "build_ok E b"
  unfolding build_ok_def
proof (intro allI impI)
  fix a s acts out assume s: "snap_ok E s" "b a s = Inr (acts, out)"
  have "acts_ok E s acts" "\<forall>x \<in> set acts. body_ok E x"
    using admissibleD [OF assms(1) s] by blast+
  moreover have "\<forall>x \<in> set acts. line_ok E (line_of_action x)"
    using assms(2) s unfolding lines_ok_def by blast
  ultimately show "acts_ok E s acts \<and> (\<forall>x \<in> set acts. act_fine E x)"
    by (simp add: act_fine_def body_ok_def)
qed

lemma repo_builds_ok:
  assumes "\<And>p. repo_build E (builds p)" "\<And>p. lines_ok E (builds p)" "codecs_ok E"
  shows "builds_ok E builds"
  unfolding builds_ok_def
  using admissible_build_ok repo_build_admissible [OF assms(1,3)] assms(2) by blast

end
