(* ===== verification/Samples.thy ===== *)
theory Samples
  imports ObjectLog
begin

text \<open>
  Concrete instances of what the development takes as parameters, for running its definitions on
  inputs: bodies are the rows themselves, a uuid is printed as the \<^verbatim>\<open>uuid\<close> crate documents it, and
  the text of a line is its number in a table.
\<close>

section \<open>A codec from a table\<close>

fun index_of :: "'a \<Rightarrow> 'a list \<Rightarrow> nat option" where
  "index_of x [] = None"
| "index_of x (y # ys) = (if x = y then Some 0 else map_option Suc (index_of x ys))"

definition table_codec :: "'a list \<Rightarrow> ('a, string) codec" where
  "table_codec tbl = \<lparr>
     enc = (\<lambda>x. case index_of x tbl of None \<Rightarrow> Inl ''unlisted'' | Some n \<Rightarrow> Inr (show_nat n)),
     dec = (\<lambda>t. case parse_digits t of
              None \<Rightarrow> Inl ''not a number''
            | Some n \<Rightarrow> if n < length tbl then Inr (tbl ! n) else Inl ''unlisted'')\<rparr>"

lemma index_of_Some: "x \<in> set tbl \<Longrightarrow> \<exists>n. index_of x tbl = Some n \<and> n < length tbl \<and> tbl ! n = x"
  by (induction tbl) auto

lemma parse_digits_show_nat [simp]: "parse_digits (show_nat n) = Some n"
  by (simp add: parse_digits_def show_nat_digits)

lemma table_codec_listed:
  "x \<in> set tbl \<Longrightarrow> \<exists>n. enc (table_codec tbl) x = Inr (show_nat n) \<and> dec (table_codec tbl) (show_nat n) = Inr x"
proof -
  assume "x \<in> set tbl"
  then obtain n where "index_of x tbl = Some n" "n < length tbl" "tbl ! n = x"
    using index_of_Some [of x tbl] by blast
  then show ?thesis by (intro exI [of _ n]) (simp add: table_codec_def)
qed

text \<open>A number is one line of valid text.\<close>

lemma utf8_points_digits:
  "list_all is_digit s \<Longrightarrow> utf8_points (map byte s) = Some (map byte s)"
proof (induction s)
  case (Cons c s)
  then have c: "byte c < 128" "utf8_points (map byte s) = Some (map byte s)"
    by (simp_all add: is_digit_def)
  then have "utf8_step (map byte (c # s)) = Some (byte c, 1)"
    by (simp add: utf8_step_def)
  with c(2) show ?case
    by (subst utf8_points.simps) simp
qed simp

lemma digits_line:
  assumes "list_all is_digit s" "s \<noteq> []"
  shows "utf8_valid s" "NL \<notin> set s" "CHR 0x0D \<notin> set s" "\<not> blank s"
proof -
  show "utf8_valid s"
    using utf8_points_digits [OF assms(1)] by (simp add: utf8_valid_def utf8_chars_def)
  have d: "\<forall>c \<in> set s. 48 \<le> byte c \<and> byte c \<le> 57"
    using assms(1) by (simp add: list_all_iff is_digit_def)
  have "byte NL = 10" "byte (CHR 0x0D) = 13"
    by (simp_all add: NL_def byte_def)
  with d show "NL \<notin> set s" "CHR 0x0D \<notin> set s" by force+
  obtain c r where s: "s = c # r" using assms(2) by (cases s) auto
  with d have "\<not> cp_whitespace (byte c)" by (auto simp: cp_whitespace_def)
  with s show "\<not> blank s"
    using utf8_points_digits [OF assms(1)] by (simp add: blank_def utf8_chars_def)
qed

section \<open>Text of a uuid\<close>

definition hex_text :: "nat \<Rightarrow> nat \<Rightarrow> string" where
  "hex_text w n = map (\<lambda>i. digit_char (n div 16 ^ i mod 16)) (rev [0..<w])"

definition uuid_display :: "uuid \<Rightarrow> string" where
  "uuid_display u = (let h = hex_text 32 (unat u) in
     take 8 h @ ''-'' @ take 4 (drop 8 h) @ ''-'' @ take 4 (drop 12 h) @ ''-'' @
     take 4 (drop 16 h) @ ''-'' @ drop 20 h)"

lemma digit_char_inj16: "i < 16 \<Longrightarrow> j < 16 \<Longrightarrow> digit_char i = digit_char j \<Longrightarrow> i = j"
proof -
  have "distinct (map digit_char [0..<16])" by (simp add: digit_char_def upt_rec)
  then have "inj_on digit_char {0..<16}" by (simp add: distinct_map)
  then show "i < 16 \<Longrightarrow> j < 16 \<Longrightarrow> digit_char i = digit_char j \<Longrightarrow> i = j"
    by (auto dest: inj_onD)
qed

lemma nibbles_determine:
  "(\<And>i. i < w \<Longrightarrow> n div 16 ^ i mod 16 = m div 16 ^ i mod 16) \<Longrightarrow> (n :: nat) mod 16 ^ w = m mod 16 ^ w"
proof (induction w)
  case (Suc w)
  have "x mod 16 ^ Suc w = 16 ^ w * (x div 16 ^ w mod 16) + x mod 16 ^ w" for x :: nat
    using mod_mult2_eq [of x "16 ^ w" 16] by (simp add: mult.commute)
  with Suc show ?case by simp
qed simp

lemma hex_text_inj:
  assumes "hex_text w n = hex_text w m" "n < 16 ^ w" "m < 16 ^ w"
  shows "n = m"
proof -
  have "n div 16 ^ i mod 16 = m div 16 ^ i mod 16" if "i < w" for i
  proof -
    have "digit_char (n div 16 ^ i mod 16) = digit_char (m div 16 ^ i mod 16)"
      using assms(1) that by (auto simp: hex_text_def)
    then show ?thesis by (rule digit_char_inj16 [rotated 2]) simp_all
  qed
  from nibbles_determine [of w n m, OF this] assms(2,3) show ?thesis by simp
qed

lemma digit_char_in: "d < 16 \<Longrightarrow> digit_char d \<in> set ''0123456789abcdef''"
  unfolding digit_char_def by (rule nth_mem) simp

lemma set_hex_text: "set (hex_text w n) \<subseteq> set ''0123456789abcdef''"
  unfolding hex_text_def set_map by (intro image_subsetI digit_char_in) simp

lemma length_hex_text [simp]: "length (hex_text w n) = w"
  by (simp add: hex_text_def)

lemma uuid_display_filter: "filter (\<lambda>c. c \<noteq> CHR ''-'') (uuid_display u) = hex_text 32 (unat u)"
proof -
  let ?h = "hex_text 32 (unat u)"
  have keep: "filter (\<lambda>c. c \<noteq> CHR ''-'') s = s" if "set s \<subseteq> set ?h" for s
    using that set_hex_text [of 32 "unat u"] by (intro filter_True) auto
  have sub: "set (take n (drop k ?h)) \<subseteq> set ?h" "set (drop k ?h) \<subseteq> set ?h" "set (take n ?h) \<subseteq> set ?h" for n k
    by (meson order_trans set_drop_subset set_take_subset)+
  have split: "drop k ?h = take n (drop k ?h) @ drop (n + k) ?h" for n k
    by (metis append_take_drop_id drop_drop)
  have "?h = take 8 ?h @ take 4 (drop 8 ?h) @ take 4 (drop 12 ?h) @ take 4 (drop 16 ?h) @ drop 20 ?h"
    using split [of 0 8] split [of 8 4] split [of 12 4] split [of 16 4] by simp
  then show ?thesis
    unfolding uuid_display_def Let_def by (simp add: keep [OF sub(1)] keep [OF sub(2)] keep [OF sub(3)])
qed

lemma uuid_display_ok: "uuid_text_ok uuid_display"
proof -
  have "inj uuid_display"
  proof (rule injI)
    fix u v :: uuid assume "uuid_display u = uuid_display v"
    then have "hex_text 32 (unat u) = hex_text 32 (unat v)"
      by (metis uuid_display_filter)
    moreover have "unat u < 16 ^ 32" "unat v < 16 ^ 32"
      using unsigned_less [of u] unsigned_less [of v] by simp_all
    ultimately show "u = v"
      using hex_text_inj [of 32 "unat u" "unat v"] unsigned_word_eqI [of u v] by simp
  qed
  moreover have "length (uuid_display u) = 36" for u
    by (simp add: uuid_display_def Let_def)
  moreover have "NUL \<notin> set (uuid_display u)" "CHR ''/'' \<notin> set (uuid_display u)" for u
  proof -
    have "c \<in> set (hex_text 32 (unat u)) \<or> c = CHR ''-''" if "c \<in> set (uuid_display u)" for c
      using that arg_cong [OF uuid_display_filter [of u], of set] by auto
    then show "NUL \<notin> set (uuid_display u)" "CHR ''/'' \<notin> set (uuid_display u)"
      using set_hex_text [of 32 "unat u"] by (auto simp: NUL_def)
  qed
  ultimately show ?thesis by (simp add: uuid_text_ok_def)
qed

section \<open>A sample environment\<close>

definition wrap_codec :: "('r \<Rightarrow> row) \<Rightarrow> (row \<Rightarrow> 'r option) \<Rightarrow> ('r, row) codec" where
  "wrap_codec con sel = \<lparr>enc = (\<lambda>r. Inr (con r)),
     dec = (\<lambda>w. case sel w of None \<Rightarrow> Inl ''invalid type'' | Some r \<Rightarrow> Inr r)\<rparr>"

lemma wrap_codec_ok: "(\<And>r. sel (con r) = Some r) \<Longrightarrow> codec_ok (wrap_codec con sel)"
  by (simp add: codec_ok_def wrap_codec_def)

definition sample_env :: "row line list \<Rightarrow> last_checkpoint list \<Rightarrow> row log_env" where
  "sample_env lines pointers = \<lparr>
     uuid_text = uuid_display,
     cd_metastore_row = wrap_codec RowMetastore (\<lambda>w. case w of RowMetastore r \<Rightarrow> Some r | _ \<Rightarrow> None),
     cd_catalog_row = wrap_codec RowCatalog (\<lambda>w. case w of RowCatalog r \<Rightarrow> Some r | _ \<Rightarrow> None),
     cd_schema_row = wrap_codec RowSchema (\<lambda>w. case w of RowSchema r \<Rightarrow> Some r | _ \<Rightarrow> None),
     cd_table_row = wrap_codec RowTable (\<lambda>w. case w of RowTable r \<Rightarrow> Some r | _ \<Rightarrow> None),
     cd_column_row = wrap_codec RowColumn (\<lambda>w. case w of RowColumn r \<Rightarrow> Some r | _ \<Rightarrow> None),
     cd_volume_row = wrap_codec RowVolume (\<lambda>w. case w of RowVolume r \<Rightarrow> Some r | _ \<Rightarrow> None),
     cd_function_row = wrap_codec RowFunction (\<lambda>w. case w of RowFunction r \<Rightarrow> Some r | _ \<Rightarrow> None),
     cd_function_param_row =
       wrap_codec RowFunctionParameter (\<lambda>w. case w of RowFunctionParameter r \<Rightarrow> Some r | _ \<Rightarrow> None),
     cd_registered_model_row =
       wrap_codec RowRegisteredModel (\<lambda>w. case w of RowRegisteredModel r \<Rightarrow> Some r | _ \<Rightarrow> None),
     cd_model_version_row =
       wrap_codec RowModelVersion (\<lambda>w. case w of RowModelVersion r \<Rightarrow> Some r | _ \<Rightarrow> None),
     cd_staging_table_row =
       wrap_codec RowStagingTable (\<lambda>w. case w of RowStagingTable r \<Rightarrow> Some r | _ \<Rightarrow> None),
     cd_user_row = wrap_codec RowUser (\<lambda>w. case w of RowUser r \<Rightarrow> Some r | _ \<Rightarrow> None),
     cd_credential_row = wrap_codec RowCredential (\<lambda>w. case w of RowCredential r \<Rightarrow> Some r | _ \<Rightarrow> None),
     cd_external_location_row =
       wrap_codec RowExternalLocation (\<lambda>w. case w of RowExternalLocation r \<Rightarrow> Some r | _ \<Rightarrow> None),
     cd_property_row = wrap_codec RowProperty (\<lambda>w. case w of RowProperty r \<Rightarrow> Some r | _ \<Rightarrow> None),
     cd_casbin_rule = wrap_codec RowCasbinRule (\<lambda>w. case w of RowCasbinRule r \<Rightarrow> Some r | _ \<Rightarrow> None),
     cd_line = table_codec lines,
     cd_last_checkpoint = table_codec pointers\<rparr>"

lemma sample_env_line [simp]: "cd_line (sample_env lines pointers) = table_codec lines"
  by (simp add: sample_env_def)

lemma sample_env_uuid [simp]: "uuid_text (sample_env lines pointers) = uuid_display"
  by (simp add: sample_env_def)

lemma sample_codecs_ok [simp]: "codecs_ok (sample_env lines pointers)"
  by (simp add: codecs_ok_def sample_env_def wrap_codec_ok)

lemma sample_line_ok: "l \<in> set lines \<Longrightarrow> line_ok (sample_env lines pointers) l"
  using table_codec_listed [of l lines] digits_line [OF show_nat_digits]
  by (auto simp: line_ok_def)

lemma sample_to_body [simp]: "to_body (sample_env lines pointers) r = Inr r"
  by (cases r) (simp_all add: sample_env_def wrap_codec_def json_err_def)

lemma sample_from_body [simp]:
  "from_body (sample_env lines pointers) k r = Inr q \<longleftrightarrow> k = row_kind r \<and> q = r"
  by (cases k; cases r) (auto simp: sample_env_def wrap_codec_def parse_row_def)

end
