(* ===== verification/SampleRuns.thy ===== *)
theory SampleRuns
  imports Repositories Samples
begin

text \<open>
  A concrete log, store and cluster run: one replica creates one catalog. The witnesses of the root
  theory apply its properties here.
\<close>

declare to_body.simps [simp del] from_body.simps [simp del]

definition sample_info :: commit_info where
  "sample_info = \<lparr>ci_format = 1, ci_timestamp = 0, ci_operation = Some ''CREATE CATALOG'', ci_actor = None\<rparr>"

definition sample_catalog :: catalog_row where
  "sample_catalog = \<lparr>cat_id = 1, cat_name = ''main'', cat_comment = None, cat_owner = None,
     cat_created_at = 0, cat_created_by = None, cat_updated_at = None, cat_updated_by = None,
     cat_storage_root = None, cat_storage_location = None\<rparr>"

definition sample_action :: "row action" where
  "sample_action = Upsert EkCatalog 1 (RowCatalog sample_catalog)"

definition sample :: "row log_env" where
  "sample = sample_env [LineCommitInfo sample_info, line_of_action sample_action]
     [\<lparr>lc_version = 100, lc_size = 1, lc_checksum = None\<rparr>]"

definition sample_build :: "nat \<Rightarrow> nat \<Rightarrow> snapshot \<Rightarrow> (row action list \<times> unit) res" where
  "sample_build p a s = forget (catalog_create_build sample sample_catalog s)"

definition sample_world :: "memory_log world" where
  "sample_world = \<lparr>others = (\<lambda>_ l. l), clock = (\<lambda>_. 0), current_actor = None\<rparr>"

text \<open>The lines of the file are numbers of the table.\<close>

definition sample_body :: string where
  "sample_body = ''0'' @ NL # ''1'' @ [NL]"

definition sample_log :: memory_log where
  "sample_log = \<lparr>objects = [(commit_key 1, sample_body)]\<rparr>"

definition sample_state :: snapshot where
  "sample_state = \<lparr>version = 1, entities = [(EkCatalog, [(1, RowCatalog sample_catalog)])],
     by_natural_key = [((EkCatalog, ''main''), 1)]\<rparr>"

lemma sample_facts [simp]:
  "codecs_ok sample" "to_body sample r = Inr r" "uuid_text sample = uuid_display"
  "line_ok sample (LineCommitInfo sample_info)" "line_ok sample (line_of_action sample_action)"
  by (simp_all add: sample_def sample_line_ok)

lemma sample_from_body_iff [simp]: "from_body sample k r = Inr q \<longleftrightarrow> k = row_kind r \<and> q = r"
  by (simp add: sample_def)

lemma sample_action_fine [simp]: "act_fine sample sample_action"
  by (simp add: act_fine_def) (simp add: sample_action_def)

lemma sample_header: "commit_header sample_world a ''CREATE CATALOG'' = sample_info"
  by (simp add: commit_header_def sample_world_def sample_info_def format_version_def)

lemma sample_headers_ok: "headers_ok sample {sample_info}"
  by (simp add: headers_ok_def) (simp add: sample_info_def format_version_def)

lemma sample_build_free:
  "get_by_natural_key s EkCatalog ''main'' = None \<Longrightarrow> sample_build p a s = Inr ([sample_action], ())"
  by (simp add: sample_build_def forget_def catalog_create_build_def write_row_def sample_action_def)
     (simp add: sample_catalog_def)

lemma sample_build_cases:
  "sample_build p a s = Inr (acts, out) \<Longrightarrow> acts = [sample_action]"
  by (auto simp: sample_build_def forget_def catalog_create_build_def write_row_def rbind_eq_Inr
      sample_action_def sample_catalog_def split: if_splits)

lemma sample_repo_build: "repo_build sample (sample_build p)"
proof -
  have "sample_build p = (\<lambda>_ s. forget (catalog_create_build sample sample_catalog s))"
    by (simp add: fun_eq_iff sample_build_def)
  then show ?thesis by (simp only: repo_build.intros(1))
qed

lemma sample_lines_ok: "lines_ok sample (sample_build p)"
  using sample_build_cases by (fastforce simp: lines_ok_def)

lemma sample_build_ok: "build_ok sample (sample_build p)"
  using admissible_build_ok [OF repo_build_admissible [OF sample_repo_build] sample_lines_ok] by simp

lemma sample_encode: "encode_commit sample sample_info [sample_action] = Inr sample_body"
  by (simp add: encode_commit_def sample_def table_codec_def json_err_def sample_action_def
      show_nat.simps digit_char_def sample_body_def)

lemma sample_acts_ok: "acts_ok sample empty_snapshot [sample_action]"
  by (simp add: sample_action_def upsert_ok_def)
     (simp add: sample_catalog_def empty_snapshot_def id_by_natural_key_def)

lemma sample_replay: "replay sample [[sample_action]] = sample_state"
proof -
  have "replay sample [[sample_action]] = replay_step sample empty_snapshot [sample_action]"
    by (simp add: replay_def)
  moreover have "from_body sample EkCatalog (RowCatalog sample_catalog) = Inr (RowCatalog sample_catalog)"
    by simp
  ultimately show ?thesis
    by (simp add: replay_step_def sample_action_def upsert_row_def reindex_def kind_table_def
        snap_get_def empty_snapshot_def sample_state_def) (simp add: sample_catalog_def)
qed

lemma empty_log_good: "log_good E memory_objs memory_ok memory_new []"
  by (simp add: log_good_def log_holds_def checkpoints_ok_def memory_ok_def memory_objs_def
      memory_new_def u64_max_def)

lemma sample_log_good: "log_good sample memory_objs memory_ok sample_log [[sample_action]]"
proof -
  have "ci_format sample_info \<le> format_version"
    by (simp add: sample_info_def format_version_def)
  then have dec: "decode_commit sample (commit_key 1) sample_body = Inr (sample_info, [sample_action])"
    using decode_encode_commit [of sample sample_info "[sample_action]" "commit_key 1"] sample_encode by auto
  have "log_good sample memory_objs memory_ok sample_log ([] @ [[sample_action]])"
  proof (rule log_good_append [OF empty_log_good])
    show "memory_objs sample_log = (memory_objs memory_new)(commit_key (Suc (length [])) \<mapsto> sample_body)"
      by (simp add: memory_objs_def sample_log_def memory_new_def)
  qed (use dec sample_acts_ok in \<open>simp_all add: memory_ok_def sample_log_def u64_max_def om_ok_def\<close>)
  then show ?thesis by simp
qed

lemma sample_state_at: "state_at sample sample_state 1 [[sample_action]]"
  by (simp add: state_at_def sample_replay)
     (simp add: maps_ok_def sample_state_def om_ok_def)

lemma sample_build_empty: "sample_build 0 0 empty_snapshot = Inr ([sample_action], ())"
  by (rule sample_build_free) (simp add: get_by_natural_key_def empty_snapshot_def)

lemma sample_state_ok: "snap_ok sample sample_state"
  using sample_log_good sample_state_at by (auto simp: log_good_def intro: state_at_snap_ok)

lemma sample_state_lines: "\<forall>x \<in> set (all_rows sample_state). row_line_ok sample x"
  using sample_facts(5) by (simp add: all_rows_def sample_state_def row_line_ok_def sample_action_def)

section \<open>Stores over the sample logs\<close>

definition sample_start :: "memory_log store" where
  "sample_start = \<lparr>log = memory_new, state = empty_snapshot\<rparr>"

text \<open>A replica that has not yet seen the commit of the sample log.\<close>

definition sample_second :: "memory_log store" where
  "sample_second = \<lparr>log = sample_log, state = empty_snapshot\<rparr>"

lemma sample_start_good: "log_good sample memory_objs memory_ok (log sample_start) []"
  by (simp add: sample_start_def empty_log_good)

lemma sample_start_state: "state_at sample (state sample_start) 0 []"
  by (simp add: sample_start_def)

lemma sample_second_good: "log_good sample memory_objs memory_ok (log sample_second) [[sample_action]]"
  by (simp add: sample_second_def sample_log_good)

lemma sample_second_state: "state_at sample (state sample_second) 0 [[sample_action]]"
  by (simp add: sample_second_def)

lemma sample_rely: "rely E memory_objs memory_ok 0 sample_world"
  by (auto simp: rely_def sample_world_def)

lemma sample_alone: "others sample_world = (\<lambda>_ l. l)"
  by (simp add: sample_world_def)

lemma sample_info_format: "ci_format sample_info \<le> format_version"
  by (simp add: sample_info_def format_version_def)

lemma sample_action_lines: "\<forall>a \<in> set [sample_action]. line_ok sample (line_of_action a)"
  by simp

lemma sample_header_ok: "line_ok sample (LineCommitInfo (commit_header sample_world a ''CREATE CATALOG''))"
  by (simp add: sample_header)

lemma sample_room: "length ([] :: row action list list) + max_commit_attempts * Suc 0 + 1 < u64_max"
  by (simp add: max_commit_attempts_def u64_max_def)

lemma sample_second_room: "Suc (length [[sample_action]]) < u64_max"
  by (simp add: u64_max_def)

section \<open>A run of a cluster\<close>

definition sample_end :: "(row, memory_log) cluster" where
  "sample_end = \<lparr>shared = sample_log, replica = (\<lambda>_. empty_snapshot)(0 := sample_state),
     task = (\<lambda>_. Idle)\<rparr>"

lemma sample_put:
  "op_put_if_absent (truncating_ops n) (commit_key 1) sample_body memory_new = (Inr PutCreated, sample_log)"
  by (simp add: truncating_ops_def memory_ops_def memory_put_if_absent_def memory_new_def sample_log_def)

lemma sample_adopt: "adopt sample 1 [sample_action] empty_snapshot = (Inr (), sample_state)"
proof -
  obtain s' where s': "apply_all sample empty_snapshot [sample_action] = (Inr (), s')"
    using acts_ok_apply [OF sample_acts_ok] by (metis prod.collapse)
  have "replay_step sample empty_snapshot [sample_action] = sample_state"
    using sample_replay by (simp add: replay_def)
  with s' have "s'\<lparr>version := 1\<rparr> = sample_state"
    by (simp add: replay_step_def) (simp add: empty_snapshot_def)
  with s' show ?thesis
    by (simp add: adopt_def) (simp add: empty_snapshot_def wadd64_def)
qed

lemma sample_run:
  "cluster_run sample (truncating_ops n) sample_build {sample_info} (cluster_start memory_new) sample_end"
proof -
  let ?run = "cluster_run sample (truncating_ops n) sample_build {sample_info} (cluster_start memory_new)"
  let ?c0 = "cluster_start memory_new :: (row, memory_log) cluster"
  let ?c1 = "?c0\<lparr>task := (task ?c0)(0 := Building 0 1 [sample_action] sample_body)\<rparr>"
  let ?c2 = "?c1\<lparr>shared := sample_log, task := (task ?c1)(0 := Won 0 1 [sample_action])\<rparr>"
  have free: "get_by_natural_key empty_snapshot EkCatalog ''main'' = None"
    by (simp add: get_by_natural_key_def empty_snapshot_def)
  have "cluster_step sample (truncating_ops n) sample_build {sample_info} ?c0
      (?c0\<lparr>task := (task ?c0)(0 := Building 0 (wadd64 (version (replica ?c0 0)) 1) [sample_action] sample_body)\<rparr>)"
    by (rule cluster_step.build [where p = 0 and a = 1 and out = "()" and info = sample_info])
       (simp_all add: cluster_start_def sample_build_free [OF free] sample_encode u64_max_def,
        simp add: empty_snapshot_def)
  moreover have "wadd64 (version (replica ?c0 0)) 1 = 1"
    by (simp add: cluster_start_def empty_snapshot_def wadd64_def)
  ultimately have 1: "?run ?c1"
    using cluster_run.step [OF cluster_run.none] by metis
  have "cluster_step sample (truncating_ops n) sample_build {sample_info} ?c1
      (?c1\<lparr>shared := sample_log,
         task := (task ?c1)(0 := if Inr PutCreated = (Inr PutCreated :: put_result res)
           then Won 0 1 [sample_action] else Idle)\<rparr>)"
    by (rule cluster_step.put [where body = sample_body])
       (simp_all add: cluster_start_def sample_put [simplified])
  then have 2: "?run ?c2"
    using cluster_run.step [OF 1] by simp
  have "cluster_step sample (truncating_ops n) sample_build {sample_info} ?c2
      (?c2\<lparr>replica := (replica ?c2)(0 := sample_state), task := (task ?c2)(0 := Idle)\<rparr>)"
    by (rule cluster_step.adopt [where target = 1 and acts = "[sample_action]"])
       (simp_all add: cluster_start_def sample_adopt [simplified])
  moreover have "?c2\<lparr>replica := (replica ?c2)(0 := sample_state), task := (task ?c2)(0 := Idle)\<rparr> = sample_end"
    by (simp add: sample_end_def cluster_start_def fun_eq_iff)
  ultimately show ?thesis
    using cluster_run.step [OF 2] by simp
qed

end
