(* ===== verification/LogProperties.thy ===== *)
theory LogProperties
  imports SampleRuns
begin

text \<open>
  Properties of the object log: draining a paginated listing, the order of the keys, and starting
  from a checkpoint that may be damaged.
\<close>

section \<open>Listing\<close>

text \<open>
  On a paginating log the listing loop returns every key of the range, once and in order, for
  every page size of at least one.
\<close>

lemma listing_drains:
  assumes "memory_ok l"
  shows "list_all_in_range (truncating_ops (Suc pg)) l p a stop =
    Some (Inr (keys_in_range (memory_objs l) p a stop))"
  by (rule trunc.list_all_in_range_complete [OF assms])
     (simp add: truncating_ops_def truncating_list_after_def memory_list_after_def)

lemma listing_drains_witness:
  "list_all_in_range (truncating_ops (Suc 1)) sample_log ''_uc_log/'' [] (Some (commit_key 7)) =
    Some (Inr (keys_in_range (memory_objs sample_log) ''_uc_log/'' [] (Some (commit_key 7))))"
  by (rule listing_drains) (simp add: sample_log_def memory_ok_def om_ok_def)

text \<open>The cursor of the loop grows with every page, whatever the backend answers.\<close>

lemma list_all_loop_ends:
  assumes "finite K" "\<And>p a ks. op_list_after ops p a l = Inr ks \<Longrightarrow> set ks \<subseteq> K"
  shows "\<exists>r. list_all_loop ops l p stop a acc = Some r"
proof (induction "card {k \<in> K. a < k}" arbitrary: a acc rule: less_induct)
  case less
  show ?case
  proof (cases "\<exists>ks. op_list_after ops p a l = Inr ks \<and> ks \<noteq> [] \<and> a < last ks")
    case True
    then obtain ks where ks: "op_list_after ops p a l = Inr ks" "ks \<noteq> []" "a < last ks" by blast
    then have "last ks \<in> K" using assms(2) last_in_set by blast
    then have "{k \<in> K. last ks < k} \<subset> {k \<in> K. a < k}"
      using ks(3) by auto
    then have "card {k \<in> K. last ks < k} < card {k \<in> K. a < k}"
      using assms(1) by (simp add: psubset_card_mono)
    from less [OF this, of "acc @ ks"] ks show ?thesis
      by (subst list_all_loop.simps) auto
  next
    case False
    then show ?thesis
      by (subst list_all_loop.simps) (auto split: sum.splits simp: not_less)
  qed
qed

text \<open>
  C23: The listing loop returns for every backend whose keys are finitely many, conforming or not: one
  that ignores \<open>start_after\<close> is refused instead of being asked forever.
\<close>

lemma listing_terminates:
  assumes "finite K" "\<And>p a ks. op_list_after ops p a l = Inr ks \<Longrightarrow> set ks \<subseteq> K"
  shows "\<exists>r. list_all_in_range ops l p a stop = Some r"
  unfolding list_all_in_range_def by (rule list_all_loop_ends [OF assms])

definition stuck_ops :: "unit log_ops" where
  "stuck_ops = \<lparr>op_put_if_absent = (\<lambda>_ _ l. (Inr PutAlreadyExists, l)), op_get = (\<lambda>_ _. Inr None),
     op_list_after = (\<lambda>_ _ _. Inr [''a'', ''b'']), op_put = (\<lambda>_ _ l. (Inr (), l))\<rparr>"

lemma stuck_listing: "op_list_after stuck_ops p a () = Inr ks \<Longrightarrow> set ks \<subseteq> {''a'', ''b''}"
  by (auto simp: stuck_ops_def)

lemma listing_terminates_witness: "\<exists>r. list_all_in_range stuck_ops () ''p'' [] None = Some r"
  by (rule listing_terminates [OF _ stuck_listing]) simp_all

text \<open>
  A backend that always answers with the same page is refused after at most two requests, with
  an error that names the key it keeps returning.
\<close>

lemma ignored_start_after_refused:
  assumes "\<And>p a. op_list_after ops p a l = Inr ks" "ks \<noteq> []"
  shows "list_all_after ops l p a = Some (Inl (ignored_start_after (last ks) (max a (last ks))))"
proof -
  have stuck: "list_all_loop ops l p None (last ks) acc =
      Some (Inl (ignored_start_after (last ks) (last ks)))" for acc
    using assms by (simp add: list_all_loop.simps)
  have "list_all_loop ops l p None a [] =
      (if last ks \<le> a then Some (Inl (ignored_start_after (last ks) a))
       else list_all_loop ops l p None (last ks) ks)"
    using assms by (subst list_all_loop.simps) simp
  with stuck show ?thesis
    by (auto simp: list_all_after_def list_all_in_range_def max_def)
qed

lemma ignored_start_after_refused_witness:
  "list_all_after stuck_ops () ''p'' [] =
    Some (Inl (ignored_start_after (last [''a'', ''b'']) (max [] (last [''a'', ''b'']))))"
  by (rule ignored_start_after_refused) (simp_all add: stuck_ops_def)

section \<open>Keys\<close>

text \<open>
  C24: Commit keys sort by version, a version reads back from its key, and neither a checkpoint key
  nor a key of a per-table partition is taken for a commit of the main log.
\<close>

lemma commit_keys_ordered:
  assumes "v \<le> u64_max" "w \<le> u64_max"
  shows "(commit_key v < commit_key w \<longleftrightarrow> v < w) \<and> version_from_key (commit_key v) = Some v \<and>
    version_from_key (checkpoint_key v) = None \<and> version_from_key (''_uc_log/tables/'' @ rest) = None"
  using commit_key_less_iff [OF assms] assms(1) version_from_nested_key [of "''tables/'' @ rest"] by simp

lemma commit_keys_ordered_witness:
  "(commit_key 9 < commit_key 10 \<longleftrightarrow> (9::nat) < 10) \<and> version_from_key (commit_key 9) = Some 9 \<and>
    version_from_key (checkpoint_key 9) = None \<and> version_from_key (''_uc_log/tables/'' @ ''t/9.json'') = None"
  by (rule commit_keys_ordered) (simp_all add: u64_max_def)

section \<open>Damaged checkpoints\<close>

text \<open>What makes \<open>resolve_checkpoint\<close> give up on the pointer.\<close>

definition checkpoint_damaged :: "('j, 'z) log_env_scheme \<Rightarrow> (string \<rightharpoonup> string) \<Rightarrow> bool" where
  "checkpoint_damaged E m \<longleftrightarrow>
     (case m last_checkpoint_key of
        None \<Rightarrow> True
      | Some ptr \<Rightarrow>
         (case dec (cd_last_checkpoint E) ptr of
            Inl _ \<Rightarrow> True
          | Inr p \<Rightarrow>
             (case m (checkpoint_key (lc_version p)) of
                None \<Rightarrow> True
              | Some body \<Rightarrow>
                  count_newlines body \<noteq> lc_size p \<or>
                  (case lc_checksum p of None \<Rightarrow> False | Some h \<Rightarrow> content_hash body \<noteq> h))))"

lemma truncating_get: "op_get (truncating_ops n) k l = Inr (memory_objs l k)"
  by (simp add: truncating_ops_def memory_ops_def memory_get_def memory_objs_def)

lemma resolve_damaged:
  "checkpoint_damaged E (memory_objs l) \<Longrightarrow> resolve_checkpoint E (truncating_ops n) l = Inr None"
  by (auto simp: checkpoint_damaged_def resolve_checkpoint_def truncating_get split: option.splits sum.splits)


definition torn_log :: memory_log where
  "torn_log = \<lparr>objects = [(commit_key 1, sample_body), (last_checkpoint_key, ''0'')]\<rparr>"

lemma sample_digit: "parse_digits ''0'' = Some 0"
  by (simp add: parse_digits_def dec_value_def is_digit_def byte_def)

lemma torn_log_facts:
  "memory_ok torn_log" "log_holds sample (memory_objs torn_log) [[sample_action]]"
  "replay_ok sample [[sample_action]]" "checkpoint_damaged sample (memory_objs torn_log)"
proof -
  have ck: "commit_key 1 < last_checkpoint_key"
    by (simp add: commit_key_def last_checkpoint_key_def pad0_def show_nat.simps digit_char_def
        numeral_eq_Suc less_char_def)
  then show "memory_ok torn_log"
    by (simp add: memory_ok_def torn_log_def om_ok_def)
  have objs: "memory_objs torn_log = (memory_objs sample_log)(last_checkpoint_key \<mapsto> ''0'')"
    using less_imp_neq [OF ck] by (simp add: memory_objs_def torn_log_def sample_log_def fun_upd_twist)
  show "log_holds sample (memory_objs torn_log) [[sample_action]]"
    unfolding objs using sample_log_good by (intro log_holds_other_key) (simp_all add: log_good_def)
  show "replay_ok sample [[sample_action]]"
    using sample_log_good by (simp add: log_good_def)
  have "dec (cd_last_checkpoint sample) ''0'' = Inr \<lparr>lc_version = 100, lc_size = 1, lc_checksum = None\<rparr>"
    by (simp add: sample_def sample_env_def table_codec_def sample_digit)
  moreover have "memory_objs torn_log (checkpoint_key 100) = None"
    using checkpoint_key_commit_key [of 1 100] last_checkpoint_key_neq [of 100]
    by (auto simp: memory_objs_def torn_log_def u64_max_def)
  ultimately show "checkpoint_damaged sample (memory_objs torn_log)"
    by (simp add: checkpoint_damaged_def objs)
qed


end
