(* ===== verification/RepoProperties.thy ===== *)
theory RepoProperties
  imports SampleRuns
begin

text \<open>
  Properties of the repository layer: what a client sees of a create, a rename and a listing, and
  where the uniqueness the indexes stand for is not checked.
\<close>

section \<open>A state with several rows\<close>

definition sample_schema :: schema_row where
  "sample_schema = \<lparr>sch_id = 2, sch_catalog_id = 1, sch_name = ''s'', sch_comment = None,
     sch_owner = None, sch_created_at = 0, sch_created_by = None, sch_updated_at = None,
     sch_updated_by = None, sch_storage_root = None, sch_storage_location = None\<rparr>"

definition sample_column :: "int \<Rightarrow> uuid \<Rightarrow> column_row" where
  "sample_column pos i = \<lparr>col_id = i, col_table_id = 9, col_name = ''c'', col_ordinal_position = pos,
     col_type_text = ''int'', col_type_json = [], col_type_name = ''INT'', col_type_precision = None,
     col_type_scale = None, col_type_interval_type = None, col_nullable = True, col_comment = None,
     col_partition_index = None\<rparr>"

definition sample_user :: user_row where
  "sample_user = \<lparr>usr_id = 5, usr_name = ''ann'', usr_email = None, usr_external_id = None,
     usr_state = Some ''ENABLED'', usr_created_at = None, usr_updated_at = None, usr_picture_url = None\<rparr>"

definition sample_tree :: snapshot where
  "sample_tree = upsert_row sample (upsert_row sample (upsert_row sample sample_state
     EkSchema 2 (RowSchema sample_schema)) EkColumn 3 (RowColumn (sample_column 0 3)))
     EkUser 5 (RowUser sample_user)"

lemma snap_get_sample_state:
  "snap_get sample_state k i =
     (if k = EkCatalog \<and> i = 1 then Some (RowCatalog sample_catalog) else None)"
  by (auto simp: snap_get_def sample_state_def)

lemma snap_get_sample_tree:
  "snap_get sample_tree k i =
     (if k = EkUser \<and> i = 5 then Some (RowUser sample_user)
      else if k = EkColumn \<and> i = 3 then Some (RowColumn (sample_column 0 3))
      else if k = EkSchema \<and> i = 2 then Some (RowSchema sample_schema)
      else if k = EkCatalog \<and> i = 1 then Some (RowCatalog sample_catalog) else None)"
  by (auto simp: sample_tree_def snap_get_sample_state)

lemma sample_tree_ok: "snap_ok sample sample_tree"
proof -
  have free: "get_by_natural_key s k nk = None"
    if "snap_ok sample s" "\<And>i. snap_get s k i = None" for s k nk
    using that get_by_natural_key_None [OF that(1), of k nk] by (auto simp: get_by_natural_key_iff [OF that(1)])
  let ?s1 = "upsert_row sample sample_state EkSchema 2 (RowSchema sample_schema)"
  let ?s2 = "upsert_row sample ?s1 EkColumn 3 (RowColumn (sample_column 0 3))"
  have 1: "snap_ok sample ?s1"
    using schema.upsert_new [OF sample_state_ok free [OF sample_state_ok], of sample_schema]
    by (intro snap_ok_upsert [OF sample_state_ok]) (simp add: snap_get_sample_state sample_schema_def)
  have 2: "snap_ok sample ?s2"
    using columns.upsert_new [OF 1 free [OF 1], of "sample_column 0 3"]
    by (intro snap_ok_upsert [OF 1]) (simp add: snap_get_sample_state sample_column_def)
  show ?thesis
    using user.upsert_new [OF 2 free [OF 2], of sample_user] unfolding sample_tree_def
    by (intro snap_ok_upsert [OF 2]) (simp add: snap_get_sample_state sample_user_def)
qed

section \<open>Listings\<close>

text \<open>
  C26: A client that follows the page tokens of the catalog listing gets every catalog exactly once,
  sorted by name, for every positive page size.
\<close>

lemma catalog_listing_complete:
  assumes "snap_ok E s" "0 < m" "m \<le> i64_max" "length (by_natural_key s) < fuel"
  shows "walk_ok (\<lambda>t. catalog_list s t m) fuel cat_name
    (\<lambda>r. snap_get s EkCatalog (cat_id r) = Some (RowCatalog r))"
  by (rule catalog.list_walk [OF assms]) (simp add: catalog_list_def)

lemma catalog_listing_complete_witness:
  "walk_ok (\<lambda>t. catalog_list sample_tree t 1) (Suc (length (by_natural_key sample_tree))) cat_name
    (\<lambda>r. snap_get sample_tree EkCatalog (cat_id r) = Some (RowCatalog r))"
  by (rule catalog_listing_complete [OF sample_tree_ok]) (simp_all add: i64_max_def)

text \<open>
  C27: The same for the children of a parent: schemas of a catalog, and tables, volumes, functions
  and models of a schema. No row of another parent is ever listed.
\<close>

lemma child_listings_complete:
  assumes "snap_ok E s" "uuid_text_ok (uuid_text E)" "0 < m" "m \<le> i64_max"
    and "length (by_natural_key s) < fuel"
  shows "walk_ok (\<lambda>t. schema_list E s p t m) fuel sch_name
      (\<lambda>r. snap_get s EkSchema (sch_id r) = Some (RowSchema r) \<and> sch_catalog_id r = p) \<and>
    walk_ok (\<lambda>t. table_list E s p t m) fuel tab_name
      (\<lambda>r. snap_get s EkTable (tab_id r) = Some (RowTable r) \<and> tab_schema_id r = p) \<and>
    walk_ok (\<lambda>t. volume_list E s p t m) fuel vol_name
      (\<lambda>r. snap_get s EkVolume (vol_id r) = Some (RowVolume r) \<and> vol_schema_id r = p) \<and>
    walk_ok (\<lambda>t. function_list E s p t m) fuel fn_name
      (\<lambda>r. snap_get s EkFunction (fn_id r) = Some (RowFunction r) \<and> fn_schema_id r = p) \<and>
    walk_ok (\<lambda>t. list_models E s p t m) fuel mdl_name
      (\<lambda>r. snap_get s EkRegisteredModel (mdl_id r) = Some (RowRegisteredModel r) \<and> mdl_schema_id r = p)"
  by (intro conjI schema.child_walk [OF assms] table.child_walk [OF assms] volume.child_walk [OF assms]
      fn.child_walk [OF assms] model.child_walk [OF assms])
     (simp_all add: schema_list_def table_list_def volume_list_def function_list_def list_models_def)

lemma sample_uuid_text: "uuid_text_ok (uuid_text sample)"
  by (simp add: uuid_display_ok)

lemma child_listings_complete_witness:
  "walk_ok (\<lambda>t. schema_list sample sample_tree 1 t 1) (Suc (length (by_natural_key sample_tree))) sch_name
      (\<lambda>r. snap_get sample_tree EkSchema (sch_id r) = Some (RowSchema r) \<and> sch_catalog_id r = 1)"
  using child_listings_complete [OF sample_tree_ok sample_uuid_text, of 1 "Suc (length (by_natural_key sample_tree))" 1]
  by (simp add: i64_max_def)

text \<open>
  The columns of a table are read back completely and in ordinal order.
\<close>

lemma columns_in_order:
  assumes "snap_ok E s" "uuid_text_ok (uuid_text E)"
    and "\<And>c. snap_get s EkColumn (col_id c) = Some (RowColumn c) \<Longrightarrow>
      i64_min \<le> col_ordinal_position c \<and> col_ordinal_position c \<le> i64_max"
  shows "\<exists>cols. get_columns E s t = Inr cols \<and>
    sorted_wrt (\<lambda>a b. col_ordinal_position a < col_ordinal_position b) cols \<and>
    (\<forall>c. c \<in> set cols \<longleftrightarrow> snap_get s EkColumn (col_id c) = Some (RowColumn c) \<and> col_table_id c = t)"
proof -
  let ?cols = "children column_of EkColumn col_table_id s t"
  note mem = columns.set_children [OF assms(1)]
  have "get_columns E s t = Inr ?cols"
    unfolding get_columns_def by (rule columns.child_group [OF assms(1,2)])
  moreover have "sorted_wrt (\<lambda>a b. col_ordinal_position a < col_ordinal_position b) ?cols"
    by (rule sorted_wrt_mono_rel [OF _ columns.children_sorted [OF assms(1)]])
       (use mem assms(3) pad_i64_less_iff in blast)
  ultimately show ?thesis using mem by blast
qed

lemma columns_in_order_witness:
  "\<exists>cols. get_columns sample sample_tree 9 = Inr cols \<and>
    sorted_wrt (\<lambda>a b. col_ordinal_position a < col_ordinal_position b) cols \<and>
    (\<forall>c. c \<in> set cols \<longleftrightarrow>
      snap_get sample_tree EkColumn (col_id c) = Some (RowColumn c) \<and> col_table_id c = 9)"
  by (rule columns_in_order [OF sample_tree_ok sample_uuid_text])
     (auto simp: snap_get_sample_tree sample_column_def i64_min_def i64_max_def split: if_splits)

section \<open>Catalogs\<close>


lemma sample_create_lines: "lines_ok sample (\<lambda>_. catalog_create_build sample \<lparr>cat_id = 1,
    cat_name = ''main'', cat_comment = None, cat_owner = None, cat_created_at = 0, cat_created_by = None,
    cat_updated_at = None, cat_updated_by = None, cat_storage_root = None, cat_storage_location = None\<rparr>)"
proof -
  have "lines_ok sample (\<lambda>_. catalog_create_build sample sample_catalog)"
    using sample_facts(5) by (auto simp: lines_ok_def catalog_create_build_def write_row_def rbind_eq_Inr
        sample_action_def sample_catalog_def split: if_splits)
  then show ?thesis by (simp add: sample_catalog_def)
qed


text \<open>
  Renaming a catalog. It fails exactly when there is no such catalog or the new name is taken
  by another one. Otherwise the row keeps its id, is found under the new name and no longer under
  the old one, and every other catalog is found as before.
\<close>

lemma catalog_rename:
  assumes "snap_ok E s" "codecs_ok E"
  shows "case catalog_update_build E name (Some new) comment owner by at s of
      Inl e \<Rightarrow> e = catalog_not_found name \<and> get_by_natural_key s EkCatalog name = None \<or>
        e = catalog_exists new \<and> new \<noteq> name \<and> get_by_natural_key s EkCatalog new \<noteq> None
    | Inr (acts, row) \<Rightarrow> (let s' = snd (apply_all E s acts) in
        snap_ok E s' \<and> (\<exists>old. catalog_get_by_name s name = Inr old \<and> cat_id row = cat_id old) \<and>
        catalog_get_by_name s' new = Inr row \<and>
        (new = name \<or> catalog_get_by_name s' name = Inl (catalog_not_found name)) \<and>
        (\<forall>r n. cat_id r = cat_id row \<or>
           (catalog_get_by_name s' n = Inr r \<longleftrightarrow> catalog_get_by_name s n = Inr r)))"
proof (cases "get_by_natural_key s EkCatalog name")
  case None
  then show ?thesis by (simp add: catalog_update_build_def)
next
  case (Some v)
  with catalog.found_typed [OF assms(1)] obtain q where
    q: "v = RowCatalog q" "cat_name q = name" "catalog_of v = Inr q"
      "snap_get s EkCatalog (cat_id q) = Some (RowCatalog q)" by metis
  show ?thesis
  proof (cases "new \<noteq> name \<and> get_by_natural_key s EkCatalog new \<noteq> None")
    case True
    with Some q show ?thesis by (simp add: catalog_update_build_def)
  next
    case False
    let ?row = "q\<lparr>cat_name := new, cat_comment := coalesce comment (cat_comment q),
      cat_owner := coalesce owner (cat_owner q), cat_updated_at := Some at, cat_updated_by := by\<rparr>"
    have id: "cat_id ?row = cat_id q" "cat_name ?row = new" by simp_all
    obtain acts where w: "write_row E (cat_id q) (RowCatalog ?row) ?row = Inr (acts, ?row)"
      using write_row_total [OF assms(2), of "cat_id q" "RowCatalog ?row" ?row] by blast
    have b: "catalog_update_build E name (Some new) comment owner by at s = Inr (acts, ?row)"
      using Some q False w by (auto simp: catalog_update_build_def Let_def)
    let ?s = "snd (apply_all E s acts)"
    have s': "?s = upsert_row E s EkCatalog (cat_id q) (RowCatalog ?row)"
      using write_row_effect(1) [OF assms(2) w] by simp
    have ok: "snap_ok E ?s"
      by (rule admissibleD(3) [OF catalog_update_admissible [OF assms(2)] assms(1) b])
    note get = catalog_get_by_name_iff(1) [OF ok] and old = catalog_get_by_name_iff(1) [OF assms(1)]
    have "catalog_get_by_name ?s new = Inr ?row"
      unfolding get by (simp add: s')
    moreover have "catalog_get_by_name ?s name = Inl (catalog_not_found name)" if "new \<noteq> name"
    proof -
      have "\<nexists>r. catalog_get_by_name ?s name = Inr r"
      proof
        assume "\<exists>r. catalog_get_by_name ?s name = Inr r"
        then obtain r where r: "snap_get ?s EkCatalog (cat_id r) = Some (RowCatalog r)" "cat_name r = name"
          unfolding get by blast
        then have "cat_id r \<noteq> cat_id q" "snap_get s EkCatalog (cat_id r) = Some (RowCatalog r)"
          using that by (auto simp: s' split: if_splits)
        then show False
          using catalog.found_iff [OF assms(1), of name r] catalog.found_iff [OF assms(1), of name q] q r by auto
      qed
      then show ?thesis
        using catalog_get_by_name_iff(2) [OF ok] by (metis sum.exhaust_sel)
    qed
    moreover have "cat_id r = cat_id ?row \<or>
        (catalog_get_by_name ?s n = Inr r \<longleftrightarrow> catalog_get_by_name s n = Inr r)" for r n
      unfolding get old by (auto simp: s')
    moreover have "catalog_get_by_name s name = Inr q" unfolding old using q by simp
    ultimately show ?thesis using b ok by (auto simp: Let_def)
  qed
qed

lemma catalog_rename_witness:
  "case catalog_update_build sample ''main'' (Some ''prod'') None None None 7 sample_tree of
      Inl e \<Rightarrow> e = catalog_not_found ''main'' \<and> get_by_natural_key sample_tree EkCatalog ''main'' = None \<or>
        e = catalog_exists ''prod'' \<and> ''prod'' \<noteq> ''main'' \<and>
          get_by_natural_key sample_tree EkCatalog ''prod'' \<noteq> None
    | Inr (acts, row) \<Rightarrow> (let s' = snd (apply_all sample sample_tree acts) in
        snap_ok sample s' \<and>
        (\<exists>old. catalog_get_by_name sample_tree ''main'' = Inr old \<and> cat_id row = cat_id old) \<and>
        catalog_get_by_name s' ''prod'' = Inr row \<and>
        (''prod'' = ''main'' \<or> catalog_get_by_name s' ''main'' = Inl (catalog_not_found ''main'')) \<and>
        (\<forall>r n. cat_id r = cat_id row \<or>
           (catalog_get_by_name s' n = Inr r \<longleftrightarrow> catalog_get_by_name sample_tree n = Inr r)))"
  by (rule catalog_rename [OF sample_tree_ok sample_facts(1)])

end
