(* ===== verification/UcTypes.thy ===== *)
theory UcTypes
  imports Prelude
begin

text \<open>
  The crate \<^verbatim>\<open>uc-types\<close>: privileges and their casbin names, the privilege hierarchy, URI
  schemes and securable types.
\<close>

datatype privilege =
    Owner
  | AllPrivileges
  | CreateCatalog
  | UseCatalog
  | CreateSchema
  | UseSchema
  | CreateTable
  | Select
  | Modify
  | CreateFunction
  | Execute
  | CreateVolume
  | ReadVolume
  | CreateModel
  | CreateExternalLocation
  | ReadFiles
  | WriteFiles
  | CreateExternalTable
  | CreateExternalVolume
  | CreateManagedStorage
  | CreateStorageCredential

fun as_casbin_str :: "privilege \<Rightarrow> string" where
  "as_casbin_str Owner = ''OWNER''"
| "as_casbin_str AllPrivileges = ''ALL_PRIVILEGES''"
| "as_casbin_str CreateCatalog = ''CREATE_CATALOG''"
| "as_casbin_str UseCatalog = ''USE_CATALOG''"
| "as_casbin_str CreateSchema = ''CREATE_SCHEMA''"
| "as_casbin_str UseSchema = ''USE_SCHEMA''"
| "as_casbin_str CreateTable = ''CREATE_TABLE''"
| "as_casbin_str Select = ''SELECT''"
| "as_casbin_str Modify = ''MODIFY''"
| "as_casbin_str CreateFunction = ''CREATE_FUNCTION''"
| "as_casbin_str Execute = ''EXECUTE''"
| "as_casbin_str CreateVolume = ''CREATE_VOLUME''"
| "as_casbin_str ReadVolume = ''READ_VOLUME''"
| "as_casbin_str CreateModel = ''CREATE_MODEL''"
| "as_casbin_str CreateExternalLocation = ''CREATE_EXTERNAL_LOCATION''"
| "as_casbin_str ReadFiles = ''READ_FILES''"
| "as_casbin_str WriteFiles = ''WRITE_FILES''"
| "as_casbin_str CreateExternalTable = ''CREATE_EXTERNAL_TABLE''"
| "as_casbin_str CreateExternalVolume = ''CREATE_EXTERNAL_VOLUME''"
| "as_casbin_str CreateManagedStorage = ''CREATE_MANAGED_STORAGE''"
| "as_casbin_str CreateStorageCredential = ''CREATE_STORAGE_CREDENTIAL''"

definition from_casbin_str :: "string \<Rightarrow> privilege option" where
  "from_casbin_str s =
    (if s = ''OWNER'' then Some Owner
     else if s = ''ALL_PRIVILEGES'' then Some AllPrivileges
     else if s = ''CREATE_CATALOG'' then Some CreateCatalog
     else if s = ''USE_CATALOG'' then Some UseCatalog
     else if s = ''CREATE_SCHEMA'' then Some CreateSchema
     else if s = ''USE_SCHEMA'' then Some UseSchema
     else if s = ''CREATE_TABLE'' then Some CreateTable
     else if s = ''SELECT'' then Some Select
     else if s = ''MODIFY'' then Some Modify
     else if s = ''CREATE_FUNCTION'' then Some CreateFunction
     else if s = ''EXECUTE'' then Some Execute
     else if s = ''CREATE_VOLUME'' then Some CreateVolume
     else if s = ''READ_VOLUME'' then Some ReadVolume
     else if s = ''CREATE_MODEL'' then Some CreateModel
     else if s = ''CREATE_EXTERNAL_LOCATION'' then Some CreateExternalLocation
     else if s = ''READ_FILES'' then Some ReadFiles
     else if s = ''WRITE_FILES'' then Some WriteFiles
     else if s = ''CREATE_EXTERNAL_TABLE'' then Some CreateExternalTable
     else if s = ''CREATE_EXTERNAL_VOLUME'' then Some CreateExternalVolume
     else if s = ''CREATE_MANAGED_STORAGE'' then Some CreateManagedStorage
     else if s = ''CREATE_STORAGE_CREDENTIAL'' then Some CreateStorageCredential
     else None)"

definition specific :: "privilege list" where
  "specific =
    [CreateCatalog, UseCatalog, CreateSchema, UseSchema, CreateTable,
     Select, Modify, CreateFunction, Execute, CreateVolume,
     ReadVolume, CreateModel, CreateExternalLocation, ReadFiles, WriteFiles,
     CreateExternalTable, CreateExternalVolume, CreateManagedStorage, CreateStorageCredential]"

definition hierarchy_edges :: "(string \<times> string) list" where
  "hierarchy_edges =
     (as_casbin_str Owner, as_casbin_str AllPrivileges) #
     map (\<lambda>p. (as_casbin_str AllPrivileges, as_casbin_str p)) specific"

section \<open>URI schemes\<close>

datatype uri_scheme = S3 | Abfs | Abfss | Gs | File | NullScheme

text \<open>
  \<open>to_lowercase\<close> for a comparison with lower-case ASCII: ASCII letters are lowered byte by byte.
  The only other characters whose lower case contains an ASCII letter are U+0130, which becomes
  an \<open>i\<close> followed by U+0307, and U+212A, which becomes \<open>k\<close>; none of the scheme prefixes tested
  below contains a \<open>k\<close> or a non-ASCII character after an \<open>i\<close>, so neither can make one match.
\<close>

definition lower_byte :: "char \<Rightarrow> char" where
  "lower_byte c = (if 65 \<le> byte c \<and> byte c \<le> 90 then char_of (byte c + 32) else c)"

definition to_lowercase_ascii :: "string \<Rightarrow> string" where
  "to_lowercase_ascii s = map lower_byte s"

definition from_url :: "string \<Rightarrow> uri_scheme" where
  "from_url url =
    (let lower = to_lowercase_ascii url in
     if starts_with lower ''s3://'' \<or> starts_with lower ''s3a://'' then S3
     else if starts_with lower ''abfss://'' then Abfss
     else if starts_with lower ''abfs://'' then Abfs
     else if starts_with lower ''gs://'' then Gs
     else if starts_with lower ''file://'' \<or> starts_with lower ''/'' then File
     else NullScheme)"

section \<open>Securable types\<close>

datatype securable_type =
    StMetastore | StCatalog | StSchema | StTable | StVolume | StFunction | StRegisteredModel
  | StExternalLocation | StStorageCredential

text \<open>
  \<open>to_uppercase\<close> for a comparison with upper-case ASCII. Besides the ASCII letters, the
  characters whose upper case is wholly ASCII are U+00DF (sharp s), U+017F (long s), U+0131
  (dotless i) and the ligatures U+FB00 to U+FB06; any other character's upper case contains a non-ASCII one and
  cannot make a comparison with an ASCII literal succeed, so it is left as it is.
\<close>

definition upper_byte :: "char \<Rightarrow> char" where
  "upper_byte c = (if 97 \<le> byte c \<and> byte c \<le> 122 then char_of (byte c - 32) else c)"

definition upper_special :: "nat list \<Rightarrow> (string \<times> nat) option" where
  "upper_special bs =
     (if take 2 bs = [0xC3, 0x9F] then Some (''SS'', 2)
      else if take 2 bs = [0xC5, 0xBF] then Some (''S'', 2)
      else if take 2 bs = [0xC4, 0xB1] then Some (''I'', 2)
      else if take 3 bs = [0xEF, 0xAC, 0x80] then Some (''FF'', 3)
      else if take 3 bs = [0xEF, 0xAC, 0x81] then Some (''FI'', 3)
      else if take 3 bs = [0xEF, 0xAC, 0x82] then Some (''FL'', 3)
      else if take 3 bs = [0xEF, 0xAC, 0x83] then Some (''FFI'', 3)
      else if take 3 bs = [0xEF, 0xAC, 0x84] then Some (''FFL'', 3)
      else if take 3 bs = [0xEF, 0xAC, 0x85] \<or> take 3 bs = [0xEF, 0xAC, 0x86] then Some (''ST'', 3)
      else None)"

lemma upper_special_pos: "upper_special bs = Some (u, n) \<Longrightarrow> 0 < n"
  by (auto simp: upper_special_def split: if_splits)

function to_uppercase_ascii :: "string \<Rightarrow> string" where
  "to_uppercase_ascii s =
     (case s of
        [] \<Rightarrow> []
      | c # r \<Rightarrow>
         (case upper_special (map byte s) of
            Some (u, n) \<Rightarrow> u @ to_uppercase_ascii (drop n s)
          | None \<Rightarrow> upper_byte c # to_uppercase_ascii r))"
  by pat_completeness auto
termination
  by (relation "measure length") (auto dest: upper_special_pos)

declare to_uppercase_ascii.simps [simp del]

definition parse_securable :: "string \<Rightarrow> securable_type option" where
  "parse_securable s =
    (let u = to_uppercase_ascii s in
     if u = ''METASTORE'' then Some StMetastore
     else if u = ''CATALOG'' then Some StCatalog
     else if u = ''SCHEMA'' then Some StSchema
     else if u = ''TABLE'' then Some StTable
     else if u = ''VOLUME'' then Some StVolume
     else if u = ''FUNCTION'' then Some StFunction
     else if u = ''REGISTERED_MODEL'' \<or> u = ''MODEL'' then Some StRegisteredModel
     else if u = ''EXTERNAL_LOCATION'' then Some StExternalLocation
     else if u = ''STORAGE_CREDENTIAL'' then Some StStorageCredential
     else None)"

section \<open>Facts\<close>

lemma from_casbin_str_as_casbin_str [simp]: "from_casbin_str (as_casbin_str p) = Some p"
  by (cases p) (simp_all add: from_casbin_str_def)

lemma from_casbin_str_SomeD: "from_casbin_str s = Some p \<Longrightarrow> s = as_casbin_str p"
  by (auto simp: from_casbin_str_def split: if_splits)

lemma as_casbin_str_inj: "as_casbin_str p = as_casbin_str q \<longleftrightarrow> p = q"
  by (metis from_casbin_str_as_casbin_str option.inject)

lemma set_specific: "set specific = UNIV - {Owner, AllPrivileges}"
proof -
  have "p \<in> set specific \<longleftrightarrow> p \<notin> {Owner, AllPrivileges}" for p
    by (cases p) (simp_all add: specific_def)
  then show ?thesis by blast
qed

text \<open>
  The implication the edges stand for: their reflexive transitive closure on privileges.
\<close>

definition edge_implies :: "privilege \<Rightarrow> privilege \<Rightarrow> bool" where
  "edge_implies p q \<longleftrightarrow> (as_casbin_str p, as_casbin_str q) \<in> set hierarchy_edges"

lemma edge_implies_iff:
  "edge_implies p q \<longleftrightarrow> p = Owner \<and> q = AllPrivileges \<or> p = AllPrivileges \<and> q \<in> set specific"
  by (auto simp: edge_implies_def hierarchy_edges_def as_casbin_str_inj image_iff
      simp del: as_casbin_str.simps)

text \<open>The order they generate; two steps are enough for every pair.\<close>

definition priv_implies :: "privilege \<Rightarrow> privilege \<Rightarrow> bool" where
  "priv_implies p q \<longleftrightarrow> p = q \<or> p = Owner \<or> p = AllPrivileges \<and> q \<noteq> Owner"

definition priv_edges :: "(privilege \<times> privilege) set" where
  "priv_edges = {(p, q). edge_implies p q}"

lemma set_hierarchy_edges: "set hierarchy_edges = map_prod as_casbin_str as_casbin_str ` priv_edges"
proof -
  have "set hierarchy_edges = {(as_casbin_str p, as_casbin_str q) |p q. edge_implies p q}"
    unfolding edge_implies_def by (auto simp: hierarchy_edges_def simp del: as_casbin_str.simps)
  then show ?thesis by (auto simp: priv_edges_def image_iff)
qed

lemma inj_as_casbin_str: "inj as_casbin_str"
  by (rule injI) (simp add: as_casbin_str_inj)

lemma priv_edges_bounded: "(p, q) \<in> priv_edges ^^ k \<Longrightarrow> priv_implies p q"
  by (induction k arbitrary: q)
     (auto simp: priv_implies_def priv_edges_def edge_implies_iff set_specific)

lemma priv_edges_reach: "priv_implies p q \<Longrightarrow> \<exists>k \<le> 2. (p, q) \<in> priv_edges ^^ k"
proof -
  have all: "(AllPrivileges, q) \<in> priv_edges" if "q \<noteq> Owner" "q \<noteq> AllPrivileges" for q
    using that by (simp add: priv_edges_def edge_implies_iff set_specific)
  have own: "(Owner, AllPrivileges) \<in> priv_edges"
    by (simp add: priv_edges_def edge_implies_iff)
  assume "priv_implies p q"
  then consider "p = q" | "p = AllPrivileges" "q \<noteq> Owner" "q \<noteq> AllPrivileges" | "p = Owner" "q = AllPrivileges"
    | "p = Owner" "q \<noteq> Owner" "q \<noteq> AllPrivileges"
    by (auto simp: priv_implies_def)
  then show ?thesis
  proof cases
    case 1
    then show ?thesis by (intro exI [of _ 0]) simp
  next
    case 2
    with all [of q] show ?thesis by (intro exI [of _ 1]) simp
  next
    case 3
    with own show ?thesis by (intro exI [of _ 1]) simp
  next
    case 4
    with all [of q] own show ?thesis by (intro exI [of _ 2]) (auto simp: numeral_2_eq_2)
  qed
qed

text \<open>The powers of a relation renamed by an injection.\<close>

lemma relpow_map_prod:
  assumes "inj f"
  shows "(f a, y) \<in> (map_prod f f ` S) ^^ k \<longleftrightarrow> (\<exists>b. y = f b \<and> (a, b) \<in> S ^^ k)"
proof (induction k arbitrary: y)
  case (Suc k)
  show ?case
  proof
    assume "(f a, y) \<in> (map_prod f f ` S) ^^ Suc k"
    then obtain z where "(f a, z) \<in> (map_prod f f ` S) ^^ k" "(z, y) \<in> map_prod f f ` S" by auto
    with Suc obtain b c d where "z = f b" "(a, b) \<in> S ^^ k" "z = f c" "y = f d" "(c, d) \<in> S" by auto
    with inj_eq [OF assms, of b c] show "\<exists>b. y = f b \<and> (a, b) \<in> S ^^ Suc k" by auto
  next
    assume "\<exists>b. y = f b \<and> (a, b) \<in> S ^^ Suc k"
    then obtain b c where "y = f b" "(a, c) \<in> S ^^ k" "(c, b) \<in> S" by auto
    moreover from this Suc [of "f c"] have "(f a, f c) \<in> (map_prod f f ` S) ^^ k" by blast
    ultimately show "(f a, y) \<in> (map_prod f f ` S) ^^ Suc k" by (auto simp: rev_image_eqI)
  qed
qed auto

lemma rtrancl_map_prod:
  assumes "inj f"
  shows "(f a, y) \<in> (map_prod f f ` S)\<^sup>* \<longleftrightarrow> (\<exists>b. y = f b \<and> (a, b) \<in> S\<^sup>*)"
  unfolding rtrancl_power relpow_map_prod [OF assms] by blast

lemma hierarchy_closure:
  "(as_casbin_str p, as_casbin_str q) \<in> (set hierarchy_edges)\<^sup>* \<longleftrightarrow> priv_implies p q"
proof -
  have "(p, q) \<in> priv_edges\<^sup>* \<longleftrightarrow> priv_implies p q"
    unfolding rtrancl_power using priv_edges_bounded priv_edges_reach by blast
  then show ?thesis
    unfolding set_hierarchy_edges rtrancl_map_prod [OF inj_as_casbin_str] as_casbin_str_inj by auto
qed

lemma from_url_s3: "from_url (''s3://'' @ s) = S3"
proof -
  have "to_lowercase_ascii (''s3://'' @ s) = ''s3://'' @ to_lowercase_ascii s"
    by (simp add: to_lowercase_ascii_def lower_byte_def byte_def)
  then show ?thesis
    by (simp only: from_url_def Let_def starts_with_append) simp
qed

end
