(* ===== verification/PolicyProperties.thy ===== *)
theory PolicyProperties
  imports RepoProperties UcTypes
begin

text \<open>
  Properties of the repository modules that replace whole groups of rows or look rows up by
  something other than their key, and of the two vocabulary crates: privileges and error codes.
\<close>

section \<open>Properties of an entity and casbin rules\<close>

text \<open>
  C29: Replacing the properties of an entity: whatever was there, afterwards reading them gives
  exactly the new map.
\<close>

lemma properties_replaced:
  assumes "codecs_ok E" "snap_ok E s" "distinct (map fst properties)"
    and "inj_on fresh {..<length properties}"
  shows "\<exists>acts. property_replace_build E e t properties fresh s = Inr (acts, ()) \<and>
    (\<exists>m. get_for_entity E (snd (apply_all E s acts)) e t = Inr m \<and> om_ok m \<and>
      map_of m = map_of properties)"
proof -
  obtain acts where "property_replace_build E e t properties fresh s = Inr (acts, ())"
    using write_rows_total [OF assms(1), of "map (\<lambda>r. (prop_id r, RowProperty r))
        (property_rows e t fresh (sort_key fst properties))"]
    by (auto simp: property_replace_build_def Let_def)
  with property_replace_get [OF assms this] show ?thesis by blast
qed

lemma properties_replaced_witness:
  "\<exists>acts. property_replace_build sample 1 ''catalog'' [(''k'', ''v''), (''a'', ''b'')] of_nat sample_tree
      = Inr (acts, ()) \<and>
    (\<exists>m. get_for_entity sample (snd (apply_all sample sample_tree acts)) 1 ''catalog'' = Inr m \<and> om_ok m \<and>
      map_of m = map_of [(''k'', ''v''), (''a'', ''b'')])"
  by (rule properties_replaced [OF sample_facts(1) sample_tree_ok])
     (auto simp: inj_on_def less_Suc_eq numeral_2_eq_2)

text \<open>
  C30: Saving a policy and loading it gives the rules back, each once and in the order they were
  saved, whatever rules were stored before, when the ids drawn increase as version 7 ids do.
\<close>

lemma policy_save_load:
  assumes "codecs_ok E" "snap_ok E s"
    and "\<And>n m. n < m \<Longrightarrow> m < length rules \<Longrightarrow> fresh n < fresh m"
  shows "\<exists>acts. casbin_replace_all_build E rules fresh s = Inr (acts, ()) \<and>
    casbin_load_all (snd (apply_all E s acts)) = Inr (dedup_rules [] rules) \<and>
    set (map rule_key (dedup_rules [] rules)) = set (map rule_key rules) \<and>
    distinct (map rule_key (dedup_rules [] rules))"
proof -
  obtain acts where "casbin_replace_all_build E rules fresh s = Inr (acts, ())"
    using write_rows_total [OF assms(1), of "map (\<lambda>(n, r). (fresh n, RowCasbinRule r))
        (enumerate 0 (dedup_rules [] rules))"]
    by (auto simp: casbin_replace_all_build_def)
  with casbin_save_load [OF assms(1,2) this assms(3)] dedup_rules_keys [of "[]" rules] show ?thesis
    by simp
qed

definition sample_rule :: "string \<Rightarrow> casbin_rule" where
  "sample_rule x = \<lparr>cr_ptype = ''p'', cr_v0 = x, cr_v1 = ''r'', cr_v2 = ''OWNER'', cr_v3 = [],
     cr_v4 = [], cr_v5 = []\<rparr>"

lemma policy_save_load_witness:
  "\<exists>acts. casbin_replace_all_build sample [sample_rule ''b'', sample_rule ''a'', sample_rule ''b''] of_nat
      sample_tree = Inr (acts, ()) \<and>
    casbin_load_all (snd (apply_all sample sample_tree acts)) = Inr [sample_rule ''b'', sample_rule ''a'']"
proof -
  have "dedup_rules [] [sample_rule ''b'', sample_rule ''a'', sample_rule ''b''] =
      [sample_rule ''b'', sample_rule ''a'']"
    by (simp add: sample_rule_def rule_key_def nul_join_def)
  moreover have "(of_nat n :: uuid) < of_nat m"
    if "n < m" "m < length [sample_rule ''b'', sample_rule ''a'', sample_rule ''b'']" for n m
    using that by (auto simp: less_Suc_eq)
  ultimately show ?thesis
    using policy_save_load [OF sample_facts(1) sample_tree_ok,
      where rules = "[sample_rule ''b'', sample_rule ''a'', sample_rule ''b'']" and fresh = of_nat] by auto
qed

section \<open>The metastore row\<close>

text \<open>
  Initialising the metastore is idempotent: after the first call every further one, with
  whatever name and id, writes nothing and returns the row that \<open>metastore_get\<close> reads.
\<close>

lemma metastore_init_idempotent:
  assumes "codecs_ok E" "snap_ok E s" "get_or_init_build E name fresh s = Inr (acts, row)"
  shows "metastore_get (snd (apply_all E s acts)) = Inr row \<and>
    get_or_init_build E name' fresh' (snd (apply_all E s acts)) = Inr ([], row)"
proof (cases "snap_iter s EkMetastore")
  case Nil
  let ?row = "\<lparr>met_id = fresh, met_name = name\<rparr>"
  from Nil assms(3) have w: "write_row E fresh (RowMetastore ?row) ?row = Inr (acts, row)"
    by (simp add: get_or_init_build_def Let_def)
  note eff = write_row_effect [OF assms(1) w]
  have "snap_iter (upsert_row E s EkMetastore fresh (RowMetastore ?row)) EkMetastore = [RowMetastore ?row]"
    using Nil by (simp add: snap_iter_def kind_table_upsert)
  with eff show ?thesis
    by (simp add: metastore_get_def get_or_init_build_def metastore_of_def)
next
  case (Cons v vs)
  with assms(3) show ?thesis
    by (auto simp: metastore_get_def get_or_init_build_def rbind_eq_Inr)
qed

lemma metastore_init_idempotent_witness:
  "\<exists>acts. get_or_init_build sample ''main'' 7 sample_tree = Inr (acts, \<lparr>met_id = 7, met_name = ''main''\<rparr>) \<and>
    get_or_init_build sample ''other'' 8 (snd (apply_all sample sample_tree acts)) =
      Inr ([], \<lparr>met_id = 7, met_name = ''main''\<rparr>)"
proof -
  have "snap_iter sample_tree EkMetastore = []"
    using snap_get_sample_tree [of EkMetastore]
    by (simp add: snap_iter_def snap_get_table fun_eq_iff flip: map_of_eq_empty_iff)
  then obtain acts where "get_or_init_build sample ''main'' 7 sample_tree =
      Inr (acts, \<lparr>met_id = 7, met_name = ''main''\<rparr>)"
    using write_row_total [OF sample_facts(1), of 7 "RowMetastore \<lparr>met_id = 7, met_name = ''main''\<rparr>"
        "\<lparr>met_id = 7, met_name = ''main''\<rparr>"]
    by (auto simp: get_or_init_build_def Let_def)
  with metastore_init_idempotent [OF sample_facts(1) sample_tree_ok this] show ?thesis by blast
qed

section \<open>External locations\<close>

text \<open>
  The external location found for a path is the one with the longest url that is a prefix of the
  path, and the smallest id among equally long ones; none is found only when no url is a prefix.
\<close>

lemma longest_location_found:
  assumes "snap_ok E s"
  shows "\<exists>found. find_by_path_prefix s path = Inr found \<and>
    (case found of
       None \<Rightarrow> \<forall>l. snap_get s EkExternalLocation (loc_id l) = Some (RowExternalLocation l) \<longrightarrow>
         \<not> starts_with path (loc_url l)
     | Some l \<Rightarrow> snap_get s EkExternalLocation (loc_id l) = Some (RowExternalLocation l) \<and>
         starts_with path (loc_url l) \<and>
         (\<forall>k. snap_get s EkExternalLocation (loc_id k) = Some (RowExternalLocation k) \<and>
            starts_with path (loc_url k) \<longrightarrow>
            length (loc_url k) < length (loc_url l) \<or>
            length (loc_url k) = length (loc_url l) \<and> loc_id l \<le> loc_id k))"
proof -
  obtain rs where rs: "collect_res location_of (snap_iter s EkExternalLocation) = Inr rs"
    "\<And>r. r \<in> set rs \<longleftrightarrow> snap_get s EkExternalLocation (loc_id r) = Some (RowExternalLocation r)"
    using location.iter_typed [OF assms] by blast
  let ?ranked = "sort_key location_rank (filter (\<lambda>l. starts_with path (loc_url l)) rs)"
  have mem: "set ?ranked = {l \<in> set rs. starts_with path (loc_url l)}" by auto
  show ?thesis
  proof (cases ?ranked)
    case Nil
    with mem rs show ?thesis by (auto simp: find_by_path_prefix_def)
  next
    case (Cons l ls)
    have "sorted (map location_rank ?ranked)" by simp
    then have least: "location_rank l \<le> location_rank k" if "k \<in> set ?ranked" for k
      using that unfolding Cons by auto
    have found: "find_by_path_prefix s path = Inr (Some l)"
      using rs(1) Cons by (simp add: find_by_path_prefix_def)
    have "l \<in> set ?ranked" unfolding Cons by simp
    with mem rs(2) have l: "snap_get s EkExternalLocation (loc_id l) = Some (RowExternalLocation l)"
      "starts_with path (loc_url l)" by auto
    have "length (loc_url k) < length (loc_url l) \<or>
        length (loc_url k) = length (loc_url l) \<and> loc_id l \<le> loc_id k"
      if "snap_get s EkExternalLocation (loc_id k) = Some (RowExternalLocation k)" "starts_with path (loc_url k)"
      for k
    proof -
      from that rs(2) mem have "k \<in> set ?ranked" by auto
      from least [OF this] show ?thesis by (auto simp: location_rank_def less_eq_prod_def)
    qed
    with found l show ?thesis by simp
  qed
qed

lemma longest_location_found_witness:
  "\<exists>found. find_by_path_prefix sample_tree ''s3://b/t'' = Inr found \<and> found = None"
  using longest_location_found [OF sample_tree_ok, of "''s3://b/t''"]
  by (auto simp: snap_get_sample_tree split: option.splits)

section \<open>Where uniqueness is not checked\<close>

text \<open>
  C31: Provisioning a user by external id checks the external id only. When the external id is the
  name of an existing user, the write goes through and leaves two users with one name, of which a
  lookup by name sees only the new one.
\<close>

lemma provisioning_duplicates_name:
  assumes "codecs_ok E" "snap_ok E s" "snap_get s EkUser (usr_id u) = Some (RowUser u)" "usr_name u = x"
    and "first_where s (\<lambda>u. usr_external_id u = Some x) = Inr None" "fresh \<noteq> usr_id u"
  shows "\<exists>acts row. find_or_create_build E now x fresh s = Inr (acts, row) \<and>
    (let s' = snd (apply_all E s acts) in
      snap_get s' EkUser (usr_id u) = Some (RowUser u) \<and> usr_name row = usr_name u \<and>
      usr_id row \<noteq> usr_id u \<and> user_get_by_name s' x = Inr row \<and> \<not> snap_ok E s')"
proof -
  let ?row = "\<lparr>usr_id = fresh, usr_name = x, usr_email = None, usr_external_id = Some x,
      usr_state = Some ''ENABLED'', usr_created_at = Some now, usr_updated_at = None, usr_picture_url = None\<rparr>"
  obtain acts where w: "write_row E fresh (RowUser ?row) ?row = Inr (acts, ?row)"
    using write_row_total [OF assms(1), of fresh "RowUser ?row" ?row] by blast
  note eff = write_row_effect [OF assms(1) w]
  have clash: "snap_get (upsert_row E s EkUser fresh (RowUser ?row)) EkUser (usr_id u) = Some (RowUser u)"
    "get_by_natural_key (upsert_row E s EkUser fresh (RowUser ?row)) EkUser x = Some (RowUser ?row)"
    "\<not> snap_ok E (upsert_row E s EkUser fresh (RowUser ?row))"
    using upsert_clash [OF assms(3), of E x "RowUser ?row" fresh] assms(4,6) by simp_all
  have "find_or_create_build E now x fresh s = Inr (acts, ?row)"
    using assms(5) w by (simp add: find_or_create_build_def Let_def)
  moreover have "user_get_by_name (snd (apply_all E s acts)) x = Inr ?row"
    using eff(1) clash(2) by (simp add: user_get_by_name_def user_of_def)
  ultimately show ?thesis
    using eff(1) clash assms(4,6) by (intro exI [of _ acts] exI [of _ ?row]) (simp add: Let_def)
qed

lemma provisioning_duplicates_name_witness:
  "\<exists>acts row. find_or_create_build sample 3 ''ann'' 6 sample_tree = Inr (acts, row) \<and>
    \<not> snap_ok sample (snd (apply_all sample sample_tree acts))"
proof -
  obtain rs where rs: "collect_res user_of (snap_iter sample_tree EkUser) = Inr rs"
    "\<And>r. r \<in> set rs \<longleftrightarrow> snap_get sample_tree EkUser (usr_id r) = Some (RowUser r)"
    using user.iter_typed [OF sample_tree_ok] by blast
  then have "\<forall>r \<in> set rs. usr_external_id r \<noteq> Some ''ann''"
    by (auto simp: snap_get_sample_tree sample_user_def split: if_splits)
  then have "first_where sample_tree (\<lambda>u. usr_external_id u = Some ''ann'') = Inr None"
    using rs(1) by (auto simp: first_where_def find_None_iff)
  with provisioning_duplicates_name [OF sample_facts(1) sample_tree_ok, of sample_user "''ann''" 6 3]
  show ?thesis by (auto simp: snap_get_sample_tree sample_user_def Let_def)
qed

text \<open>
  C32: Adding columns checks neither the positions already taken nor the batch itself: two columns at
  one position of a table are both stored, and a lookup by position sees the last one only.
\<close>

lemma columns_duplicate_position:
  assumes "codecs_ok E" "col_table_id a = col_table_id b" "col_ordinal_position a = col_ordinal_position b"
    and "col_id a \<noteq> col_id b"
  shows "\<exists>acts. insert_columns_build E [a, b] s = Inr (acts, ()) \<and>
    (let s' = snd (apply_all E s acts) in
      snap_get s' EkColumn (col_id a) = Some (RowColumn a) \<and>
      snap_get s' EkColumn (col_id b) = Some (RowColumn b) \<and>
      get_by_natural_key s' EkColumn (child_key E (col_table_id a) (pad_i64 (col_ordinal_position a))) =
        Some (RowColumn b) \<and> \<not> snap_ok E s')"
proof -
  let ?rows = "[(col_id a, RowColumn a), (col_id b, RowColumn b)]"
  obtain acts where w: "write_rows E ?rows = Inr acts"
    using write_rows_total [OF assms(1), of ?rows] by blast
  let ?s1 = "upsert_row E s EkColumn (col_id a) (RowColumn a)"
  have final: "snd (apply_all E s acts) = upsert_row E ?s1 EkColumn (col_id b) (RowColumn b)"
    using write_rows_ok(1) [OF assms(1) w] by (simp add: upsert_rows_def)
  have nk: "natural_key_for E (RowColumn c) =
      Some (child_key E (col_table_id c) (pad_i64 (col_ordinal_position c)))" for c
    by (simp add: child_key_def)
  have a: "snap_get ?s1 EkColumn (col_id a) = Some (RowColumn a)" by simp
  have "natural_key_for E (RowColumn b) =
      Some (child_key E (col_table_id a) (pad_i64 (col_ordinal_position a)))"
    by (simp add: nk assms(2,3) del: natural_key_for.simps)
  note clash = upsert_clash [OF a nk this assms(4) [symmetric]]
  have "insert_columns_build E [a, b] s = Inr (acts, ())"
    using w by (simp add: insert_columns_build_def)
  with clash show ?thesis by (intro exI [of _ acts]) (simp add: final Let_def)
qed

lemma columns_duplicate_position_witness:
  "\<exists>acts. insert_columns_build sample [sample_column 0 3, sample_column 0 4] empty_snapshot = Inr (acts, ()) \<and>
    \<not> snap_ok sample (snd (apply_all sample empty_snapshot acts))"
proof -
  have "\<exists>acts. insert_columns_build sample [sample_column 0 3, sample_column 0 4] empty_snapshot = Inr (acts, ()) \<and>
    (let s' = snd (apply_all sample empty_snapshot acts) in
      snap_get s' EkColumn (col_id (sample_column 0 3)) = Some (RowColumn (sample_column 0 3)) \<and>
      snap_get s' EkColumn (col_id (sample_column 0 4)) = Some (RowColumn (sample_column 0 4)) \<and>
      get_by_natural_key s' EkColumn (child_key sample (col_table_id (sample_column 0 3))
        (pad_i64 (col_ordinal_position (sample_column 0 3)))) = Some (RowColumn (sample_column 0 4)) \<and>
      \<not> snap_ok sample s')"
    by (rule columns_duplicate_position [OF sample_facts(1)]) (simp_all add: sample_column_def)
  then show ?thesis by (auto simp: Let_def)
qed

section \<open>Privileges\<close>

text \<open>
  C33: The privilege vocabulary: the casbin names are a bijection with the privileges, and the
  reflexive transitive closure of the stored edges is the intended order: the owner has everything,
  all-privileges has everything but ownership, and any other privilege only itself.
\<close>

lemma privilege_order:
  "(from_casbin_str x = Some p \<longleftrightarrow> x = as_casbin_str p) \<and>
   ((as_casbin_str p, as_casbin_str q) \<in> (set hierarchy_edges)\<^sup>* \<longleftrightarrow>
      p = q \<or> p = Owner \<or> p = AllPrivileges \<and> q \<noteq> Owner)"
  using from_casbin_str_SomeD [of x p] hierarchy_closure [of p q]
  by (auto simp: priv_implies_def simp del: as_casbin_str.simps)

end
