(* ===== verification/DeltaLog.thy ===== *)
theory DeltaLog
  imports CommitSpec
begin

text \<open>
  Per-table Delta commit logs: the module \<^verbatim>\<open>store::delta_log\<close> and the repository \<^verbatim>\<open>repos::delta\<close>
  over it. One object per commit of a table, under the table's own prefix; the object store and the
  replica's hints are passed and returned. A result of \<open>None\<close> is a listing that does not end or,
  in \<open>mutate_commit\<close>, an edit that panics. \<open>serde_json\<close> is a parameter: a type \<open>'v\<close> of values, the
  text of a value and of a row, and the operations on values the module calls.
\<close>

record ('j, 'v) delta_env = "'j log_env" +
  cd_delta_commit :: "(delta_commit_row, string) codec"    \<comment> \<open>text of \<open>DeltaCommitRow\<close>\<close>
  cd_value :: "('v, string) codec"                         \<comment> \<open>text of \<open>Value\<close>\<close>
  val_get :: "'v \<Rightarrow> string \<Rightarrow> 'v option"                     \<comment> \<open>\<open>doc.get(key)\<close>\<close>
  val_assign :: "'v \<Rightarrow> string \<Rightarrow> 'v \<Rightarrow> 'v option"            \<comment> \<open>\<open>doc[key] = x\<close>, \<open>None\<close> a panic\<close>
  val_bool :: "bool \<Rightarrow> 'v"                                 \<comment> \<open>\<open>Value::Bool\<close>\<close>
  val_commit :: "delta_commit_row \<Rightarrow> 'v"                   \<comment> \<open>the value of a row\<close>

type_synonym delta_hints = "uuid \<rightharpoonup> int"

section \<open>Keys\<close>

definition partition_prefix :: "('j, 'z) row_codecs_scheme \<Rightarrow> uuid \<Rightarrow> string" where
  "partition_prefix E t = ''_uc_log/tables/'' @ uuid_text E t @ ''/''"

definition delta_commit_key :: "('j, 'z) row_codecs_scheme \<Rightarrow> uuid \<Rightarrow> int \<Rightarrow> string" where
  "delta_commit_key E t v = partition_prefix E t @ pad0_int 20 v @ ''.json''"

text \<open>\<open>rsplit('/').next()\<close>: what follows the last slash.\<close>

definition after_last_slash :: "string \<Rightarrow> string" where
  "after_last_slash s = rev (takeWhile (\<lambda>c. c \<noteq> CHR ''/'') (rev s))"

definition delta_version_from_key :: "string \<Rightarrow> int option" where
  "delta_version_from_key key = Option.bind (strip_suffix ''.json'' (after_last_slash key)) parse_i64"

section \<open>The log of a table\<close>

definition raise_hint :: "uuid \<Rightarrow> int \<Rightarrow> delta_hints \<Rightarrow> delta_hints" where
  "raise_hint t v h = h(t \<mapsto> (case h t of None \<Rightarrow> v | Some w \<Rightarrow> max w v))"

definition version_conflict :: "int \<Rightarrow> uc_error" where
  "version_conflict v = uc_err CommitVersionConflict
     (''Commit version '' @ show_int v @ '' already exists for this table'')"

definition delta_append ::
  "('j, 'z) row_codecs_scheme \<Rightarrow> 'l log_ops \<Rightarrow> uuid \<Rightarrow> int \<Rightarrow> string \<Rightarrow> 'l \<Rightarrow> delta_hints \<Rightarrow>
   unit res \<times> 'l \<times> delta_hints" where
  "delta_append E ops t v body l h =
     (case op_put_if_absent ops (delta_commit_key E t v) body l of
        (Inl e, l') \<Rightarrow> (Inl e, l', h)
      | (Inr PutCreated, l') \<Rightarrow> (Inr (), l', raise_hint t v h)
      | (Inr PutAlreadyExists, l') \<Rightarrow> (Inl (version_conflict v), l', h))"

definition delta_versions ::
  "('j, 'z) row_codecs_scheme \<Rightarrow> 'l log_ops \<Rightarrow> uuid \<Rightarrow> int option \<Rightarrow> int option \<Rightarrow> 'l \<Rightarrow>
   int list res option" where
  "delta_versions E ops t starting ending l =
     (let pfx = partition_prefix E t;
          after = (case starting of
                     Some v \<Rightarrow> if v \<le> 0 then pfx else delta_commit_key E t (v - 1)
                   | None \<Rightarrow> pfx);
          stop = map_option (delta_commit_key E t) ending
      in map_option (\<lambda>r. rbind r (\<lambda>keys.
           Inr (sort (filter (\<lambda>v. case ending of None \<Rightarrow> True | Some e \<Rightarrow> v \<le> e)
                 (List.map_filter delta_version_from_key keys)))))
         (list_all_in_range ops l pfx after stop))"

definition delta_read ::
  "('j, 'z) row_codecs_scheme \<Rightarrow> 'l log_ops \<Rightarrow> uuid \<Rightarrow> int \<Rightarrow> 'l \<Rightarrow> string option res" where
  "delta_read E ops t v l = op_get ops (delta_commit_key E t v) l"

text \<open>
  \<open>mutate_commit\<close> reads the object, edits it and overwrites it; \<open>edit_commit\<close> is the part before the
  write, whose result is the new body, if any. Between the two the object store may change.
\<close>

definition edit_commit ::
  "('j, 'v, 'z) delta_env_scheme \<Rightarrow> 'l log_ops \<Rightarrow> uuid \<Rightarrow> int \<Rightarrow> ('v \<Rightarrow> 'v option) \<Rightarrow> 'l \<Rightarrow>
   string option res option" where
  "edit_commit E ops t v edit l =
     (case op_get ops (delta_commit_key E t v) l of
        Inl e \<Rightarrow> Some (Inl e)
      | Inr None \<Rightarrow> Some (Inr None)
      | Inr (Some bytes) \<Rightarrow>
         (case dec (cd_value E) bytes of
            Inl e \<Rightarrow> Some (Inl (uc_err Internal
              (''corrupt delta commit '' @ delta_commit_key E t v @ '': '' @ e)))
          | Inr doc \<Rightarrow>
             map_option (\<lambda>doc'.
               if (val_get E doc ''table_id'', val_get E doc ''commit_version'') \<noteq>
                  (val_get E doc' ''table_id'', val_get E doc' ''commit_version'')
               then Inl (uc_err Internal
                 ''delta commit edit changed table_id or commit_version, which are the object key'')
               else rbind (json_err (enc (cd_value E) doc')) (\<lambda>body. Inr (Some body)))
             (edit doc)))"

definition mutate_commit ::
  "('j, 'v, 'z) delta_env_scheme \<Rightarrow> 'l log_ops \<Rightarrow> ('l \<Rightarrow> 'l) \<Rightarrow> uuid \<Rightarrow> int \<Rightarrow> ('v \<Rightarrow> 'v option) \<Rightarrow> 'l \<Rightarrow>
   (unit res \<times> 'l) option" where
  "mutate_commit E ops between t v edit l =
     map_option (\<lambda>r. case r of
         Inl e \<Rightarrow> (Inl e, l)
       | Inr None \<Rightarrow> (Inr (), l)
       | Inr (Some body) \<Rightarrow> op_put ops (delta_commit_key E t v) body (between l))
     (edit_commit E ops t v edit l)"

definition delta_latest ::
  "('j, 'z) row_codecs_scheme \<Rightarrow> 'l log_ops \<Rightarrow> uuid \<Rightarrow> 'l \<Rightarrow> delta_hints \<Rightarrow>
   (int option res \<times> delta_hints) option" where
  "delta_latest E ops t l h =
     (let pfx = partition_prefix E t;
          after = (case h t of Some v \<Rightarrow> delta_commit_key E t v | None \<Rightarrow> pfx)
      in map_option (\<lambda>r. case r of
           Inl e \<Rightarrow> (Inl e, h)
         | Inr keys \<Rightarrow>
            (let beyond = (case List.map_filter delta_version_from_key keys of
                             [] \<Rightarrow> None | v # vs \<Rightarrow> Some (Max (set (v # vs))));
                 latest = (case beyond of Some v \<Rightarrow> Some v | None \<Rightarrow> h t)
             in (Inr latest, case latest of None \<Rightarrow> h | Some v \<Rightarrow> raise_hint t v h)))
         (list_all_after ops l pfx after))"

section \<open>The repository\<close>

definition delta_decode :: "('j, 'v, 'z) delta_env_scheme \<Rightarrow> string \<Rightarrow> delta_commit_row res" where
  "delta_decode E bytes =
     (case dec (cd_delta_commit E) bytes of
        Inl e \<Rightarrow> Inl (uc_err Internal (''corrupt delta commit: '' @ e))
      | Inr r \<Rightarrow> Inr r)"

definition delta_insert ::
  "('j, 'v, 'z) delta_env_scheme \<Rightarrow> 'l log_ops \<Rightarrow> delta_commit_row \<Rightarrow> 'l \<Rightarrow> delta_hints \<Rightarrow>
   delta_commit_row res \<times> 'l \<times> delta_hints" where
  "delta_insert E ops row l h =
     (case json_err (enc (cd_delta_commit E) row) of
        Inl e \<Rightarrow> (Inl e, l, h)
      | Inr body \<Rightarrow>
         (let (r, l', h') = delta_append E ops (dc_table_id row) (dc_commit_version row) body l h
          in (rbind r (\<lambda>_. Inr row), l', h')))"

definition delta_list_for_table ::
  "('j, 'v, 'z) delta_env_scheme \<Rightarrow> 'l log_ops \<Rightarrow> uuid \<Rightarrow> int option \<Rightarrow> int option \<Rightarrow> 'l \<Rightarrow>
   delta_commit_row list res option" where
  "delta_list_for_table E ops t starting ending l =
     map_option (\<lambda>r. rbind r (collect_res (\<lambda>v.
         rbind (delta_read E ops t v l) (\<lambda>found.
         rbind (ok_or (uc_err Internal
             (''delta log hole: version '' @ show_int v @ '' listed but unreadable'')) found)
           (delta_decode E)))))
       (delta_versions E ops t starting ending l)"

definition set_backfilled :: "('j, 'v, 'z) delta_env_scheme \<Rightarrow> 'v \<Rightarrow> 'v option" where
  "set_backfilled E doc = val_assign E doc ''is_backfilled_latest_commit'' (val_bool E True)"

definition mark_backfilled ::
  "('j, 'v, 'z) delta_env_scheme \<Rightarrow> 'l log_ops \<Rightarrow> ('l \<Rightarrow> 'l) \<Rightarrow> uuid \<Rightarrow> int \<Rightarrow> 'l \<Rightarrow> (unit res \<times> 'l) option" where
  "mark_backfilled E ops between t v l = mutate_commit E ops between t v (set_backfilled E) l"

end
