(* ===== verification/DeltaSpec.thy ===== *)
theory DeltaSpec
  imports DeltaLog
begin

text \<open>
  What the per-table logs promise: an abstract history per table, a partial function from versions
  to commits, that appends extend and never overwrite. The facts about keys, the correspondence
  between the objects of the store and the histories, and the operations on both sides.
\<close>

section \<open>Facts about keys\<close>

lemma after_last_slash_append:
  assumes "CHR ''/'' \<notin> set s"
  shows "after_last_slash (p @ CHR ''/'' # s) = s"
proof -
  have "takeWhile (\<lambda>c. c \<noteq> CHR ''/'') (xs @ CHR ''/'' # ys) = xs" if "CHR ''/'' \<notin> set xs" for xs ys
    using that by (induction xs) auto
  with assms show ?thesis by (simp add: after_last_slash_def)
qed

lemma i64_fits_20: "0 \<le> v \<Longrightarrow> v \<le> i64_max \<Longrightarrow> nat v < 10 ^ 20"
  by (simp add: i64_max_def nat_less_iff)

lemma delta_version_from_commit_key [simp]:
  assumes "0 \<le> v" "v \<le> i64_max"
  shows "delta_version_from_key (delta_commit_key E t v) = Some v"
proof -
  have "CHR ''/'' \<notin> set (pad0_int 20 v @ ''.json'')"
    using assms slash_notin_digits [OF pad0_digits, of 20 "nat v"] by (auto simp: pad0_int_def)
  from after_last_slash_append [OF this, of "''_uc_log/tables/'' @ uuid_text E t"]
  have "after_last_slash (delta_commit_key E t v) = pad0_int 20 v @ ''.json''"
    by (simp add: delta_commit_key_def partition_prefix_def)
  with assms strip_suffix_append [of "''.json''" "pad0_int 20 v"] show ?thesis
    by (simp add: delta_version_from_key_def)
qed

lemma delta_commit_key_less:
  assumes "0 \<le> v" "v \<le> i64_max" "0 \<le> w" "w \<le> i64_max"
  shows "delta_commit_key E t v < delta_commit_key E t w \<longleftrightarrow> v < w"
  using assms i64_fits_20 [of v] i64_fits_20 [of w]
  by (auto simp: delta_commit_key_def pad0_int_def append_less_same_length length_pad0 pad0_less_iff
      nat_less_eq_zless)

lemma delta_commit_key_inj:
  assumes "0 \<le> v" "v \<le> i64_max" "0 \<le> w" "w \<le> i64_max"
  shows "delta_commit_key E t v = delta_commit_key E t w \<longleftrightarrow> v = w"
  using delta_commit_key_less [OF assms, of E t] delta_commit_key_less [OF assms(3,4,1,2), of E t] by fastforce

text \<open>A bound that is negative sorts before every version: the sign is a byte below the digits.\<close>

lemma delta_commit_key_le:
  assumes "0 \<le> w" "w \<le> i64_max" "e \<le> i64_max"
  shows "delta_commit_key E t w \<le> delta_commit_key E t e \<longleftrightarrow> w \<le> e"
proof (cases "0 \<le> e")
  case True
  then show ?thesis
    using delta_commit_key_less [OF True assms(3) assms(1,2), of E t] by (auto simp: not_less [symmetric])
next
  case False
  obtain c r where cr: "pad0 20 (nat w) = c # r" "is_digit c"
    using pad0_digits [of 20 "nat w"] by (cases "pad0 20 (nat w)") auto
  then have "CHR 0x2D < c" by (simp add: is_digit_def byte_less_iff [symmetric] byte_def)
  then have "delta_commit_key E t e < delta_commit_key E t w"
    using False assms(1) cr(1) by (simp add: delta_commit_key_def pad0_int_def)
  with False assms(1) show ?thesis by auto
qed

lemma partition_prefix_less: "partition_prefix E t < delta_commit_key E t v"
proof -
  have "(p :: string) < p @ x" if "x \<noteq> []" for p x
    using that by (induction p) (auto simp: neq_Nil_conv)
  then show ?thesis by (simp add: delta_commit_key_def)
qed

lemma delta_commit_key_partition:
  assumes "uuid_text_ok (uuid_text E)"
  shows "starts_with (delta_commit_key E t v) (partition_prefix E u) \<longleftrightarrow> t = u"
proof -
  have "length (uuid_text E x) = 36" "inj (uuid_text E)" for x
    using assms by (auto simp: uuid_text_ok_def)
  then show ?thesis
    by (auto simp: starts_with_iff delta_commit_key_def partition_prefix_def inj_eq append_eq_append_conv)
qed

text \<open>The partitions and the main log do not meet.\<close>

lemma version_from_delta_key [simp]: "version_from_key (delta_commit_key E t v) = None"
  using version_from_nested_key [of "''tables/'' @ uuid_text E t @ ''/'' @ pad0_int 20 v @ ''.json''"]
  by (simp add: delta_commit_key_def partition_prefix_def)

lemma main_key_not_partition:
  "\<not> starts_with (commit_key n) (partition_prefix E t)"
  "\<not> starts_with (checkpoint_key n) (partition_prefix E t)"
  "\<not> starts_with last_checkpoint_key (partition_prefix E t)"
proof -
  obtain c r where "pad0 20 n = c # r" "is_digit c"
    using pad0_digits [of 20 n] by (cases "pad0 20 n") auto
  moreover from this have "c \<noteq> CHR ''t''" by (auto simp: is_digit_def byte_def)
  ultimately show "\<not> starts_with (commit_key n) (partition_prefix E t)"
    "\<not> starts_with (checkpoint_key n) (partition_prefix E t)"
    by (simp_all add: starts_with_iff commit_key_def checkpoint_key_def partition_prefix_def)
  show "\<not> starts_with last_checkpoint_key (partition_prefix E t)"
    by (simp add: starts_with_iff last_checkpoint_key_def partition_prefix_def)
qed

section \<open>Histories\<close>

type_synonym histories = "uuid \<Rightarrow> int \<Rightarrow> delta_commit_row option"

abbreviation backfilled :: "delta_commit_row \<Rightarrow> delta_commit_row" where
  "backfilled r \<equiv> r\<lparr>dc_is_backfilled_latest_commit := True\<rparr>"

definition commit_body :: "('j, 'v, 'z) delta_env_scheme \<Rightarrow> string \<Rightarrow> delta_commit_row \<Rightarrow> bool" where
  "commit_body E b r \<longleftrightarrow> dec (cd_delta_commit E) b = Inr r \<and> dec (cd_value E) b = Inr (val_commit E r)"

text \<open>
  What the text of a row relies on: it reads back, as a row and as the value of the row. Setting the
  flag in the value of the row gives the value of the row with the flag set, which agrees with it on
  the fields of the key and has such a text, too.
\<close>

definition commit_text_ok :: "('j, 'v, 'z) delta_env_scheme \<Rightarrow> delta_commit_row \<Rightarrow> bool" where
  "commit_text_ok E r \<longleftrightarrow> (\<exists>b. enc (cd_delta_commit E) r = Inr b \<and> commit_body E b r)"

definition flag_value_ok :: "('j, 'v, 'z) delta_env_scheme \<Rightarrow> delta_commit_row \<Rightarrow> bool" where
  "flag_value_ok E r \<longleftrightarrow> set_backfilled E (val_commit E r) = Some (val_commit E (backfilled r)) \<and>
     val_get E (val_commit E (backfilled r)) ''table_id'' = val_get E (val_commit E r) ''table_id'' \<and>
     val_get E (val_commit E (backfilled r)) ''commit_version'' = val_get E (val_commit E r) ''commit_version''"

definition flag_text_ok :: "('j, 'v, 'z) delta_env_scheme \<Rightarrow> delta_commit_row \<Rightarrow> bool" where
  "flag_text_ok E r \<longleftrightarrow> flag_value_ok E r \<and> flag_value_ok E (backfilled r) \<and>
     (\<exists>b. enc (cd_value E) (val_commit E (backfilled r)) = Inr b \<and> commit_body E b (backfilled r))"

lemma flag_text_ok_backfilled: "flag_text_ok E r \<Longrightarrow> flag_text_ok E (backfilled r)"
  by (simp add: flag_text_ok_def)

definition version_ok :: "int \<Rightarrow> bool" where
  "version_ok v \<longleftrightarrow> 0 \<le> v \<and> v \<le> i64_max"

definition delta_holds ::
  "('j, 'v, 'z) delta_env_scheme \<Rightarrow> (string \<rightharpoonup> string) \<Rightarrow> histories \<Rightarrow> bool" where
  "delta_holds E m T \<longleftrightarrow>
     (\<forall>t k b. m k = Some b \<longrightarrow> starts_with k (partition_prefix E t) \<longrightarrow>
        (\<exists>v. k = delta_commit_key E t v \<and> T t v \<noteq> None)) \<and>
     (\<forall>t v r. T t v = Some r \<longrightarrow> version_ok v \<and> dc_table_id r = t \<and> dc_commit_version r = v \<and>
        flag_text_ok E r \<and> (\<exists>b. m (delta_commit_key E t v) = Some b \<and> commit_body E b r))"

lemma delta_holds_rowD:
  "delta_holds E m T \<Longrightarrow> T t v = Some r \<Longrightarrow> version_ok v \<and> dc_table_id r = t \<and> dc_commit_version r = v \<and>
     flag_text_ok E r \<and> (\<exists>b. m (delta_commit_key E t v) = Some b \<and> commit_body E b r)"
  by (simp add: delta_holds_def)

text \<open>The keys of a partition are those of its versions.\<close>

lemma partition_keys:
  assumes "delta_holds E m T" "uuid_text_ok (uuid_text E)"
  shows "{k \<in> dom m. starts_with k (partition_prefix E t)} = delta_commit_key E t ` dom (T t)"
proof (intro set_eqI iffI)
  fix k assume "k \<in> {k \<in> dom m. starts_with k (partition_prefix E t)}"
  then show "k \<in> delta_commit_key E t ` dom (T t)"
    using assms(1) by (auto simp: delta_holds_def) blast
next
  fix k assume "k \<in> delta_commit_key E t ` dom (T t)"
  then obtain v r where "k = delta_commit_key E t v" "T t v = Some r" by auto
  then show "k \<in> {k \<in> dom m. starts_with k (partition_prefix E t)}"
    using delta_holds_rowD [OF assms(1)] delta_commit_key_partition [OF assms(2), of t v t] by fastforce
qed

lemma delta_keys_strict:
  assumes "\<And>v. v \<in> V \<Longrightarrow> version_ok v"
  shows "inj_on (delta_commit_key E t) V"
    "finite V \<Longrightarrow> sorted_wrt (<) (map (delta_commit_key E t) (sorted_list_of_set V))"
proof -
  have less: "v < w \<Longrightarrow> delta_commit_key E t v < delta_commit_key E t w" if "v \<in> V" "w \<in> V" for v w
    using that assms delta_commit_key_less unfolding version_ok_def by blast
  show "inj_on (delta_commit_key E t) V"
    using assms delta_commit_key_inj unfolding inj_on_def version_ok_def by blast
  assume "finite V"
  then show "sorted_wrt (<) (map (delta_commit_key E t) (sorted_list_of_set V))"
    unfolding sorted_wrt_map using less
    by (intro sorted_wrt_mono_rel [OF _ strict_sorted_list_of_set]) simp
qed

lemma finite_history:
  assumes "delta_holds E m T" "uuid_text_ok (uuid_text E)" "finite (dom m)"
  shows "finite (dom (T t))"
proof -
  have "finite (delta_commit_key E t ` dom (T t))"
    unfolding partition_keys [OF assms(1,2), symmetric] using assms(3) by simp
  moreover have "inj_on (delta_commit_key E t) (dom (T t))"
    using delta_holds_rowD [OF assms(1)] by (intro delta_keys_strict(1)) auto
  ultimately show ?thesis by (rule finite_imageD)
qed

lemma partition_range:
  assumes "delta_holds E m T" "uuid_text_ok (uuid_text E)" "finite (dom m)"
  shows "keys_in_range m (partition_prefix E t) after stop =
    map (delta_commit_key E t) (sorted_list_of_set {v \<in> dom (T t). after < delta_commit_key E t v \<and>
      (case stop of None \<Rightarrow> True | Some s \<Rightarrow> delta_commit_key E t v \<le> s)})"
    (is "?l = map ?key (sorted_list_of_set ?V)")
proof -
  have fin: "finite ?V" using finite_history [OF assms, of t] by simp
  have ok: "version_ok v" if "v \<in> ?V" for v
    using that delta_holds_rowD [OF assms(1)] by auto
  have "set ?l = {k \<in> {k \<in> dom m. starts_with k (partition_prefix E t)}.
      after < k \<and> (case stop of None \<Rightarrow> True | Some s \<Rightarrow> k \<le> s)}"
    using assms(3) by (auto simp: keys_in_range_def keys_after_set)
  also have "\<dots> = ?key ` ?V"
    unfolding partition_keys [OF assms(1,2)] by auto
  also have "\<dots> = set (map ?key (sorted_list_of_set ?V))"
    using fin by simp
  finally have "set ?l = set (map ?key (sorted_list_of_set ?V))" .
  moreover have "sorted_wrt (<) ?l"
    by (simp add: keys_in_range_def sorted_wrt_filter keys_after_sorted)
  ultimately show ?thesis
    using delta_keys_strict(2) [of ?V E t] ok fin by (intro strict_sorted_equal) auto
qed

lemma map_filter_delta_keys:
  "(\<And>v. v \<in> set vs \<Longrightarrow> version_ok v) \<Longrightarrow>
   List.map_filter delta_version_from_key (map (delta_commit_key E t) vs) = vs"
  by (induction vs) (auto simp: List.map_filter_def version_ok_def)

section \<open>The operations on the histories\<close>

text \<open>The versions in a range, in order.\<close>

definition history_range :: "histories \<Rightarrow> uuid \<Rightarrow> int option \<Rightarrow> int option \<Rightarrow> int list" where
  "history_range T t starting ending = sorted_list_of_set {v. T t v \<noteq> None \<and>
     (case starting of None \<Rightarrow> True | Some a \<Rightarrow> a \<le> v) \<and> (case ending of None \<Rightarrow> True | Some e \<Rightarrow> v \<le> e)}"

definition hints_ok :: "histories \<Rightarrow> delta_hints \<Rightarrow> bool" where
  "hints_ok T h \<longleftrightarrow> (\<forall>t v. h t = Some v \<longrightarrow> T t v \<noteq> None)"

definition latest_in :: "histories \<Rightarrow> uuid \<Rightarrow> int option" where
  "latest_in T t = (if dom (T t) = {} then None else Some (Max (dom (T t))))"

definition history_add :: "delta_commit_row \<Rightarrow> histories \<Rightarrow> histories" where
  "history_add r T = T(dc_table_id r := (T (dc_table_id r))(dc_commit_version r \<mapsto> r))"

definition history_flag :: "uuid \<Rightarrow> int \<Rightarrow> histories \<Rightarrow> histories" where
  "history_flag t v T = T(t := (T t)(v := map_option backfilled (T t v)))"

lemma hints_ok_raise: "hints_ok T h \<Longrightarrow> T t v \<noteq> None \<Longrightarrow> hints_ok T (raise_hint t v h)"
  by (auto simp: hints_ok_def raise_hint_def max_def split: option.splits)

lemma history_add_mono: "T t v \<noteq> None \<Longrightarrow> history_add r T t v \<noteq> None"
  by (auto simp: history_add_def)

lemma history_flag_dom [simp]: "dom (history_flag t v T u) = dom (T u)"
  by (auto simp: history_flag_def)

lemma hints_ok_add: "hints_ok T h \<Longrightarrow> hints_ok (history_add r T) h"
  by (simp add: hints_ok_def history_add_mono)

lemma hints_ok_flag: "hints_ok T h \<Longrightarrow> hints_ok (history_flag t v T) h"
  unfolding hints_ok_def by (metis domIff history_flag_dom)

lemma delta_holds_add:
  assumes "delta_holds E m T" "uuid_text_ok (uuid_text E)"
    and "m (delta_commit_key E (dc_table_id r) (dc_commit_version r)) = None"
    and "version_ok (dc_commit_version r)" "flag_text_ok E r" "commit_body E b r"
  shows "delta_holds E (m(delta_commit_key E (dc_table_id r) (dc_commit_version r) \<mapsto> b)) (history_add r T)"
    (is "delta_holds E (m(?k \<mapsto> b)) ?T")
  unfolding delta_holds_def
proof (rule conjI; intro allI impI)
  fix t k c assume k: "(m(?k \<mapsto> b)) k = Some c" "starts_with k (partition_prefix E t)"
  show "\<exists>v. k = delta_commit_key E t v \<and> ?T t v \<noteq> None"
  proof (cases "k = ?k")
    case True
    with k(2) delta_commit_key_partition [OF assms(2)] show ?thesis by (auto simp: history_add_def)
  next
    case False
    with k assms(1) obtain v where "k = delta_commit_key E t v" "T t v \<noteq> None"
      by (auto simp: delta_holds_def) blast
    then show ?thesis using history_add_mono [of T t v r] by blast
  qed
next
  fix t v q assume "?T t v = Some q"
  then have "t = dc_table_id r \<and> v = dc_commit_version r \<and> q = r \<or> T t v = Some q"
    by (simp add: history_add_def split: if_splits)
  then consider "t = dc_table_id r" "v = dc_commit_version r" "q = r" | "T t v = Some q" by blast
  then show "version_ok v \<and> dc_table_id q = t \<and> dc_commit_version q = v \<and> flag_text_ok E q \<and>
      (\<exists>c. (m(?k \<mapsto> b)) (delta_commit_key E t v) = Some c \<and> commit_body E c q)"
  proof cases
    case 1
    with assms(4-6) show ?thesis by simp
  next
    case 2
    with delta_holds_rowD [OF assms(1) 2] assms(3) show ?thesis by auto
  qed
qed

lemma delta_holds_flag:
  assumes "delta_holds E m T" "uuid_text_ok (uuid_text E)" "T t v = Some r"
    and "commit_body E b (backfilled r)"
  shows "delta_holds E (m(delta_commit_key E t v \<mapsto> b)) (history_flag t v T)"
    (is "delta_holds E (m(?k \<mapsto> b)) ?T")
  unfolding delta_holds_def
proof (rule conjI; intro allI impI)
  fix u k c assume k: "(m(?k \<mapsto> b)) k = Some c" "starts_with k (partition_prefix E u)"
  show "\<exists>w. k = delta_commit_key E u w \<and> ?T u w \<noteq> None"
  proof (cases "k = ?k")
    case True
    with k(2) delta_commit_key_partition [OF assms(2)] have "t = u" by simp
    with True assms(3) show ?thesis by (auto simp: history_flag_def)
  next
    case False
    with k assms(1) obtain w where "k = delta_commit_key E u w" "T u w \<noteq> None"
      by (auto simp: delta_holds_def) blast
    then show ?thesis by (auto simp: history_flag_def)
  qed
next
  fix u w q assume q: "?T u w = Some q"
  then obtain q0 where q0: "T u w = Some q0" "u = t \<and> w = v \<longrightarrow> q = backfilled q0"
    "\<not> (u = t \<and> w = v) \<longrightarrow> q = q0"
    by (auto simp: history_flag_def split: if_splits)
  note old = delta_holds_rowD [OF assms(1) q0(1)]
  show "version_ok w \<and> dc_table_id q = u \<and> dc_commit_version q = w \<and> flag_text_ok E q \<and>
      (\<exists>c. (m(?k \<mapsto> b)) (delta_commit_key E u w) = Some c \<and> commit_body E c q)"
  proof (cases "u = t \<and> w = v")
    case True
    with q0 old assms(3,4) flag_text_ok_backfilled [of E q0] show ?thesis by auto
  next
    case False
    then have "delta_commit_key E u w \<noteq> ?k"
      using delta_commit_key_partition [OF assms(2)] delta_commit_key_inj [of w v E u] old
        delta_holds_rowD [OF assms(1,3)] by (metis version_ok_def)
    with False q0 old show ?thesis by auto
  qed
qed

text \<open>Writes elsewhere in the store do not touch the histories.\<close>

lemma delta_holds_other:
  assumes "delta_holds E m T" "\<And>t. \<not> starts_with k (partition_prefix E t)" "uuid_text_ok (uuid_text E)"
  shows "delta_holds E (m(k \<mapsto> b)) T"
  using assms delta_commit_key_partition [OF assms(3)] unfolding delta_holds_def by (metis fun_upd_other)

lemma reliable_list: "reliable ops \<Longrightarrow> op_list_after ops p a l \<noteq> Inl e"
  unfolding reliable_def by (metis Inl_Inr_False)

lemma reliable_get: "reliable ops \<Longrightarrow> op_get ops k l \<noteq> Inl e"
  unfolding reliable_def by (metis Inl_Inr_False)

context object_log begin

lemma delta_listing:
  assumes "linv l" "delta_holds E (objs l) T" "uuid_text_ok (uuid_text E)"
  shows "(\<exists>e. list_all_in_range ops l (partition_prefix E t) after stop = Some (Inl e) \<and> \<not> reliable ops) \<or>
    list_all_in_range ops l (partition_prefix E t) after stop =
      Some (Inr (map (delta_commit_key E t) (sorted_list_of_set {v \<in> dom (T t).
        after < delta_commit_key E t v \<and>
        (case stop of None \<Rightarrow> True | Some s \<Rightarrow> delta_commit_key E t v \<le> s)})))"
  using list_all_loop_drains [OF assms(1), of "partition_prefix E t" stop after "[]"]
    partition_range [OF assms(2,3) finite_objs [OF assms(1)], of t after stop]
    reliable_list by (fastforce simp: list_all_in_range_def)

lemma history_versions_ok:
  assumes "linv l" "delta_holds E (objs l) T" "uuid_text_ok (uuid_text E)"
    and "V \<subseteq> dom (T t)"
  shows "finite V" "\<And>v. v \<in> V \<Longrightarrow> version_ok v"
proof -
  show "finite V"
    using finite_history [OF assms(2,3) finite_objs [OF assms(1)], of t] assms(4) by (rule finite_subset [rotated])
  show "version_ok v" if "v \<in> V" for v
    using that assms(4) delta_holds_rowD [OF assms(2)] by blast
qed

lemma delta_versions_spec:
  assumes "linv l" "delta_holds E (objs l) T" "uuid_text_ok (uuid_text E)"
    and "\<And>a. starting = Some a \<Longrightarrow> a \<le> i64_max" "\<And>e. ending = Some e \<Longrightarrow> e \<le> i64_max"
  shows "(\<exists>e. delta_versions E ops t starting ending l = Some (Inl e) \<and> \<not> reliable ops) \<or>
    delta_versions E ops t starting ending l = Some (Inr (history_range T t starting ending))"
proof -
  let ?after = "case starting of Some v \<Rightarrow> if v \<le> 0 then partition_prefix E t
    else delta_commit_key E t (v - 1) | None \<Rightarrow> partition_prefix E t"
  let ?stop = "map_option (delta_commit_key E t) ending"
  let ?V = "{v \<in> dom (T t). ?after < delta_commit_key E t v \<and>
    (case ?stop of None \<Rightarrow> True | Some s \<Rightarrow> delta_commit_key E t v \<le> s)}"
  note ok = history_versions_ok [OF assms(1-3), of ?V t]
  have "?after < delta_commit_key E t v \<longleftrightarrow> (case starting of None \<Rightarrow> True | Some a \<Rightarrow> a \<le> v)"
    if "version_ok v" for v
    using that partition_prefix_less assms(4) delta_commit_key_less [of "the starting - 1" v E t]
    by (auto simp: version_ok_def split: option.splits)
  moreover have "(case ?stop of None \<Rightarrow> True | Some s \<Rightarrow> delta_commit_key E t v \<le> s) \<longleftrightarrow>
      (case ending of None \<Rightarrow> True | Some e \<Rightarrow> v \<le> e)" if "version_ok v" for v
    using that assms(5) delta_commit_key_le [of v _ E t] by (auto simp: version_ok_def split: option.splits)
  ultimately have "?V = {v. T t v \<noteq> None \<and> (case starting of None \<Rightarrow> True | Some a \<Rightarrow> a \<le> v) \<and>
      (case ending of None \<Rightarrow> True | Some e \<Rightarrow> v \<le> e)}"
    using history_versions_ok(2) [OF assms(1-3) subset_refl, of _ t] by auto
  with ok(1) have range: "sorted_list_of_set ?V = history_range T t starting ending"
    and fin: "finite {v. T t v \<noteq> None \<and> (case starting of None \<Rightarrow> True | Some a \<Rightarrow> a \<le> v) \<and>
      (case ending of None \<Rightarrow> True | Some e \<Rightarrow> v \<le> e)}"
    by (simp_all add: history_range_def)
  have bound: "filter (\<lambda>v. case ending of None \<Rightarrow> True | Some e \<Rightarrow> v \<le> e) (history_range T t starting ending) =
      history_range T t starting ending"
    using fin by (auto simp: filter_id_conv history_range_def)
  have "sort (history_range T t starting ending) = history_range T t starting ending"
    unfolding history_range_def by (intro sort_key_id_if_sorted) simp
  moreover have "List.map_filter delta_version_from_key (map (delta_commit_key E t) (sorted_list_of_set ?V)) =
      history_range T t starting ending"
    using ok map_filter_delta_keys [of "sorted_list_of_set ?V" E t] range by simp
  ultimately show ?thesis
    using delta_listing [OF assms(1-3), of t ?after ?stop] bound
    by (auto simp: delta_versions_def Let_def)
qed

lemma delta_free_iff:
  assumes "delta_holds E (objs l) T" "version_ok v" "uuid_text_ok (uuid_text E)"
  shows "objs l (delta_commit_key E t v) = None \<longleftrightarrow> T t v = None"
proof
  assume free: "objs l (delta_commit_key E t v) = None"
  then show "T t v = None"
    using delta_holds_rowD [OF assms(1), of t v] by (cases "T t v") auto
next
  assume T: "T t v = None"
  show "objs l (delta_commit_key E t v) = None"
  proof (rule ccontr)
    assume "\<not> ?thesis"
    with assms(1) delta_commit_key_partition [OF assms(3), of t v t] obtain w where
      "delta_commit_key E t v = delta_commit_key E t w" "T t w \<noteq> None"
      by (auto simp: delta_holds_def) blast
    then have "v = w"
      using delta_commit_key_inj [of v w E t] delta_holds_rowD [OF assms(1), of t w] assms(2)
      by (auto simp: version_ok_def)
    with T \<open>T t w \<noteq> None\<close> show False by simp
  qed
qed

text \<open>An insert claims the version or reports a conflict; a failing backend may have done either.\<close>

lemma delta_insert_spec:
  assumes "linv l" "delta_holds E (objs l) T" "uuid_text_ok (uuid_text E)" "hints_ok T h"
    and "version_ok (dc_commit_version row)" "commit_text_ok E row" "flag_text_ok E row"
    and "delta_insert E ops row l h = (r, l', h')"
  shows "linv l' \<and> (\<exists>T'. delta_holds E (objs l') T' \<and> hints_ok T' h' \<and>
    (case r of
       Inr out \<Rightarrow> out = row \<and> T (dc_table_id row) (dc_commit_version row) = None \<and> T' = history_add row T
     | Inl e \<Rightarrow> e = version_conflict (dc_commit_version row) \<and>
           T (dc_table_id row) (dc_commit_version row) \<noteq> None \<and> T' = T \<or>
         \<not> reliable ops \<and> (T' = T \<or> T (dc_table_id row) (dc_commit_version row) = None \<and>
           T' = history_add row T)))"
proof -
  let ?t = "dc_table_id row" and ?v = "dc_commit_version row"
  let ?k = "delta_commit_key E ?t ?v"
  obtain b where b: "enc (cd_delta_commit E) row = Inr b" "commit_body E b row"
    using assms(6) by (auto simp: commit_text_ok_def)
  obtain q l1 where put: "op_put_if_absent ops ?k b l = (q, l1)" by force
  have inv: "linv l1" using put_absent_inv [OF assms(1), of ?k b] put by simp
  note free = delta_free_iff [OF assms(2,5,3), of ?t]
  have add: "delta_holds E ((objs l)(?k \<mapsto> b)) (history_add row T)" if "objs l ?k = None"
    using delta_holds_add [OF assms(2,3) that assms(5,7) b(2)] .
  show ?thesis
  proof (cases q)
    case (Inl e)
    have "\<not> reliable ops"
      using put Inl unfolding reliable_def by (metis Inl_Inr_False prod.inject)
    moreover have "objs l1 = objs l \<or> objs l ?k = None \<and> objs l1 = (objs l)(?k \<mapsto> b)"
      using put_absent_err [OF assms(1)] put Inl by blast
    moreover have "r = Inl e" "l' = l1" "h' = h"
      using assms(8) b(1) put Inl by (auto simp: delta_insert_def delta_append_def json_err_def)
    ultimately show ?thesis
      using inv assms(2,4) add free hints_ok_add [OF assms(4), of row] by auto
  next
    case (Inr c)
    show ?thesis
    proof (cases c)
      case PutCreated
      have o: "objs l ?k = None" "objs l1 = (objs l)(?k \<mapsto> b)"
        using put_created [OF assms(1)] put Inr PutCreated by blast+
      have "r = Inr row" "l' = l1" "h' = raise_hint ?t ?v h"
        using assms(8) b(1) put Inr PutCreated by (auto simp: delta_insert_def delta_append_def json_err_def)
      moreover have "hints_ok (history_add row T) (raise_hint ?t ?v h)"
        by (intro hints_ok_raise hints_ok_add assms(4)) (simp add: history_add_def)
      ultimately show ?thesis
        using inv o add free by (auto intro!: exI [of _ "history_add row T"])
    next
      case PutAlreadyExists
      have "objs l ?k \<noteq> None" "objs l1 = objs l"
        using put_exists [OF assms(1)] put Inr PutAlreadyExists by blast+
      moreover have "r = Inl (version_conflict ?v)" "l' = l1" "h' = h"
        using assms(8) b(1) put Inr PutAlreadyExists
        by (auto simp: delta_insert_def delta_append_def json_err_def)
      ultimately show ?thesis
        using inv assms(2,4) free by (auto intro!: exI [of _ T])
    qed
  qed
qed

text \<open>The commits of a range, in order and without a gap.\<close>

lemma delta_list_spec:
  assumes "linv l" "delta_holds E (objs l) T" "uuid_text_ok (uuid_text E)"
    and "\<And>a. starting = Some a \<Longrightarrow> a \<le> i64_max" "\<And>e. ending = Some e \<Longrightarrow> e \<le> i64_max"
  shows "(\<exists>e. delta_list_for_table E ops t starting ending l = Some (Inl e) \<and> \<not> reliable ops) \<or>
    delta_list_for_table E ops t starting ending l =
      Some (Inr (map (\<lambda>v. the (T t v)) (history_range T t starting ending)))"
proof -
  let ?get = "\<lambda>v. rbind (delta_read E ops t v l) (\<lambda>found. rbind (ok_or (uc_err Internal
    (''delta log hole: version '' @ show_int v @ '' listed but unreadable'')) found) (delta_decode E))"
  have get: "?get v = Inr (the (T t v)) \<or> (\<exists>e. ?get v = Inl e \<and> \<not> reliable ops)"
    if "v \<in> set (history_range T t starting ending)" for v
  proof -
    from that obtain r where r: "T t v = Some r"
      using sorted_list_of_set.set_sorted_key_list_of_set
      by (cases "finite {v. T t v \<noteq> None \<and> (case starting of None \<Rightarrow> True | Some a \<Rightarrow> a \<le> v) \<and>
          (case ending of None \<Rightarrow> True | Some e \<Rightarrow> v \<le> e)}") (auto simp: history_range_def)
    then obtain b where b: "objs l (delta_commit_key E t v) = Some b" "commit_body E b r"
      using delta_holds_rowD [OF assms(2)] by blast
    show ?thesis
    proof (cases "op_get ops (delta_commit_key E t v) l")
      case (Inl e)
      then show ?thesis using reliable_get by (fastforce simp: delta_read_def)
    next
      case (Inr found)
      with get_objs [OF assms(1) Inr] b r show ?thesis
        by (simp add: delta_read_def delta_decode_def commit_body_def)
    qed
  qed
  have "collect_res ?get vs = Inr (map (\<lambda>v. the (T t v)) vs) \<or>
      (\<exists>e. collect_res ?get vs = Inl e \<and> \<not> reliable ops)"
    if "set vs \<subseteq> set (history_range T t starting ending)" for vs
    using that
  proof (induction vs)
    case (Cons v vs)
    with get [of v] show ?case by auto
  qed simp
  from this [OF subset_refl] delta_versions_spec [OF assms(1-3), where t = t and starting = starting and ending = ending] assms(4,5)
  show ?thesis by (auto simp: delta_list_for_table_def)
qed

text \<open>The latest version, whatever the replica's hint: a stale hint costs a longer listing only.\<close>

lemma delta_latest_spec:
  assumes "linv l" "delta_holds E (objs l) T" "uuid_text_ok (uuid_text E)" "hints_ok T h"
  shows "\<exists>r h'. delta_latest E ops t l h = Some (r, h') \<and> hints_ok T h' \<and>
    (r = Inr (latest_in T t) \<or> (\<exists>e. r = Inl e) \<and> \<not> reliable ops)"
proof -
  let ?after = "case h t of Some v \<Rightarrow> delta_commit_key E t v | None \<Rightarrow> partition_prefix E t"
  let ?V = "{v \<in> dom (T t). ?after < delta_commit_key E t v}"
  have fin: "finite (dom (T t))" and ok: "\<And>v. v \<in> dom (T t) \<Longrightarrow> version_ok v"
    using history_versions_ok [OF assms(1-3) subset_refl, where t = t] by auto
  have V: "?V = (case h t of None \<Rightarrow> dom (T t) | Some w \<Rightarrow> {v \<in> dom (T t). w < v})"
    and hint: "\<And>w. h t = Some w \<Longrightarrow> w \<in> dom (T t)"
    using ok partition_prefix_less delta_commit_key_less assms(4) unfolding hints_ok_def version_ok_def
    by (auto split: option.splits) blast+
  let ?vs = "sorted_list_of_set ?V"
  have "List.map_filter delta_version_from_key (map (delta_commit_key E t) ?vs) = ?vs"
    using fin ok by (intro map_filter_delta_keys) auto
  moreover have "(case (case ?vs of [] \<Rightarrow> None | v # vs \<Rightarrow> Some (Max (set (v # vs)))) of
      Some v \<Rightarrow> Some v | None \<Rightarrow> h t) = latest_in T t"
  proof (cases "?V = {}")
    case True
    have "w = Max (dom (T t))" if "h t = Some w" for w
    proof (rule Max_eqI [OF fin _ hint [OF that], symmetric])
      fix y assume "y \<in> dom (T t)"
      moreover have "{v \<in> dom (T t). w < v} = {}" using V True that by simp
      ultimately show "y \<le> w" by (auto simp: not_less [symmetric])
    qed
    moreover have "dom (T t) = {}" if "h t = None"
      using V that True by simp
    ultimately have "h t = latest_in T t"
      using hint by (cases "h t") (auto simp: latest_in_def)
    moreover have "?vs = []" unfolding True by simp
    ultimately show ?thesis by (simp only:) simp
  next
    case False
    have set: "set ?vs = ?V" using fin by simp
    with False obtain v vs where vs: "?vs = v # vs" by (cases ?vs) auto
    have "Max ?V = Max (dom (T t))"
    proof (rule Max_eqI [symmetric])
      show "finite (dom (T t))" by (rule fin)
      show "Max ?V \<in> dom (T t)" using Max_in [of ?V] fin False by auto
      fix y assume y: "y \<in> dom (T t)"
      show "y \<le> Max ?V"
      proof (cases "y \<in> ?V")
        case True
        then show ?thesis using fin by simp
      next
        case notin: False
        obtain x where x: "x \<in> ?V" using False by blast
        with notin y V have "y < x" by (auto split: option.splits)
        moreover have "x \<le> Max ?V" using x fin by simp
        ultimately show ?thesis by simp
      qed
    qed
    with vs set False show ?thesis by (auto simp: latest_in_def)
  qed
  moreover have "hints_ok T (case latest_in T t of None \<Rightarrow> h | Some v \<Rightarrow> raise_hint t v h)"
    using assms(4) hints_ok_raise [OF assms(4)] Max_in [OF fin] by (auto simp: latest_in_def domIff)
  ultimately show ?thesis
    using delta_listing [OF assms(1-3), of t ?after None] assms(4)
    by (auto simp: delta_latest_def list_all_after_def Let_def)
qed

text \<open>The edit of a commit that exists; the write that follows it.\<close>

lemma edit_commit_spec:
  assumes "linv l" "delta_holds E (objs l) T" "uuid_text_ok (uuid_text E)" "version_ok v"
  shows "\<exists>r. edit_commit E ops t v (set_backfilled E) l = Some r \<and>
    ((\<exists>e. r = Inl e) \<and> \<not> reliable ops \<or> r = Inr None \<and> T t v = None \<or>
     (\<exists>q b. T t v = Some q \<and> r = Inr (Some b) \<and> commit_body E b (backfilled q)))"
proof (cases "op_get ops (delta_commit_key E t v) l")
  case (Inl e)
  then show ?thesis using reliable_get [of ops] by (simp add: edit_commit_def) metis
next
  case (Inr found)
  note found = get_objs [OF assms(1) Inr]
  show ?thesis
  proof (cases "T t v")
    case None
    with found Inr delta_free_iff [OF assms(2,4,3), of t] show ?thesis by (simp add: edit_commit_def)
  next
    case (Some q)
    with delta_holds_rowD [OF assms(2) Some] obtain b where
      b: "objs l (delta_commit_key E t v) = Some b" "commit_body E b q" "flag_text_ok E q" by blast
    then obtain c where c: "enc (cd_value E) (val_commit E (backfilled q)) = Inr c"
      "commit_body E c (backfilled q)" "flag_value_ok E q" by (auto simp: flag_text_ok_def)
    have "edit_commit E ops t v (set_backfilled E) l = Some (Inr (Some c))"
      using Inr found b c(1,3) by (simp add: edit_commit_def commit_body_def flag_value_ok_def json_err_def)
    with Some c(2) show ?thesis by blast
  qed
qed

lemma flag_write_spec:
  assumes "linv l" "delta_holds E (objs l) T" "uuid_text_ok (uuid_text E)"
    and "T t v = Some q" "commit_body E b (backfilled q)"
    and "op_put ops (delta_commit_key E t v) b l = (r, l')"
  shows "linv l' \<and> (delta_holds E (objs l') (history_flag t v T) \<or>
    delta_holds E (objs l') T \<and> (\<exists>e. r = Inl e))"
proof -
  have "linv l'" using put_inv [OF assms(1), of "delta_commit_key E t v" b] assms(6) by simp
  moreover have "objs l' = (objs l)(delta_commit_key E t v \<mapsto> b) \<or> objs l' = objs l \<and> (\<exists>e. r = Inl e)"
    using put_done [OF assms(1)] put_err [OF assms(1)] assms(6) by (cases r) blast+
  ultimately show ?thesis
    using delta_holds_flag [OF assms(2-5)] assms(2) by auto
qed

end

end
