(* ===== verification/DeltaRuns.thy ===== *)
theory DeltaRuns
  imports DeltaSpec Samples
begin

text \<open>
  The per-table logs under any interleaving of replicas: inserts, reads of the latest version, the
  two halves of a backfill mark, and writes of the main log. What every run keeps, and what the main
  log keeps of the partitions and the other way round.
\<close>

section \<open>Runs\<close>

record 'l delta_system =
  ds_log :: 'l
  ds_hints :: "nat \<Rightarrow> delta_hints"                \<comment> \<open>one hint table per replica\<close>
  ds_pending :: "(uuid \<times> int \<times> string) set"       \<comment> \<open>edited bodies not yet written\<close>
  ds_claims :: "delta_commit_row list"             \<comment> \<open>the inserts that reported success\<close>

definition main_key :: "string \<Rightarrow> bool" where
  "main_key k \<longleftrightarrow> k = last_checkpoint_key \<or> (\<exists>n. k = commit_key n \<or> k = checkpoint_key n)"

inductive delta_run ::
  "('j, 'v, 'z) delta_env_scheme \<Rightarrow> 'l log_ops \<Rightarrow> 'l \<Rightarrow> 'l delta_system \<Rightarrow> bool"
  for E ops l0
where
  start: "delta_run E ops l0 \<lparr>ds_log = l0, ds_hints = (\<lambda>_. Map.empty), ds_pending = {}, ds_claims = []\<rparr>"
| insert: "delta_run E ops l0 s \<Longrightarrow> version_ok (dc_commit_version row) \<Longrightarrow> commit_text_ok E row \<Longrightarrow>
    flag_text_ok E row \<Longrightarrow> delta_insert E ops row (ds_log s) (ds_hints s p) = (r, l', h') \<Longrightarrow>
    delta_run E ops l0 (s\<lparr>ds_log := l', ds_hints := (ds_hints s)(p := h'),
      ds_claims := ds_claims s @ (case r of Inl _ \<Rightarrow> [] | Inr out \<Rightarrow> [out])\<rparr>)"
| latest: "delta_run E ops l0 s \<Longrightarrow> delta_latest E ops t (ds_log s) (ds_hints s p) = Some (r', h') \<Longrightarrow>
    delta_run E ops l0 (s\<lparr>ds_hints := (ds_hints s)(p := h')\<rparr>)"
| edit: "delta_run E ops l0 s \<Longrightarrow> version_ok v \<Longrightarrow>
    edit_commit E ops t v (set_backfilled E) (ds_log s) = Some (Inr (Some b)) \<Longrightarrow>
    delta_run E ops l0 (s\<lparr>ds_pending := Set.insert (t, v, b) (ds_pending s)\<rparr>)"
| flag: "delta_run E ops l0 s \<Longrightarrow> (t, v, b) \<in> ds_pending s \<Longrightarrow>
    op_put ops (delta_commit_key E t v) b (ds_log s) = (q, l') \<Longrightarrow>
    delta_run E ops l0 (s\<lparr>ds_log := l'\<rparr>)"
| main_create: "delta_run E ops l0 s \<Longrightarrow> main_key k \<Longrightarrow>
    op_put_if_absent ops k b (ds_log s) = (c, l') \<Longrightarrow> delta_run E ops l0 (s\<lparr>ds_log := l'\<rparr>)"
| main_put: "delta_run E ops l0 s \<Longrightarrow> main_key k \<Longrightarrow>
    op_put ops k b (ds_log s) = (q, l') \<Longrightarrow> delta_run E ops l0 (s\<lparr>ds_log := l'\<rparr>)"

text \<open>A history may grow, and a commit of it may get its flag; nothing else happens to it.\<close>

definition history_le :: "histories \<Rightarrow> histories \<Rightarrow> bool" where
  "history_le T T' \<longleftrightarrow> (\<forall>t v r. T t v = Some r \<longrightarrow> T' t v = Some r \<or> T' t v = Some (backfilled r))"

lemma history_le_refl [simp]: "history_le T T"
  by (simp add: history_le_def)

lemma history_le_trans: "history_le T U \<Longrightarrow> history_le U V \<Longrightarrow> history_le T V"
  unfolding history_le_def by fastforce

lemma history_le_add:
  "T (dc_table_id r) (dc_commit_version r) = None \<Longrightarrow> history_le T (history_add r T)"
  by (auto simp: history_le_def history_add_def)

lemma history_le_flag: "history_le T (history_flag t v T)"
  by (auto simp: history_le_def history_flag_def)

lemma main_key_not_delta: "main_key k \<Longrightarrow> \<not> starts_with k (partition_prefix E t)"
  by (auto simp: main_key_def main_key_not_partition)

text \<open>What a run keeps: every claim is in the histories, and no two claims are of one version.\<close>

definition delta_inv ::
  "('j, 'v, 'z) delta_env_scheme \<Rightarrow> ('l \<Rightarrow> (string \<rightharpoonup> string)) \<Rightarrow> ('l \<Rightarrow> bool) \<Rightarrow> 'l delta_system \<Rightarrow>
   histories \<Rightarrow> bool" where
  "delta_inv E objs linv s T \<longleftrightarrow> linv (ds_log s) \<and> delta_holds E (objs (ds_log s)) T \<and>
     (\<forall>p. hints_ok T (ds_hints s p)) \<and>
     (\<forall>(t, v, b) \<in> ds_pending s. \<exists>q. T t v = Some q \<and> commit_body E b (backfilled q)) \<and>
     distinct (map (\<lambda>r. (dc_table_id r, dc_commit_version r)) (ds_claims s)) \<and>
     (\<forall>r \<in> set (ds_claims s). T (dc_table_id r) (dc_commit_version r) \<in> {Some r, Some (backfilled r)})"

lemma hints_ok_mono: "hints_ok T h \<Longrightarrow> history_le T T' \<Longrightarrow> hints_ok T' h"
  unfolding hints_ok_def history_le_def by (metis not_Some_eq)

text \<open>Claims, hints and pending edits survive any evolution of the histories.\<close>

lemma delta_inv_evolve:
  assumes "delta_inv E objs linv s T" "linv l'" "delta_holds E (objs l') T'" "history_le T T'"
    and "\<And>p. hints_ok T' (hs p)" "cs = ds_claims s \<or> cs = ds_claims s @ [row] \<and>
      T (dc_table_id row) (dc_commit_version row) = None \<and> T' (dc_table_id row) (dc_commit_version row) = Some row"
  shows "delta_inv E objs linv (s\<lparr>ds_log := l', ds_hints := hs, ds_claims := cs\<rparr>) T'"
proof -
  have "\<exists>q. T' t v = Some q \<and> commit_body E b (backfilled q)" if "(t, v, b) \<in> ds_pending s" for t v b
    using that assms(1,4) unfolding delta_inv_def history_le_def by fastforce
  moreover have claims: "T' (dc_table_id r) (dc_commit_version r) \<in> {Some r, Some (backfilled r)}"
    if "r \<in> set (ds_claims s)" for r
    using that assms(1,4) unfolding delta_inv_def history_le_def by fastforce
  moreover have "r \<in> set (ds_claims s) \<Longrightarrow> T (dc_table_id r) (dc_commit_version r) \<noteq> None" for r
    using assms(1) unfolding delta_inv_def by fastforce
  then have "distinct (map (\<lambda>r. (dc_table_id r, dc_commit_version r)) cs)"
    using assms(1,6) unfolding delta_inv_def by fastforce
  moreover have "T' (dc_table_id r) (dc_commit_version r) \<in> {Some r, Some (backfilled r)}"
    if "r \<in> set cs" for r
    using that claims [of r] assms(6) by (cases "r \<in> set (ds_claims s)") auto
  ultimately show ?thesis
    using assms(2,3,5) by (auto simp: delta_inv_def)
qed

lemma delta_inv_log:
  "delta_inv E objs linv s T \<Longrightarrow> linv l' \<Longrightarrow> delta_holds E (objs l') T \<Longrightarrow>
   delta_inv E objs linv (s\<lparr>ds_log := l'\<rparr>) T"
  by (simp add: delta_inv_def)

context object_log begin

lemma put_absent_objs:
  assumes "linv l" "op_put_if_absent ops k b l = (c, l')"
  shows "objs l' = objs l \<or> objs l' = (objs l)(k \<mapsto> b)"
proof (cases c)
  case (Inl e)
  then show ?thesis using put_absent_err [OF assms(1)] assms(2) by blast
next
  case (Inr r)
  then show ?thesis
    using put_created [OF assms(1)] put_exists [OF assms(1)] assms(2) by (cases r) blast+
qed

lemma delta_run_inv:
  assumes "delta_run E ops l0 s" "linv l0" "delta_holds E (objs l0) (\<lambda>_. Map.empty)"
    and "uuid_text_ok (uuid_text E)"
  shows "\<exists>T. delta_inv E objs linv s T"
  using assms(1)
proof induction
  case start
  have "delta_inv E objs linv \<lparr>ds_log = l0, ds_hints = (\<lambda>_. Map.empty), ds_pending = {}, ds_claims = []\<rparr>
      (\<lambda>_. Map.empty)"
    using assms(2,3) by (simp add: delta_inv_def hints_ok_def)
  then show ?case by blast
next
  case (insert s row p r l' h')
  then obtain T where T: "delta_inv E objs linv s T" by blast
  then have g: "linv (ds_log s)" "delta_holds E (objs (ds_log s)) T" "\<And>p. hints_ok T (ds_hints s p)"
    by (simp_all add: delta_inv_def)
  from delta_insert_spec [OF g(1,2) assms(4) g(3) insert(2-5)] obtain T' where
    T': "linv l'" "delta_holds E (objs l') T'" "hints_ok T' h'"
    and r: "case r of
       Inr out \<Rightarrow> out = row \<and> T (dc_table_id row) (dc_commit_version row) = None \<and> T' = history_add row T
     | Inl e \<Rightarrow> e = version_conflict (dc_commit_version row) \<and>
           T (dc_table_id row) (dc_commit_version row) \<noteq> None \<and> T' = T \<or>
         \<not> reliable ops \<and> (T' = T \<or> T (dc_table_id row) (dc_commit_version row) = None \<and>
           T' = history_add row T)" by blast
  have le: "history_le T T'"
    using r history_le_add [of T row] by (auto split: sum.splits)
  have "hints_ok T' (((ds_hints s)(p := h')) p')" for p'
    using T'(3) hints_ok_mono [OF g(3) le] by simp
  with delta_inv_evolve [OF T T'(1,2) le, of "(ds_hints s)(p := h')"
      "ds_claims s @ (case r of Inl _ \<Rightarrow> [] | Inr out \<Rightarrow> [out])" row] r
  have "delta_inv E objs linv (s\<lparr>ds_log := l', ds_hints := (ds_hints s)(p := h'),
      ds_claims := ds_claims s @ (case r of Inl _ \<Rightarrow> [] | Inr out \<Rightarrow> [out])\<rparr>) T'"
    by (auto simp: history_add_def split: sum.splits)
  then show ?case by blast
next
  case (latest s t p r h')
  then obtain T where T: "delta_inv E objs linv s T" by blast
  then have g: "linv (ds_log s)" "delta_holds E (objs (ds_log s)) T" "hints_ok T (ds_hints s p)"
    by (simp_all add: delta_inv_def)
  have "hints_ok T h'"
    using delta_latest_spec [OF g(1,2) assms(4) g(3), of t] latest(2) by auto
  with T have "delta_inv E objs linv (s\<lparr>ds_hints := (ds_hints s)(p := h')\<rparr>) T"
    by (simp add: delta_inv_def)
  then show ?case by blast
next
  case (edit s v t b)
  then obtain T where T: "delta_inv E objs linv s T" by blast
  then have g: "linv (ds_log s)" "delta_holds E (objs (ds_log s)) T" by (simp_all add: delta_inv_def)
  have "\<exists>q. T t v = Some q \<and> commit_body E b (backfilled q)"
    using edit_commit_spec [OF g assms(4) edit(2), of t] edit(3) by auto
  with T have "delta_inv E objs linv (s\<lparr>ds_pending := Set.insert (t, v, b) (ds_pending s)\<rparr>) T"
    by (simp add: delta_inv_def)
  then show ?case by blast
next
  case (flag s t v b q l')
  then obtain T where T: "delta_inv E objs linv s T" by blast
  with flag(2) obtain r where g: "linv (ds_log s)" "delta_holds E (objs (ds_log s)) T"
    "\<And>p. hints_ok T (ds_hints s p)" "T t v = Some r" "commit_body E b (backfilled r)"
    by (auto simp: delta_inv_def)
  from flag_write_spec [OF g(1,2) assms(4) g(4,5) flag(3)] history_le_flag [of T t v] obtain T' where
    T': "linv l'" "delta_holds E (objs l') T'" "history_le T T'" by auto
  have "delta_inv E objs linv (s\<lparr>ds_log := l', ds_hints := ds_hints s, ds_claims := ds_claims s\<rparr>) T'"
    by (rule delta_inv_evolve [OF T T' hints_ok_mono [OF g(3) T'(3)]]) simp
  then show ?case by auto
next
  case (main_create s k b c l')
  then obtain T where T: "delta_inv E objs linv s T" by blast
  then have g: "linv (ds_log s)" "delta_holds E (objs (ds_log s)) T" by (simp_all add: delta_inv_def)
  have "objs l' = objs (ds_log s) \<or> objs l' = (objs (ds_log s))(k \<mapsto> b)"
    by (rule put_absent_objs [OF g(1) main_create(3)])
  moreover have "linv l'" using put_absent_inv [OF g(1), of k b] main_create(3) by simp
  moreover have "delta_holds E ((objs (ds_log s))(k \<mapsto> b)) T"
    by (rule delta_holds_other [OF g(2) main_key_not_delta [OF main_create(2)] assms(4)])
  ultimately have "linv l'" "delta_holds E (objs l') T" using g(2) by metis+
  from delta_inv_log [OF T this] show ?case by blast
next
  case (main_put s k b q l')
  then obtain T where T: "delta_inv E objs linv s T" by blast
  then have g: "linv (ds_log s)" "delta_holds E (objs (ds_log s)) T" by (simp_all add: delta_inv_def)
  have "objs l' = objs (ds_log s) \<or> objs l' = (objs (ds_log s))(k \<mapsto> b)"
    using put_done [OF g(1)] put_err [OF g(1)] main_put(3) by (cases q) blast+
  moreover have "linv l'" using put_inv [OF g(1), of k b] main_put(3) by simp
  moreover have "delta_holds E ((objs (ds_log s))(k \<mapsto> b)) T"
    by (rule delta_holds_other [OF g(2) main_key_not_delta [OF main_put(2)] assms(4)])
  ultimately have "linv l'" "delta_holds E (objs l') T" using g(2) by metis+
  from delta_inv_log [OF T this] show ?case by blast
qed

end

end
