(* ===== verification/Json.thy ===== *)
theory Json
  imports OMap Numbers
begin

text \<open>
  A concrete type of JSON values, as \<open>serde_json\<close> documents its \<open>Value\<close>: the instance of the value
  parameters with which the witnesses run. An object is ordered by key.
\<close>

datatype json =
    JNull
  | JBool bool
  | JInt int
  | JFloat string
  | JString string
  | JArray "json list"
  | JObject "(string, json) omap"

definition json_get :: "json \<Rightarrow> string \<Rightarrow> json option" where
  "json_get v key = (case v of JObject m \<Rightarrow> map_of m key | _ \<Rightarrow> None)"

text \<open>\<open>doc[key] = x\<close>: a null becomes an object, any other value that is no object panics (\<open>None\<close>).\<close>

definition json_assign :: "json \<Rightarrow> string \<Rightarrow> json \<Rightarrow> json option" where
  "json_assign v key x =
     (case v of
        JObject m \<Rightarrow> Some (JObject (om_insert key x m))
      | JNull \<Rightarrow> Some (JObject [(key, x)])
      | _ \<Rightarrow> None)"

text \<open>An object literal: later keys overwrite earlier ones.\<close>

definition json_object :: "(string \<times> json) list \<Rightarrow> json" where
  "json_object fields = JObject (fold (\<lambda>(k, v) m. om_insert k v m) fields [])"

lemma json_get_assign:
  "json_assign v key x = Some v' \<Longrightarrow> json_get v' k = (if k = key then Some x else json_get v k)"
  by (auto simp: json_assign_def json_get_def split: json.splits)

lemma json_get_object:
  "distinct (map fst fields) \<Longrightarrow> json_get (json_object fields) k = map_of fields k"
proof -
  have "distinct (map fst fields) \<Longrightarrow> map_of (fold (\<lambda>(k, v) m. om_insert k v m) fields m) k =
      (case map_of fields k of Some v \<Rightarrow> Some v | None \<Rightarrow> map_of m k)" for m
    by (induction fields arbitrary: m) (auto split: option.splits dest: map_of_SomeD simp: rev_image_eqI)
  then show "distinct (map fst fields) \<Longrightarrow> ?thesis"
    by (simp add: json_object_def json_get_def split: option.splits)
qed

lemma json_object_ok: "json_object fields = JObject m \<Longrightarrow> om_ok m"
proof -
  have "om_ok m \<Longrightarrow> om_ok (fold (\<lambda>(k, v) m. om_insert k v m) fields m)" for m
    by (induction fields arbitrary: m) auto
  then show "json_object fields = JObject m \<Longrightarrow> om_ok m"
    by (auto simp: json_object_def)
qed

end
