(* ===== verification/DeltaProperties.thy ===== *)
theory DeltaProperties
  imports DeltaRuns SampleRuns Json
begin

text \<open>
  Properties of the per-table Delta logs on the paginating object store, and of their separation from
  the main log.
\<close>

section \<open>What a commit of the main log writes\<close>

lemma catch_up_log: "catch_up E ops st = Some (r, st') \<Longrightarrow> log st' = log st"
  by (auto simp: catch_up_def Let_def split: sum.splits option.splits prod.splits)

lemma write_checkpoint_preserves:
  assumes "\<And>k b l. main_key k \<Longrightarrow> P l \<Longrightarrow> P (snd (op_put_if_absent ops k b l))"
    and "\<And>k b l. main_key k \<Longrightarrow> P l \<Longrightarrow> P (snd (op_put ops k b l))" "P (log st)"
  shows "P (log (snd (write_checkpoint E ops v st)))"
proof -
  have keys: "main_key (checkpoint_key v)" "main_key last_checkpoint_key" by (auto simp: main_key_def)
  have P1: "P l1" if "op_put_if_absent ops (checkpoint_key v) b (log st) = (q, l1)" for b q l1
    using assms(1) [OF keys(1) assms(3), of b] that by simp
  have P2: "P l2" if "op_put ops last_checkpoint_key b l1 = (q, l2)" "P l1" for b l1 q l2
    using assms(2) [OF keys(2) that(2), of b] that(1) by simp
  show ?thesis
    using assms(3) P1 P2
    by (fastforce simp: write_checkpoint_def Let_def split: sum.splits prod.splits)
qed

text \<open>
  A commit writes main keys only, so whatever main-key writes and the others' steps preserve of the
  object store, a commit preserves.
\<close>

lemma commit_attempts_preserve:
  assumes "\<And>k b l. main_key k \<Longrightarrow> P l \<Longrightarrow> P (snd (op_put_if_absent ops k b l))"
    and "\<And>k b l. main_key k \<Longrightarrow> P l \<Longrightarrow> P (snd (op_put ops k b l))"
    and "\<And>a l. P l \<Longrightarrow> P (others w a l)"
    and "P (log st)" "commit_attempts E ops w operation build ns st = Some (r, st')"
  shows "P (log st')"
  using assms(4,5)
proof (induction ns arbitrary: st)
  case (Cons a ns)
  show ?case
  proof (cases "build a (state st)")
    case (Inl e)
    with Cons.prems show ?thesis by simp
  next
    case (Inr p)
    obtain acts out where p: "build a (state st) = Inr (acts, out)" using Inr by (cases p) simp
    let ?target = "wadd64 (version (state st)) 1"
    show ?thesis
    proof (cases "acts = [] \<or> (\<exists>e. encode_commit E (commit_header w a operation) acts = Inl e)")
      case True
      with Cons.prems p show ?thesis by (auto simp: Let_def split: if_splits)
    next
      case False
      then obtain body where body: "encode_commit E (commit_header w a operation) acts = Inr body"
        by (cases "encode_commit E (commit_header w a operation) acts") auto
      obtain q l1 where put: "op_put_if_absent ops (commit_key ?target) body (others w a (log st)) = (q, l1)"
        by force
      have "main_key (commit_key ?target)" by (auto simp: main_key_def)
      from assms(1) [OF this assms(3) [OF Cons.prems(1), of a], of body] put have l1: "P l1" by simp
      have ckpt: "P (log (maybe_checkpoint E ops v st1))" if "P (log st1)" for v st1
        using that write_checkpoint_preserves [of P ops st1 E v, OF assms(1,2)] by (simp add: maybe_checkpoint_def)
      consider e where "q = Inl e" | "q = Inr PutCreated" | "q = Inr PutAlreadyExists"
        by (metis put_result.exhaust sum.exhaust)
      then show ?thesis
      proof cases
        case 1
        with Cons.prems(2) p False body put l1 show ?thesis by auto
      next
        case 2
        obtain ra s' where ad: "adopt E ?target acts (state st) = (ra, s')" by force
        with Cons.prems(2) p False body put 2 l1 ckpt show ?thesis
          by (cases ra) auto
      next
        case 3
        obtain rc st1 where cu: "catch_up E ops (st\<lparr>log := l1\<rparr>) = Some (rc, st1)"
          using Cons.prems(2) p False body put 3 by (auto split: option.splits)
        then have "P (log st1)" using catch_up_log [OF cu] l1 by simp
        with Cons.prems(2) Cons.IH [of st1] p False body put 3 cu show ?thesis
          by (cases rc) auto
      qed
    qed
  qed
qed simp

section \<open>A sample environment\<close>

definition sample_commit :: delta_commit_row where
  "sample_commit = \<lparr>dc_id = 1, dc_table_id = 9, dc_commit_version = 3, dc_commit_filename = ''f'',
     dc_commit_filesize = 10, dc_commit_file_modification_timestamp = 0, dc_commit_timestamp = 0,
     dc_is_backfilled_latest_commit = False\<rparr>"

text \<open>The value of a commit row, field by field.\<close>

definition commit_value :: "delta_commit_row \<Rightarrow> json" where
  "commit_value r = json_object
     [(''id'', JString (uuid_display (dc_id r))), (''table_id'', JString (uuid_display (dc_table_id r))),
      (''commit_version'', JInt (dc_commit_version r)), (''commit_filename'', JString (dc_commit_filename r)),
      (''commit_filesize'', JInt (dc_commit_filesize r)),
      (''commit_file_modification_timestamp'', JInt (dc_commit_file_modification_timestamp r)),
      (''commit_timestamp'', JInt (dc_commit_timestamp r)),
      (''is_backfilled_latest_commit'', JBool (dc_is_backfilled_latest_commit r))]"

definition delta_sample :: "(row, json) delta_env" where
  "delta_sample = log_env.extend (sample_env [] [])
     (delta_env.fields (table_codec [sample_commit, backfilled sample_commit])
        (table_codec [commit_value sample_commit, commit_value (backfilled sample_commit)])
        json_get json_assign JBool commit_value)"

lemma delta_sample_simps [simp]:
  "uuid_text delta_sample = uuid_display"
  "cd_value delta_sample = table_codec [commit_value sample_commit, commit_value (backfilled sample_commit)]"
  "cd_delta_commit delta_sample = table_codec [sample_commit, backfilled sample_commit]"
  "val_get delta_sample = json_get" "val_assign delta_sample = json_assign" "val_bool delta_sample = JBool"
  "val_commit delta_sample = commit_value"
  by (simp_all add: delta_sample_def log_env.defs delta_env.defs sample_env_def)

lemma commit_value_flag:
  "json_assign (commit_value r) ''is_backfilled_latest_commit'' (JBool True) = Some (commit_value (backfilled r))"
  by (simp add: commit_value_def json_object_def json_assign_def)

lemma sample_flag_value: "flag_value_ok delta_sample r"
  using json_get_assign [OF commit_value_flag, of r]
  by (simp add: flag_value_ok_def set_backfilled_def commit_value_flag)

lemma commit_value_distinct: "commit_value sample_commit \<noteq> commit_value (backfilled sample_commit)"
  by (simp add: commit_value_def json_object_def sample_commit_def)

lemma sample_commit_texts: "commit_text_ok delta_sample sample_commit" "flag_text_ok delta_sample sample_commit"
proof -
  have "sample_commit \<noteq> backfilled sample_commit" by (simp add: sample_commit_def)
  then show "commit_text_ok delta_sample sample_commit" "flag_text_ok delta_sample sample_commit"
    using commit_value_distinct
    by (simp_all add: commit_text_ok_def flag_text_ok_def commit_body_def table_codec_def sample_flag_value)
qed

lemma empty_histories: "delta_holds E (memory_objs memory_new) (\<lambda>_. Map.empty)"
  by (simp add: delta_holds_def memory_objs_def memory_new_def)

text \<open>The log after the sample commit has been inserted.\<close>

definition delta_sample_log :: memory_log where
  "delta_sample_log = fst (snd (delta_insert delta_sample (truncating_ops (Suc 1)) sample_commit memory_new Map.empty))"

lemma delta_sample_insert:
  "delta_insert delta_sample (truncating_ops (Suc 1)) sample_commit memory_new Map.empty =
    (Inr sample_commit, delta_sample_log, [9 \<mapsto> 3])"
  by (simp add: delta_sample_log_def delta_insert_def delta_append_def truncating_ops_def memory_defs
      memory_new_def table_codec_def json_err_def sample_commit_def raise_hint_def)

lemma delta_sample_log_facts:
  "memory_ok delta_sample_log"
  "delta_holds delta_sample (memory_objs delta_sample_log) (history_add sample_commit (\<lambda>_. Map.empty))"
  "hints_ok (history_add sample_commit (\<lambda>_. Map.empty)) [9 \<mapsto> 3]"
proof -
  have "memory_ok memory_new" by (simp add: memory_ok_def memory_new_def)
  from trunc.delta_insert_spec [OF this empty_histories _ _ _ sample_commit_texts delta_sample_insert]
  show "memory_ok delta_sample_log"
    "delta_holds delta_sample (memory_objs delta_sample_log) (history_add sample_commit (\<lambda>_. Map.empty))"
    "hints_ok (history_add sample_commit (\<lambda>_. Map.empty)) [9 \<mapsto> 3]"
    using uuid_display_ok by (auto simp: hints_ok_def version_ok_def sample_commit_def i64_max_def)
qed

section \<open>Properties\<close>

text \<open>
  C10: In any interleaving of inserts, reads, backfill marks and main-log writes of any number of
  replicas, a version of a table is claimed at most once, and every claimed commit is read back by
  everyone afterwards, as it was inserted but for the backfill flag.
\<close>

lemma one_claimant:
  assumes "delta_run E (truncating_ops (Suc pg)) memory_new s" "uuid_text_ok (uuid_text E)"
  shows "distinct (map (\<lambda>r. (dc_table_id r, dc_commit_version r)) (ds_claims s)) \<and>
    (\<forall>r \<in> set (ds_claims s). \<exists>rows. delta_list_for_table E (truncating_ops (Suc pg)) (dc_table_id r)
       None None (ds_log s) = Some (Inr rows) \<and> (r \<in> set rows \<or> backfilled r \<in> set rows))"
proof -
  have "memory_ok memory_new" by (simp add: memory_ok_def memory_new_def)
  from trunc.delta_run_inv [OF assms(1) this empty_histories assms(2)] obtain T where
    T: "delta_inv E memory_objs memory_ok s T" by blast
  have "\<exists>rows. delta_list_for_table E (truncating_ops (Suc pg)) (dc_table_id r) None None (ds_log s) =
      Some (Inr rows) \<and> (r \<in> set rows \<or> backfilled r \<in> set rows)" if "r \<in> set (ds_claims s)" for r
  proof -
    have g: "memory_ok (ds_log s)" "delta_holds E (memory_objs (ds_log s)) T"
      and r: "T (dc_table_id r) (dc_commit_version r) \<in> {Some r, Some (backfilled r)}"
      using T that by (auto simp: delta_inv_def)
    have "set (history_range T (dc_table_id r) None None) = dom (T (dc_table_id r))"
      using trunc.history_versions_ok(1) [OF g assms(2) subset_refl, of "dc_table_id r"]
      by (auto simp: history_range_def dom_def)
    then have "the (T (dc_table_id r) (dc_commit_version r)) \<in>
        set (map (\<lambda>v. the (T (dc_table_id r) v)) (history_range T (dc_table_id r) None None))"
      using r by force
    with r trunc.delta_list_spec [OF g assms(2), where pg = pg and t = "dc_table_id r" and
        starting = None and ending = None] show ?thesis by auto
  qed
  with T show ?thesis by (auto simp: delta_inv_def)
qed

lemma one_claimant_witness:
  "\<exists>rows. delta_list_for_table delta_sample (truncating_ops (Suc 1)) 9 None None delta_sample_log =
    Some (Inr rows) \<and> (sample_commit \<in> set rows \<or> backfilled sample_commit \<in> set rows)"
proof -
  let ?s = "\<lparr>ds_log = memory_new, ds_hints = (\<lambda>_. Map.empty), ds_pending = {}, ds_claims = []\<rparr>"
  have "delta_run delta_sample (truncating_ops (Suc 1)) memory_new (?s\<lparr>ds_log := delta_sample_log,
      ds_hints := (ds_hints ?s)(0 := [9 \<mapsto> 3]), ds_claims := ds_claims ?s @ (case (Inr sample_commit :: delta_commit_row res) of
        Inl _ \<Rightarrow> [] | Inr out \<Rightarrow> [out])\<rparr>)"
    by (rule delta_run.insert [OF delta_run.start _ sample_commit_texts])
       (simp_all add: delta_sample_insert [simplified], simp add: version_ok_def i64_max_def sample_commit_def)
  from one_claimant [OF this] uuid_display_ok show ?thesis by (simp add: sample_commit_def)
qed

text \<open>
  C34: Listing the commits of a table gives exactly the commits of the requested range of versions, in
  order and without a gap, for every page size and every combination of open, closed, negative and
  empty bounds.
\<close>

lemma delta_range_exact:
  assumes "memory_ok l" "delta_holds E (memory_objs l) T" "uuid_text_ok (uuid_text E)"
    and "\<And>a. starting = Some a \<Longrightarrow> a \<le> i64_max" "\<And>e. ending = Some e \<Longrightarrow> e \<le> i64_max"
  shows "\<exists>rows. delta_list_for_table E (truncating_ops (Suc pg)) t starting ending l = Some (Inr rows) \<and>
    sorted_wrt (\<lambda>a b. dc_commit_version a < dc_commit_version b) rows \<and>
    (\<forall>r. r \<in> set rows \<longleftrightarrow> T t (dc_commit_version r) = Some r \<and>
       (\<forall>a. starting = Some a \<longrightarrow> a \<le> dc_commit_version r) \<and>
       (\<forall>e. ending = Some e \<longrightarrow> dc_commit_version r \<le> e))"
proof -
  let ?V = "{v. T t v \<noteq> None \<and> (case starting of None \<Rightarrow> True | Some a \<Rightarrow> a \<le> v) \<and>
      (case ending of None \<Rightarrow> True | Some e \<Rightarrow> v \<le> e)}"
  let ?rows = "map (\<lambda>v. the (T t v)) (history_range T t starting ending)"
  have fin: "finite ?V"
    by (rule trunc.history_versions_ok(1) [OF assms(1-3), where t = t]) auto
  have ver: "dc_commit_version (the (T t v)) = v" if "T t v \<noteq> None" for v
    using that delta_holds_rowD [OF assms(2), of t v] by auto
  have "map dc_commit_version ?rows = history_range T t starting ending"
    using fin ver by (auto simp: history_range_def intro!: map_idI)
  then have "sorted_wrt (<) (map dc_commit_version ?rows)"
    by (simp add: history_range_def)
  then have "sorted_wrt (\<lambda>a b. dc_commit_version a < dc_commit_version b) ?rows"
    by (simp add: sorted_wrt_map)
  have mem: "v \<in> set (history_range T t starting ending) \<longleftrightarrow> T t v \<noteq> None \<and>
      (\<forall>a. starting = Some a \<longrightarrow> a \<le> v) \<and> (\<forall>e. ending = Some e \<longrightarrow> v \<le> e)" for v
    using fin by (cases starting; cases ending) (simp_all add: history_range_def)
  have "r \<in> set ?rows \<longleftrightarrow> T t (dc_commit_version r) = Some r \<and>
       (\<forall>a. starting = Some a \<longrightarrow> a \<le> dc_commit_version r) \<and>
       (\<forall>e. ending = Some e \<longrightarrow> dc_commit_version r \<le> e)" for r
    unfolding set_map image_iff Bex_def mem using ver by (metis option.sel option.simps(3) option.exhaust)
  with \<open>sorted_wrt (\<lambda>a b. dc_commit_version a < dc_commit_version b) ?rows\<close> show ?thesis
    using trunc.delta_list_spec [OF assms, where pg = pg and t = t] by auto
qed

lemma delta_range_exact_witness:
  "\<exists>rows. delta_list_for_table delta_sample (truncating_ops (Suc 1)) 9 (Some 3) (Some 7) delta_sample_log =
      Some (Inr rows) \<and> sample_commit \<in> set rows"
  using delta_range_exact [OF delta_sample_log_facts(1,2), of "Some 3" "Some 7" 1 9] uuid_display_ok
  by (auto simp: i64_max_def history_add_def sample_commit_def)

text \<open>
  The latest version of a table is the highest one claimed, or none, whatever hint the replica
  keeps; the hint it keeps afterwards is again a claimed version.
\<close>

lemma latest_version_exact:
  assumes "memory_ok l" "delta_holds E (memory_objs l) T" "uuid_text_ok (uuid_text E)" "hints_ok T h"
  shows "\<exists>h'. delta_latest E (truncating_ops (Suc pg)) t l h = Some (Inr (latest_in T t), h') \<and> hints_ok T h'"
  using trunc.delta_latest_spec [OF assms, where pg = pg and t = t] by auto

lemma latest_version_exact_witness:
  "\<exists>h'. delta_latest delta_sample (truncating_ops (Suc 1)) 9 delta_sample_log [9 \<mapsto> 3] =
    Some (Inr (latest_in (history_add sample_commit (\<lambda>_. Map.empty)) 9), h') \<and>
    hints_ok (history_add sample_commit (\<lambda>_. Map.empty)) h'"
  by (rule latest_version_exact [OF delta_sample_log_facts(1,2) _ delta_sample_log_facts(3)])
     (simp add: uuid_display_ok)

text \<open>
  C35: The main log and the partitions do not interfere: inserting or marking a Delta commit leaves
  the history of the main log as it was, and a commit of the main log, whatever its build does and
  wherever it ends, leaves every table's history as it was.
\<close>

lemma partitions_isolated:
  assumes "log_good E memory_objs memory_ok (log st) cs" "delta_holds E (memory_objs (log st)) T"
    and "uuid_text_ok (uuid_text E)" "others w = (\<lambda>_ l. l)"
  shows "(\<forall>row h r l' h'. delta_insert E (truncating_ops (Suc pg)) row (log st) h = (r, l', h') \<longrightarrow>
      log_good E memory_objs memory_ok l' cs) \<and>
    (\<forall>t v r l'. mark_backfilled E (truncating_ops (Suc pg)) (\<lambda>l. l) t v (log st) = Some (r, l') \<longrightarrow>
      log_good E memory_objs memory_ok l' cs) \<and>
    (\<forall>r st'. commit E (truncating_ops (Suc pg)) w operation build st = Some (r, st') \<longrightarrow>
      delta_holds E (memory_objs (log st')) T)"
proof (intro conjI allI impI)
  have ok: "memory_ok (log st)" using assms(1) by (simp add: log_good_def)
  have other: "log_good E memory_objs memory_ok l' cs"
    if "memory_ok l'" "memory_objs l' = memory_objs (log st) \<or>
      memory_objs l' = (memory_objs (log st))(delta_commit_key E t v \<mapsto> b)" for l' t v b
    using that(2)
  proof
    assume "memory_objs l' = memory_objs (log st)"
    with log_good_same [OF assms(1) that(1)] show ?thesis by blast
  next
    assume o: "memory_objs l' = (memory_objs (log st))(delta_commit_key E t v \<mapsto> b)"
    have "checkpoint_key n \<noteq> delta_commit_key E t v" for n
      using delta_commit_key_partition [OF assms(3), of t v t] main_key_not_partition(2) by metis
    with assms(1) o that(1) log_holds_other_key [of E "memory_objs (log st)" cs] show ?thesis
      by (auto simp: log_good_def checkpoints_ok_def)
  qed
  show "log_good E memory_objs memory_ok l' cs"
    if "delta_insert E (truncating_ops (Suc pg)) row (log st) h = (r, l', h')" for row h r l' h'
  proof (cases "enc (cd_delta_commit E) row")
    case (Inl e)
    with that assms(1) show ?thesis by (simp add: delta_insert_def json_err_def)
  next
    case (Inr b)
    let ?k = "delta_commit_key E (dc_table_id row) (dc_commit_version row)"
    have "l' = snd (op_put_if_absent (truncating_ops (Suc pg)) ?k b (log st))"
      using that Inr by (auto simp: delta_insert_def delta_append_def json_err_def Let_def
          split: prod.splits sum.splits put_result.splits)
    with trunc.put_absent_objs [OF ok, of pg ?k b] trunc.put_absent_inv [OF ok, of pg ?k b] show ?thesis
      by (intro other [where t = "dc_table_id row" and v = "dc_commit_version row" and b = b]) (auto intro: prod.collapse [symmetric])
  qed
  show "log_good E memory_objs memory_ok l' cs"
    if "mark_backfilled E (truncating_ops (Suc pg)) (\<lambda>l. l) t v (log st) = Some (r, l')" for t v r l'
  proof -
    from that have "l' = log st \<or>
        (\<exists>b. op_put (truncating_ops (Suc pg)) (delta_commit_key E t v) b (log st) = (r, l'))"
      by (cases "edit_commit E (truncating_ops (Suc pg)) t v (set_backfilled E) (log st)")
         (auto simp: mark_backfilled_def mutate_commit_def split: sum.split_asm option.split_asm)
    then show ?thesis
    proof
      assume "l' = log st"
      with assms(1) show ?thesis by simp
    next
      assume "\<exists>b. op_put (truncating_ops (Suc pg)) (delta_commit_key E t v) b (log st) = (r, l')"
      then obtain b where b: "op_put (truncating_ops (Suc pg)) (delta_commit_key E t v) b (log st) = (r, l')"
        by blast
      with trunc.put_inv [OF ok, of pg "delta_commit_key E t v" b] have "memory_ok l'" by simp
      moreover have "memory_objs l' = memory_objs (log st) \<or>
          memory_objs l' = (memory_objs (log st))(delta_commit_key E t v \<mapsto> b)"
        using trunc.put_done [OF ok, of pg] trunc.put_err [OF ok, of pg] b by (cases r) blast+
      ultimately show ?thesis by (rule other)
    qed
  qed
  show "delta_holds E (memory_objs (log st')) T"
    if "commit E (truncating_ops (Suc pg)) w operation build st = Some (r, st')" for r st'
  proof -
    let ?P = "\<lambda>l. memory_ok l \<and> delta_holds E (memory_objs l) T"
    have "?P (log st')"
    proof (rule commit_attempts_preserve [of ?P "truncating_ops (Suc pg)" w st E operation build])
      fix k b l assume k: "main_key k" and P: "?P l"
      have step: "delta_holds E ((memory_objs l)(k \<mapsto> b)) T"
        using P delta_holds_other [OF _ main_key_not_delta [OF k] assms(3)] by blast
      obtain c l1 where put: "op_put_if_absent (truncating_ops (Suc pg)) k b l = (c, l1)" by force
      with trunc.put_absent_objs [of l pg k b c l1] trunc.put_absent_inv [of l pg k b] P step
      show "?P (snd (op_put_if_absent (truncating_ops (Suc pg)) k b l))" by auto
      obtain q l2 where "op_put (truncating_ops (Suc pg)) k b l = (q, l2)" by force
      moreover from this have "memory_objs l2 = memory_objs l \<or> memory_objs l2 = (memory_objs l)(k \<mapsto> b)"
        using P trunc.put_done [of l pg k b] trunc.put_err [of l pg k b] by (cases q) blast+
      ultimately show "?P (snd (op_put (truncating_ops (Suc pg)) k b l))"
        using trunc.put_inv [of l pg k b] P step by auto
    qed (use assms(2,4) ok that in \<open>simp_all add: commit_def\<close>)
    then show ?thesis ..
  qed
qed

lemma partitions_isolated_witness:
  "log_good delta_sample memory_objs memory_ok
     (fst (snd (delta_insert delta_sample (truncating_ops (Suc 1)) sample_commit memory_new Map.empty))) []"
proof -
  have good: "log_good delta_sample memory_objs memory_ok (log \<lparr>log = memory_new, state = empty_snapshot\<rparr>) []"
    using empty_log_good by simp
  obtain r l' h' where
    i: "delta_insert delta_sample (truncating_ops (Suc 1)) sample_commit memory_new Map.empty = (r, l', h')"
    by (metis prod_cases3)
  from partitions_isolated [OF good, of "\<lambda>_. Map.empty"
      "\<lparr>others = (\<lambda>_ l. l), clock = (\<lambda>_. 0), current_actor = None\<rparr>" 1 "[]" "\<lambda>_ _. Inr ([], ())"]
    empty_histories [of delta_sample] uuid_display_ok i
  have "log_good delta_sample memory_objs memory_ok l' []" by simp blast
  with i show ?thesis by simp
qed

end
