(* ===== verification/S3Log.thy ===== *)
theory S3Log
  imports ObjectLog
begin

text \<open>
  The S3 backend of the object log (\<^verbatim>\<open>store::s3\<close>). The AWS SDK client is a parameter: three requests
  over a bucket, with the outcomes the module tells apart. What S3 documents of them is the locale
  \<open>s3_bucket\<close>; from it the contract of the trait follows for every root, and a bucket that keeps it is
  at the end.
\<close>

section \<open>The client\<close>

text \<open>\<open>SdkError\<close>: an answer of the service with its status, or anything else; each with its \<open>Debug\<close> text.\<close>

datatype sdk_error =
    ServiceError (sdk_status: nat) (sdk_no_such_key: bool) (sdk_debug: string)
  | OtherError (sdk_debug: string)

record 'b s3_client =
  put_object :: "bool \<Rightarrow> string \<Rightarrow> string \<Rightarrow> 'b \<Rightarrow> (sdk_error + unit) \<times> 'b"  \<comment> \<open>with or without \<open>If-None-Match: *\<close>\<close>
  get_object :: "string \<Rightarrow> 'b \<Rightarrow> sdk_error + (string + string)"       \<comment> \<open>the body may fail to stream\<close>
  list_objects_v2 :: "string \<Rightarrow> string \<Rightarrow> 'b \<Rightarrow> sdk_error + string option list"

section \<open>The module\<close>

record s3_log =
  s3_root :: string

definition s3_new :: "string \<Rightarrow> s3_log" where
  "s3_new root = \<lparr>s3_root = (if root \<noteq> [] \<and> \<not> ends_with root ''/'' then root @ ''/'' else root)\<rparr>"

definition s3_full :: "s3_log \<Rightarrow> string \<Rightarrow> string" where
  "s3_full s key = s3_root s @ key"

definition s3_strip :: "s3_log \<Rightarrow> string \<Rightarrow> string option" where
  "s3_strip s key = strip_prefix (s3_root s) key"

definition s3_err :: "string \<Rightarrow> string \<Rightarrow> uc_error" where
  "s3_err ctx e = uc_err Internal (ctx @ '': '' @ e)"

definition aws_display :: "sdk_error \<Rightarrow> string" where
  "aws_display e = sdk_debug e"

definition s3_put_if_absent ::
  "'b s3_client \<Rightarrow> s3_log \<Rightarrow> string \<Rightarrow> string \<Rightarrow> 'b \<Rightarrow> put_result res \<times> 'b" where
  "s3_put_if_absent client s key body b =
     (case put_object client True (s3_full s key) body b of
        (Inr _, b') \<Rightarrow> (Inr PutCreated, b')
      | (Inl e, b') \<Rightarrow>
         (let status = (case e of ServiceError st _ _ \<Rightarrow> st | OtherError _ \<Rightarrow> 0)
          in (if status = 412 \<or> status = 409 then Inr PutAlreadyExists
              else Inl (s3_err (''put '' @ s3_full s key) (aws_display e)), b')))"

definition s3_get :: "'b s3_client \<Rightarrow> s3_log \<Rightarrow> string \<Rightarrow> 'b \<Rightarrow> string option res" where
  "s3_get client s key b =
     (case get_object client (s3_full s key) b of
        Inr (Inr bytes) \<Rightarrow> Inr (Some bytes)
      | Inr (Inl e) \<Rightarrow> Inl (s3_err (''read '' @ s3_full s key) e)
      | Inl (ServiceError st missing d) \<Rightarrow>
         (if missing then Inr None
          else if st = 404 then Inr None
          else Inl (s3_err (''get '' @ s3_full s key) d))
      | Inl (OtherError d) \<Rightarrow> Inl (s3_err (''get '' @ s3_full s key) d))"

definition s3_list_after :: "'b s3_client \<Rightarrow> s3_log \<Rightarrow> string \<Rightarrow> string \<Rightarrow> 'b \<Rightarrow> string list res" where
  "s3_list_after client s pfx start_after b =
     (case list_objects_v2 client (s3_full s pfx) (s3_full s start_after) b of
        Inl e \<Rightarrow> Inl (s3_err ''list'' (aws_display e))
      | Inr contents \<Rightarrow> Inr (List.map_filter (s3_strip s) (List.map_filter id contents)))"

definition s3_put :: "'b s3_client \<Rightarrow> s3_log \<Rightarrow> string \<Rightarrow> string \<Rightarrow> 'b \<Rightarrow> unit res \<times> 'b" where
  "s3_put client s key body b =
     (case put_object client False (s3_full s key) body b of
        (Inr _, b') \<Rightarrow> (Inr (), b')
      | (Inl e, b') \<Rightarrow> (Inl (s3_err (''put '' @ s3_full s key) (aws_display e)), b'))"

definition s3_ops :: "'b s3_client \<Rightarrow> s3_log \<Rightarrow> 'b log_ops" where
  "s3_ops client s = \<lparr>op_put_if_absent = s3_put_if_absent client s, op_get = s3_get client s,
     op_list_after = s3_list_after client s, op_put = s3_put client s\<rparr>"

text \<open>The objects under the root, by their logical keys.\<close>

definition s3_objs :: "('b \<Rightarrow> (string \<rightharpoonup> string)) \<Rightarrow> s3_log \<Rightarrow> 'b \<Rightarrow> (string \<rightharpoonup> string)" where
  "s3_objs objs s b = objs b \<circ> s3_full s"

section \<open>What S3 documents\<close>

text \<open>
  A conditional put stores the object only when the key is free, answers 412 or 409 only when it is
  taken, and any other failure has had its effect or none; a 404 or \<open>NoSuchKey\<close> means the key is free;
  a listing is a page of the keys under the prefix and after \<open>start_after\<close> in byte order, empty only
  when there are none.
\<close>

locale s3_bucket =
  fixes client :: "'b s3_client"
    and objs :: "'b \<Rightarrow> (string \<rightharpoonup> string)"
    and binv :: "'b \<Rightarrow> bool"
  assumes finite_bucket: "binv b \<Longrightarrow> finite (dom (objs b))"
    and put_keeps: "binv b \<Longrightarrow> binv (snd (put_object client c k v b))"
    and put_ok: "binv b \<Longrightarrow> put_object client c k v b = (Inr u, b') \<Longrightarrow>
      objs b' = (objs b)(k \<mapsto> v) \<and> (c \<longrightarrow> objs b k = None)"
    and put_refused: "binv b \<Longrightarrow> put_object client True k v b = (Inl (ServiceError st m d), b') \<Longrightarrow>
      st = 412 \<or> st = 409 \<Longrightarrow> objs b k \<noteq> None \<and> objs b' = objs b"
    and put_failed: "binv b \<Longrightarrow> put_object client c k v b = (Inl e, b') \<Longrightarrow>
      objs b' = objs b \<or> (c \<longrightarrow> objs b k = None) \<and> objs b' = (objs b)(k \<mapsto> v)"
    and get_found: "binv b \<Longrightarrow> get_object client k b = Inr (Inr v) \<Longrightarrow> objs b k = Some v"
    and get_missing: "binv b \<Longrightarrow> get_object client k b = Inl (ServiceError st m d) \<Longrightarrow>
      m \<or> st = 404 \<Longrightarrow> objs b k = None"
    and list_page: "binv b \<Longrightarrow> list_objects_v2 client p a b = Inr ks \<Longrightarrow>
      \<exists>page rest. ks = map Some page \<and> keys_after (objs b) p a = page @ rest \<and> (page = [] \<longrightarrow> rest = [])"

lemma s3_full_inj [simp]: "s3_full s k = s3_full s k' \<longleftrightarrow> k = k'"
  by (simp add: s3_full_def)

lemma s3_strip_full [simp]: "s3_strip s (s3_full s k) = Some k"
  by (simp add: s3_strip_def s3_full_def)

lemma s3_objs_update [simp]:
  "objs b' = (objs b)(s3_full s k \<mapsto> v) \<Longrightarrow> s3_objs objs s b' = (s3_objs objs s b)(k \<mapsto> v)"
  by (auto simp: s3_objs_def fun_eq_iff)

lemma s3_objs_same: "objs b' = objs b \<Longrightarrow> s3_objs objs s b' = s3_objs objs s b"
  by (simp add: s3_objs_def)

text \<open>Physical keys under a full prefix are the logical keys under the prefix, in the same order.\<close>

lemma keys_after_full:
  assumes "finite (dom (objs b))"
  shows "keys_after (objs b) (s3_full s p) (s3_full s a) = map (s3_full s) (keys_after (s3_objs objs s b) p a)"
proof -
  have fin: "finite (dom (s3_objs objs s b))"
    using assms finite_vimageI [of "dom (objs b)" "s3_full s"]
    by (auto simp: s3_objs_def inj_on_def vimage_def dom_def)
  have less: "s3_full s x < s3_full s y \<longleftrightarrow> x < y" for x y
    by (simp add: s3_full_def)
  have "set (keys_after (objs b) (s3_full s p) (s3_full s a)) =
      set (map (s3_full s) (keys_after (s3_objs objs s b) p a))"
    using assms fin less
    by (auto simp: keys_after_set s3_objs_def starts_with_iff s3_full_def image_iff)
  moreover have "sorted_wrt (<) (map (s3_full s) (keys_after (s3_objs objs s b) p a))"
    using keys_after_sorted less by (simp add: sorted_wrt_map)
  ultimately show ?thesis
    by (intro strict_sorted_equal keys_after_sorted) auto
qed

sublocale s3_bucket \<subseteq> s3: object_log "s3_ops client s" "s3_objs objs s" binv for s
proof (unfold_locales, goal_cases)
  case (1 l)
  then show ?case
    using finite_vimageI [OF finite_bucket, of l "s3_full s"]
    by (auto simp: s3_objs_def inj_on_def vimage_def dom_def)
next
  case (2 l k b)
  then show ?case
    using put_keeps [OF 2, of True "s3_full s k" b]
    by (auto simp: s3_ops_def s3_put_if_absent_def Let_def split: prod.splits sum.splits)
next
  case (3 l k b)
  then show ?case
    using put_keeps [OF 3, of False "s3_full s k" b]
    by (auto simp: s3_ops_def s3_put_def split: prod.splits sum.splits)
next
  case (4 l k b l')
  then show ?case
    using put_ok [OF 4(1), of True "s3_full s k" b]
    by (auto simp: s3_ops_def s3_put_if_absent_def s3_objs_def Let_def fun_eq_iff
        split: prod.splits sum.splits if_splits)
next
  case (5 l k b l')
  then obtain e where e: "put_object client True (s3_full s k) b l = (Inl e, l')"
    "(case e of ServiceError st _ _ \<Rightarrow> st | OtherError _ \<Rightarrow> 0) \<in> {412, 409}"
    by (auto simp: s3_ops_def s3_put_if_absent_def Let_def split: prod.splits sum.splits if_splits)
  then show ?case
    using put_refused [OF 5(1), of "s3_full s k" b]
    by (cases e) (auto simp: s3_objs_def)
next
  case (6 l k b e l')
  then obtain x where "put_object client True (s3_full s k) b l = (Inl x, l')"
    by (auto simp: s3_ops_def s3_put_if_absent_def Let_def split: prod.splits sum.splits if_splits)
  from put_failed [OF 6(1) this] show ?case
    by (auto simp: s3_objs_def fun_eq_iff)
next
  case (7 l k b u l')
  then show ?case
    using put_ok [OF 7(1), of False "s3_full s k" b]
    by (auto simp: s3_ops_def s3_put_def s3_objs_def fun_eq_iff split: prod.splits sum.splits)
next
  case (8 l k b e l')
  then obtain x where "put_object client False (s3_full s k) b l = (Inl x, l')"
    by (auto simp: s3_ops_def s3_put_def split: prod.splits sum.splits)
  from put_failed [OF 8(1) this] show ?case
    by (auto simp: s3_objs_def fun_eq_iff)
next
  case (9 l k v)
  then show ?case
    using get_found [OF 9(1), of "s3_full s k"] get_missing [OF 9(1), of "s3_full s k"]
    by (auto simp: s3_ops_def s3_get_def s3_objs_def split: sum.splits sdk_error.splits if_splits)
next
  case (10 l p a ks)
  then obtain raw where raw: "list_objects_v2 client (s3_full s p) (s3_full s a) l = Inr raw"
    "ks = List.map_filter (s3_strip s) (List.map_filter id raw)"
    by (auto simp: s3_ops_def s3_list_after_def split: sum.splits)
  from list_page [OF 10(1) raw(1)] obtain page rest where page: "raw = map Some page"
    "keys_after (objs l) (s3_full s p) (s3_full s a) = page @ rest" "page = [] \<longrightarrow> rest = []" by blast
  then obtain us vs where split: "keys_after (s3_objs objs s l) p a = us @ vs"
    "page = map (s3_full s) us" "rest = map (s3_full s) vs"
    unfolding keys_after_full [where objs = objs, OF finite_bucket [OF 10(1)]] by (auto simp: map_eq_append_conv)
  have "List.map_filter id (map Some xs) = xs" for xs :: "string list"
    by (induction xs) (simp_all add: List.map_filter_def)
  moreover have "List.map_filter (s3_strip s) (map (s3_full s) us) = us"
    by (induction us) (simp_all add: List.map_filter_def)
  ultimately have "ks = us"
    unfolding raw(2) page(1) split(2) by (simp del: map_map)
  with split page(3) show ?case by auto
qed

section \<open>A bucket\<close>

text \<open>One that lists at most a thousand keys a page and refuses a taken key with 412.\<close>

definition bucket_client :: "memory_log s3_client" where
  "bucket_client = \<lparr>
     put_object = (\<lambda>c k v b. if c \<and> map_of (objects b) k \<noteq> None
        then (Inl (ServiceError 412 False ''PreconditionFailed''), b)
        else (Inr (), b\<lparr>objects := om_insert k v (objects b)\<rparr>)),
     get_object = (\<lambda>k b. case map_of (objects b) k of
        None \<Rightarrow> Inl (ServiceError 404 True ''NoSuchKey'') | Some v \<Rightarrow> Inr (Inr v)),
     list_objects_v2 = (\<lambda>p a b. Inr (map Some (take 1000
        (filter (\<lambda>k. starts_with k p \<and> a < k) (map fst (objects b))))))\<rparr>"

interpretation bucket: s3_bucket bucket_client memory_objs memory_ok
proof (unfold_locales, goal_cases)
  case (8 b p a ks)
  then have "ks = map Some (take 1000 (keys_after (memory_objs b) p a))"
    using memory_list_keys [of b p a] by (simp add: bucket_client_def)
  moreover have "keys_after (memory_objs b) p a = take 1000 (keys_after (memory_objs b) p a) @
      drop 1000 (keys_after (memory_objs b) p a)" by simp
  moreover have "take 1000 xs = [] \<longrightarrow> drop 1000 xs = []" for xs :: "string list" by simp
  ultimately show ?case by blast
qed (auto simp: bucket_client_def memory_defs finite_dom_map_of split: if_splits option.splits)

end
