(* ===== verification/ManagedStorage.thy ===== *)
theory ManagedStorage
  imports RepoNamespaces
begin

text \<open>
  Managed storage locations (\<^verbatim>\<open>uc_db::managed_storage\<close>): the root of a schema, found on the schema or
  its catalog, and the locations derived from it. An \<open>i32\<close> version is an \<open>int\<close>.
\<close>

text \<open>\<open>trim_end_matches('/')\<close>.\<close>

definition trim_end_slashes :: "string \<Rightarrow> string" where
  "trim_end_slashes s = rev (dropWhile (\<lambda>c. c = CHR ''/'') (rev s))"

definition no_managed_storage :: "catalog_row \<Rightarrow> schema_row \<Rightarrow> uc_error" where
  "no_managed_storage cat sch = uc_err InvalidArgument
     (''No managed storage configured for '' @ cat_name cat @ ''.'' @ sch_name sch @
      ''. Set storage_root on the catalog or schema, or provide an explicit storage_location.'')"

definition resolve_from_rows :: "catalog_row \<Rightarrow> schema_row \<Rightarrow> string res" where
  "resolve_from_rows cat sch =
     (case sch_storage_root sch of
        Some root \<Rightarrow>
          (if root \<noteq> [] then Inr (trim_end_slashes root)
           else case cat_storage_root cat of
                  Some croot \<Rightarrow> if croot \<noteq> [] then Inr (trim_end_slashes croot) else Inl (no_managed_storage cat sch)
                | None \<Rightarrow> Inl (no_managed_storage cat sch))
      | None \<Rightarrow>
          (case cat_storage_root cat of
             Some croot \<Rightarrow> if croot \<noteq> [] then Inr (trim_end_slashes croot) else Inl (no_managed_storage cat sch)
           | None \<Rightarrow> Inl (no_managed_storage cat sch)))"

definition resolve_storage_root ::
  "('j, 'z) row_codecs_scheme \<Rightarrow> snapshot \<Rightarrow> string \<Rightarrow> string \<Rightarrow> string res" where
  "resolve_storage_root E s catalog_name schema_name =
     rbind (schema_get_by_full_name E s catalog_name schema_name) (\<lambda>schema.
     rbind (catalog_get_by_name s catalog_name) (\<lambda>catalog.
     resolve_from_rows catalog schema))"

definition managed_table_location :: "('j, 'z) row_codecs_scheme \<Rightarrow> string \<Rightarrow> uuid \<Rightarrow> uuid \<Rightarrow> string" where
  "managed_table_location E root sid i =
     trim_end_slashes root @ ''/schemas/'' @ uuid_text E sid @ ''/tables/'' @ uuid_text E i"

definition managed_volume_location :: "('j, 'z) row_codecs_scheme \<Rightarrow> string \<Rightarrow> uuid \<Rightarrow> uuid \<Rightarrow> string" where
  "managed_volume_location E root sid i =
     trim_end_slashes root @ ''/schemas/'' @ uuid_text E sid @ ''/volumes/'' @ uuid_text E i"

definition managed_model_location :: "('j, 'z) row_codecs_scheme \<Rightarrow> string \<Rightarrow> uuid \<Rightarrow> uuid \<Rightarrow> string" where
  "managed_model_location E root sid i =
     trim_end_slashes root @ ''/schemas/'' @ uuid_text E sid @ ''/models/'' @ uuid_text E i"

definition managed_model_version_location :: "string \<Rightarrow> int \<Rightarrow> string" where
  "managed_model_version_location model_location v =
     trim_end_slashes model_location @ ''/versions/'' @ show_int v"

definition staging_table_location :: "('j, 'z) row_codecs_scheme \<Rightarrow> string \<Rightarrow> uuid \<Rightarrow> uuid \<Rightarrow> string" where
  "staging_table_location E root sid i =
     trim_end_slashes root @ ''/schemas/'' @ uuid_text E sid @ ''/staging/'' @ uuid_text E i"

section \<open>Facts\<close>

lemma trim_end_slashes_last: "trim_end_slashes s = [] \<or> last (trim_end_slashes s) \<noteq> CHR ''/''"
  using hd_dropWhile [of "\<lambda>c. c = CHR ''/''" "rev s"] by (auto simp: trim_end_slashes_def last_rev)

lemma trim_end_slashes_id: "s = [] \<or> last s \<noteq> CHR ''/'' \<Longrightarrow> trim_end_slashes s = s"
  by (cases s rule: rev_cases) (auto simp: trim_end_slashes_def)

lemma trim_end_slashes_idem [simp]: "trim_end_slashes (trim_end_slashes s) = trim_end_slashes s"
  by (rule trim_end_slashes_id [OF trim_end_slashes_last])

text \<open>
  Under one root the locations of the five kinds are told apart, and so are those of two objects: no
  one is a path prefix of another.
\<close>

lemma uuid_segment_split:
  assumes "uuid_text_ok us" "us x @ CHR ''/'' # a = us y @ CHR ''/'' # b"
  shows "x = y" "a = b"
proof -
  have "length (us x) = length (us y)" "inj us" using assms(1) by (auto simp: uuid_text_ok_def)
  with assms(2) show "x = y" "a = b" by (auto simp: append_eq_append_conv inj_eq)
qed

lemma uuid_suffix_split:
  assumes "uuid_text_ok us" "us x @ CHR ''/'' # a = us y"
  shows False
proof -
  have "length (us x) = length (us y)" using assms(1) by (simp add: uuid_text_ok_def)
  with arg_cong [OF assms(2), of length] show False by simp
qed

end
