(* ===== verification/S3Properties.thy ===== *)
theory S3Properties
  imports S3Log RepoProperties ManagedStorage
begin

text \<open>
  The commit protocol on S3 itself, the separation of the organisations that share a bucket, and the
  managed storage locations.
\<close>

section \<open>The protocol on S3\<close>

context s3_bucket begin

lemmas s3_commit_spec = s3.commit_spec
lemmas s3_catch_up_spec = s3.catch_up_spec

text \<open>Writes under one root do not reach the keys of another.\<close>

lemma other_root_untouched:
  assumes "binv b" "\<And>k k'. s3_full s k \<noteq> s3_full t k'"
  shows "s3_objs objs t (snd (op_put_if_absent (s3_ops client s) k v b)) = s3_objs objs t b"
    "s3_objs objs t (snd (op_put (s3_ops client s) k v b)) = s3_objs objs t b"
proof -
  have upd: "s3_objs objs t b' = s3_objs objs t b"
    if "objs b' = objs b \<or> objs b' = (objs b)(s3_full s k \<mapsto> v)" for b'
    using that assms(2) [of k, symmetric] by (auto simp: s3_objs_def fun_eq_iff)
  have put: "objs (snd (put_object client c (s3_full s k) v b)) = objs b \<or>
      objs (snd (put_object client c (s3_full s k) v b)) = (objs b)(s3_full s k \<mapsto> v)" for c
    using put_ok [OF assms(1), of c "s3_full s k" v] put_failed [OF assms(1), of c "s3_full s k" v]
    by (cases "put_object client c (s3_full s k) v b"; cases "fst (put_object client c (s3_full s k) v b)") auto
  show "s3_objs objs t (snd (op_put_if_absent (s3_ops client s) k v b)) = s3_objs objs t b"
    using upd [OF put [of True]]
    by (auto simp: s3_ops_def s3_put_if_absent_def Let_def split: prod.splits sum.splits)
  show "s3_objs objs t (snd (op_put (s3_ops client s) k v b)) = s3_objs objs t b"
    using upd [OF put [of False]]
    by (auto simp: s3_ops_def s3_put_def split: prod.splits sum.splits)
qed

end

text \<open>
  C12: The commit loop on S3, for every client that keeps what S3 documents and every root: it always
  comes back, whatever requests fail; the log only grows; a success was decided on the state right
  before its own commit and is in memory. When no request fails, the only other outcomes are giving up
  after the bounded number of lost races and the build's own error on a state that is at least as new.
\<close>

lemma s3_commit_linearises:
  assumes "s3_bucket client objs binv"
    and "log_good E (s3_objs objs s) binv (log st) cs" "state_at E (state st) n cs"
    and "rely E (s3_objs objs s) binv M w" "build_ok E build"
    and "\<And>a. line_ok E (LineCommitInfo (commit_header w a operation))"
    and "length cs + max_commit_attempts * Suc M + 1 < u64_max"
  shows "\<exists>r st' cs'. commit E (s3_ops client s) w operation build st = Some (r, st') \<and>
    log_good E (s3_objs objs s) binv (log st') (cs @ cs') \<and>
    (\<exists>m \<ge> n. state_at E (state st') m (cs @ cs')) \<and>
    (\<forall>out. r = Inr out \<longrightarrow> decided E build (state st') (cs @ cs') out) \<and>
    (\<forall>e. r = Inl e \<longrightarrow> reliable (s3_ops client s) \<longrightarrow> e = commit_contention \<or>
       (\<exists>a s0 k. n \<le> k \<and> state_at E s0 k (cs @ cs') \<and> build a s0 = Inl e))"
  by (rule s3_bucket.s3_commit_spec [OF assms])

lemma s3_empty_log_good: "log_good E (s3_objs memory_objs s) memory_ok memory_new []"
  by (simp add: log_good_def log_holds_def checkpoints_ok_def memory_ok_def memory_objs_def
      memory_new_def u64_max_def s3_objs_def comp_def)

lemma s3_commit_linearises_witness:
  "\<exists>r st' cs'. commit sample (s3_ops bucket_client (s3_new ''acme'')) sample_world ''CREATE CATALOG''
      (sample_build 0) sample_start = Some (r, st') \<and>
    log_good sample (s3_objs memory_objs (s3_new ''acme'')) memory_ok (log st') ([] @ cs')"
proof -
  have good: "log_good sample (s3_objs memory_objs (s3_new ''acme'')) memory_ok (log sample_start) []"
    using s3_empty_log_good by (simp add: sample_start_def)
  have rely: "rely sample (s3_objs memory_objs (s3_new ''acme'')) memory_ok 0 sample_world"
    by (auto simp: rely_def sample_world_def)
  show ?thesis
    using s3_commit_linearises [OF bucket.s3_bucket_axioms good sample_start_state rely sample_build_ok
        sample_header_ok sample_room] by blast
qed

text \<open>
  C36: Two organisations with different slugs share a bucket without meeting: whatever one writes, the
  other's log stays as it was, and a key read back from a listing is the key that was written.
\<close>

lemma organisations_isolated:
  assumes "s3_bucket client objs binv" "binv b"
    and "x \<noteq> y" "x \<noteq> []" "y \<noteq> []" "CHR ''/'' \<notin> set x" "CHR ''/'' \<notin> set y"
  shows "s3_objs objs (s3_new y) (snd (s3_put_if_absent client (s3_new x) k v b)) = s3_objs objs (s3_new y) b \<and>
    s3_objs objs (s3_new y) (snd (s3_put client (s3_new x) k v b)) = s3_objs objs (s3_new y) b \<and>
    s3_strip (s3_new x) (s3_full (s3_new x) k) = Some k \<and> s3_strip (s3_new y) (s3_full (s3_new x) k) = None"
proof -
  have root: "s3_root (s3_new z) = z @ ''/''" if "z \<noteq> []" "CHR ''/'' \<notin> set z" for z
    using that by (auto simp: s3_new_def ends_with_iff)
  have apart: "s3_full (s3_new x) k \<noteq> s3_full (s3_new y) k'" for k k'
  proof
    assume "s3_full (s3_new x) k = s3_full (s3_new y) k'"
    then have "x @ CHR ''/'' # k = y @ CHR ''/'' # k'"
      using root assms(4-7) by (simp add: s3_full_def)
    then have "takeWhile (\<lambda>c. c \<noteq> CHR ''/'') (x @ CHR ''/'' # k) =
        takeWhile (\<lambda>c. c \<noteq> CHR ''/'') (y @ CHR ''/'' # k')" by simp
    moreover have "takeWhile (\<lambda>c. c \<noteq> CHR ''/'') (z @ CHR ''/'' # r) = z" if "CHR ''/'' \<notin> set z" for z r
      using that by (induction z) auto
    ultimately show False using assms(3,6,7) by simp
  qed
  have "s3_strip (s3_new y) (s3_full (s3_new x) k) = None"
  proof (rule ccontr)
    assume "\<not> ?thesis"
    then obtain k' where "s3_strip (s3_new y) (s3_full (s3_new x) k) = Some k'" by blast
    then show False using strip_prefix_SomeD apart by (fastforce simp: s3_strip_def s3_full_def)
  qed
  with s3_bucket.other_root_untouched [OF assms(1,2) apart, of k v] show ?thesis
    by (simp add: s3_ops_def)
qed

lemma organisations_isolated_witness:
  "s3_objs memory_objs (s3_new ''beta'') (snd (s3_put_if_absent bucket_client (s3_new ''acme'')
      (commit_key 1) ''body'' memory_new)) = s3_objs memory_objs (s3_new ''beta'') memory_new"
  using organisations_isolated [OF bucket.s3_bucket_axioms, of memory_new "''acme''" "''beta''"]
  by (simp add: memory_ok_def memory_new_def)

section \<open>Managed locations\<close>

text \<open>
  The managed root of a schema is its own storage root, or its catalog's, in that order and never
  empty-handed when one of them is set; it has no trailing slash, and the locations derived from it
  for tables, volumes, models and staging are different for different objects.
\<close>

lemma managed_locations_distinct:
  assumes "uuid_text_ok (uuid_text E)"
  shows "(case resolve_from_rows cat sch of
      Inr root \<Rightarrow> (root = [] \<or> last root \<noteq> CHR ''/'') \<and>
        (\<exists>raw. raw \<noteq> [] \<and> root = trim_end_slashes raw \<and>
          (sch_storage_root sch = Some raw \<or>
           (sch_storage_root sch = None \<or> sch_storage_root sch = Some []) \<and> cat_storage_root cat = Some raw))
    | Inl e \<Rightarrow> e = no_managed_storage cat sch \<and>
        sch_storage_root sch \<in> {None, Some []} \<and> cat_storage_root cat \<in> {None, Some []}) \<and>
    (managed_table_location E root sid i = managed_table_location E root sid' j \<longleftrightarrow> sid = sid' \<and> i = j) \<and>
    managed_table_location E root sid i \<noteq> managed_volume_location E root sid' j \<and>
    managed_table_location E root sid i \<noteq> managed_model_location E root sid' j \<and>
    managed_table_location E root sid i \<noteq> staging_table_location E root sid' j \<and>
    managed_volume_location E root sid i \<noteq> managed_model_location E root sid' j \<and>
    (staging_table_location E root sid i = staging_table_location E root sid' j \<longleftrightarrow> sid = sid' \<and> i = j)"
proof -
  have inj: "uuid_text E a = uuid_text E b \<longleftrightarrow> a = b" for a b
    using assms by (auto simp: uuid_text_ok_def inj_eq)
  note loc = managed_table_location_def managed_volume_location_def managed_model_location_def
    staging_table_location_def
  have "case resolve_from_rows cat sch of
      Inr root \<Rightarrow> (root = [] \<or> last root \<noteq> CHR ''/'') \<and>
        (\<exists>raw. raw \<noteq> [] \<and> root = trim_end_slashes raw \<and>
          (sch_storage_root sch = Some raw \<or>
           (sch_storage_root sch = None \<or> sch_storage_root sch = Some []) \<and> cat_storage_root cat = Some raw))
    | Inl e \<Rightarrow> e = no_managed_storage cat sch \<and>
        sch_storage_root sch \<in> {None, Some []} \<and> cat_storage_root cat \<in> {None, Some []}"
    using trim_end_slashes_last by (auto simp: resolve_from_rows_def split: option.splits)
  moreover have "managed_table_location E root sid i = managed_table_location E root sid' j \<longleftrightarrow> sid = sid' \<and> i = j"
    "staging_table_location E root sid i = staging_table_location E root sid' j \<longleftrightarrow> sid = sid' \<and> i = j"
    by (auto simp: loc inj dest: uuid_segment_split [OF assms])
  moreover have "managed_table_location E root sid i \<noteq> managed_volume_location E root sid' j"
    "managed_table_location E root sid i \<noteq> managed_model_location E root sid' j"
    "managed_table_location E root sid i \<noteq> staging_table_location E root sid' j"
    "managed_volume_location E root sid i \<noteq> managed_model_location E root sid' j"
    by (auto simp: loc dest: uuid_segment_split [OF assms])
  ultimately show ?thesis by blast
qed

lemma managed_locations_distinct_witness:
  "managed_table_location sample ''s3://b'' 1 2 \<noteq> managed_table_location sample ''s3://b'' 1 3"
  using managed_locations_distinct [OF _, of sample sample_catalog sample_schema "''s3://b''" 1 2 1 3] uuid_display_ok
  by simp

end
