(* ===== verification/Authorizer.thy ===== *)
theory Authorizer
  imports UcTypes OMap Rows
begin

text \<open>
  The authorizer of \<^verbatim>\<open>uc_auth::authorizer\<close>: the trait as a record of operations over a state of its
  own, the implementation over casbin and the one that allows everything. The casbin engine is a
  parameter, and what its documentation says of it, for the model of
  \<^verbatim>\<open>jcasbin_auth_model.conf\<close>, is the locale \<open>casbin_engine\<close>.
\<close>

section \<open>The trait\<close>

record 'a authorizer =
  au_authorize :: "uuid \<Rightarrow> uuid \<Rightarrow> privilege \<Rightarrow> 'a \<Rightarrow> bool res"
  au_authorize_any :: "uuid \<Rightarrow> uuid \<Rightarrow> privilege list \<Rightarrow> 'a \<Rightarrow> bool res"
  au_grant :: "uuid \<Rightarrow> uuid \<Rightarrow> privilege \<Rightarrow> 'a \<Rightarrow> unit res \<times> 'a"
  au_revoke :: "uuid \<Rightarrow> uuid \<Rightarrow> privilege \<Rightarrow> 'a \<Rightarrow> unit res \<times> 'a"
  au_add_hierarchy_child :: "uuid \<Rightarrow> uuid \<Rightarrow> 'a \<Rightarrow> unit res \<times> 'a"
  au_remove_hierarchy_children :: "uuid \<Rightarrow> 'a \<Rightarrow> unit res \<times> 'a"
  au_list_privileges :: "uuid \<Rightarrow> uuid \<Rightarrow> 'a \<Rightarrow> privilege list res"
  au_list_grants_on_resource :: "uuid \<Rightarrow> 'a \<Rightarrow> (uuid \<times> privilege list) list res"

section \<open>The casbin engine\<close>

text \<open>The calls the module makes; an error is its \<open>Display\<close> text.\<close>

record 'e casbin_api =
  ce_enforce :: "string \<Rightarrow> string \<Rightarrow> string \<Rightarrow> 'e \<Rightarrow> string + bool"
  ce_add_policy :: "string list \<Rightarrow> 'e \<Rightarrow> (string + bool) \<times> 'e"
  ce_remove_policy :: "string list \<Rightarrow> 'e \<Rightarrow> (string + bool) \<times> 'e"
  ce_add_named_grouping_policy :: "string \<Rightarrow> string list \<Rightarrow> 'e \<Rightarrow> (string + bool) \<times> 'e"
  ce_remove_named_grouping_policy :: "string \<Rightarrow> string list \<Rightarrow> 'e \<Rightarrow> (string + bool) \<times> 'e"
  ce_get_policy :: "'e \<Rightarrow> string list list"

text \<open>The rendering of ids: \<open>Uuid::to_string\<close> and \<open>str::parse::<Uuid>\<close>.\<close>

record uuid_texts =
  id_text :: "uuid \<Rightarrow> string"
  id_parse :: "string \<Rightarrow> uuid option"

text \<open>A casbin result mapped to the module's error.\<close>

definition casbin_res :: "string \<Rightarrow> string + 'b \<Rightarrow> 'b res" where
  "casbin_res what r = (case r of Inl e \<Rightarrow> Inl (uc_err Internal (what @ '': '' @ e)) | Inr x \<Rightarrow> Inr x)"

definition casbin_done :: "string \<Rightarrow> (string + bool) \<times> 'e \<Rightarrow> unit res \<times> 'e" where
  "casbin_done what p = (rbind (casbin_res what (fst p)) (\<lambda>_. Inr ()), snd p)"

section \<open>The implementation over casbin\<close>

definition authorize :: "'e casbin_api \<Rightarrow> uuid_texts \<Rightarrow> uuid \<Rightarrow> uuid \<Rightarrow> privilege \<Rightarrow> 'e \<Rightarrow> bool res" where
  "authorize C X who resource privilege e =
     casbin_res ''Casbin enforce failed''
       (ce_enforce C (id_text X who) (id_text X resource) (as_casbin_str privilege) e)"

fun authorize_any :: "'e casbin_api \<Rightarrow> uuid_texts \<Rightarrow> uuid \<Rightarrow> uuid \<Rightarrow> privilege list \<Rightarrow> 'e \<Rightarrow> bool res" where
  "authorize_any C X who resource [] e = Inr False"
| "authorize_any C X who resource (p # ps) e =
     rbind (authorize C X who resource p e) (\<lambda>ok.
     if ok then Inr True else authorize_any C X who resource ps e)"

definition grant :: "'e casbin_api \<Rightarrow> uuid_texts \<Rightarrow> uuid \<Rightarrow> uuid \<Rightarrow> privilege \<Rightarrow> 'e \<Rightarrow> unit res \<times> 'e" where
  "grant C X who resource privilege e =
     casbin_done ''Casbin add_policy failed''
       (ce_add_policy C [id_text X who, id_text X resource, as_casbin_str privilege] e)"

definition revoke :: "'e casbin_api \<Rightarrow> uuid_texts \<Rightarrow> uuid \<Rightarrow> uuid \<Rightarrow> privilege \<Rightarrow> 'e \<Rightarrow> unit res \<times> 'e" where
  "revoke C X who resource privilege e =
     casbin_done ''Casbin remove_policy failed''
       (ce_remove_policy C [id_text X who, id_text X resource, as_casbin_str privilege] e)"

definition add_hierarchy_child :: "'e casbin_api \<Rightarrow> uuid_texts \<Rightarrow> uuid \<Rightarrow> uuid \<Rightarrow> 'e \<Rightarrow> unit res \<times> 'e" where
  "add_hierarchy_child C X parent child e =
     casbin_done ''Casbin hierarchy failed''
       (ce_add_named_grouping_policy C ''g2'' [id_text X child, id_text X parent] e)"

definition remove_hierarchy_children :: "'e casbin_api \<Rightarrow> uuid_texts \<Rightarrow> uuid \<Rightarrow> 'e \<Rightarrow> unit res \<times> 'e" where
  "remove_hierarchy_children C X resource e =
     casbin_done ''Casbin remove hierarchy failed''
       (ce_remove_named_grouping_policy C ''g2'' [id_text X resource, []] e)"

definition list_privileges ::
  "'e casbin_api \<Rightarrow> uuid_texts \<Rightarrow> uuid \<Rightarrow> uuid \<Rightarrow> 'e \<Rightarrow> privilege list res" where
  "list_privileges C X who resource e = Inr (List.map_filter
     (\<lambda>p. case p of
            subject # object # action # _ \<Rightarrow>
              if subject = id_text X who \<and> object = id_text X resource
              then from_casbin_str action else None
          | _ \<Rightarrow> None) (ce_get_policy C e))"

text \<open>The loop over the policies, with the map from principals to their privileges.\<close>

definition collect_grant ::
  "uuid_texts \<Rightarrow> string \<Rightarrow> string list \<Rightarrow> (uuid, privilege list) omap \<Rightarrow> (uuid, privilege list) omap" where
  "collect_grant X resource p m =
     (case p of
        subject # object # action # _ \<Rightarrow>
          (if object \<noteq> resource then m
           else case (id_parse X subject, from_casbin_str action) of
             (Some who, Some priv) \<Rightarrow>
               om_insert who ((case map_of m who of None \<Rightarrow> [] | Some ps \<Rightarrow> ps) @ [priv]) m
           | _ \<Rightarrow> m)
      | _ \<Rightarrow> m)"

definition list_grants_on_resource ::
  "'e casbin_api \<Rightarrow> uuid_texts \<Rightarrow> uuid \<Rightarrow> 'e \<Rightarrow> (uuid \<times> privilege list) list res" where
  "list_grants_on_resource C X resource e =
     Inr (fold (collect_grant X (id_text X resource)) (ce_get_policy C e) [])"

definition uc_authorizer :: "'e casbin_api \<Rightarrow> uuid_texts \<Rightarrow> 'e authorizer" where
  "uc_authorizer C X = \<lparr>au_authorize = authorize C X, au_authorize_any = authorize_any C X,
     au_grant = grant C X, au_revoke = revoke C X, au_add_hierarchy_child = add_hierarchy_child C X,
     au_remove_hierarchy_children = remove_hierarchy_children C X, au_list_privileges = list_privileges C X,
     au_list_grants_on_resource = list_grants_on_resource C X\<rparr>"

text \<open>Seeding the privilege hierarchy, and the owner of the metastore.\<close>

fun seed_edges :: "'e casbin_api \<Rightarrow> (string \<times> string) list \<Rightarrow> 'e \<Rightarrow> unit res \<times> 'e" where
  "seed_edges C [] e = (Inr (), e)"
| "seed_edges C ((parent, child) # es) e =
     (case casbin_done ''Casbin seed g3 failed'' (ce_add_named_grouping_policy C ''g3'' [parent, child] e) of
        (Inl x, e') \<Rightarrow> (Inl x, e')
      | (Inr _, e') \<Rightarrow> seed_edges C es e')"

definition seed_privilege_hierarchy :: "'e casbin_api \<Rightarrow> 'e \<Rightarrow> unit res \<times> 'e" where
  "seed_privilege_hierarchy C e = seed_edges C hierarchy_edges e"

definition seeded :: "'e casbin_api \<Rightarrow> string + 'e \<Rightarrow> 'e res" where
  "seeded C enforcer =
     rbind (casbin_res ''Casbin enforcer init failed'' enforcer) (\<lambda>e.
     let (r, e') = seed_privilege_hierarchy C e in rbind r (\<lambda>_. Inr e'))"

text \<open>Loading the model, opening the adapter and building the enforcer are casbin's.\<close>

definition new_in_memory :: "'e casbin_api \<Rightarrow> string + 'm \<Rightarrow> ('m \<Rightarrow> string + 'e) \<Rightarrow> 'e res" where
  "new_in_memory C model new_enforcer =
     rbind (casbin_res ''Casbin model load failed'' model) (\<lambda>m. seeded C (new_enforcer m))"

definition new_with_db ::
  "'e casbin_api \<Rightarrow> string + 'm \<Rightarrow> string + 'd \<Rightarrow> ('m \<Rightarrow> 'd \<Rightarrow> string + 'e) \<Rightarrow> 'e res" where
  "new_with_db C model adapter new_enforcer =
     rbind (casbin_res ''Casbin model load failed'' model) (\<lambda>m.
     rbind (casbin_res ''Casbin DB adapter init failed'' adapter) (\<lambda>d. seeded C (new_enforcer m d)))"

definition init_admin :: "'e casbin_api \<Rightarrow> uuid_texts \<Rightarrow> uuid \<Rightarrow> uuid \<Rightarrow> 'e \<Rightarrow> unit res \<times> 'e" where
  "init_admin C X admin metastore e = grant C X admin metastore Owner e"

section \<open>The implementation that allows everything\<close>

definition allowing_authorizer :: "'a authorizer" where
  "allowing_authorizer = \<lparr>au_authorize = (\<lambda>_ _ _ _. Inr True), au_authorize_any = (\<lambda>_ _ _ _. Inr True),
     au_grant = (\<lambda>_ _ _ e. (Inr (), e)), au_revoke = (\<lambda>_ _ _ e. (Inr (), e)),
     au_add_hierarchy_child = (\<lambda>_ _ e. (Inr (), e)), au_remove_hierarchy_children = (\<lambda>_ e. (Inr (), e)),
     au_list_privileges = (\<lambda>_ _ _. Inr []), au_list_grants_on_resource = (\<lambda>_ _. Inr [])\<rparr>"

section \<open>What casbin documents\<close>

type_synonym policy_rules = "string \<Rightarrow> string list set"    \<comment> \<open>the rules of each policy type\<close>

definition link_step :: "policy_rules \<Rightarrow> string \<Rightarrow> (string \<times> string) set" where
  "link_step R g = {(a, b). [a, b] \<in> R g}"

text \<open>
  The matcher \<^verbatim>\<open>g(p.sub, r.sub) && g2(r.obj, p.obj) && g3(p.act, r.act)\<close> with some policy that
  satisfies it; \<open>L g a b\<close> says that \<open>a\<close> is linked to \<open>b\<close> in the grouping \<open>g\<close>.
\<close>

definition matcher :: "(string \<Rightarrow> string \<Rightarrow> string \<Rightarrow> bool) \<Rightarrow> policy_rules \<Rightarrow> string \<Rightarrow> string \<Rightarrow> string \<Rightarrow> bool" where
  "matcher L R sub obj act \<longleftrightarrow> (\<exists>psub pobj pact. [psub, pobj, pact] \<in> R ''p'' \<and>
     L ''g'' psub sub \<and> L ''g2'' obj pobj \<and> L ''g3'' pact act)"

text \<open>Links are reflexive and transitive; only chains of up to ten steps are sure to be followed.\<close>

definition max_hierarchy_level :: nat where
  "max_hierarchy_level = 10"

definition linked :: "policy_rules \<Rightarrow> string \<Rightarrow> string \<Rightarrow> string \<Rightarrow> bool" where
  "linked R g a b \<longleftrightarrow> (a, b) \<in> (link_step R g)\<^sup>*"

definition linked_within :: "nat \<Rightarrow> policy_rules \<Rightarrow> string \<Rightarrow> string \<Rightarrow> string \<Rightarrow> bool" where
  "linked_within n R g a b \<longleftrightarrow> (\<exists>k \<le> n. (a, b) \<in> link_step R g ^^ k)"

locale casbin_engine =
  fixes C :: "'e casbin_api"
    and rules :: "'e \<Rightarrow> policy_rules"
    and einv :: "'e \<Rightarrow> bool"
  assumes enforce_sound: "einv e \<Longrightarrow> ce_enforce C s ob a e = Inr True \<Longrightarrow> matcher (linked (rules e)) (rules e) s ob a"
    and enforce_complete: "einv e \<Longrightarrow> ce_enforce C s ob a e = Inr b \<Longrightarrow>
      matcher (linked_within max_hierarchy_level (rules e)) (rules e) s ob a \<Longrightarrow> b"
    and add_policy: "einv e \<Longrightarrow> ce_add_policy C r e = (q, e') \<Longrightarrow> einv e' \<and>
      rules e' = (case q of Inl _ \<Rightarrow> rules e | Inr _ \<Rightarrow> (rules e)(''p'' := insert r (rules e ''p'')))"
    and remove_policy: "einv e \<Longrightarrow> ce_remove_policy C r e = (q, e') \<Longrightarrow> einv e' \<and>
      rules e' = (case q of Inl _ \<Rightarrow> rules e | Inr _ \<Rightarrow> (rules e)(''p'' := rules e ''p'' - {r}))"
    and add_grouping: "einv e \<Longrightarrow> ce_add_named_grouping_policy C g r e = (q, e') \<Longrightarrow> einv e' \<and>
      rules e' = (case q of Inl _ \<Rightarrow> rules e | Inr _ \<Rightarrow> (rules e)(g := insert r (rules e g)))"
    and remove_grouping: "einv e \<Longrightarrow> ce_remove_named_grouping_policy C g r e = (q, e') \<Longrightarrow> einv e' \<and>
      rules e' = (case q of Inl _ \<Rightarrow> rules e | Inr _ \<Rightarrow> (rules e)(g := rules e g - {r}))"
    and get_policy: "einv e \<Longrightarrow> set (ce_get_policy C e) = rules e ''p''"

end
