(* ===== verification/AuthorizerSpec.thy ===== *)
theory AuthorizerSpec
  imports Authorizer
begin

text \<open>
  What the authorizer promises: a set of grants, an object hierarchy, and a request allowed when some
  grant of the caller is on the object or above it and implies the privilege. The rules of casbin
  represent the two sets, every operation of the trait acts on them, and the matcher decides the
  request.
\<close>

type_synonym grants = "(uuid \<times> uuid \<times> privilege) set"     \<comment> \<open>principal, resource, privilege\<close>
type_synonym parents = "(uuid \<times> uuid) set"                \<comment> \<open>child, parent\<close>

definition allowed :: "grants \<Rightarrow> parents \<Rightarrow> uuid \<Rightarrow> uuid \<Rightarrow> privilege \<Rightarrow> bool" where
  "allowed G H p r q \<longleftrightarrow> (\<exists>ob q'. (p, ob, q') \<in> G \<and> (r, ob) \<in> H\<^sup>* \<and> priv_implies q' q)"

definition allowed_within :: "nat \<Rightarrow> grants \<Rightarrow> parents \<Rightarrow> uuid \<Rightarrow> uuid \<Rightarrow> privilege \<Rightarrow> bool" where
  "allowed_within n G H p r q \<longleftrightarrow>
     (\<exists>ob q' k. (p, ob, q') \<in> G \<and> k \<le> n \<and> (r, ob) \<in> H ^^ k \<and> priv_implies q' q)"

lemma allowed_withinD: "allowed_within n G H p r q \<Longrightarrow> allowed G H p r q"
  unfolding allowed_def allowed_within_def rtrancl_power by blast

definition grant_rule :: "uuid_texts \<Rightarrow> uuid \<Rightarrow> uuid \<Rightarrow> privilege \<Rightarrow> string list" where
  "grant_rule X p r q = [id_text X p, id_text X r, as_casbin_str q]"

text \<open>The rules that represent grants and hierarchy.\<close>

definition represents :: "uuid_texts \<Rightarrow> policy_rules \<Rightarrow> grants \<Rightarrow> parents \<Rightarrow> bool" where
  "represents X R G H \<longleftrightarrow> R ''p'' = (\<lambda>(p, r, q). grant_rule X p r q) ` G \<and> R ''g'' = {} \<and>
     R ''g2'' = (\<lambda>(c, p). [id_text X c, id_text X p]) ` H \<and>
     R ''g3'' = (\<lambda>(a, b). [a, b]) ` set hierarchy_edges"

definition texts_ok :: "uuid_texts \<Rightarrow> bool" where
  "texts_ok X \<longleftrightarrow> uuid_text_ok (id_text X) \<and> (\<forall>u. id_parse X (id_text X u) = Some u)"

lemma texts_inj: "texts_ok X \<Longrightarrow> id_text X a = id_text X b \<longleftrightarrow> a = b"
  by (auto simp: texts_ok_def uuid_text_ok_def inj_eq)

lemma texts_nonempty:
  assumes "texts_ok X"
  shows "id_text X a \<noteq> []"
proof -
  have "length (id_text X a) = 36" using assms by (simp add: texts_ok_def uuid_text_ok_def)
  then show ?thesis by auto
qed

lemma grant_rule_inj: "texts_ok X \<Longrightarrow> grant_rule X p r q = grant_rule X p' r' q' \<longleftrightarrow> p = p' \<and> r = r' \<and> q = q'"
  by (simp add: grant_rule_def texts_inj as_casbin_str_inj)

section \<open>The matcher on the represented sets\<close>

lemma represented_steps:
  assumes "represents X R G H"
  shows "link_step R ''g'' = {}" "link_step R ''g2'' = map_prod (id_text X) (id_text X) ` H"
    "link_step R ''g3'' = map_prod as_casbin_str as_casbin_str ` priv_edges"
proof -
  show "link_step R ''g'' = {}" using assms by (simp add: represents_def link_step_def)
  show "link_step R ''g2'' = map_prod (id_text X) (id_text X) ` H"
    using assms by (auto simp: represents_def link_step_def intro: rev_image_eqI)
  have "link_step R ''g3'' = set hierarchy_edges"
    using assms by (auto simp: represents_def link_step_def intro: rev_image_eqI)
  then show "link_step R ''g3'' = map_prod as_casbin_str as_casbin_str ` priv_edges"
    by (simp add: set_hierarchy_edges)
qed

lemma matcher_sound:
  assumes "represents X R G H" "texts_ok X"
    and "matcher (linked R) R (id_text X p) (id_text X r) (as_casbin_str q)"
  shows "allowed G H p r q"
proof -
  note steps = represented_steps [OF assms(1)]
  have inj: "inj (id_text X)" using assms(2) by (simp add: texts_ok_def uuid_text_ok_def)
  from assms(3) obtain ps po pa where rule: "[ps, po, pa] \<in> R ''p''"
    and l: "linked R ''g'' ps (id_text X p)" "linked R ''g2'' (id_text X r) po" "linked R ''g3'' pa (as_casbin_str q)"
    by (auto simp: matcher_def)
  from rule assms(1) obtain p' ob q' where g: "(p', ob, q') \<in> G" "ps = id_text X p'" "po = id_text X ob"
    "pa = as_casbin_str q'" by (auto simp: represents_def grant_rule_def)
  have "p' = p" using l(1) g(2) steps(1) texts_inj [OF assms(2)] by (simp add: linked_def)
  moreover have "(r, ob) \<in> H\<^sup>*"
    using l(2) g(3) texts_inj [OF assms(2)] unfolding linked_def steps(2) rtrancl_map_prod [OF inj] by auto
  moreover have "priv_implies q' q"
    using l(3) g(4) hierarchy_closure [of q' q] unfolding linked_def steps(3) set_hierarchy_edges by simp
  ultimately show ?thesis using g(1) by (auto simp: allowed_def)
qed

lemma matcher_complete:
  assumes "represents X R G H" "texts_ok X" "allowed_within n G H p r q" "2 \<le> n"
  shows "matcher (linked_within n R) R (id_text X p) (id_text X r) (as_casbin_str q)"
proof -
  note steps = represented_steps [OF assms(1)]
  have inj: "inj (id_text X)" using assms(2) by (simp add: texts_ok_def uuid_text_ok_def)
  from assms(3) obtain ob q' k where g: "(p, ob, q') \<in> G" "k \<le> n" "(r, ob) \<in> H ^^ k" "priv_implies q' q"
    by (auto simp: allowed_within_def)
  have "[id_text X p, id_text X ob, as_casbin_str q'] \<in> R ''p''"
    using assms(1) g(1) by (auto simp: represents_def grant_rule_def intro: rev_image_eqI)
  moreover have "linked_within n R ''g'' (id_text X p) (id_text X p)"
    unfolding linked_within_def by (intro exI [of _ 0]) simp
  moreover have "linked_within n R ''g2'' (id_text X r) (id_text X ob)"
    unfolding linked_within_def steps(2) relpow_map_prod [OF inj] using g(2,3) by (auto simp: texts_inj [OF assms(2)])
  moreover obtain j where "j \<le> 2" "(q', q) \<in> priv_edges ^^ j" using priv_edges_reach [OF g(4)] by blast
  then have "linked_within n R ''g3'' (as_casbin_str q') (as_casbin_str q)"
    unfolding linked_within_def steps(3) relpow_map_prod [OF inj_as_casbin_str]
    using assms(4) by (intro exI [of _ j]) auto
  ultimately show ?thesis by (auto simp: matcher_def)
qed

section \<open>The operations on the represented sets\<close>

context casbin_engine begin

lemma authorize_spec:
  assumes "einv e" "represents X (rules e) G H" "texts_ok X" "authorize C X p r q e = Inr b"
  shows "b \<longrightarrow> allowed G H p r q" "allowed_within max_hierarchy_level G H p r q \<longrightarrow> b"
proof -
  have en: "ce_enforce C (id_text X p) (id_text X r) (as_casbin_str q) e = Inr b"
    using assms(4) by (simp add: authorize_def casbin_res_def split: sum.splits)
  show "b \<longrightarrow> allowed G H p r q"
    using enforce_sound [OF assms(1)] matcher_sound [OF assms(2,3)] en by (cases b) auto
  show "allowed_within max_hierarchy_level G H p r q \<longrightarrow> b"
    using enforce_complete [OF assms(1) en] matcher_complete [OF assms(2,3)] by (simp add: max_hierarchy_level_def)
qed

lemma authorize_any_spec:
  assumes "einv e" "represents X (rules e) G H" "texts_ok X" "authorize_any C X p r qs e = Inr b"
  shows "b \<longrightarrow> (\<exists>q \<in> set qs. allowed G H p r q)"
    "(\<exists>q \<in> set qs. allowed_within max_hierarchy_level G H p r q) \<longrightarrow> b"
proof -
  have "(b \<longrightarrow> (\<exists>q \<in> set qs. allowed G H p r q)) \<and>
      ((\<exists>q \<in> set qs. allowed_within max_hierarchy_level G H p r q) \<longrightarrow> b)"
    using assms(4)
  proof (induction qs)
    case (Cons q qs)
    then obtain c where c: "authorize C X p r q e = Inr c" "c \<or> authorize_any C X p r qs e = Inr b" "c \<longrightarrow> b"
      by (auto simp: rbind_eq_Inr split: if_splits)
    with authorize_spec [OF assms(1-3) c(1)] Cons.IH show ?case by (cases c) auto
  qed simp
  then show "b \<longrightarrow> (\<exists>q \<in> set qs. allowed G H p r q)"
    "(\<exists>q \<in> set qs. allowed_within max_hierarchy_level G H p r q) \<longrightarrow> b" by blast+
qed

lemma casbin_done_cases:
  "casbin_done what p = (r, e') \<Longrightarrow> e' = snd p \<and> (case fst p of Inl _ \<Rightarrow> \<exists>x. r = Inl x | Inr _ \<Rightarrow> r = Inr ())"
  by (auto simp: casbin_done_def casbin_res_def split: sum.splits)

lemma grant_spec:
  assumes "einv e" "represents X (rules e) G H" "texts_ok X" "grant C X p r q e = (res, e')"
  shows "einv e' \<and> represents X (rules e') (case res of Inl _ \<Rightarrow> G | Inr _ \<Rightarrow> insert (p, r, q) G) H"
proof -
  obtain c e1 where c: "ce_add_policy C (grant_rule X p r q) e = (c, e1)" by force
  from add_policy [OF assms(1) c] have e1: "einv e1"
    "rules e1 = (case c of Inl _ \<Rightarrow> rules e | Inr _ \<Rightarrow> (rules e)(''p'' := insert (grant_rule X p r q) (rules e ''p'')))"
    by auto
  from assms(4) c have "e' = e1" "case c of Inl _ \<Rightarrow> \<exists>x. res = Inl x | Inr _ \<Rightarrow> res = Inr ()"
    using casbin_done_cases [of _ "(c, e1)"] by (auto simp: grant_def grant_rule_def)
  with e1 assms(2) show ?thesis
    by (auto simp: represents_def split: sum.splits)
qed

lemma revoke_spec:
  assumes "einv e" "represents X (rules e) G H" "texts_ok X" "revoke C X p r q e = (res, e')"
  shows "einv e' \<and> represents X (rules e') (case res of Inl _ \<Rightarrow> G | Inr _ \<Rightarrow> G - {(p, r, q)}) H"
proof -
  obtain c e1 where c: "ce_remove_policy C (grant_rule X p r q) e = (c, e1)" by force
  from remove_policy [OF assms(1) c] have e1: "einv e1"
    "rules e1 = (case c of Inl _ \<Rightarrow> rules e | Inr _ \<Rightarrow> (rules e)(''p'' := rules e ''p'' - {grant_rule X p r q}))"
    by auto
  from assms(4) c have r: "e' = e1" "case c of Inl _ \<Rightarrow> \<exists>x. res = Inl x | Inr _ \<Rightarrow> res = Inr ()"
    using casbin_done_cases [of _ "(c, e1)"] by (auto simp: revoke_def grant_rule_def)
  have "inj (\<lambda>(p, r, q). grant_rule X p r q)"
    by (auto simp: inj_def grant_rule_inj [OF assms(3)])
  from image_set_diff [OF this, of G "{(p, r, q)}"]
  have "(\<lambda>(p, r, q). grant_rule X p r q) ` G - {grant_rule X p r q} =
      (\<lambda>(p, r, q). grant_rule X p r q) ` (G - {(p, r, q)})" by simp
  with e1 r assms(2) show ?thesis
    by (auto simp: represents_def split: sum.splits)
qed

lemma add_hierarchy_child_spec:
  assumes "einv e" "represents X (rules e) G H" "add_hierarchy_child C X parent child e = (res, e')"
  shows "einv e' \<and> represents X (rules e') G (case res of Inl _ \<Rightarrow> H | Inr _ \<Rightarrow> insert (child, parent) H)"
proof -
  obtain c e1 where c: "ce_add_named_grouping_policy C ''g2'' [id_text X child, id_text X parent] e = (c, e1)" by force
  from add_grouping [OF assms(1) c] have e1: "einv e1" "rules e1 = (case c of Inl _ \<Rightarrow> rules e
      | Inr _ \<Rightarrow> (rules e)(''g2'' := insert [id_text X child, id_text X parent] (rules e ''g2'')))" by auto
  from assms(3) c have "e' = e1" "case c of Inl _ \<Rightarrow> \<exists>x. res = Inl x | Inr _ \<Rightarrow> res = Inr ()"
    using casbin_done_cases [of _ "(c, e1)"] by (auto simp: add_hierarchy_child_def)
  with e1 assms(2) show ?thesis
    by (auto simp: represents_def split: sum.splits)
qed

text \<open>The rule that \<open>remove_hierarchy_children\<close> asks casbin to remove is never there.\<close>

lemma remove_hierarchy_children_spec:
  assumes "einv e" "represents X (rules e) G H" "texts_ok X" "remove_hierarchy_children C X r e = (res, e')"
  shows "einv e' \<and> rules e' = rules e"
proof -
  obtain c e1 where c: "ce_remove_named_grouping_policy C ''g2'' [id_text X r, []] e = (c, e1)" by force
  from remove_grouping [OF assms(1) c] have e1: "einv e1" "rules e1 = (case c of Inl _ \<Rightarrow> rules e
      | Inr _ \<Rightarrow> (rules e)(''g2'' := rules e ''g2'' - {[id_text X r, []]}))" by auto
  have "e' = e1"
    using assms(4) c casbin_done_cases [of _ "(c, e1)"] by (auto simp: remove_hierarchy_children_def)
  moreover have "[id_text X r, []] \<notin> rules e ''g2''"
    using assms(2) texts_nonempty [OF assms(3), symmetric] by (auto simp: represents_def)
  ultimately show ?thesis using e1 by (auto split: sum.splits)
qed

lemma set_map_filter: "set (List.map_filter f xs) = {y. \<exists>x \<in> set xs. f x = Some y}"
  by (induction xs) (auto simp: List.map_filter_def)

lemma list_privileges_spec:
  assumes "einv e" "represents X (rules e) G H" "texts_ok X"
  shows "\<exists>ps. list_privileges C X p r e = Inr ps \<and> set ps = {q. (p, r, q) \<in> G}"
proof -
  let ?f = "\<lambda>p'. case p' of s # ob # a # _ \<Rightarrow> if s = id_text X p \<and> ob = id_text X r then from_casbin_str a else None | _ \<Rightarrow> None"
  have pol: "set (ce_get_policy C e) = (\<lambda>(p, r, q). grant_rule X p r q) ` G"
    using get_policy [OF assms(1)] assms(2) by (simp add: represents_def)
  have f: "?f (grant_rule X p' r' q') = Some q \<longleftrightarrow> p' = p \<and> r' = r \<and> q = q'" for p' r' q' q
    by (auto simp: grant_rule_def texts_inj [OF assms(3)])
  have "q \<in> set (List.map_filter ?f (ce_get_policy C e)) \<longleftrightarrow> (\<exists>(p', r', q') \<in> G. ?f (grant_rule X p' r' q') = Some q)" for q
    unfolding set_map_filter pol by (simp add: case_prod_unfold)
  then have "set (List.map_filter ?f (ce_get_policy C e)) = {q. (p, r, q) \<in> G}"
    unfolding f by auto
  then show ?thesis by (simp add: list_privileges_def)
qed

end

end
