(* ===== verification/CasbinAdapter.thy ===== *)
theory CasbinAdapter
  imports RepoPolicy AuthorizerSpec
begin

text \<open>
  The casbin adapter over the store (\<^verbatim>\<open>uc_auth::db_adapter\<close>). The casbin model it fills and reads is
  a parameter. Each call that writes runs its own commit, so a loop of calls takes a world and fresh
  ids per call; \<open>None\<close> is a commit that does not come back.
\<close>

datatype casbin_error = AdapterError uc_error

type_synonym 'a casbin_result = "casbin_error + 'a"

definition adapter_err :: "'a res \<Rightarrow> 'a casbin_result" where
  "adapter_err r = (case r of Inl e \<Rightarrow> Inl (AdapterError e) | Inr x \<Rightarrow> Inr x)"

record 'l sqlx_adapter =
  ad_pool :: "'l store"
  ad_is_filtered :: bool

text \<open>The model: adding a rule to a section, and the policy types of a section with their rules.\<close>

record 'm casbin_model =
  cm_add_policy :: "string \<Rightarrow> string \<Rightarrow> string list \<Rightarrow> 'm \<Rightarrow> 'm"
  cm_section :: "string \<Rightarrow> 'm \<Rightarrow> (string \<times> string list list) list option"

definition sqlx_new :: "'l store \<Rightarrow> 'l sqlx_adapter casbin_result" where
  "sqlx_new pool = Inr \<lparr>ad_pool = pool, ad_is_filtered = False\<rparr>"

definition adapter_load_all :: "'l sqlx_adapter \<Rightarrow> casbin_rule list casbin_result" where
  "adapter_load_all a = adapter_err (casbin_load_all (state (ad_pool a)))"

text \<open>A repository write through the adapter.\<close>

definition on_pool ::
  "('l store \<Rightarrow> ('a res \<times> 'l store) option) \<Rightarrow> 'l sqlx_adapter \<Rightarrow> ('a casbin_result \<times> 'l sqlx_adapter) option" where
  "on_pool f a = map_option (\<lambda>(r, st). (adapter_err r, a\<lparr>ad_pool := st\<rparr>)) (f (ad_pool a))"

definition insert_rule ::
  "('j, 'z) log_env_scheme \<Rightarrow> 'l log_ops \<Rightarrow> 'l world \<Rightarrow> (nat \<Rightarrow> uuid) \<Rightarrow> string \<Rightarrow> string list \<Rightarrow>
   'l sqlx_adapter \<Rightarrow> (bool casbin_result \<times> 'l sqlx_adapter) option" where
  "insert_rule E ops w fresh ptype rule a = on_pool (casbin_insert E ops w fresh (from_parts ptype rule)) a"

definition delete_rule ::
  "('j, 'z) log_env_scheme \<Rightarrow> 'l log_ops \<Rightarrow> 'l world \<Rightarrow> string \<Rightarrow> string list \<Rightarrow>
   'l sqlx_adapter \<Rightarrow> (bool casbin_result \<times> 'l sqlx_adapter) option" where
  "delete_rule E ops w ptype rule a = on_pool (casbin_delete E ops w (from_parts ptype rule)) a"

text \<open>The section of a policy type: every grouping type under \<open>g\<close>, the rest under \<open>p\<close>.\<close>

definition section_of :: "string \<Rightarrow> string" where
  "section_of ptype = (if starts_with ptype ''g'' then ''g'' else ''p'')"

definition load_policy :: "'m casbin_model \<Rightarrow> 'l sqlx_adapter \<Rightarrow> 'm \<Rightarrow> 'm casbin_result" where
  "load_policy M a m =
     rbind (adapter_load_all a) (\<lambda>rows.
     Inr (fold (\<lambda>row. cm_add_policy M (section_of (cr_ptype row)) (cr_ptype row) (to_policy row)) rows m))"

definition load_filtered_policy ::
  "'m casbin_model \<Rightarrow> 'l sqlx_adapter \<Rightarrow> 'm \<Rightarrow> 'm casbin_result \<times> 'l sqlx_adapter" where
  "load_filtered_policy M a m = (let a' = a\<lparr>ad_is_filtered := False\<rparr> in (load_policy M a' m, a'))"

definition section_rules :: "'m casbin_model \<Rightarrow> string \<Rightarrow> 'm \<Rightarrow> (string \<times> string list) list" where
  "section_rules M sec m =
     (case cm_section M sec m of
        None \<Rightarrow> []
      | Some ptypes \<Rightarrow> concat (map (\<lambda>(ptype, rules). map (Pair ptype) rules) ptypes))"

definition model_rules :: "'m casbin_model \<Rightarrow> 'm \<Rightarrow> casbin_rule list" where
  "model_rules M m = map (\<lambda>(ptype, rule). from_parts ptype rule)
     (section_rules M ''p'' m @ section_rules M ''g'' m)"

definition save_policy ::
  "('j, 'z) log_env_scheme \<Rightarrow> 'l log_ops \<Rightarrow> 'l world \<Rightarrow> (nat \<Rightarrow> nat \<Rightarrow> uuid) \<Rightarrow> 'm casbin_model \<Rightarrow> 'm \<Rightarrow>
   'l sqlx_adapter \<Rightarrow> (unit casbin_result \<times> 'l sqlx_adapter) option" where
  "save_policy E ops w fresh M m a = on_pool (casbin_replace_all E ops w fresh (model_rules M m)) a"

definition adapter_add_policy ::
  "('j, 'z) log_env_scheme \<Rightarrow> 'l log_ops \<Rightarrow> 'l world \<Rightarrow> (nat \<Rightarrow> uuid) \<Rightarrow> string \<Rightarrow> string \<Rightarrow> string list \<Rightarrow>
   'l sqlx_adapter \<Rightarrow> (bool casbin_result \<times> 'l sqlx_adapter) option" where
  "adapter_add_policy E ops w fresh sec ptype rule a = insert_rule E ops w fresh ptype rule a"

text \<open>The loops of the batch calls: call number \<open>n\<close>, and whether every call so far answered true.\<close>

fun each_rule ::
  "(nat \<Rightarrow> string list \<Rightarrow> 'l sqlx_adapter \<Rightarrow> (bool casbin_result \<times> 'l sqlx_adapter) option) \<Rightarrow> nat \<Rightarrow> bool \<Rightarrow>
   string list list \<Rightarrow> 'l sqlx_adapter \<Rightarrow> (bool casbin_result \<times> 'l sqlx_adapter) option" where
  "each_rule call n all_ok [] a = Some (Inr all_ok, a)"
| "each_rule call n all_ok (rule # rules) a =
     (case call n rule a of
        None \<Rightarrow> None
      | Some (Inl e, a') \<Rightarrow> Some (Inl e, a')
      | Some (Inr ok, a') \<Rightarrow> each_rule call (Suc n) (all_ok \<and> ok) rules a')"

definition adapter_add_policies ::
  "('j, 'z) log_env_scheme \<Rightarrow> 'l log_ops \<Rightarrow> (nat \<Rightarrow> 'l world) \<Rightarrow> (nat \<Rightarrow> nat \<Rightarrow> uuid) \<Rightarrow> string \<Rightarrow> string \<Rightarrow>
   string list list \<Rightarrow> 'l sqlx_adapter \<Rightarrow> (bool casbin_result \<times> 'l sqlx_adapter) option" where
  "adapter_add_policies E ops ws fresh sec ptype rules a =
     each_rule (\<lambda>n rule. insert_rule E ops (ws n) (fresh n) ptype rule) 0 True rules a"

definition adapter_remove_policy ::
  "('j, 'z) log_env_scheme \<Rightarrow> 'l log_ops \<Rightarrow> 'l world \<Rightarrow> string \<Rightarrow> string \<Rightarrow> string list \<Rightarrow>
   'l sqlx_adapter \<Rightarrow> (bool casbin_result \<times> 'l sqlx_adapter) option" where
  "adapter_remove_policy E ops w sec ptype rule a = delete_rule E ops w ptype rule a"

definition adapter_remove_policies ::
  "('j, 'z) log_env_scheme \<Rightarrow> 'l log_ops \<Rightarrow> (nat \<Rightarrow> 'l world) \<Rightarrow> string \<Rightarrow> string \<Rightarrow>
   string list list \<Rightarrow> 'l sqlx_adapter \<Rightarrow> (bool casbin_result \<times> 'l sqlx_adapter) option" where
  "adapter_remove_policies E ops ws sec ptype rules a =
     each_rule (\<lambda>n rule. delete_rule E ops (ws n) ptype rule) 0 True rules a"

text \<open>Whether a row matches a filter: empty filter values match everything, missing columns nothing.\<close>

definition filter_matches :: "string \<Rightarrow> nat \<Rightarrow> string list \<Rightarrow> casbin_rule \<Rightarrow> bool" where
  "filter_matches ptype field_index field_values row \<longleftrightarrow>
     cr_ptype row = ptype \<and>
     list_all (\<lambda>(i, val). val = [] \<or>
         (field_index + i < length (rule_values row) \<and> rule_values row ! (field_index + i) = val))
       (enumerate 0 field_values)"

definition adapter_remove_filtered_policy ::
  "('j, 'z) log_env_scheme \<Rightarrow> 'l log_ops \<Rightarrow> 'l world \<Rightarrow> string \<Rightarrow> string \<Rightarrow> nat \<Rightarrow> string list \<Rightarrow>
   'l sqlx_adapter \<Rightarrow> (bool casbin_result \<times> 'l sqlx_adapter) option" where
  "adapter_remove_filtered_policy E ops w sec ptype field_index field_values a =
     (case adapter_load_all a of
        Inl e \<Rightarrow> Some (Inl e, a)
      | Inr rows \<Rightarrow>
         on_pool (casbin_delete_many E ops w (filter (filter_matches ptype field_index field_values) rows)) a)"

definition adapter_clear_policy ::
  "('j, 'z) log_env_scheme \<Rightarrow> 'l log_ops \<Rightarrow> 'l world \<Rightarrow> 'l sqlx_adapter \<Rightarrow>
   (unit casbin_result \<times> 'l sqlx_adapter) option" where
  "adapter_clear_policy E ops w a = on_pool (casbin_clear E ops w) a"

section \<open>A rule survives its row\<close>

definition rule_fits :: "string list \<Rightarrow> bool" where
  "rule_fits rule \<longleftrightarrow> length rule \<le> 6 \<and> (rule = [] \<or> last rule \<noteq> [])"

lemma to_policy_from_parts:
  assumes "rule_fits rule"
  shows "to_policy (from_parts ptype rule) = rule"
proof -
  have "rev (rule_values (from_parts ptype rule)) = replicate (6 - length rule) [] @ rev rule"
    using assms by (simp add: rule_values_from_parts rule_fits_def)
  moreover have "dropWhile (\<lambda>s. s = []) (replicate n [] @ rev rule) = rev rule" for n
  proof -
    have "dropWhile (\<lambda>s. s = []) (rev rule) = rev rule"
      using assms by (cases rule rule: rev_cases) (auto simp: rule_fits_def)
    then show ?thesis by (induction n) simp_all
  qed
  ultimately show ?thesis by (simp add: to_policy_def)
qed

text \<open>The key of a row determines it when no column holds a NUL.\<close>

definition clean_rule :: "casbin_rule \<Rightarrow> bool" where
  "clean_rule r \<longleftrightarrow> (\<forall>x \<in> set (cr_ptype r # rule_values r). NUL \<notin> set x)"

lemma append_sep_inj:
  assumes "c \<notin> set x" "c \<notin> set y" "x @ c # xs = y @ c # ys"
  shows "x = y \<and> xs = ys"
  using assms
proof (induction x arbitrary: y)
  case Nil
  then show ?case by (cases y) auto
next
  case (Cons a x)
  then show ?case by (cases y) auto
qed

lemma rule_key_inj:
  assumes "clean_rule r" "clean_rule q" "rule_key r = rule_key q"
  shows "r = q"
proof -
  have clean: "NUL \<notin> set (cr_ptype x)" "NUL \<notin> set (cr_v0 x)" "NUL \<notin> set (cr_v1 x)" "NUL \<notin> set (cr_v2 x)"
    "NUL \<notin> set (cr_v3 x)" "NUL \<notin> set (cr_v4 x)" if "clean_rule x" for x
    using that by (auto simp: clean_rule_def rule_values_def)
  have key: "rule_key x = cr_ptype x @ NUL # cr_v0 x @ NUL # cr_v1 x @ NUL # cr_v2 x @ NUL #
      cr_v3 x @ NUL # cr_v4 x @ NUL # cr_v5 x" for x
    by (simp add: rule_key_def nul_join_def)
  note c = clean [OF assms(1)] and d = clean [OF assms(2)]
  note 1 = append_sep_inj [OF c(1) d(1) assms(3) [unfolded key]]
  note 2 = append_sep_inj [OF c(2) d(2) conjunct2 [OF 1]]
  note 3 = append_sep_inj [OF c(3) d(3) conjunct2 [OF 2]]
  note 4 = append_sep_inj [OF c(4) d(4) conjunct2 [OF 3]]
  note 5 = append_sep_inj [OF c(5) d(5) conjunct2 [OF 4]]
  note 6 = append_sep_inj [OF c(6) d(6) conjunct2 [OF 5]]
  from 1 2 3 4 5 6 show ?thesis by (intro casbin_rule.equality) simp_all
qed

end
