(* ===== verification/AuthProperties.thy ===== *)
theory AuthProperties
  imports CasbinAdapter RepoProperties
begin

text \<open>
  Properties of authorization: a casbin engine that keeps the documented contract, what the trait's
  operations promise over any such engine, and the policy store behind the adapter.
\<close>

section \<open>A plain engine\<close>

type_synonym plain_rules = "(string \<times> string list) list"

fun hops :: "plain_rules \<Rightarrow> string \<Rightarrow> nat \<Rightarrow> string \<Rightarrow> string \<Rightarrow> bool" where
  "hops rs g 0 a b = (a = b)"
| "hops rs g (Suc n) a b =
     (a = b \<or> list_ex (\<lambda>(t, r). case r of [x, y] \<Rightarrow> t = g \<and> x = a \<and> hops rs g n y b | _ \<Rightarrow> False) rs)"

definition plain_enforce :: "string \<Rightarrow> string \<Rightarrow> string \<Rightarrow> plain_rules \<Rightarrow> bool" where
  "plain_enforce sub obj act rs = list_ex (\<lambda>(t, r). case r of
      [s, ob, a] \<Rightarrow> t = ''p'' \<and> hops rs ''g'' 10 s sub \<and> hops rs ''g2'' 10 obj ob \<and> hops rs ''g3'' 10 a act
    | _ \<Rightarrow> False) rs"

definition plain_add :: "string \<Rightarrow> string list \<Rightarrow> plain_rules \<Rightarrow> (string + bool) \<times> plain_rules" where
  "plain_add t r rs = (if (t, r) \<in> set rs then (Inr False, rs) else (Inr True, rs @ [(t, r)]))"

definition plain_remove :: "string \<Rightarrow> string list \<Rightarrow> plain_rules \<Rightarrow> (string + bool) \<times> plain_rules" where
  "plain_remove t r rs = (Inr ((t, r) \<in> set rs), filter (\<lambda>x. x \<noteq> (t, r)) rs)"

definition plain_casbin :: "plain_rules casbin_api" where
  "plain_casbin = \<lparr>ce_enforce = (\<lambda>s ob a rs. Inr (plain_enforce s ob a rs)),
     ce_add_policy = plain_add ''p'', ce_remove_policy = plain_remove ''p'',
     ce_add_named_grouping_policy = plain_add, ce_remove_named_grouping_policy = plain_remove,
     ce_get_policy = (\<lambda>rs. map snd (filter (\<lambda>(t, _). t = ''p'') rs))\<rparr>"

definition plain_sets :: "plain_rules \<Rightarrow> policy_rules" where
  "plain_sets rs t = {r. (t, r) \<in> set rs}"

lemma hops_iff: "hops rs g n a b \<longleftrightarrow> linked_within n (plain_sets rs) g a b"
proof (induction n arbitrary: a)
  case 0
  then show ?case by (simp add: linked_within_def)
next
  case (Suc n)
  have step: "(a, y) \<in> link_step (plain_sets rs) g \<longleftrightarrow> (g, [a, y]) \<in> set rs" for y
    by (simp add: link_step_def plain_sets_def)
  have "hops rs g (Suc n) a b \<longleftrightarrow> a = b \<or> (\<exists>y. (g, [a, y]) \<in> set rs \<and> hops rs g n y b)"
    by (fastforce simp: list_ex_iff split: list.splits)
  also have "\<dots> \<longleftrightarrow> a = b \<or> (\<exists>y k. (a, y) \<in> link_step (plain_sets rs) g \<and> k \<le> n \<and>
      (y, b) \<in> link_step (plain_sets rs) g ^^ k)"
    unfolding Suc step linked_within_def by blast
  also have "\<dots> \<longleftrightarrow> linked_within (Suc n) (plain_sets rs) g a b"
  proof
    assume "a = b \<or> (\<exists>y k. (a, y) \<in> link_step (plain_sets rs) g \<and> k \<le> n \<and>
      (y, b) \<in> link_step (plain_sets rs) g ^^ k)"
    then show "linked_within (Suc n) (plain_sets rs) g a b"
    proof (elim disjE exE conjE)
      assume "a = b"
      then show ?thesis unfolding linked_within_def by (intro exI [of _ 0]) simp
    next
      fix y k assume y: "(a, y) \<in> link_step (plain_sets rs) g" "k \<le> n" "(y, b) \<in> link_step (plain_sets rs) g ^^ k"
      have "Suc k \<le> Suc n" using y(2) by simp
      with relpow_Suc_I2 [OF y(1,3)] show ?thesis unfolding linked_within_def by blast
    qed
  next
    assume "linked_within (Suc n) (plain_sets rs) g a b"
    then obtain k where k: "k \<le> Suc n" "(a, b) \<in> link_step (plain_sets rs) g ^^ k"
      by (auto simp: linked_within_def)
    show "a = b \<or> (\<exists>y k. (a, y) \<in> link_step (plain_sets rs) g \<and> k \<le> n \<and>
      (y, b) \<in> link_step (plain_sets rs) g ^^ k)"
    proof (cases k)
      case 0
      with k show ?thesis by simp
    next
      case (Suc j)
      with k relpow_Suc_D2 [of a b j "link_step (plain_sets rs) g"] show ?thesis by auto
    qed
  qed
  finally show ?case .
qed

lemma plain_enforce_iff:
  "plain_enforce s ob a rs \<longleftrightarrow> matcher (linked_within 10 (plain_sets rs)) (plain_sets rs) s ob a"
proof -
  have "plain_enforce s ob a rs \<longleftrightarrow> (\<exists>ps po pa. (''p'', [ps, po, pa]) \<in> set rs \<and>
      hops rs ''g'' 10 ps s \<and> hops rs ''g2'' 10 ob po \<and> hops rs ''g3'' 10 pa a)"
    unfolding plain_enforce_def list_ex_iff by (fastforce split: list.splits)
  then show ?thesis by (simp add: matcher_def hops_iff plain_sets_def)
qed

lemma linked_withinD: "linked_within n R g a b \<Longrightarrow> linked R g a b"
  unfolding linked_within_def linked_def rtrancl_power by blast

lemma matcher_mono:
  "matcher L R s ob a \<Longrightarrow> (\<And>g x y. L g x y \<Longrightarrow> L' g x y) \<Longrightarrow> matcher L' R s ob a"
  unfolding matcher_def by blast

interpretation plain: casbin_engine plain_casbin plain_sets "\<lambda>_. True"
proof (unfold_locales, goal_cases)
  case (1 e s ob a)
  then show ?case
    using matcher_mono [of "linked_within 10 (plain_sets e)" "plain_sets e" s ob a "linked (plain_sets e)"]
      linked_withinD by (simp add: plain_casbin_def plain_enforce_iff)
next
  case (2 e s ob a b)
  then show ?case by (simp add: plain_casbin_def plain_enforce_iff max_hierarchy_level_def)
qed (auto simp: plain_casbin_def plain_add_def plain_remove_def plain_sets_def fun_eq_iff image_iff
    split: if_splits)

definition plain_texts :: uuid_texts where
  "plain_texts = \<lparr>id_text = uuid_display, id_parse = (\<lambda>s. if s \<in> range uuid_display then Some (inv uuid_display s) else None)\<rparr>"

lemma plain_texts_ok: "texts_ok plain_texts"
proof -
  have "inj uuid_display" using uuid_display_ok by (simp add: uuid_text_ok_def)
  then show ?thesis using uuid_display_ok by (simp add: texts_ok_def plain_texts_def)
qed

text \<open>Seeding an engine that has no rules.\<close>

section \<open>Decisions\<close>

text \<open>
  C8: Over every casbin engine that keeps the documented contract, a request is allowed only if some
  grant of the caller is on the object or above it and implies the privilege, and it is allowed
  whenever that holds with at most ten levels between the two.
\<close>

lemma authorization_decided:
  assumes "casbin_engine C rules einv" "einv e" "represents X (rules e) G H" "texts_ok X"
    and "authorize C X p r q e = Inr b"
  shows "(b \<longrightarrow> allowed G H p r q) \<and> (allowed_within max_hierarchy_level G H p r q \<longrightarrow> b)"
  using casbin_engine.authorize_spec [OF assms] by blast

definition plain_start :: plain_rules where
  "plain_start = map (\<lambda>(a, b). (''g3'', [a, b])) hierarchy_edges"

lemma plain_start_represents: "represents plain_texts (plain_sets plain_start) {} {}"
  by (auto simp: represents_def plain_sets_def plain_start_def)

text \<open>User 1 owns catalog 2, of which schema 3 is a child.\<close>

definition plain_owned :: plain_rules where
  "plain_owned = snd (add_hierarchy_child plain_casbin plain_texts 2 3
     (snd (grant plain_casbin plain_texts 1 2 Owner plain_start)))"

lemma plain_results:
  "fst (grant plain_casbin X p r q rs) = Inr ()" "fst (revoke plain_casbin X p r q rs) = Inr ()"
  "fst (add_hierarchy_child plain_casbin X parent child rs) = Inr ()"
  by (simp_all add: grant_def revoke_def add_hierarchy_child_def plain_casbin_def plain_add_def
      plain_remove_def casbin_done_def casbin_res_def)

lemma plain_owned_represents: "represents plain_texts (plain_sets plain_owned) {(1, 2, Owner)} {(3, 2)}"
proof -
  obtain e1 where e1: "grant plain_casbin plain_texts 1 2 Owner plain_start = (Inr (), e1)"
    using plain_results(1) [of plain_texts 1 2 Owner plain_start] by (metis prod.collapse)
  obtain e2 where e2: "add_hierarchy_child plain_casbin plain_texts 2 3 e1 = (Inr (), e2)"
    using plain_results(3) [of plain_texts 2 3 e1] by (metis prod.collapse)
  from plain.grant_spec [OF TrueI plain_start_represents plain_texts_ok e1]
  have "represents plain_texts (plain_sets e1) {(1, 2, Owner)} {}" by simp
  from plain.add_hierarchy_child_spec [OF TrueI this e2] e1 e2 show ?thesis
    by (simp add: plain_owned_def)
qed

lemma plain_authorize: "\<exists>b. authorize plain_casbin X p r q rs = Inr b"
  by (simp add: authorize_def plain_casbin_def casbin_res_def)

lemma authorization_decided_witness:
  "\<exists>b. authorize plain_casbin plain_texts 1 3 CreateTable plain_owned = Inr b \<and>
    (b \<longrightarrow> allowed {(1, 2, Owner)} {(3, 2)} 1 3 CreateTable) \<and>
    (allowed_within max_hierarchy_level {(1, 2, Owner)} {(3, 2)} 1 3 CreateTable \<longrightarrow> b)"
proof -
  obtain b where "authorize plain_casbin plain_texts 1 3 CreateTable plain_owned = Inr b"
    using plain_authorize by blast
  with authorization_decided [OF plain.casbin_engine_axioms TrueI plain_owned_represents plain_texts_ok this]
  show ?thesis by blast
qed

text \<open>
  C13: Ownership cascades: after a grant of ownership the owner is allowed every privilege on the
  object and on everything up to ten levels below it. It is the only privilege that confers
  ownership: without an owner grant of the caller no request for ownership is allowed.
\<close>

lemma ownership_cascades:
  assumes "casbin_engine C rules einv" "einv e" "represents X (rules e) G H" "texts_ok X"
    and "grant C X p ob Owner e = (Inr (), e')" "k \<le> max_hierarchy_level" "(r, ob) \<in> H ^^ k"
  shows "authorize C X p r q e' \<noteq> Inr False \<and>
    ((\<forall>ob. (p', ob, Owner) \<notin> G) \<longrightarrow> authorize C X p' r Owner e \<noteq> Inr True)"
proof -
  from casbin_engine.grant_spec [OF assms(1-5)] have e': "einv e'"
    "represents X (rules e') (insert (p, ob, Owner) G) H" by simp_all
  have "allowed_within max_hierarchy_level (insert (p, ob, Owner) G) H p r q"
    unfolding allowed_within_def using assms(6,7)
    by (intro exI [of _ ob] exI [of _ Owner] exI [of _ k]) (simp add: priv_implies_def)
  with authorization_decided [OF assms(1) e' assms(4), of p r q False]
  have "authorize C X p r q e' \<noteq> Inr False" by blast
  moreover have "\<not> allowed G H p' r Owner" if "\<forall>ob. (p', ob, Owner) \<notin> G"
    using that by (auto simp: allowed_def priv_implies_def)
  ultimately show ?thesis
    using casbin_engine.authorize_spec(1) [OF assms(1-4), of p' r Owner True] by blast
qed

lemma ownership_cascades_witness:
  "authorize plain_casbin plain_texts 7 3 Select (snd (grant plain_casbin plain_texts 7 2 Owner plain_owned)) \<noteq>
    Inr False"
proof -
  obtain e' where e': "grant plain_casbin plain_texts 7 2 Owner plain_owned = (Inr (), e')"
    using plain_results(1) [of plain_texts 7 2 Owner plain_owned] by (metis prod.collapse)
  have "(3, 2) \<in> {(3 :: uuid, 2 :: uuid)} ^^ 1" by (simp add: relpow_1)
  from ownership_cascades [OF plain.casbin_engine_axioms TrueI plain_owned_represents plain_texts_ok e' _ this]
  show ?thesis by (simp add: e' max_hierarchy_level_def)
qed



text \<open>
  C38: Removing an object from the hierarchy removes nothing: the rule it asks casbin to remove, the
  object's id with an empty parent, is never there, so the object still inherits from its parent.
\<close>

lemma hierarchy_removal_does_nothing:
  assumes "casbin_engine C rules einv" "einv e" "represents X (rules e) G H" "texts_ok X"
    and "remove_hierarchy_children C X r e = (res, e')"
    and "allowed_within max_hierarchy_level G H p r q" "authorize C X p r q e' = Inr b"
  shows "rules e' = rules e \<and> b"
proof -
  from casbin_engine.remove_hierarchy_children_spec [OF assms(1-5)] have e': "einv e'" "rules e' = rules e" by auto
  with assms(3) have "represents X (rules e') G H" by simp
  from authorization_decided [OF assms(1) e'(1) this assms(4,7)] e'(2) assms(6) show ?thesis by simp
qed

lemma hierarchy_removal_does_nothing_witness:
  "\<exists>b. authorize plain_casbin plain_texts 1 3 Select
      (snd (remove_hierarchy_children plain_casbin plain_texts 3 plain_owned)) = Inr b \<and> b"
proof -
  obtain res e' where e': "remove_hierarchy_children plain_casbin plain_texts 3 plain_owned = (res, e')" by force
  obtain b where b: "authorize plain_casbin plain_texts 1 3 Select e' = Inr b"
    using plain_authorize by blast
  have "allowed_within max_hierarchy_level {(1, 2, Owner)} {(3, 2)} 1 3 Select"
    unfolding allowed_within_def
    by (intro exI [of _ 2] exI [of _ Owner] exI [of _ 1]) (simp add: max_hierarchy_level_def priv_implies_def)
  from hierarchy_removal_does_nothing [OF plain.casbin_engine_axioms TrueI plain_owned_represents plain_texts_ok e' this b]
  have b by blast
  with e' b show ?thesis by auto
qed

section \<open>The policy store\<close>

text \<open>The rules casbin is given when a store is loaded.\<close>

definition stored_rules :: "snapshot \<Rightarrow> (string \<times> string \<times> string list) set" where
  "stored_rules s = (\<lambda>r. (section_of (cr_ptype r), cr_ptype r, to_policy r)) `
     {r. \<exists>i. snap_get s EkCasbinRule i = Some (RowCasbinRule r)}"

definition clean_store :: "snapshot \<Rightarrow> bool" where
  "clean_store s \<longleftrightarrow> (\<forall>i r. snap_get s EkCasbinRule i = Some (RowCasbinRule r) \<longrightarrow> clean_rule r)"

lemma casbin_rows:
  assumes "snap_ok E s"
  shows "\<exists>rows. casbin_load_all s = Inr rows \<and>
    (\<forall>r. r \<in> set rows \<longleftrightarrow> (\<exists>i. snap_get s EkCasbinRule i = Some (RowCasbinRule r)))"
proof -
  have om: "om_ok (kind_table s EkCasbinRule)"
    using assms by (simp add: maps_ok_tables snap_ok_def)
  have get: "snap_get s EkCasbinRule i = Some v \<longleftrightarrow> (i, v) \<in> set (kind_table s EkCasbinRule)" for i v
    by (simp add: snap_get_table map_of_iff_set [OF om])
  have typed: "\<exists>r. v = RowCasbinRule r" if "(i, v) \<in> set (kind_table s EkCasbinRule)" for i v
  proof -
    have "row_kind v = EkCasbinRule" using that get assms unfolding snap_ok_def rows_ok_def by blast
    then show ?thesis by (cases v) auto
  qed
  let ?rows = "map (\<lambda>(_, v). projr (rule_of v)) (iter_by_id s EkCasbinRule)"
  have "casbin_load_all s = Inr ?rows"
    unfolding casbin_load_all_def
    by (rule collect_res_all_Inr) (auto simp: iter_by_id_def rule_of_def dest!: typed)
  moreover have "r \<in> set ?rows \<longleftrightarrow> (\<exists>i. snap_get s EkCasbinRule i = Some (RowCasbinRule r))" for r
    using typed unfolding get by (force simp: iter_by_id_def rule_of_def image_iff)
  ultimately show ?thesis by blast
qed

lemma stored_rules_insert:
  assumes "snap_get s EkCasbinRule i = None"
  shows "stored_rules (upsert_row E s EkCasbinRule i (RowCasbinRule r)) =
    insert (section_of (cr_ptype r), cr_ptype r, to_policy r) (stored_rules s)"
proof -
  have "(\<exists>j. snap_get (upsert_row E s EkCasbinRule i (RowCasbinRule r)) EkCasbinRule j = Some (RowCasbinRule q)) \<longleftrightarrow>
      q = r \<or> (\<exists>j. snap_get s EkCasbinRule j = Some (RowCasbinRule q))" for q
    using assms by (auto split: if_splits) (metis option.simps(3))
  then have "{q. \<exists>j. snap_get (upsert_row E s EkCasbinRule i (RowCasbinRule r)) EkCasbinRule j = Some (RowCasbinRule q)} =
      insert r {q. \<exists>j. snap_get s EkCasbinRule j = Some (RowCasbinRule q)}" by blast
  then show ?thesis unfolding stored_rules_def by simp
qed

lemma cr_ptype_from_parts [simp]: "cr_ptype (from_parts ptype rule) = ptype"
  by (simp add: from_parts_def)



end
