(* ===== verification/ApiTypes.thy ===== *)
theory ApiTypes
  imports Rows OMap
begin

text \<open>
  The requests and responses of the catalog API, \<^verbatim>\<open>uc_openapi::catalog\<close>: one record per struct, a
  field keeping its name behind a prefix for its struct, and one datatype per enum. A \<^verbatim>\<open>HashMap\<close> of
  properties is an ordered association list. What serde does between them and JSON is left out.
\<close>

section \<open>Metastore, catalogs and schemas\<close>

record metastore_summary =
  ms_metastore_id :: uuid
  ms_name :: string
  ms_owner :: "string option"
  ms_created_at :: "int option"
  ms_created_by :: "string option"
  ms_updated_at :: "int option"
  ms_updated_by :: "string option"

record catalog_info =
  cti_name :: string
  cti_comment :: "string option"
  cti_properties :: "(string, string) omap option"
  cti_owner :: "string option"
  cti_created_at :: "int option"
  cti_created_by :: "string option"
  cti_updated_at :: "int option"
  cti_updated_by :: "string option"
  cti_id :: "uuid option"
  cti_storage_root :: "string option"
  cti_storage_location :: "string option"

record create_catalog =
  ccat_name :: string
  ccat_comment :: "string option"
  ccat_properties :: "(string, string) omap option"
  ccat_storage_root :: "string option"

record update_catalog =
  ucat_new_name :: "string option"
  ucat_comment :: "string option"
  ucat_properties :: "(string, string) omap option"
  ucat_owner :: "string option"

record list_catalogs_response =
  lcat_catalogs :: "catalog_info list"
  lcat_next_page_token :: "string option"

record schema_info =
  sci_name :: string
  sci_catalog_name :: string
  sci_comment :: "string option"
  sci_properties :: "(string, string) omap option"
  sci_full_name :: "string option"
  sci_owner :: "string option"
  sci_created_at :: "int option"
  sci_created_by :: "string option"
  sci_updated_at :: "int option"
  sci_updated_by :: "string option"
  sci_schema_id :: "uuid option"
  sci_storage_root :: "string option"
  sci_storage_location :: "string option"

record create_schema =
  csch_name :: string
  csch_catalog_name :: string
  csch_comment :: "string option"
  csch_properties :: "(string, string) omap option"
  csch_storage_root :: "string option"

record update_schema =
  usch_new_name :: "string option"
  usch_comment :: "string option"
  usch_properties :: "(string, string) omap option"
  usch_owner :: "string option"

record list_schemas_response =
  lsch_schemas :: "schema_info list"
  lsch_next_page_token :: "string option"

section \<open>Tables\<close>

datatype table_type =
    TtManaged | TtExternal | TtStreamingTable | TtMaterializedView | TtMetricView

datatype data_source_format =
    DfDelta | DfCsv | DfJson | DfAvro | DfParquet | DfOrc | DfText | DfUnityCatalog

datatype column_type_name =
    CtBoolean | CtByte | CtShort | CtInt | CtLong | CtFloat | CtDouble | CtDate |
    CtTimestamp | CtTimestampNtz | CtString | CtBinary | CtDecimal | CtInterval | CtArray |
    CtStruct | CtMap | CtVariant | CtChar | CtNull | CtUserDefinedType | CtTableType

record column_info =
  cli_name :: string
  cli_type_text :: "string option"
  cli_type_json :: "string option"
  cli_type_name :: "column_type_name option"
  cli_type_precision :: "int option"
  cli_type_scale :: "int option"
  cli_type_interval_type :: "string option"
  cli_position :: "int option"
  cli_comment :: "string option"
  cli_nullable :: "bool option"
  cli_partition_index :: "int option"

record table_info =
  tbi_name :: string
  tbi_catalog_name :: string
  tbi_schema_name :: string
  tbi_table_type :: "table_type option"
  tbi_data_source_format :: "data_source_format option"
  tbi_columns :: "column_info list option"
  tbi_storage_location :: "string option"
  tbi_comment :: "string option"
  tbi_properties :: "(string, string) omap option"
  tbi_owner :: "string option"
  tbi_created_at :: "int option"
  tbi_created_by :: "string option"
  tbi_updated_at :: "int option"
  tbi_updated_by :: "string option"
  tbi_table_id :: "uuid option"
  tbi_full_name :: "string option"
  tbi_view_definition :: "string option"

record create_table =
  ctab_name :: string
  ctab_catalog_name :: string
  ctab_schema_name :: string
  ctab_table_type :: table_type
  ctab_data_source_format :: "data_source_format option"
  ctab_columns :: "column_info list option"
  ctab_storage_location :: "string option"
  ctab_comment :: "string option"
  ctab_properties :: "(string, string) omap option"
  ctab_view_definition :: "string option"

record list_tables_response =
  ltab_tables :: "table_info list"
  ltab_next_page_token :: "string option"

section \<open>Volumes\<close>

datatype volume_type =
    VtManaged | VtExternal

record volume_info =
  vli_catalog_name :: string
  vli_schema_name :: string
  vli_name :: string
  vli_comment :: "string option"
  vli_owner :: "string option"
  vli_created_at :: "int option"
  vli_created_by :: "string option"
  vli_updated_at :: "int option"
  vli_updated_by :: "string option"
  vli_volume_id :: "uuid option"
  vli_volume_type :: volume_type
  vli_storage_location :: "string option"
  vli_full_name :: "string option"
  vli_properties :: "(string, string) omap option"

record create_volume_request_content =
  cvol_catalog_name :: string
  cvol_schema_name :: string
  cvol_name :: string
  cvol_volume_type :: volume_type
  cvol_comment :: "string option"
  cvol_storage_location :: "string option"
  cvol_properties :: "(string, string) omap option"

record update_volume_request_content =
  uvol_new_name :: "string option"
  uvol_comment :: "string option"
  uvol_owner :: "string option"
  uvol_properties :: "(string, string) omap option"

record list_volumes_response_content =
  lvol_volumes :: "volume_info list"
  lvol_next_page_token :: "string option"

section \<open>Functions\<close>

record function_parameter_info =
  fpi_name :: string
  fpi_type_text :: "string option"
  fpi_type_json :: "string option"
  fpi_type_name :: "column_type_name option"
  fpi_type_precision :: "int option"
  fpi_type_scale :: "int option"
  fpi_type_interval_type :: "string option"
  fpi_position :: "int option"
  fpi_parameter_mode :: "string option"
  fpi_parameter_type :: "string option"
  fpi_parameter_default :: "string option"
  fpi_comment :: "string option"

record function_parameter_infos =
  fps_parameters :: "function_parameter_info list option"

record function_info =
  fni_name :: string
  fni_catalog_name :: string
  fni_schema_name :: string
  fni_input_params :: "function_parameter_infos option"
  fni_return_params :: "function_parameter_infos option"
  fni_data_type :: "column_type_name option"
  fni_full_data_type :: "string option"
  fni_routine_body :: "string option"
  fni_routine_definition :: "string option"
  fni_parameter_style :: "string option"
  fni_is_deterministic :: "bool option"
  fni_sql_data_access :: "string option"
  fni_is_null_call :: "bool option"
  fni_security_type :: "string option"
  fni_specific_name :: "string option"
  fni_comment :: "string option"
  fni_properties :: "(string, string) omap option"
  fni_full_name :: "string option"
  fni_owner :: "string option"
  fni_created_at :: "int option"
  fni_created_by :: "string option"
  fni_updated_at :: "int option"
  fni_updated_by :: "string option"
  fni_function_id :: "uuid option"
  fni_external_language :: "string option"

record create_function_request =
  cfun_function_info :: function_info

record list_functions_response =
  lfun_functions :: "function_info list"
  lfun_next_page_token :: "string option"

section \<open>Registered models and their versions\<close>

record registered_model_info =
  rmi_name :: string
  rmi_catalog_name :: string
  rmi_schema_name :: string
  rmi_storage_location :: "string option"
  rmi_full_name :: "string option"
  rmi_comment :: "string option"
  rmi_owner :: "string option"
  rmi_created_at :: "int option"
  rmi_created_by :: "string option"
  rmi_updated_at :: "int option"
  rmi_updated_by :: "string option"
  rmi_id :: "uuid option"
  rmi_properties :: "(string, string) omap option"

record create_registered_model =
  cmod_name :: string
  cmod_catalog_name :: string
  cmod_schema_name :: string
  cmod_comment :: "string option"
  cmod_storage_location :: "string option"
  cmod_properties :: "(string, string) omap option"

record update_registered_model =
  umod_new_name :: "string option"
  umod_comment :: "string option"
  umod_owner :: "string option"
  umod_properties :: "(string, string) omap option"

record list_registered_models_response =
  lmod_registered_models :: "registered_model_info list"
  lmod_next_page_token :: "string option"

datatype model_version_status =
    MsModelVersionStatusUnknown | MsPendingRegistration | MsFailedRegistration | MsReady

record model_version_info =
  mvi_model_name :: "string option"
  mvi_catalog_name :: "string option"
  mvi_schema_name :: "string option"
  mvi_version :: "int option"
  mvi_source :: "string option"
  mvi_run_id :: "string option"
  mvi_status :: "model_version_status option"
  mvi_storage_location :: "string option"
  mvi_comment :: "string option"
  mvi_created_at :: "int option"
  mvi_created_by :: "string option"
  mvi_updated_at :: "int option"
  mvi_updated_by :: "string option"
  mvi_id :: "uuid option"

record create_model_version =
  cver_model_name :: string
  cver_catalog_name :: string
  cver_schema_name :: string
  cver_source :: "string option"
  cver_run_id :: "string option"
  cver_comment :: "string option"

record update_model_version =
  uver_comment :: "string option"

record finalize_model_version =
  fver_status :: model_version_status

record list_model_versions_response =
  lver_model_versions :: "model_version_info list"
  lver_next_page_token :: "string option"

section \<open>Credentials and external locations\<close>

datatype credential_purpose =
    CpServicePrincipal | CpGcsServiceAccount | CpAwsIamRole | CpAzureManagedIdentity |
    CpAwsAssumeRole | CpDatabricksGcpServiceAccount

record aws_iam_role_request =
  air_role_arn :: string
  air_unity_catalog_iam_arn :: "string option"
  air_external_id :: "string option"

record credential_info =
  cdi_id :: uuid
  cdi_name :: string
  cdi_purpose :: credential_purpose
  cdi_full_name :: "string option"
  cdi_comment :: "string option"
  cdi_owner :: "string option"
  cdi_created_at :: "int option"
  cdi_created_by :: "string option"
  cdi_updated_at :: "int option"
  cdi_updated_by :: "string option"
  cdi_aws_iam_role :: "aws_iam_role_request option"

record create_credential_request =
  ccred_name :: string
  ccred_purpose :: credential_purpose
  ccred_comment :: "string option"
  ccred_aws_iam_role :: "aws_iam_role_request option"

record update_credential_request =
  ucred_new_name :: "string option"
  ucred_comment :: "string option"
  ucred_owner :: "string option"
  ucred_aws_iam_role :: "aws_iam_role_request option"

record list_credentials_response =
  lcred_credentials :: "credential_info list"
  lcred_next_page_token :: "string option"

record external_location_info =
  eli_id :: uuid
  eli_name :: string
  eli_url :: string
  eli_credential_name :: string
  eli_comment :: "string option"
  eli_owner :: "string option"
  eli_created_at :: "int option"
  eli_created_by :: "string option"
  eli_updated_at :: "int option"
  eli_updated_by :: "string option"

record create_external_location =
  cext_name :: string
  cext_url :: string
  cext_credential_name :: string
  cext_comment :: "string option"

record update_external_location =
  uext_new_name :: "string option"
  uext_url :: "string option"
  uext_credential_name :: "string option"
  uext_comment :: "string option"
  uext_owner :: "string option"

record list_external_locations_response =
  lext_external_locations :: "external_location_info list"
  lext_next_page_token :: "string option"

section \<open>Permissions\<close>

record privilege_assignment =
  pas_principal :: string
  pas_privileges :: "string list"

record permissions_list =
  pls_securable_type :: "string option"
  pls_full_name :: "string option"
  pls_privilege_assignments :: "privilege_assignment list"

record privilege_assignment_change =
  pac_principal :: string
  pac_add :: "string list"
  pac_remove :: "string list"

record update_permissions =
  upd_changes :: "privilege_assignment_change list"

section \<open>Temporary credentials\<close>

record aws_credentials =
  awc_access_key_id :: string
  awc_secret_access_key :: string
  awc_session_token :: string
  awc_expiration :: "string option"

record azure_user_delegation_sas =
  azs_sas_token :: string

record gcp_oauth_token =
  gct_oauth_token :: string

record temporary_credentials =
  tmc_aws_temp_credentials :: "aws_credentials option"
  tmc_azure_user_delegation_sas :: "azure_user_delegation_sas option"
  tmc_gcp_oauth_token :: "gcp_oauth_token option"
  tmc_expiration_time :: "int option"
  tmc_url :: "string option"

datatype api_operation =
    OpRead | OpReadWrite | OpReadVolume | OpWriteVolume | OpReadModelVersion |
    OpReadWriteModelVersion

record generate_temporary_table_credential =
  gtt_table_id :: uuid
  gtt_operation :: api_operation

record generate_temporary_volume_credential =
  gtv_volume_id :: uuid
  gtv_operation :: api_operation

record generate_temporary_model_version_credential =
  gtm_catalog_name :: string
  gtm_schema_name :: string
  gtm_model_name :: string
  gtm_version :: int
  gtm_operation :: api_operation

record generate_temporary_path_credential =
  gtp_url :: string
  gtp_operation :: api_operation

section \<open>Staging tables and Delta commits\<close>

record create_staging_table =
  cstg_name :: string
  cstg_catalog_name :: string
  cstg_schema_name :: string

record staging_table_info =
  sti_table_id :: uuid
  sti_staging_location :: string
  sti_schema_name :: string
  sti_catalog_name :: string

record get_commits_request =
  gcr_table_full_name :: string
  gcr_starting_version :: "int option"
  gcr_ending_version :: "int option"

record delta_commit_info =
  dci_version :: int
  dci_timestamp :: int
  dci_operation :: "string option"
  dci_file_name :: "string option"
  dci_file_size :: "int option"
  dci_file_modification_timestamp :: "int option"

record get_commits_response =
  gcs_commits_info :: "delta_commit_info list"
  gcs_latest_table_version :: int

end
