(* ===== verification/Vendor.thy ===== *)
theory Vendor
  imports ApiTypes UcTypes Numbers
begin

text \<open>
  The pure part of \<^verbatim>\<open>uc_credentials\<close>: the context of a request, the cache of vended credentials, its
  keys and lifetimes, and what is asked of S3 for a location. Instants are nanoseconds of the
  monotonic clock, times of the wall clock are milliseconds.
\<close>

section \<open>Contexts\<close>

datatype credential_operation = CoRead | CoReadWrite

fun operation_debug :: "credential_operation \<Rightarrow> string" where
  "operation_debug CoRead = ''Read''"
| "operation_debug CoReadWrite = ''ReadWrite''"

record credential_context =
  ctx_scheme :: uri_scheme
  ctx_locations :: "string list"
  ctx_operation :: credential_operation
  ctx_table_id :: "uuid option"
  ctx_credential_json :: "string option"
  ctx_role_arn :: "string option"
  ctx_external_id :: "string option"

definition no_credentials :: temporary_credentials where
  "no_credentials = \<lparr>tmc_aws_temp_credentials = None, tmc_azure_user_delegation_sas = None,
     tmc_gcp_oauth_token = None, tmc_expiration_time = None, tmc_url = None\<rparr>"

section \<open>The cache\<close>

record cached_credential =
  cch_creds :: temporary_credentials
  cch_expires_at :: int

type_synonym vendor_cache = "string \<rightharpoonup> cached_credential"

fun join_with :: "string \<Rightarrow> string list \<Rightarrow> string" where
  "join_with sep [] = []"
| "join_with sep [x] = x"
| "join_with sep (x # y # ys) = x @ sep @ join_with sep (y # ys)"

definition make_cache_key :: "credential_context \<Rightarrow> string" where
  "make_cache_key ctx =
     (case ctx_role_arn ctx of None \<Rightarrow> [] | Some r \<Rightarrow> r) @ ''::'' @
     join_with '','' (sort (ctx_locations ctx)) @ ''::'' @ operation_debug (ctx_operation ctx)"

definition cache_expiry_buffer_secs :: int where
  "cache_expiry_buffer_secs = 60"

text \<open>\<open>saturating_sub\<close> on \<open>i64\<close>, and its division, which cuts towards zero.\<close>

definition saturating_sub_i64 :: "int \<Rightarrow> int \<Rightarrow> int" where
  "saturating_sub_i64 a b = max i64_min (min i64_max (a - b))"

definition div_trunc :: "int \<Rightarrow> int \<Rightarrow> int" where
  "div_trunc a b = sgn a * sgn b * (\<bar>a\<bar> div \<bar>b\<bar>)"

text \<open>
  \<open>parse_expiry_ttl\<close>, in seconds; \<open>rfc3339\<close> is chrono's parser, giving the timestamp in
  milliseconds.
\<close>

definition expiry_ms :: "(string \<Rightarrow> int option) \<Rightarrow> temporary_credentials \<Rightarrow> int option" where
  "expiry_ms rfc3339 creds =
     (case Option.bind (tmc_aws_temp_credentials creds) awc_expiration of
        Some s \<Rightarrow> rfc3339 s
      | None \<Rightarrow> tmc_expiration_time creds)"

definition parse_expiry_ttl :: "(string \<Rightarrow> int option) \<Rightarrow> int \<Rightarrow> temporary_credentials \<Rightarrow> int option" where
  "parse_expiry_ttl rfc3339 now creds =
     Option.bind (expiry_ms rfc3339 creds) (\<lambda>exp.
     let remaining = div_trunc (saturating_sub_i64 exp now) 1000 in
     if remaining < 0 then None
     else if remaining \<le> cache_expiry_buffer_secs then None
     else Some (remaining - cache_expiry_buffer_secs))"

definition default_ttl :: int where
  "default_ttl = 55 * 60"

section \<open>Locations on S3\<close>

fun is_write_operation :: "credential_operation \<Rightarrow> bool" where
  "is_write_operation CoReadWrite = True"
| "is_write_operation CoRead = False"

definition split_once_slash :: "string \<Rightarrow> (string \<times> string) option" where
  "split_once_slash s =
     (case dropWhile (\<lambda>c. c \<noteq> CHR ''/'') s of
        [] \<Rightarrow> None
      | _ # r \<Rightarrow> Some (takeWhile (\<lambda>c. c \<noteq> CHR ''/'') s, r))"

definition split_s3_url :: "string \<Rightarrow> (string \<times> string) option" where
  "split_s3_url url =
     Option.bind (case strip_prefix ''s3://'' url of
                    Some r \<Rightarrow> Some r
                  | None \<Rightarrow> strip_prefix ''s3a://'' url) split_once_slash"

text \<open>The environment variables are a parameter.\<close>

definition presign_expiry_secs :: "(string \<Rightarrow> string option) \<Rightarrow> nat" where
  "presign_expiry_secs var =
     (case Option.bind (var ''UC_PRESIGN_EXPIRY_SECS'') parse_u64 of None \<Rightarrow> 300 | Some n \<Rightarrow> n)"

definition presign_endpoint :: "(string \<Rightarrow> string option) \<Rightarrow> string option" where
  "presign_endpoint var =
     Option.bind (case var ''UC_S3_PRESIGN_ENDPOINT_URL'' of
                    Some e \<Rightarrow> Some e
                  | None \<Rightarrow> var ''AWS_ENDPOINT_URL'')
       (\<lambda>e. if e = [] then None else Some e)"

section \<open>The AWS vendor\<close>

text \<open>What STS returns: keys, token, the expiration as text and in milliseconds.\<close>

record sts_credentials =
  sts_access_key_id :: string
  sts_secret_access_key :: string
  sts_session_token :: string
  sts_expiration :: string
  sts_expiration_ms :: "int option"

text \<open>
  The cloud: \<open>cl_assume_role\<close> is the call to STS, \<open>cl_presign\<close> builds a client from credentials and
  an endpoint and presigns a GET or a PUT of a bucket and key; both are the SDK's.
\<close>

record cloud =
  cl_aws :: bool
  cl_assume_role :: "string \<Rightarrow> string option \<Rightarrow> string + sts_credentials option"
  cl_presign :: "sts_credentials \<Rightarrow> string option \<Rightarrow> nat \<Rightarrow> bool \<Rightarrow> string \<Rightarrow> string \<Rightarrow> string option"
  cl_var :: "string \<Rightarrow> string option"
  cl_rfc3339 :: "string \<Rightarrow> int option"

definition presign_s3_url :: "cloud \<Rightarrow> sts_credentials \<Rightarrow> credential_context \<Rightarrow> string option" where
  "presign_s3_url C creds ctx =
     (case ctx_locations ctx of
        [] \<Rightarrow> None
      | url # _ \<Rightarrow> Option.bind (split_s3_url url) (\<lambda>(bucket, key).
          cl_presign C creds (presign_endpoint (cl_var C)) (presign_expiry_secs (cl_var C))
            (is_write_operation (ctx_operation ctx)) bucket key))"

definition aws_vend :: "cloud \<Rightarrow> credential_context \<Rightarrow> temporary_credentials res" where
  "aws_vend C ctx =
     rbind (ok_or (uc_err InvalidArgument ''No role ARN configured for credential'') (ctx_role_arn ctx))
       (\<lambda>role.
     rbind (map_err (\<lambda>e. uc_err Internal (''STS AssumeRole failed: '' @ e))
       (cl_assume_role C role (ctx_external_id ctx))) (\<lambda>response.
     rbind (ok_or (uc_err Internal ''STS returned no credentials'') response) (\<lambda>creds.
     Inr (no_credentials
       \<lparr>tmc_aws_temp_credentials := Some
          \<lparr>awc_access_key_id = sts_access_key_id creds, awc_secret_access_key = sts_secret_access_key creds,
           awc_session_token = sts_session_token creds, awc_expiration = Some (sts_expiration creds)\<rparr>,
        tmc_expiration_time := sts_expiration_ms creds,
        tmc_url := presign_s3_url C creds ctx\<rparr>))))"

definition vend_fresh :: "cloud \<Rightarrow> credential_context \<Rightarrow> temporary_credentials res" where
  "vend_fresh C ctx =
     (case ctx_scheme ctx of
        S3 \<Rightarrow> if cl_aws C then aws_vend C ctx
              else Inl (uc_err Unimplemented ''AWS credential vending not configured'')
      | Abfs \<Rightarrow> Inl (uc_err Unimplemented ''Azure credential vending not yet implemented'')
      | Abfss \<Rightarrow> Inl (uc_err Unimplemented ''Azure credential vending not yet implemented'')
      | Gs \<Rightarrow> Inl (uc_err Unimplemented ''GCP credential vending not yet implemented'')
      | File \<Rightarrow> Inr no_credentials
      | NullScheme \<Rightarrow> Inr no_credentials)"

text \<open>A hit, and what is stored after a miss.\<close>

definition cache_hit :: "vendor_cache \<Rightarrow> int \<Rightarrow> credential_context \<Rightarrow> temporary_credentials option" where
  "cache_hit cache now ctx =
     Option.bind (cache (make_cache_key ctx)) (\<lambda>entry.
     if cch_expires_at entry > now then Some (cch_creds entry) else None)"

definition cache_store ::
  "cloud \<Rightarrow> int \<Rightarrow> int \<Rightarrow> credential_context \<Rightarrow> temporary_credentials \<Rightarrow> vendor_cache \<Rightarrow> vendor_cache" where
  "cache_store C wall now ctx creds cache =
     (let ttl = (case parse_expiry_ttl (cl_rfc3339 C) wall creds of None \<Rightarrow> default_ttl | Some t \<Rightarrow> t)
      in cache(make_cache_key ctx \<mapsto> \<lparr>cch_creds = creds, cch_expires_at = now + ttl * 10 ^ 9\<rparr>))"

end
