(* ===== verification/Api.thy ===== *)
theory Api
  imports Vendor DeltaLog ManagedStorage Authorizer
    RepoNamespaces RepoTables RepoAssets RepoPrincipals RepoPolicy
begin

text \<open>
  What the handlers of \<^verbatim>\<open>uc_api\<close> share: the application state, the sequence of awaits a request is,
  and \<^verbatim>\<open>catalog_api::helpers\<close>. A handler runs on the state and the number of steps it has made; every
  step first lets the other requests of the process act, then does its own call, so that nothing is
  assumed to stay the same between two awaits. A result of \<open>None\<close> is a call that does not come back.
\<close>

section \<open>The application\<close>

text \<open>
  The mutable part of \<^verbatim>\<open>AppState\<close>: the store behind the pool, the hints of the Delta log, the cache of
  vended credentials, and the state of the authorizer, which may also write to the store.
\<close>

record ('l, 'a) app =
  app_store :: "'l store"
  app_hints :: delta_hints
  app_cache :: vendor_cache
  app_authz :: 'a

text \<open>
  The fixed part, and what surrounds one request: \<open>ap_between n\<close> is what other requests do before
  its \<open>n\<close>-th step, \<open>ap_world n\<close> the world of a commit made there, \<open>ap_now n\<close> and
  \<open>ap_instant n\<close> the clocks, \<open>ap_cloud n\<close> the cloud, and \<open>ap_uuid n a i\<close> the \<open>i\<close>-th fresh id of
  attempt \<open>a\<close>. The texts and values of JSON that handlers make or read themselves are parameters too.
\<close>

record ('j, 'v, 'l, 'a) api = "('j, 'v) delta_env" +
  ap_ops :: "'l log_ops"
  ap_authorizer :: "('l store \<times> 'a) authorizer"
  ap_metastore_id :: uuid
  ap_auth_enabled :: bool
  ap_between :: "nat \<Rightarrow> ('l, 'a) app \<Rightarrow> ('l, 'a) app"
  ap_world :: "nat \<Rightarrow> 'l world"
  ap_now :: "nat \<Rightarrow> int"
  ap_instant :: "nat \<Rightarrow> int"
  ap_cloud :: "nat \<Rightarrow> cloud"
  ap_uuid :: "nat \<Rightarrow> nat \<Rightarrow> nat \<Rightarrow> uuid"
  ap_uuid_parse :: "string \<Rightarrow> uuid option"                  \<comment> \<open>\<open>str::parse::<Uuid>\<close>\<close>
  ap_val_str :: "'v \<Rightarrow> string option"                       \<comment> \<open>\<open>Value::as_str\<close>\<close>
  ap_val_bool :: "'v \<Rightarrow> bool option"                        \<comment> \<open>\<open>Value::as_bool\<close>\<close>
  ap_aws_role :: "(aws_iam_role_request, string) codec"
  ap_aws_role_opt :: "aws_iam_role_request option \<Rightarrow> string + string"

text \<open>\<open>UcClaims\<close>, of \<^verbatim>\<open>uc_auth::jwt\<close>.\<close>

datatype token_type = TokAccess | TokService

record uc_claims =
  clm_sub :: string
  clm_iss :: string
  clm_iat :: int
  clm_jti :: string
  clm_token_type :: token_type

section \<open>Requests as sequences of steps\<close>

type_synonym ('l, 'a) moment = "('l, 'a) app \<times> nat"

type_synonym ('l, 'a, 'x) request = "('l, 'a) moment \<Rightarrow> ('x res \<times> ('l, 'a) moment) option"

definition h_res :: "'x res \<Rightarrow> ('l, 'a, 'x) request" where
  "h_res r m = Some (r, m)"

abbreviation h_ret :: "'x \<Rightarrow> ('l, 'a, 'x) request" where
  "h_ret x \<equiv> h_res (Inr x)"

abbreviation h_err :: "uc_error \<Rightarrow> ('l, 'a, 'x) request" where
  "h_err e \<equiv> h_res (Inl e)"

text \<open>\<open>let x = f.await?; k\<close>\<close>

definition h_bind :: "('l, 'a, 'x) request \<Rightarrow> ('x \<Rightarrow> ('l, 'a, 'y) request) \<Rightarrow> ('l, 'a, 'y) request" where
  "h_bind f k m =
     (case f m of
        None \<Rightarrow> None
      | Some (Inl e, m') \<Rightarrow> Some (Inl e, m')
      | Some (Inr x, m') \<Rightarrow> k x m')"

text \<open>\<open>f.await\<close> without the question mark: the result is a value.\<close>

definition h_try :: "('l, 'a, 'x) request \<Rightarrow> ('l, 'a, 'x res) request" where
  "h_try f m = map_option (\<lambda>(r, m'). (Inr r, m')) (f m)"

text \<open>\<open>f.await.ok()\<close>\<close>

definition res_ok :: "'x res \<Rightarrow> 'x option" where
  "res_ok r = (case r of Inl _ \<Rightarrow> None | Inr x \<Rightarrow> Some x)"

definition h_ok :: "('l, 'a, 'x) request \<Rightarrow> ('l, 'a, 'x option) request" where
  "h_ok f = h_bind (h_try f) (\<lambda>r. h_ret (res_ok r))"

definition h_when :: "bool \<Rightarrow> ('l, 'a, unit) request \<Rightarrow> ('l, 'a, unit) request" where
  "h_when b f = (if b then f else h_ret ())"

fun h_each :: "('x \<Rightarrow> ('l, 'a, unit) request) \<Rightarrow> 'x list \<Rightarrow> ('l, 'a, unit) request" where
  "h_each f [] = h_ret ()"
| "h_each f (x # xs) = h_bind (f x) (\<lambda>_. h_each f xs)"

fun h_map :: "('x \<Rightarrow> ('l, 'a, 'y) request) \<Rightarrow> 'x list \<Rightarrow> ('l, 'a, 'y list) request" where
  "h_map f [] = h_ret []"
| "h_map f (x # xs) = h_bind (f x) (\<lambda>y. h_bind (h_map f xs) (\<lambda>ys. h_ret (y # ys)))"

text \<open>One step.\<close>

definition h_step ::
  "('j, 'v, 'l, 'a, 'z) api_scheme \<Rightarrow>
   (nat \<Rightarrow> ('l, 'a) app \<Rightarrow> ('x res \<times> ('l, 'a) app) option) \<Rightarrow> ('l, 'a, 'x) request" where
  "h_step A f m = (case m of (s, n) \<Rightarrow>
     map_option (\<lambda>(r, s'). (r, (s', Suc n))) (f n (ap_between A n s)))"

text \<open>Reads of the resident state, writes to the store, calls of the authorizer, and calls of the Delta log.\<close>

definition h_look ::
  "('j, 'v, 'l, 'a, 'z) api_scheme \<Rightarrow> (('l, 'a) app \<Rightarrow> 'x res) \<Rightarrow> ('l, 'a, 'x) request" where
  "h_look A f = h_step A (\<lambda>_ s. Some (f s, s))"

definition h_read ::
  "('j, 'v, 'l, 'a, 'z) api_scheme \<Rightarrow> (snapshot \<Rightarrow> 'x res) \<Rightarrow> ('l, 'a, 'x) request" where
  "h_read A f = h_look A (\<lambda>s. f (state (app_store s)))"

definition h_write ::
  "('j, 'v, 'l, 'a, 'z) api_scheme \<Rightarrow> ('l world \<Rightarrow> 'l store \<Rightarrow> ('x res \<times> 'l store) option) \<Rightarrow>
   ('l, 'a, 'x) request" where
  "h_write A f = h_step A (\<lambda>n s.
     map_option (\<lambda>(r, st). (r, s\<lparr>app_store := st\<rparr>)) (f (ap_world A n) (app_store s)))"

definition authz_state :: "('l, 'a) app \<Rightarrow> 'l store \<times> 'a" where
  "authz_state s = (app_store s, app_authz s)"

definition h_ask ::
  "('j, 'v, 'l, 'a, 'z) api_scheme \<Rightarrow> ('l store \<times> 'a \<Rightarrow> 'x res) \<Rightarrow> ('l, 'a, 'x) request" where
  "h_ask A f = h_look A (\<lambda>s. f (authz_state s))"

definition h_tell ::
  "('j, 'v, 'l, 'a, 'z) api_scheme \<Rightarrow> ('l store \<times> 'a \<Rightarrow> unit res \<times> 'l store \<times> 'a) \<Rightarrow>
   ('l, 'a, unit) request" where
  "h_tell A f = h_step A (\<lambda>_ s.
     (case f (authz_state s) of (r, st, a) \<Rightarrow> Some (r, s\<lparr>app_store := st, app_authz := a\<rparr>)))"

definition h_delta ::
  "('j, 'v, 'l, 'a, 'z) api_scheme \<Rightarrow> ('l \<Rightarrow> delta_hints \<Rightarrow> ('x res \<times> 'l \<times> delta_hints) option) \<Rightarrow>
   ('l, 'a, 'x) request" where
  "h_delta A f = h_step A (\<lambda>_ s.
     map_option (\<lambda>(r, l, h). (r, s\<lparr>app_store := (app_store s)\<lparr>log := l\<rparr>, app_hints := h\<rparr>))
       (f (log (app_store s)) (app_hints s)))"

text \<open>\<open>now_ms()\<close> and \<open>Uuid::now_v7()\<close>; \<open>h_uuids\<close> is a stream of fresh ids.\<close>

definition now_ms :: "('j, 'v, 'l, 'a, 'z) api_scheme \<Rightarrow> ('l, 'a, int) request" where
  "now_ms A = h_step A (\<lambda>n s. Some (Inr (ap_now A n), s))"

definition h_uuids :: "('j, 'v, 'l, 'a, 'z) api_scheme \<Rightarrow> ('l, 'a, nat \<Rightarrow> nat \<Rightarrow> uuid) request" where
  "h_uuids A = h_step A (\<lambda>n s. Some (Inr (ap_uuid A n), s))"

definition h_uuid :: "('j, 'v, 'l, 'a, 'z) api_scheme \<Rightarrow> ('l, 'a, uuid) request" where
  "h_uuid A = h_bind (h_uuids A) (\<lambda>f. h_ret (f 0 0))"

text \<open>\<open>unwrap_or_default()\<close> of a text, and \<open>serde_json::to_string(x).unwrap_or_default()\<close>.\<close>

definition or_empty :: "string option \<Rightarrow> string" where
  "or_empty x = (case x of None \<Rightarrow> [] | Some s \<Rightarrow> s)"

definition text_or_empty :: "string + string \<Rightarrow> string" where
  "text_or_empty r = (case r of Inl _ \<Rightarrow> [] | Inr s \<Rightarrow> s)"

section \<open>Helpers\<close>

text \<open>\<open>splitn(n, '.')\<close>: the first piece, and what follows the dot, if any.\<close>

definition dot_split :: "string \<Rightarrow> string \<times> string option" where
  "dot_split s = (takeWhile (\<lambda>c. c \<noteq> CHR ''.'') s,
     (case dropWhile (\<lambda>c. c \<noteq> CHR ''.'') s of [] \<Rightarrow> None | _ # r \<Rightarrow> Some r))"

definition split2 :: "string \<Rightarrow> (string \<times> string) res" where
  "split2 s = (case dot_split s of
       (a, Some b) \<Rightarrow> Inr (a, b)
     | (_, None) \<Rightarrow> Inl (err_invalid_argument ''expected catalog.name''))"

definition split3_opt :: "string \<Rightarrow> (string \<times> string \<times> string) option" where
  "split3_opt s = (case dot_split s of
       (a, Some r) \<Rightarrow> (case dot_split r of (b, Some c) \<Rightarrow> Some (a, b, c) | _ \<Rightarrow> None)
     | _ \<Rightarrow> None)"

definition split3 :: "string \<Rightarrow> (string \<times> string \<times> string) res" where
  "split3 s = ok_or (err_invalid_argument ''expected catalog.schema.name'') (split3_opt s)"

definition get_user :: "('j, 'v, 'l, 'a, 'z) api_scheme \<Rightarrow> string \<Rightarrow> ('l, 'a, user_row) request" where
  "get_user A sub =
     h_bind (h_read A (\<lambda>s. user_get_by_email s sub)) (\<lambda>found.
     case found of
       Some row \<Rightarrow> h_ret row
     | None \<Rightarrow> h_bind (h_read A (\<lambda>s. user_get_by_external_id s sub)) (\<lambda>found.
         h_res (ok_or (err_unauthenticated ''User not found'') found)))"

definition h_authorize ::
  "('j, 'v, 'l, 'a, 'z) api_scheme \<Rightarrow> uuid \<Rightarrow> uuid \<Rightarrow> privilege \<Rightarrow> ('l, 'a, bool) request" where
  "h_authorize A who resource priv = h_ask A (au_authorize (ap_authorizer A) who resource priv)"

definition require ::
  "('j, 'v, 'l, 'a, 'z) api_scheme \<Rightarrow> uuid \<Rightarrow> uuid \<Rightarrow> privilege \<Rightarrow> ('l, 'a, unit) request" where
  "require A who resource priv =
     h_bind (h_authorize A who resource priv) (\<lambda>allowed.
     if \<not> allowed
     then h_err (err_permission_denied (''Insufficient privileges on '' @ uuid_text A resource))
     else h_ret ())"

definition auth_sub :: "('j, 'v, 'l, 'a, 'z) api_scheme \<Rightarrow> uc_claims \<Rightarrow> string option" where
  "auth_sub A claims = (if ap_auth_enabled A then Some (clm_sub claims) else None)"

text \<open>
  The characters of a name, as the bytes of each; the name of a request is a Rust string, so its
  bytes are UTF-8, and bytes that are not stand for themselves.
\<close>

function name_chars :: "string \<Rightarrow> (nat \<times> string) list" where
  "name_chars s =
     (case s of
        [] \<Rightarrow> []
      | c # r \<Rightarrow>
         (case utf8_step (map byte s) of
            Some (cp, n) \<Rightarrow> (cp, take n s) # name_chars (drop n s)
          | None \<Rightarrow> (byte c, [c]) # name_chars r))"
  by pat_completeness auto
termination
  by (relation "measure length") (auto dest: utf8_step_append [where ys = "[]"])

declare name_chars.simps [simp del]

definition bad_name_char :: "nat \<Rightarrow> bool" where
  "bad_name_char cp \<longleftrightarrow> cp = 46 \<or> cp = 47 \<or> cp_whitespace cp \<or> cp_control cp"

definition validate_sql_name :: "string \<Rightarrow> unit res" where
  "validate_sql_name name =
     (if name = [] then Inl (err_invalid_argument ''Name must not be empty'')
      else if length name > 255 then
        Inl (err_invalid_argument (''Name '' @ quoted name @ '' exceeds maximum length of 255 characters''))
      else case find (\<lambda>(cp, _). bad_name_char cp) (name_chars name) of
        Some (_, ch) \<Rightarrow> Inl (err_invalid_argument
          (''Name '' @ quoted name @ '' contains invalid character '' @ quoted ch))
      | None \<Rightarrow> Inr ())"

fun visible_of ::
  "('j, 'v, 'l, 'a, 'z) api_scheme \<Rightarrow> uuid \<Rightarrow> privilege \<Rightarrow> uuid list \<Rightarrow> ('l, 'a, uuid list) request" where
  "visible_of A who view [] = h_ret []"
| "visible_of A who view (i # is) =
     h_bind (h_authorize A who i view) (\<lambda>yes.
     h_bind (visible_of A who view is) (\<lambda>rest.
     h_ret (if yes then i # rest else rest)))"

definition filter_visible ::
  "('j, 'v, 'l, 'a, 'z) api_scheme \<Rightarrow> uuid option \<Rightarrow> uuid list \<Rightarrow> privilege \<Rightarrow> ('l, 'a, uuid list) request" where
  "filter_visible A caller ids view =
     (if \<not> ap_auth_enabled A then h_ret ids
      else case caller of
        None \<Rightarrow> h_ret []
      | Some who \<Rightarrow> visible_of A who view ids)"

section \<open>Steps the handlers repeat\<close>

text \<open>\<open>params.max_results.filter(|n| *n > 0).unwrap_or(50).min(1000)\<close>\<close>

definition page_size :: "int option \<Rightarrow> int" where
  "page_size max_results =
     min (case max_results of Some n \<Rightarrow> if n > 0 then n else 50 | None \<Rightarrow> 50) 1000"

text \<open>The check before an operation, by \<open>require\<close>.\<close>

definition ensure ::
  "('j, 'v, 'l, 'a, 'z) api_scheme \<Rightarrow> uc_claims \<Rightarrow> uuid \<Rightarrow> privilege \<Rightarrow> ('l, 'a, unit) request" where
  "ensure A claims resource priv =
     h_when (ap_auth_enabled A)
       (h_bind (get_user A (clm_sub claims)) (\<lambda>user. require A (usr_id user) resource priv))"

text \<open>The rows of a page the caller may see, by id.\<close>

definition visible_ids ::
  "('j, 'v, 'l, 'a, 'z) api_scheme \<Rightarrow> uc_claims \<Rightarrow> uuid list \<Rightarrow> privilege \<Rightarrow> ('l, 'a, uuid list) request" where
  "visible_ids A claims ids view =
     h_bind (if ap_auth_enabled A
             then h_bind (h_ok (get_user A (clm_sub claims))) (\<lambda>user. h_ret (map_option usr_id user))
             else h_ret None) (\<lambda>caller.
     if ap_auth_enabled A then filter_visible A caller ids view else h_ret ids)"

text \<open>What a create does for its creator.\<close>

definition own ::
  "('j, 'v, 'l, 'a, 'z) api_scheme \<Rightarrow> uc_claims \<Rightarrow> uuid \<Rightarrow> uuid option \<Rightarrow> ('l, 'a, unit) request" where
  "own A claims i parent =
     h_when (ap_auth_enabled A)
       (h_bind (h_ok (get_user A (clm_sub claims))) (\<lambda>user.
        case user of
          None \<Rightarrow> h_ret ()
        | Some u \<Rightarrow>
           h_bind (h_tell A (au_grant (ap_authorizer A) (usr_id u) i Owner)) (\<lambda>_.
           case parent of
             None \<Rightarrow> h_ret ()
           | Some p \<Rightarrow> h_tell A (au_add_hierarchy_child (ap_authorizer A) p i))))"

definition h_replace_properties ::
  "('j, 'v, 'l, 'a, 'z) api_scheme \<Rightarrow> uuid \<Rightarrow> string \<Rightarrow> (string, string) omap \<Rightarrow> ('l, 'a, unit) request" where
  "h_replace_properties A i type props =
     h_bind (h_uuids A) (\<lambda>fresh. h_write A (\<lambda>w. property_replace A (ap_ops A) w fresh i type props))"

definition h_set_property ::
  "('j, 'v, 'l, 'a, 'z) api_scheme \<Rightarrow> uuid \<Rightarrow> string \<Rightarrow> string \<Rightarrow> string \<Rightarrow> ('l, 'a, unit) request" where
  "h_set_property A i type key val =
     h_bind (h_uuids A) (\<lambda>fresh.
     h_write A (\<lambda>w. property_set A (ap_ops A) w (\<lambda>a. fresh a 0) i type key val))"

definition h_properties ::
  "('j, 'v, 'l, 'a, 'z) api_scheme \<Rightarrow> uuid \<Rightarrow> string \<Rightarrow> ('l, 'a, (string, string) omap option) request" where
  "h_properties A i type = h_ok (h_read A (\<lambda>s. get_for_entity A s i type))"

definition h_delete_properties ::
  "('j, 'v, 'l, 'a, 'z) api_scheme \<Rightarrow> uuid \<Rightarrow> string \<Rightarrow> ('l, 'a, unit) request" where
  "h_delete_properties A i type = h_write A (\<lambda>w. property_delete_for_entity A (ap_ops A) w i type)"

definition h_unlink :: "('j, 'v, 'l, 'a, 'z) api_scheme \<Rightarrow> uuid \<Rightarrow> ('l, 'a, unit) request" where
  "h_unlink A i = h_tell A (au_remove_hierarchy_children (ap_authorizer A) i)"

definition h_schema ::
  "('j, 'v, 'l, 'a, 'z) api_scheme \<Rightarrow> string \<Rightarrow> string \<Rightarrow> ('l, 'a, schema_row) request" where
  "h_schema A cat sch = h_read A (\<lambda>s. schema_get_by_full_name A s cat sch)"

text \<open>\<open>resolve_storage_root(..).await\<close>, which looks the catalog and the schema up again.\<close>

definition h_storage_root ::
  "('j, 'v, 'l, 'a, 'z) api_scheme \<Rightarrow> string \<Rightarrow> string \<Rightarrow> ('l, 'a, string) request" where
  "h_storage_root A cat sch =
     h_bind (h_schema A cat sch) (\<lambda>schema.
     h_bind (h_read A (\<lambda>s. catalog_get_by_name s cat)) (\<lambda>catalog.
     h_res (resolve_from_rows catalog schema)))"

text \<open>\<open>format!("{}.{}.{}", cat, sch, name)\<close>\<close>

definition dotted :: "string \<Rightarrow> string \<Rightarrow> string \<Rightarrow> string" where
  "dotted cat sch name = cat @ ''.'' @ sch @ ''.'' @ name"

definition h_if_some :: "'x option \<Rightarrow> ('x \<Rightarrow> ('l, 'a, unit) request) \<Rightarrow> ('l, 'a, unit) request" where
  "h_if_some x f = (case x of None \<Rightarrow> h_ret () | Some y \<Rightarrow> f y)"

end
