(* ===== verification/ApiNamespaces.thy ===== *)
theory ApiNamespaces
  imports Api
begin

text \<open>
  The handlers of catalogs and schemas: \<^verbatim>\<open>catalog_api::catalogs\<close> and \<^verbatim>\<open>catalog_api::schemas\<close>. A handler
  takes what axum extracts for it: the claims, the path, the query and the body.
\<close>

section \<open>Emptying a schema\<close>

text \<open>
  \<open>delete_schema_children\<close>; deleting a schema by force runs the same statements. Every listing is
  cut at 10000.
\<close>

definition delete_tables ::
  "('j, 'v, 'l, 'a, 'z) api_scheme \<Rightarrow> table_row list \<Rightarrow> ('l, 'a, unit) request" where
  "delete_tables A = h_each (\<lambda>t.
     h_bind (h_write A (\<lambda>w. delete_columns A (ap_ops A) w (tab_id t))) (\<lambda>_.
     h_bind (h_delete_properties A (tab_id t) ''table'') (\<lambda>_.
     h_write A (\<lambda>w. table_delete A (ap_ops A) w (tab_id t)))))"

definition delete_schema_children ::
  "('j, 'v, 'l, 'a, 'z) api_scheme \<Rightarrow> uuid \<Rightarrow> ('l, 'a, unit) request" where
  "delete_schema_children A schema_id =
     h_bind (h_read A (\<lambda>s. table_list A s schema_id None 10000)) (\<lambda>(tables, _).
     h_bind (delete_tables A tables) (\<lambda>_.
     h_bind (h_read A (\<lambda>s. volume_list A s schema_id None 10000)) (\<lambda>(volumes, _).
     h_bind (h_each (\<lambda>v. h_write A (\<lambda>w. volume_delete A (ap_ops A) w (vol_id v))) volumes) (\<lambda>_.
     h_bind (h_read A (\<lambda>s. function_list A s schema_id None 10000)) (\<lambda>(funcs, _).
     h_bind (h_each (\<lambda>f. h_write A (\<lambda>w. function_delete A (ap_ops A) w (fn_id f))) funcs) (\<lambda>_.
     h_bind (h_read A (\<lambda>s. list_models A s schema_id None 10000)) (\<lambda>(models, _).
     h_each (\<lambda>m. h_write A (\<lambda>w. delete_model A (ap_ops A) w (mdl_id m))) models)))))))"

section \<open>Catalogs\<close>

definition to_catalog_info :: "catalog_row \<Rightarrow> (string, string) omap option \<Rightarrow> catalog_info" where
  "to_catalog_info row props =
     \<lparr>cti_name = cat_name row, cti_comment = cat_comment row, cti_properties = props,
      cti_owner = cat_owner row, cti_created_at = Some (cat_created_at row),
      cti_created_by = cat_created_by row, cti_updated_at = cat_updated_at row,
      cti_updated_by = cat_updated_by row, cti_id = Some (cat_id row),
      cti_storage_root = cat_storage_root row, cti_storage_location = cat_storage_location row\<rparr>"

text \<open>The checks here do not go through \<open>require\<close> and have messages of their own.\<close>

definition ensure_catalog ::
  "('j, 'v, 'l, 'a, 'z) api_scheme \<Rightarrow> uc_claims \<Rightarrow> uuid \<Rightarrow> privilege \<Rightarrow> string \<Rightarrow> ('l, 'a, unit) request" where
  "ensure_catalog A claims resource priv msg =
     h_when (ap_auth_enabled A)
       (h_bind (get_user A (clm_sub claims)) (\<lambda>user.
        h_bind (h_authorize A (usr_id user) resource priv) (\<lambda>allowed.
        if \<not> allowed then h_err (err_permission_denied msg) else h_ret ())))"

definition catalogs_create ::
  "('j, 'v, 'l, 'a, 'z) api_scheme \<Rightarrow> uc_claims \<Rightarrow> create_catalog \<Rightarrow> ('l, 'a, catalog_info) request" where
  "catalogs_create A claims req =
     h_bind (ensure_catalog A claims (ap_metastore_id A) CreateCatalog
       ''CREATE CATALOG privilege required on metastore'') (\<lambda>_.
     h_bind (h_res (validate_sql_name (ccat_name req))) (\<lambda>_.
     h_bind (h_uuid A) (\<lambda>i.
     h_bind (now_ms A) (\<lambda>now.
     let creator = if ap_auth_enabled A then Some (clm_sub claims) else None in
     h_bind (h_write A (\<lambda>w. catalog_create A (ap_ops A) w i (ccat_name req) (ccat_comment req) None
       creator (ccat_storage_root req) now)) (\<lambda>row.
     h_bind (h_if_some (ccat_properties req) (h_replace_properties A i ''catalog'')) (\<lambda>_.
     h_bind (own A claims i (Some (ap_metastore_id A))) (\<lambda>_.
     h_bind (h_properties A i ''catalog'') (\<lambda>props.
     h_ret (to_catalog_info row props)))))))))"

definition catalogs_list ::
  "('j, 'v, 'l, 'a, 'z) api_scheme \<Rightarrow> int option \<Rightarrow> string option \<Rightarrow>
   ('l, 'a, list_catalogs_response) request" where
  "catalogs_list A max_results page_token =
     h_bind (h_read A (\<lambda>s. catalog_list s page_token (page_size max_results))) (\<lambda>(rows, next_token).
     h_ret \<lparr>lcat_catalogs = map (\<lambda>r. to_catalog_info r None) rows, lcat_next_page_token = next_token\<rparr>)"

definition catalogs_get ::
  "('j, 'v, 'l, 'a, 'z) api_scheme \<Rightarrow> string \<Rightarrow> ('l, 'a, catalog_info) request" where
  "catalogs_get A name =
     h_bind (h_read A (\<lambda>s. catalog_get_by_name s name)) (\<lambda>row.
     h_bind (h_properties A (cat_id row) ''catalog'') (\<lambda>props.
     h_ret (to_catalog_info row props)))"

definition catalogs_update ::
  "('j, 'v, 'l, 'a, 'z) api_scheme \<Rightarrow> uc_claims \<Rightarrow> string \<Rightarrow> update_catalog \<Rightarrow>
   ('l, 'a, catalog_info) request" where
  "catalogs_update A claims name req =
     h_bind (h_read A (\<lambda>s. catalog_get_by_name s name)) (\<lambda>existing.
     h_bind (ensure_catalog A claims (cat_id existing) Owner ''OWNER privilege required on catalog'') (\<lambda>_.
     h_bind (now_ms A) (\<lambda>now.
     let updater = if ap_auth_enabled A then Some (clm_sub claims) else None in
     h_bind (h_write A (\<lambda>w. catalog_update A (ap_ops A) w name (ucat_new_name req) (ucat_comment req)
       (ucat_owner req) updater now)) (\<lambda>row.
     h_bind (h_if_some (ucat_properties req) (\<lambda>props.
       h_when (props \<noteq> []) (h_replace_properties A (cat_id row) ''catalog'' props))) (\<lambda>_.
     h_bind (h_properties A (cat_id row) ''catalog'') (\<lambda>props.
     h_ret (to_catalog_info row props)))))))"

definition not_empty :: "string \<Rightarrow> string \<Rightarrow> uc_error" where
  "not_empty what name = uc_err FailedPrecondition
     (what @ '' '' @ quoted name @ '' is not empty. Use force=true to force deletion.'')"

definition catalogs_delete ::
  "('j, 'v, 'l, 'a, 'z) api_scheme \<Rightarrow> uc_claims \<Rightarrow> string \<Rightarrow> bool option \<Rightarrow> ('l, 'a, unit) request" where
  "catalogs_delete A claims name force =
     h_bind (h_read A (\<lambda>s. catalog_get_by_name s name)) (\<lambda>existing.
     h_bind (ensure_catalog A claims (cat_id existing) Owner ''OWNER privilege required on catalog'') (\<lambda>_.
     let force = (case force of None \<Rightarrow> False | Some b \<Rightarrow> b) in
     h_bind (h_read A (\<lambda>s. schema_list A s (cat_id existing) None 1)) (\<lambda>(schemas, _).
     h_bind (h_when (schemas \<noteq> [])
       (if \<not> force then h_err (not_empty ''Catalog'' name)
        else
          h_bind (h_read A (\<lambda>s. schema_list A s (cat_id existing) None 10000)) (\<lambda>(all_schemas, _).
          h_each (\<lambda>schema.
            h_bind (delete_schema_children A (sch_id schema)) (\<lambda>_.
            h_bind (h_delete_properties A (sch_id schema) ''schema'') (\<lambda>_.
            h_bind (h_unlink A (sch_id schema)) (\<lambda>_.
            h_write A (\<lambda>w. schema_delete A (ap_ops A) w (sch_id schema)))))) all_schemas))) (\<lambda>_.
     h_bind (h_delete_properties A (cat_id existing) ''catalog'') (\<lambda>_.
     h_bind (h_unlink A (cat_id existing)) (\<lambda>_.
     h_write A (\<lambda>w. catalog_delete A (ap_ops A) w name)))))))"

section \<open>Schemas\<close>

definition to_schema_info ::
  "schema_row \<Rightarrow> string \<Rightarrow> (string, string) omap option \<Rightarrow> schema_info" where
  "to_schema_info r catalog_name props =
     \<lparr>sci_name = sch_name r, sci_catalog_name = catalog_name, sci_comment = sch_comment r,
      sci_properties = props, sci_full_name = Some (catalog_name @ ''.'' @ sch_name r),
      sci_owner = sch_owner r, sci_created_at = Some (sch_created_at r),
      sci_created_by = sch_created_by r, sci_updated_at = sch_updated_at r,
      sci_updated_by = sch_updated_by r, sci_schema_id = Some (sch_id r),
      sci_storage_root = sch_storage_root r, sci_storage_location = sch_storage_location r\<rparr>"

definition schemas_create ::
  "('j, 'v, 'l, 'a, 'z) api_scheme \<Rightarrow> uc_claims \<Rightarrow> create_schema \<Rightarrow> ('l, 'a, schema_info) request" where
  "schemas_create A claims req =
     h_bind (h_read A (\<lambda>s. catalog_get_by_name s (csch_catalog_name req))) (\<lambda>catalog.
     h_bind (ensure A claims (cat_id catalog) CreateSchema) (\<lambda>_.
     h_bind (h_res (validate_sql_name (csch_name req))) (\<lambda>_.
     h_bind (h_uuid A) (\<lambda>i.
     h_bind (now_ms A) (\<lambda>now.
     h_bind (h_write A (\<lambda>w. schema_create A (ap_ops A) w i (cat_id catalog) (csch_name req)
       (csch_comment req) None (auth_sub A claims) (csch_storage_root req) now)) (\<lambda>row.
     h_bind (h_if_some (csch_properties req) (h_replace_properties A i ''schema'')) (\<lambda>_.
     h_bind (own A claims i (Some (cat_id catalog))) (\<lambda>_.
     h_bind (h_properties A i ''schema'') (\<lambda>props.
     h_ret (to_schema_info row (cat_name catalog) props))))))))))"

definition schemas_list ::
  "('j, 'v, 'l, 'a, 'z) api_scheme \<Rightarrow> uc_claims \<Rightarrow> string \<Rightarrow> int option \<Rightarrow> string option \<Rightarrow>
   ('l, 'a, list_schemas_response) request" where
  "schemas_list A claims catalog_name max_results page_token =
     h_bind (h_read A (\<lambda>s. catalog_get_by_name s catalog_name)) (\<lambda>catalog.
     h_bind (h_read A (\<lambda>s. schema_list A s (cat_id catalog) page_token (page_size max_results)))
       (\<lambda>(rows, next_token).
     h_bind (visible_ids A claims (map sch_id rows) UseSchema) (\<lambda>visible.
     h_ret \<lparr>lsch_schemas = map (\<lambda>r. to_schema_info r (cat_name catalog) None)
              (filter (\<lambda>r. sch_id r \<in> set visible) rows),
            lsch_next_page_token = next_token\<rparr>)))"

definition schemas_get ::
  "('j, 'v, 'l, 'a, 'z) api_scheme \<Rightarrow> string \<Rightarrow> ('l, 'a, schema_info) request" where
  "schemas_get A full_name =
     h_bind (h_res (split2 full_name)) (\<lambda>(cat, sch).
     h_bind (h_schema A cat sch) (\<lambda>row.
     h_bind (h_properties A (sch_id row) ''schema'') (\<lambda>props.
     h_ret (to_schema_info row cat props))))"

definition schemas_update ::
  "('j, 'v, 'l, 'a, 'z) api_scheme \<Rightarrow> uc_claims \<Rightarrow> string \<Rightarrow> update_schema \<Rightarrow>
   ('l, 'a, schema_info) request" where
  "schemas_update A claims full_name req =
     h_bind (h_res (split2 full_name)) (\<lambda>(cat, sch).
     h_bind (h_schema A cat sch) (\<lambda>existing.
     h_bind (ensure A claims (sch_id existing) Owner) (\<lambda>_.
     h_bind (now_ms A) (\<lambda>now.
     h_bind (h_write A (\<lambda>w. schema_update A (ap_ops A) w (sch_id existing) (usch_new_name req)
       (usch_comment req) (usch_owner req) (auth_sub A claims) now)) (\<lambda>row.
     h_bind (h_if_some (usch_properties req) (\<lambda>props.
       h_when (props \<noteq> []) (h_replace_properties A (sch_id row) ''schema'' props))) (\<lambda>_.
     h_bind (h_properties A (sch_id row) ''schema'') (\<lambda>props.
     h_ret (to_schema_info row cat props))))))))"

definition schemas_delete ::
  "('j, 'v, 'l, 'a, 'z) api_scheme \<Rightarrow> uc_claims \<Rightarrow> string \<Rightarrow> bool option \<Rightarrow> ('l, 'a, unit) request" where
  "schemas_delete A claims full_name force =
     h_bind (h_res (split2 full_name)) (\<lambda>(cat, sch).
     h_bind (h_schema A cat sch) (\<lambda>existing.
     h_bind (ensure A claims (sch_id existing) Owner) (\<lambda>_.
     let force = (case force of None \<Rightarrow> False | Some b \<Rightarrow> b) in
     h_bind (h_read A (\<lambda>s. table_list A s (sch_id existing) None 1)) (\<lambda>(tables, _).
     h_bind (h_read A (\<lambda>s. volume_list A s (sch_id existing) None 1)) (\<lambda>(volumes, _).
     h_bind (h_read A (\<lambda>s. function_list A s (sch_id existing) None 1)) (\<lambda>(funcs, _).
     h_bind (h_read A (\<lambda>s. list_models A s (sch_id existing) None 1)) (\<lambda>(models, _).
     h_bind (h_when (tables \<noteq> [] \<or> volumes \<noteq> [] \<or> funcs \<noteq> [] \<or> models \<noteq> [])
       (if \<not> force then h_err (not_empty ''Schema'' full_name)
        else delete_schema_children A (sch_id existing))) (\<lambda>_.
     h_bind (h_delete_properties A (sch_id existing) ''schema'') (\<lambda>_.
     h_bind (h_unlink A (sch_id existing)) (\<lambda>_.
     h_write A (\<lambda>w. schema_delete A (ap_ops A) w (sch_id existing))))))))))))"

end
