(* ===== verification/ApiTables.thy ===== *)
theory ApiTables
  imports Api
begin

text \<open>
  The handlers of tables, staging tables and volumes: \<^verbatim>\<open>catalog_api::tables\<close>,
  \<^verbatim>\<open>catalog_api::staging_tables\<close> and \<^verbatim>\<open>catalog_api::volumes\<close>.
\<close>

section \<open>The texts of enums\<close>

text \<open>\<open>format!("{:?}", x).to_uppercase()\<close> and what is read back from a row.\<close>

fun table_type_text :: "table_type \<Rightarrow> string" where
  "table_type_text TtManaged = ''MANAGED''"
| "table_type_text TtExternal = ''EXTERNAL''"
| "table_type_text TtStreamingTable = ''STREAMINGTABLE''"
| "table_type_text TtMaterializedView = ''MATERIALIZEDVIEW''"
| "table_type_text TtMetricView = ''METRICVIEW''"

definition parse_table_type :: "string \<Rightarrow> table_type option" where
  "parse_table_type s =
     (if s = ''MANAGED'' then Some TtManaged
      else if s = ''EXTERNAL'' then Some TtExternal
      else if s = ''STREAMING_TABLE'' then Some TtStreamingTable
      else if s = ''MATERIALIZED_VIEW'' then Some TtMaterializedView
      else None)"

fun format_text :: "data_source_format \<Rightarrow> string" where
  "format_text DfDelta = ''DELTA''"
| "format_text DfCsv = ''CSV''"
| "format_text DfJson = ''JSON''"
| "format_text DfAvro = ''AVRO''"
| "format_text DfParquet = ''PARQUET''"
| "format_text DfOrc = ''ORC''"
| "format_text DfText = ''TEXT''"
| "format_text DfUnityCatalog = ''UNITYCATALOG''"

definition parse_format :: "string \<Rightarrow> data_source_format option" where
  "parse_format s =
     (if s = ''DELTA'' then Some DfDelta
      else if s = ''CSV'' then Some DfCsv
      else if s = ''JSON'' then Some DfJson
      else if s = ''AVRO'' then Some DfAvro
      else if s = ''PARQUET'' then Some DfParquet
      else if s = ''ORC'' then Some DfOrc
      else if s = ''TEXT'' then Some DfText
      else None)"

fun type_name_text :: "column_type_name \<Rightarrow> string" where
  "type_name_text CtBoolean = ''BOOLEAN''"
| "type_name_text CtByte = ''BYTE''"
| "type_name_text CtShort = ''SHORT''"
| "type_name_text CtInt = ''INT''"
| "type_name_text CtLong = ''LONG''"
| "type_name_text CtFloat = ''FLOAT''"
| "type_name_text CtDouble = ''DOUBLE''"
| "type_name_text CtDate = ''DATE''"
| "type_name_text CtTimestamp = ''TIMESTAMP''"
| "type_name_text CtTimestampNtz = ''TIMESTAMPNTZ''"
| "type_name_text CtString = ''STRING''"
| "type_name_text CtBinary = ''BINARY''"
| "type_name_text CtDecimal = ''DECIMAL''"
| "type_name_text CtInterval = ''INTERVAL''"
| "type_name_text CtArray = ''ARRAY''"
| "type_name_text CtStruct = ''STRUCT''"
| "type_name_text CtMap = ''MAP''"
| "type_name_text CtVariant = ''VARIANT''"
| "type_name_text CtChar = ''CHAR''"
| "type_name_text CtNull = ''NULL''"
| "type_name_text CtUserDefinedType = ''USERDEFINEDTYPE''"
| "type_name_text CtTableType = ''TABLETYPE''"

definition parse_col_type :: "string \<Rightarrow> column_type_name option" where
  "parse_col_type s =
     (if s = ''BOOLEAN'' then Some CtBoolean
      else if s = ''BYTE'' then Some CtByte
      else if s = ''SHORT'' then Some CtShort
      else if s = ''INT'' then Some CtInt
      else if s = ''LONG'' then Some CtLong
      else if s = ''FLOAT'' then Some CtFloat
      else if s = ''DOUBLE'' then Some CtDouble
      else if s = ''DATE'' then Some CtDate
      else if s = ''TIMESTAMP'' then Some CtTimestamp
      else if s = ''TIMESTAMP_NTZ'' then Some CtTimestampNtz
      else if s = ''STRING'' then Some CtString
      else if s = ''BINARY'' then Some CtBinary
      else if s = ''DECIMAL'' then Some CtDecimal
      else if s = ''ARRAY'' then Some CtArray
      else if s = ''STRUCT'' then Some CtStruct
      else if s = ''MAP'' then Some CtMap
      else if s = ''NULL'' then Some CtNull
      else None)"

fun volume_type_text :: "volume_type \<Rightarrow> string" where
  "volume_type_text VtManaged = ''MANAGED''"
| "volume_type_text VtExternal = ''EXTERNAL''"

section \<open>Tables\<close>

definition normalize_location :: "string option \<Rightarrow> string option" where
  "normalize_location url = map_option (\<lambda>u. if starts_with u ''/'' then ''file://'' @ u else u) url"

definition to_column_info :: "column_row \<Rightarrow> column_info" where
  "to_column_info c =
     \<lparr>cli_name = col_name c, cli_type_text = Some (col_type_text c), cli_type_json = Some (col_type_json c),
      cli_type_name = parse_col_type (col_type_name c), cli_type_precision = col_type_precision c,
      cli_type_scale = col_type_scale c, cli_type_interval_type = col_type_interval_type c,
      cli_position = Some (col_ordinal_position c), cli_comment = col_comment c,
      cli_nullable = Some (col_nullable c), cli_partition_index = col_partition_index c\<rparr>"

definition to_table_info ::
  "table_row \<Rightarrow> string \<Rightarrow> string \<Rightarrow> column_row list option \<Rightarrow> (string, string) omap option \<Rightarrow> table_info" where
  "to_table_info r cat sch cols props =
     \<lparr>tbi_name = tab_name r, tbi_catalog_name = cat, tbi_schema_name = sch,
      tbi_table_type = parse_table_type (tab_type r),
      tbi_data_source_format = Option.bind (tab_data_source_format r) parse_format,
      tbi_columns = map_option (map to_column_info) cols,
      tbi_storage_location = normalize_location (tab_url r), tbi_comment = tab_comment r,
      tbi_properties = props, tbi_owner = tab_owner r, tbi_created_at = Some (tab_created_at r),
      tbi_created_by = tab_created_by r, tbi_updated_at = tab_updated_at r,
      tbi_updated_by = tab_updated_by r, tbi_table_id = Some (tab_id r),
      tbi_full_name = Some (dotted cat sch (tab_name r)), tbi_view_definition = tab_view_definition r\<rparr>"

text \<open>\<open>i32::try_from(n).unwrap_or(i32::MAX)\<close>\<close>

definition count_i32 :: "nat \<Rightarrow> int" where
  "count_i32 n = min (int n) i32_max"

text \<open>The JSON text derived from a type text; the raw string of the source keeps its backslashes.\<close>

definition derived_type_json :: "string \<Rightarrow> string" where
  "derived_type_json t = (let q = [CHR 0x5C, CHR 0x22] in
     ''{'' @ q @ ''type'' @ q @ '':'' @ q @ t @ q @ ''}'')"

definition new_column :: "uuid \<Rightarrow> (nat \<Rightarrow> uuid) \<Rightarrow> nat \<Rightarrow> column_info \<Rightarrow> column_row" where
  "new_column table_id fresh i c =
     \<lparr>col_id = fresh i, col_table_id = table_id, col_name = cli_name c,
      col_ordinal_position = count_i32 i,
      col_type_text = or_empty (cli_type_text c),
      col_type_json = (case cli_type_json c of
          Some j \<Rightarrow> j
        | None \<Rightarrow> (case cli_type_text c of None \<Rightarrow> [] | Some t \<Rightarrow> derived_type_json t)),
      col_type_name = (case cli_type_name c of None \<Rightarrow> [] | Some t \<Rightarrow> type_name_text t),
      col_type_precision = cli_type_precision c, col_type_scale = cli_type_scale c,
      col_type_interval_type = cli_type_interval_type c,
      col_nullable = (case cli_nullable c of None \<Rightarrow> True | Some b \<Rightarrow> b),
      col_comment = cli_comment c, col_partition_index = cli_partition_index c\<rparr>"

definition new_columns :: "uuid \<Rightarrow> (nat \<Rightarrow> uuid) \<Rightarrow> column_info list \<Rightarrow> column_row list" where
  "new_columns table_id fresh cols = map (\<lambda>(i, c). new_column table_id fresh i c) (enumerate 0 cols)"

definition no_staging_table :: "string \<Rightarrow> uc_error" where
  "no_staging_table loc = uc_err NotFound (''No staging table found at location '' @ quoted loc @
     ''. Create a staging table first via POST /staging-tables.'')"

definition already_committed :: "string \<Rightarrow> uc_error" where
  "already_committed loc = uc_err FailedPrecondition
     (''Staging table at '' @ quoted loc @ '' has already been committed.'')"

text \<open>Turning the staging table at a location into the table: its id, and its own location.\<close>

definition commit_staging ::
  "('j, 'v, 'l, 'a, 'z) api_scheme \<Rightarrow> uc_claims \<Rightarrow> string \<Rightarrow> int \<Rightarrow> ('l, 'a, uuid \<times> string) request" where
  "commit_staging A claims loc now =
     h_bind (h_try (h_read A (\<lambda>s. staging_get_by_location s loc))) (\<lambda>found.
     h_bind (h_res (map_err (\<lambda>_. no_staging_table loc) found)) (\<lambda>staging.
     if stg_stage_committed staging then h_err (already_committed loc)
     else
       h_bind (h_when (ap_auth_enabled A)
         (h_bind (get_user A (clm_sub claims)) (\<lambda>user.
          h_bind (h_authorize A (usr_id user) (stg_id staging) Owner) (\<lambda>allowed.
          if \<not> allowed
          then h_err (err_permission_denied
            ''Only the staging table creator can commit it into a MANAGED table'')
          else h_ret ())))) (\<lambda>_.
       h_bind (h_write A (\<lambda>w. staging_mark_committed A (ap_ops A) w (stg_id staging) now)) (\<lambda>_.
       h_ret (stg_id staging, stg_staging_location staging)))))"

definition table_place ::
  "('j, 'v, 'l, 'a, 'z) api_scheme \<Rightarrow> uc_claims \<Rightarrow> create_table \<Rightarrow> uuid \<Rightarrow> int \<Rightarrow>
   ('l, 'a, uuid \<times> string option) request" where
  "table_place A claims req schema_id now =
     (case ctab_table_type req of
        TtManaged \<Rightarrow>
          (let loc = or_empty (ctab_storage_location req) in
           if loc \<noteq> [] then
             h_bind (commit_staging A claims loc now) (\<lambda>(i, place). h_ret (i, Some place))
           else
             h_bind (h_storage_root A (ctab_catalog_name req) (ctab_schema_name req)) (\<lambda>root.
             h_bind (h_uuid A) (\<lambda>i.
             h_ret (i, Some (managed_table_location A root schema_id i)))))
      | _ \<Rightarrow> h_bind (h_uuid A) (\<lambda>i. h_ret (i, ctab_storage_location req)))"

definition new_table ::
  "create_table \<Rightarrow> uuid \<Rightarrow> string option \<Rightarrow> uuid \<Rightarrow> int \<Rightarrow> string option \<Rightarrow> table_row" where
  "new_table req i place schema_id now caller =
     \<lparr>tab_id = i, tab_schema_id = schema_id, tab_name = ctab_name req,
      tab_type = table_type_text (ctab_table_type req), tab_owner = None, tab_created_at = now,
      tab_created_by = caller, tab_updated_at = None, tab_updated_by = None,
      tab_data_source_format = map_option format_text (ctab_data_source_format req),
      tab_comment = ctab_comment req, tab_url = place,
      tab_column_count = map_option (\<lambda>c. count_i32 (length c)) (ctab_columns req),
      tab_view_definition = ctab_view_definition req,
      tab_uniform_iceberg_metadata_location = None,
      tab_uniform_iceberg_converted_delta_version = None,
      tab_uniform_iceberg_converted_delta_timestamp = None\<rparr>"

definition tables_create ::
  "('j, 'v, 'l, 'a, 'z) api_scheme \<Rightarrow> uc_claims \<Rightarrow> create_table \<Rightarrow> ('l, 'a, table_info) request" where
  "tables_create A claims req =
     h_bind (h_schema A (ctab_catalog_name req) (ctab_schema_name req)) (\<lambda>schema.
     h_bind (ensure A claims (sch_id schema) CreateTable) (\<lambda>_.
     h_bind (h_res (validate_sql_name (ctab_name req))) (\<lambda>_.
     h_bind (now_ms A) (\<lambda>now.
     h_bind (table_place A claims req (sch_id schema) now) (\<lambda>(i, place).
     h_bind (h_write A (\<lambda>w. table_create A (ap_ops A) w
       (new_table req i place (sch_id schema) now (auth_sub A claims)))) (\<lambda>created.
     h_bind (h_if_some (ctab_columns req) (\<lambda>cols.
       h_bind (h_uuids A) (\<lambda>fresh.
       h_write A (\<lambda>w. insert_columns A (ap_ops A) w (new_columns i (fresh 0) cols))))) (\<lambda>_.
     h_bind (h_if_some (ctab_properties req) (h_replace_properties A i ''table'')) (\<lambda>_.
     h_bind (own A claims i (Some (sch_id schema))) (\<lambda>_.
     h_bind (h_ok (h_read A (\<lambda>s. get_columns A s i))) (\<lambda>columns.
     h_bind (h_properties A i ''table'') (\<lambda>props.
     h_ret (to_table_info created (ctab_catalog_name req) (ctab_schema_name req) columns props))))))))))))"

definition tables_list ::
  "('j, 'v, 'l, 'a, 'z) api_scheme \<Rightarrow> uc_claims \<Rightarrow> string \<Rightarrow> string \<Rightarrow> int option \<Rightarrow> string option \<Rightarrow>
   ('l, 'a, list_tables_response) request" where
  "tables_list A claims cat sch max_results page_token =
     h_bind (h_schema A cat sch) (\<lambda>schema.
     h_bind (h_read A (\<lambda>s. table_list A s (sch_id schema) page_token (page_size max_results)))
       (\<lambda>(rows, next_token).
     h_bind (visible_ids A claims (map tab_id rows) Select) (\<lambda>visible.
     h_ret \<lparr>ltab_tables = map (\<lambda>r. to_table_info r cat sch None None)
              (filter (\<lambda>r. tab_id r \<in> set visible) rows),
            ltab_next_page_token = next_token\<rparr>)))"

definition h_table ::
  "('j, 'v, 'l, 'a, 'z) api_scheme \<Rightarrow> string \<Rightarrow> string \<Rightarrow> string \<Rightarrow> ('l, 'a, table_row) request" where
  "h_table A cat sch tbl =
     h_bind (h_schema A cat sch) (\<lambda>schema.
     h_read A (\<lambda>s. table_get_by_schema_and_name A s (sch_id schema) tbl))"

definition tables_get ::
  "('j, 'v, 'l, 'a, 'z) api_scheme \<Rightarrow> string \<Rightarrow> ('l, 'a, table_info) request" where
  "tables_get A full_name =
     h_bind (h_res (split3 full_name)) (\<lambda>(cat, sch, tbl).
     h_bind (h_table A cat sch tbl) (\<lambda>row.
     h_bind (h_ok (h_read A (\<lambda>s. get_columns A s (tab_id row)))) (\<lambda>columns.
     h_bind (h_properties A (tab_id row) ''table'') (\<lambda>props.
     h_ret (to_table_info row cat sch columns props)))))"

definition tables_delete ::
  "('j, 'v, 'l, 'a, 'z) api_scheme \<Rightarrow> uc_claims \<Rightarrow> string \<Rightarrow> ('l, 'a, unit) request" where
  "tables_delete A claims full_name =
     h_bind (h_res (split3 full_name)) (\<lambda>(cat, sch, tbl).
     h_bind (h_table A cat sch tbl) (\<lambda>row.
     h_bind (ensure A claims (tab_id row) Owner) (\<lambda>_.
     h_bind (h_write A (\<lambda>w. delete_columns A (ap_ops A) w (tab_id row))) (\<lambda>_.
     h_bind (h_delete_properties A (tab_id row) ''table'') (\<lambda>_.
     h_bind (h_unlink A (tab_id row)) (\<lambda>_.
     h_write A (\<lambda>w. table_delete A (ap_ops A) w (tab_id row))))))))"

section \<open>Staging tables\<close>

definition new_staging ::
  "uuid \<Rightarrow> uuid \<Rightarrow> string \<Rightarrow> string \<Rightarrow> int \<Rightarrow> string option \<Rightarrow> staging_table_row" where
  "new_staging i schema_id name location now creator =
     \<lparr>stg_id = i, stg_schema_id = schema_id, stg_name = name, stg_staging_location = location,
      stg_created_at = now, stg_created_by = creator, stg_accessed_at = now,
      stg_stage_committed = False, stg_stage_committed_at = None, stg_purge_state = 0,
      stg_num_cleanup_retries = 0, stg_last_cleanup_at = None\<rparr>"

definition staging_tables_create ::
  "('j, 'v, 'l, 'a, 'z) api_scheme \<Rightarrow> uc_claims \<Rightarrow> create_staging_table \<Rightarrow>
   ('l, 'a, staging_table_info) request" where
  "staging_tables_create A claims req =
     h_bind (h_schema A (cstg_catalog_name req) (cstg_schema_name req)) (\<lambda>schema.
     h_bind (ensure A claims (sch_id schema) CreateTable) (\<lambda>_.
     h_bind (h_uuid A) (\<lambda>i.
     h_bind (now_ms A) (\<lambda>now.
     h_bind (h_try (h_storage_root A (cstg_catalog_name req) (cstg_schema_name req))) (\<lambda>root.
     let location = (case root of
           Inr root \<Rightarrow> staging_table_location A root (sch_id schema) i
         | Inl _ \<Rightarrow> ''file:///tmp/uc/staging/'' @ cstg_catalog_name req @ ''/'' @
             cstg_schema_name req @ ''/'' @ uuid_text A i) in
     h_bind (h_write A (\<lambda>w. staging_create A (ap_ops A) w
       (new_staging i (sch_id schema) (cstg_name req) location now (auth_sub A claims)))) (\<lambda>_.
     h_bind (own A claims i None) (\<lambda>_.
     h_ret \<lparr>sti_table_id = i, sti_staging_location = location,
            sti_schema_name = cstg_schema_name req, sti_catalog_name = cstg_catalog_name req\<rparr>)))))))"

section \<open>Volumes\<close>

definition normalize_loc :: "string option \<Rightarrow> string option" where
  "normalize_loc url = map_option (\<lambda>u. if starts_with u ''/'' then ''file://'' @ u else u) url"

definition to_volume_info ::
  "volume_row \<Rightarrow> string \<Rightarrow> string \<Rightarrow> (string, string) omap option \<Rightarrow> volume_info" where
  "to_volume_info r cat sch props =
     \<lparr>vli_catalog_name = cat, vli_schema_name = sch, vli_name = vol_name r, vli_comment = vol_comment r,
      vli_owner = vol_owner r, vli_created_at = Some (vol_created_at r),
      vli_created_by = vol_created_by r, vli_updated_at = vol_updated_at r,
      vli_updated_by = vol_updated_by r, vli_volume_id = Some (vol_id r),
      vli_volume_type = (if vol_volume_type r = ''MANAGED'' then VtManaged else VtExternal),
      vli_storage_location = normalize_loc (vol_storage_location r),
      vli_full_name = Some (dotted cat sch (vol_name r)), vli_properties = props\<rparr>"

definition volume_place ::
  "('j, 'v, 'l, 'a, 'z) api_scheme \<Rightarrow> create_volume_request_content \<Rightarrow> uuid \<Rightarrow> uuid \<Rightarrow>
   ('l, 'a, string option) request" where
  "volume_place A req schema_id i =
     (if cvol_volume_type req = VtManaged \<and> cvol_storage_location req = None then
        h_bind (h_try (h_storage_root A (cvol_catalog_name req) (cvol_schema_name req))) (\<lambda>root.
        h_ret (case root of
            Inr root \<Rightarrow> Some (managed_volume_location A root schema_id i)
          | Inl _ \<Rightarrow> None))
      else h_ret (cvol_storage_location req))"

definition volumes_create ::
  "('j, 'v, 'l, 'a, 'z) api_scheme \<Rightarrow> uc_claims \<Rightarrow> create_volume_request_content \<Rightarrow>
   ('l, 'a, volume_info) request" where
  "volumes_create A claims req =
     h_bind (h_schema A (cvol_catalog_name req) (cvol_schema_name req)) (\<lambda>schema.
     h_bind (ensure A claims (sch_id schema) CreateVolume) (\<lambda>_.
     h_bind (h_res (validate_sql_name (cvol_name req))) (\<lambda>_.
     h_bind (h_uuid A) (\<lambda>i.
     h_bind (now_ms A) (\<lambda>now.
     h_bind (volume_place A req (sch_id schema) i) (\<lambda>place.
     let row = \<lparr>vol_id = i, vol_schema_id = sch_id schema, vol_name = cvol_name req,
                vol_comment = cvol_comment req, vol_storage_location = place, vol_owner = None,
                vol_created_at = now, vol_created_by = auth_sub A claims, vol_updated_at = None,
                vol_updated_by = None, vol_volume_type = volume_type_text (cvol_volume_type req)\<rparr> in
     h_bind (h_write A (\<lambda>w. volume_create A (ap_ops A) w row)) (\<lambda>created.
     h_bind (h_if_some (cvol_properties req) (h_replace_properties A i ''volume'')) (\<lambda>_.
     h_bind (own A claims i (Some (sch_id schema))) (\<lambda>_.
     h_bind (h_properties A i ''volume'') (\<lambda>props.
     h_ret (to_volume_info created (cvol_catalog_name req) (cvol_schema_name req) props)))))))))))"

definition volumes_list ::
  "('j, 'v, 'l, 'a, 'z) api_scheme \<Rightarrow> uc_claims \<Rightarrow> string \<Rightarrow> string \<Rightarrow> int option \<Rightarrow> string option \<Rightarrow>
   ('l, 'a, list_volumes_response_content) request" where
  "volumes_list A claims cat sch max_results page_token =
     h_bind (h_schema A cat sch) (\<lambda>schema.
     h_bind (h_read A (\<lambda>s. volume_list A s (sch_id schema) page_token (page_size max_results)))
       (\<lambda>(rows, next_token).
     h_bind (visible_ids A claims (map vol_id rows) ReadVolume) (\<lambda>visible.
     h_ret \<lparr>lvol_volumes = map (\<lambda>r. to_volume_info r cat sch None)
              (filter (\<lambda>r. vol_id r \<in> set visible) rows),
            lvol_next_page_token = next_token\<rparr>)))"

definition h_volume ::
  "('j, 'v, 'l, 'a, 'z) api_scheme \<Rightarrow> string \<Rightarrow> string \<Rightarrow> string \<Rightarrow> ('l, 'a, volume_row) request" where
  "h_volume A cat sch vol =
     h_bind (h_schema A cat sch) (\<lambda>schema.
     h_read A (\<lambda>s. volume_get_by_schema_and_name A s (sch_id schema) vol))"

definition volumes_get ::
  "('j, 'v, 'l, 'a, 'z) api_scheme \<Rightarrow> string \<Rightarrow> ('l, 'a, volume_info) request" where
  "volumes_get A full_name =
     h_bind (h_res (split3 full_name)) (\<lambda>(cat, sch, vol).
     h_bind (h_volume A cat sch vol) (\<lambda>row.
     h_bind (h_properties A (vol_id row) ''volume'') (\<lambda>props.
     h_ret (to_volume_info row cat sch props))))"

definition volumes_update ::
  "('j, 'v, 'l, 'a, 'z) api_scheme \<Rightarrow> uc_claims \<Rightarrow> string \<Rightarrow> update_volume_request_content \<Rightarrow>
   ('l, 'a, volume_info) request" where
  "volumes_update A claims full_name req =
     h_bind (h_res (split3 full_name)) (\<lambda>(cat, sch, vol).
     h_bind (h_volume A cat sch vol) (\<lambda>existing.
     h_bind (ensure A claims (vol_id existing) Owner) (\<lambda>_.
     h_bind (now_ms A) (\<lambda>now.
     h_bind (h_write A (\<lambda>w. volume_update A (ap_ops A) w (vol_id existing) (uvol_new_name req)
       (uvol_comment req) (uvol_owner req) now (auth_sub A claims))) (\<lambda>row.
     h_bind (h_if_some (uvol_properties req) (h_replace_properties A (vol_id existing) ''volume'')) (\<lambda>_.
     h_bind (h_properties A (vol_id existing) ''volume'') (\<lambda>props.
     h_ret (to_volume_info row cat sch props))))))))"

definition volumes_delete ::
  "('j, 'v, 'l, 'a, 'z) api_scheme \<Rightarrow> uc_claims \<Rightarrow> string \<Rightarrow> ('l, 'a, unit) request" where
  "volumes_delete A claims full_name =
     h_bind (h_res (split3 full_name)) (\<lambda>(cat, sch, vol).
     h_bind (h_volume A cat sch vol) (\<lambda>existing.
     h_bind (ensure A claims (vol_id existing) Owner) (\<lambda>_.
     h_bind (h_unlink A (vol_id existing)) (\<lambda>_.
     h_bind (h_delete_properties A (vol_id existing) ''volume'') (\<lambda>_.
     h_write A (\<lambda>w. volume_delete A (ap_ops A) w (vol_id existing)))))))"

end
