(* ===== verification/ApiAssets.thy ===== *)
theory ApiAssets
  imports ApiTables
begin

text \<open>
  The handlers of functions, registered models and their versions: \<^verbatim>\<open>catalog_api::functions\<close> and
  \<^verbatim>\<open>catalog_api::models\<close>.
\<close>

section \<open>Functions\<close>

definition parse_col_type_name :: "string \<Rightarrow> column_type_name option" where
  "parse_col_type_name s =
     (if s = ''BOOLEAN'' then Some CtBoolean
      else if s = ''BYTE'' then Some CtByte
      else if s = ''SHORT'' then Some CtShort
      else if s = ''INT'' then Some CtInt
      else if s = ''LONG'' then Some CtLong
      else if s = ''FLOAT'' then Some CtFloat
      else if s = ''DOUBLE'' then Some CtDouble
      else if s = ''DATE'' then Some CtDate
      else if s = ''TIMESTAMP'' then Some CtTimestamp
      else if s = ''TIMESTAMP_NTZ'' then Some CtTimestampNtz
      else if s = ''STRING'' then Some CtString
      else if s = ''BINARY'' then Some CtBinary
      else if s = ''DECIMAL'' then Some CtDecimal
      else if s = ''ARRAY'' then Some CtArray
      else if s = ''STRUCT'' then Some CtStruct
      else if s = ''MAP'' then Some CtMap
      else if s = ''NULL'' then Some CtNull
      else None)"

definition to_parameter_info :: "function_param_row \<Rightarrow> function_parameter_info" where
  "to_parameter_info p =
     \<lparr>fpi_name = par_name p, fpi_type_text = par_type_text p, fpi_type_json = par_type_json p,
      fpi_type_name = Option.bind (par_type_name p) parse_col_type_name,
      fpi_type_precision = par_type_precision p, fpi_type_scale = par_type_scale p,
      fpi_type_interval_type = par_type_interval_type p, fpi_position = Some (par_ordinal_position p),
      fpi_parameter_mode = par_parameter_mode p,
      fpi_parameter_type = map_option (\<lambda>_. ''PARAM'') (par_parameter_mode p),
      fpi_parameter_default = par_parameter_default p, fpi_comment = par_comment p\<rparr>"

definition to_function_info ::
  "function_row \<Rightarrow> string \<Rightarrow> string \<Rightarrow> function_param_row list \<Rightarrow> (string, string) omap option \<Rightarrow>
   function_info" where
  "to_function_info r cat sch input props =
     \<lparr>fni_name = fn_name r, fni_catalog_name = cat, fni_schema_name = sch,
      fni_input_params = Some \<lparr>fps_parameters = Some (map to_parameter_info input)\<rparr>,
      fni_return_params = None, fni_data_type = None, fni_full_data_type = fn_full_data_type r,
      fni_routine_body = fn_routine_body r, fni_routine_definition = fn_routine_definition r,
      fni_parameter_style = fn_parameter_style r, fni_is_deterministic = fn_is_deterministic r,
      fni_sql_data_access = fn_sql_data_access r, fni_is_null_call = fn_is_null_call r,
      fni_security_type = fn_security_type r, fni_specific_name = fn_specific_name r,
      fni_comment = fn_comment r, fni_properties = props,
      fni_full_name = Some (dotted cat sch (fn_name r)), fni_owner = fn_owner r,
      fni_created_at = fn_created_at r, fni_created_by = fn_created_by r,
      fni_updated_at = fn_updated_at r, fni_updated_by = fn_updated_by r,
      fni_function_id = Some (fn_id r), fni_external_language = fn_external_language r\<rparr>"

definition new_function :: "function_info \<Rightarrow> uuid \<Rightarrow> uuid \<Rightarrow> int \<Rightarrow> string option \<Rightarrow> function_row" where
  "new_function fi i schema_id now caller =
     \<lparr>fn_id = i, fn_schema_id = schema_id, fn_name = fni_name fi, fn_comment = fni_comment fi,
      fn_owner = None, fn_created_at = Some now, fn_created_by = caller, fn_updated_at = None,
      fn_updated_by = None, fn_data_type = map_option type_name_text (fni_data_type fi),
      fn_full_data_type = fni_full_data_type fi, fn_external_language = fni_external_language fi,
      fn_is_deterministic = fni_is_deterministic fi, fn_is_null_call = fni_is_null_call fi,
      fn_parameter_style = fni_parameter_style fi, fn_routine_body = fni_routine_body fi,
      fn_routine_definition = fni_routine_definition fi, fn_sql_data_access = fni_sql_data_access fi,
      fn_security_type = fni_security_type fi, fn_specific_name = fni_specific_name fi\<rparr>"

definition new_params ::
  "uuid \<Rightarrow> (nat \<Rightarrow> uuid) \<Rightarrow> function_parameter_info list \<Rightarrow> function_param_row list" where
  "new_params function_id fresh params = map (\<lambda>(i, p).
     \<lparr>par_id = fresh i, par_function_id = function_id, par_name = fpi_name p, par_input_or_return = 0,
      par_ordinal_position = count_i32 i, par_type_text = fpi_type_text p,
      par_type_json = fpi_type_json p, par_type_name = map_option type_name_text (fpi_type_name p),
      par_type_precision = fpi_type_precision p, par_type_scale = fpi_type_scale p,
      par_type_interval_type = fpi_type_interval_type p, par_comment = fpi_comment p,
      par_parameter_mode = fpi_parameter_mode p, par_parameter_default = fpi_parameter_default p\<rparr>)
     (enumerate 0 params)"

definition functions_create ::
  "('j, 'v, 'l, 'a, 'z) api_scheme \<Rightarrow> uc_claims \<Rightarrow> create_function_request \<Rightarrow>
   ('l, 'a, function_info) request" where
  "functions_create A claims req =
     (let fi = cfun_function_info req in
     h_bind (h_schema A (fni_catalog_name fi) (fni_schema_name fi)) (\<lambda>schema.
     h_bind (ensure A claims (sch_id schema) CreateFunction) (\<lambda>_.
     h_bind (h_res (validate_sql_name (fni_name fi))) (\<lambda>_.
     h_bind (h_uuid A) (\<lambda>i.
     h_bind (now_ms A) (\<lambda>now.
     h_bind (h_write A (\<lambda>w. function_create A (ap_ops A) w
       (new_function fi i (sch_id schema) now (auth_sub A claims)))) (\<lambda>created.
     h_bind (h_if_some (Option.bind (fni_input_params fi) fps_parameters) (\<lambda>params.
       h_bind (h_uuids A) (\<lambda>fresh.
       h_write A (\<lambda>w. insert_params A (ap_ops A) w (new_params i (fresh 0) params))))) (\<lambda>_.
     h_bind (h_if_some (fni_properties fi) (h_replace_properties A i ''function'')) (\<lambda>_.
     h_bind (own A claims i (Some (sch_id schema))) (\<lambda>_.
     h_bind (h_read A (\<lambda>s. get_params s i)) (\<lambda>(input, _).
     h_bind (h_properties A i ''function'') (\<lambda>props.
     h_ret (to_function_info created (fni_catalog_name fi) (fni_schema_name fi) input props)))))))))))))"

definition functions_list ::
  "('j, 'v, 'l, 'a, 'z) api_scheme \<Rightarrow> uc_claims \<Rightarrow> string \<Rightarrow> string \<Rightarrow> int option \<Rightarrow> string option \<Rightarrow>
   ('l, 'a, list_functions_response) request" where
  "functions_list A claims cat sch max_results page_token =
     h_bind (h_schema A cat sch) (\<lambda>schema.
     h_bind (h_read A (\<lambda>s. function_list A s (sch_id schema) page_token (page_size max_results)))
       (\<lambda>(rows, next_token).
     h_bind (visible_ids A claims (map fn_id rows) Execute) (\<lambda>visible.
     h_ret \<lparr>lfun_functions = map (\<lambda>r. to_function_info r cat sch [] None)
              (filter (\<lambda>r. fn_id r \<in> set visible) rows),
            lfun_next_page_token = next_token\<rparr>)))"

definition h_function ::
  "('j, 'v, 'l, 'a, 'z) api_scheme \<Rightarrow> string \<Rightarrow> string \<Rightarrow> string \<Rightarrow> ('l, 'a, function_row) request" where
  "h_function A cat sch func =
     h_bind (h_schema A cat sch) (\<lambda>schema.
     h_read A (\<lambda>s. function_get_by_schema_and_name A s (sch_id schema) func))"

definition functions_get ::
  "('j, 'v, 'l, 'a, 'z) api_scheme \<Rightarrow> string \<Rightarrow> ('l, 'a, function_info) request" where
  "functions_get A full_name =
     h_bind (h_res (split3 full_name)) (\<lambda>(cat, sch, func).
     h_bind (h_function A cat sch func) (\<lambda>row.
     h_bind (h_read A (\<lambda>s. get_params s (fn_id row))) (\<lambda>(input, _).
     h_bind (h_properties A (fn_id row) ''function'') (\<lambda>props.
     h_ret (to_function_info row cat sch input props)))))"

definition functions_delete ::
  "('j, 'v, 'l, 'a, 'z) api_scheme \<Rightarrow> uc_claims \<Rightarrow> string \<Rightarrow> ('l, 'a, unit) request" where
  "functions_delete A claims full_name =
     h_bind (h_res (split3 full_name)) (\<lambda>(cat, sch, func).
     h_bind (h_function A cat sch func) (\<lambda>existing.
     h_bind (ensure A claims (fn_id existing) Owner) (\<lambda>_.
     h_bind (h_delete_properties A (fn_id existing) ''function'') (\<lambda>_.
     h_write A (\<lambda>w. function_delete A (ap_ops A) w (fn_id existing))))))"

section \<open>Registered models\<close>

definition to_model_info ::
  "registered_model_row \<Rightarrow> string \<Rightarrow> string \<Rightarrow> (string, string) omap option \<Rightarrow> registered_model_info" where
  "to_model_info r cat sch props =
     \<lparr>rmi_name = mdl_name r, rmi_catalog_name = cat, rmi_schema_name = sch,
      rmi_storage_location = mdl_url r, rmi_full_name = Some (dotted cat sch (mdl_name r)),
      rmi_comment = mdl_comment r, rmi_owner = mdl_owner r, rmi_created_at = mdl_created_at r,
      rmi_created_by = mdl_created_by r, rmi_updated_at = mdl_updated_at r,
      rmi_updated_by = mdl_updated_by r, rmi_id = Some (mdl_id r), rmi_properties = props\<rparr>"

definition model_place ::
  "('j, 'v, 'l, 'a, 'z) api_scheme \<Rightarrow> create_registered_model \<Rightarrow> uuid \<Rightarrow> uuid \<Rightarrow>
   ('l, 'a, string option) request" where
  "model_place A req schema_id i =
     (case cmod_storage_location req of
        Some loc \<Rightarrow> h_ret (Some loc)
      | None \<Rightarrow>
         h_bind (h_try (h_storage_root A (cmod_catalog_name req) (cmod_schema_name req))) (\<lambda>root.
         h_ret (case root of
             Inr root \<Rightarrow> Some (managed_model_location A root schema_id i)
           | Inl _ \<Rightarrow> None)))"

definition models_create ::
  "('j, 'v, 'l, 'a, 'z) api_scheme \<Rightarrow> uc_claims \<Rightarrow> create_registered_model \<Rightarrow>
   ('l, 'a, registered_model_info) request" where
  "models_create A claims req =
     h_bind (h_schema A (cmod_catalog_name req) (cmod_schema_name req)) (\<lambda>schema.
     h_bind (ensure A claims (sch_id schema) CreateModel) (\<lambda>_.
     h_bind (h_res (validate_sql_name (cmod_name req))) (\<lambda>_.
     h_bind (h_uuid A) (\<lambda>i.
     h_bind (now_ms A) (\<lambda>now.
     h_bind (model_place A req (sch_id schema) i) (\<lambda>place.
     let row = \<lparr>mdl_id = i, mdl_schema_id = sch_id schema, mdl_name = cmod_name req, mdl_owner = None,
                mdl_created_at = Some now, mdl_created_by = auth_sub A claims, mdl_updated_at = None,
                mdl_updated_by = None, mdl_comment = cmod_comment req, mdl_url = place,
                mdl_max_version_number = Some 0\<rparr> in
     h_bind (h_write A (\<lambda>w. create_model A (ap_ops A) w row)) (\<lambda>created.
     h_bind (h_if_some (cmod_properties req) (h_replace_properties A i ''registered_model'')) (\<lambda>_.
     h_bind (own A claims i (Some (sch_id schema))) (\<lambda>_.
     h_bind (h_properties A i ''registered_model'') (\<lambda>props.
     h_ret (to_model_info created (cmod_catalog_name req) (cmod_schema_name req) props)))))))))))"

definition models_list ::
  "('j, 'v, 'l, 'a, 'z) api_scheme \<Rightarrow> uc_claims \<Rightarrow> string option \<Rightarrow> string option \<Rightarrow> int option \<Rightarrow>
   string option \<Rightarrow> ('l, 'a, list_registered_models_response) request" where
  "models_list A claims catalog_name schema_name max_results page_token =
     (let cat = or_empty catalog_name;
          sch = or_empty schema_name in
     h_bind (h_schema A cat sch) (\<lambda>schema.
     h_bind (h_read A (\<lambda>s. list_models A s (sch_id schema) page_token (page_size max_results)))
       (\<lambda>(rows, next_token).
     h_bind (visible_ids A claims (map mdl_id rows) Select) (\<lambda>visible.
     h_ret \<lparr>lmod_registered_models = map (\<lambda>r. to_model_info r cat sch None)
              (filter (\<lambda>r. mdl_id r \<in> set visible) rows),
            lmod_next_page_token = next_token\<rparr>))))"

definition h_model ::
  "('j, 'v, 'l, 'a, 'z) api_scheme \<Rightarrow> string \<Rightarrow> string \<Rightarrow> string \<Rightarrow>
   ('l, 'a, registered_model_row) request" where
  "h_model A cat sch mdl =
     h_bind (h_schema A cat sch) (\<lambda>schema.
     h_read A (\<lambda>s. get_model_by_schema_and_name A s (sch_id schema) mdl))"

definition models_get ::
  "('j, 'v, 'l, 'a, 'z) api_scheme \<Rightarrow> string \<Rightarrow> ('l, 'a, registered_model_info) request" where
  "models_get A full_name =
     h_bind (h_res (split3 full_name)) (\<lambda>(cat, sch, mdl).
     h_bind (h_model A cat sch mdl) (\<lambda>row.
     h_bind (h_properties A (mdl_id row) ''registered_model'') (\<lambda>props.
     h_ret (to_model_info row cat sch props))))"

definition models_update ::
  "('j, 'v, 'l, 'a, 'z) api_scheme \<Rightarrow> uc_claims \<Rightarrow> string \<Rightarrow> update_registered_model \<Rightarrow>
   ('l, 'a, registered_model_info) request" where
  "models_update A claims full_name req =
     h_bind (h_res (split3 full_name)) (\<lambda>(cat, sch, mdl).
     h_bind (h_schema A cat sch) (\<lambda>schema.
     h_bind (h_read A (\<lambda>s. get_model_by_schema_and_name A s (sch_id schema) mdl)) (\<lambda>existing.
     h_bind (ensure A claims (mdl_id existing) Owner) (\<lambda>_.
     h_bind (now_ms A) (\<lambda>now.
     h_bind (h_if_some (umod_new_name req) (\<lambda>n. h_res (validate_sql_name n))) (\<lambda>_.
     h_bind (h_write A (\<lambda>w. update_model A (ap_ops A) w (mdl_id existing) (umod_new_name req)
       (umod_comment req) (umod_owner req) now (auth_sub A claims))) (\<lambda>_.
     h_bind (h_if_some (umod_properties req)
       (h_replace_properties A (mdl_id existing) ''registered_model'')) (\<lambda>_.
     let effective_name = (case umod_new_name req of None \<Rightarrow> mdl | Some n \<Rightarrow> n) in
     h_bind (h_try (h_read A (\<lambda>s. get_model_by_schema_and_name A s (sch_id schema) effective_name)))
       (\<lambda>found.
     let updated = (case found of Inr row \<Rightarrow> row | Inl _ \<Rightarrow> existing) in
     h_bind (h_properties A (mdl_id existing) ''registered_model'') (\<lambda>props.
     h_ret (to_model_info updated cat sch props)))))))))))"

definition models_delete ::
  "('j, 'v, 'l, 'a, 'z) api_scheme \<Rightarrow> uc_claims \<Rightarrow> string \<Rightarrow> ('l, 'a, unit) request" where
  "models_delete A claims full_name =
     h_bind (h_res (split3 full_name)) (\<lambda>(cat, sch, mdl).
     h_bind (h_model A cat sch mdl) (\<lambda>existing.
     h_bind (ensure A claims (mdl_id existing) Owner) (\<lambda>_.
     h_bind (h_delete_properties A (mdl_id existing) ''registered_model'') (\<lambda>_.
     h_write A (\<lambda>w. delete_model A (ap_ops A) w (mdl_id existing))))))"

section \<open>Model versions\<close>

fun model_status_text :: "model_version_status \<Rightarrow> string" where
  "model_status_text MsReady = ''READY''"
| "model_status_text MsPendingRegistration = ''PENDING_REGISTRATION''"
| "model_status_text MsFailedRegistration = ''FAILED_REGISTRATION''"
| "model_status_text MsModelVersionStatusUnknown = ''MODEL_VERSION_STATUS_UNKNOWN''"

definition parse_model_status :: "string option \<Rightarrow> model_version_status option" where
  "parse_model_status s =
     (if s = Some ''READY'' then Some MsReady
      else if s = Some ''PENDING_REGISTRATION'' then Some MsPendingRegistration
      else if s = Some ''FAILED_REGISTRATION'' then Some MsFailedRegistration
      else Some MsModelVersionStatusUnknown)"

definition to_version_info :: "model_version_row \<Rightarrow> string \<Rightarrow> string \<Rightarrow> string \<Rightarrow> model_version_info" where
  "to_version_info r cat sch mdl =
     \<lparr>mvi_model_name = Some mdl, mvi_catalog_name = Some cat, mvi_schema_name = Some sch,
      mvi_version = mv_version r, mvi_source = mv_source r, mvi_run_id = mv_run_id r,
      mvi_status = parse_model_status (mv_status r), mvi_storage_location = mv_url r,
      mvi_comment = mv_comment r, mvi_created_at = mv_created_at r, mvi_created_by = mv_created_by r,
      mvi_updated_at = mv_updated_at r, mvi_updated_by = mv_updated_by r, mvi_id = Some (mv_id r)\<rparr>"

text \<open>\<open>version.parse::<i32>()\<close>: the range of \<open>parse_i64\<close> cut to 32 bits.\<close>

definition parse_version :: "string \<Rightarrow> int res" where
  "parse_version s =
     (case parse_i64 s of
        Some v \<Rightarrow> if - i32_max - 1 \<le> v \<and> v \<le> i32_max then Inr v
                  else Inl (err_invalid_argument ''version must be an integer'')
      | None \<Rightarrow> Inl (err_invalid_argument ''version must be an integer''))"

text \<open>\<open>x + 1\<close> on \<open>i32\<close> in a release build, which wraps.\<close>

definition wadd_i32 :: "int \<Rightarrow> int \<Rightarrow> int" where
  "wadd_i32 a b = (a + b + 2 ^ 31) mod 2 ^ 32 - 2 ^ 31"

definition versions_create ::
  "('j, 'v, 'l, 'a, 'z) api_scheme \<Rightarrow> uc_claims \<Rightarrow> create_model_version \<Rightarrow>
   ('l, 'a, model_version_info) request" where
  "versions_create A claims req =
     h_bind (h_model A (cver_catalog_name req) (cver_schema_name req) (cver_model_name req)) (\<lambda>model.
     let next_ver = wadd_i32 (case mdl_max_version_number model of None \<Rightarrow> 0 | Some n \<Rightarrow> n) 1 in
     h_bind (h_uuid A) (\<lambda>i.
     h_bind (now_ms A) (\<lambda>now.
     let row = \<lparr>mv_id = i, mv_registered_model_id = mdl_id model, mv_version = Some next_ver,
                mv_source = cver_source req, mv_run_id = cver_run_id req,
                mv_status = Some ''PENDING_REGISTRATION'', mv_owner = None, mv_created_at = Some now,
                mv_created_by = auth_sub A claims, mv_updated_at = None, mv_updated_by = None,
                mv_comment = cver_comment req,
                mv_url = map_option (\<lambda>loc. managed_model_version_location loc next_ver) (mdl_url model)\<rparr> in
     h_bind (h_write A (\<lambda>w. create_version A (ap_ops A) w row)) (\<lambda>created.
     h_bind (h_write A (\<lambda>w. set_max_version A (ap_ops A) w (mdl_id model) next_ver)) (\<lambda>_.
     h_ret (to_version_info created (cver_catalog_name req) (cver_schema_name req) (cver_model_name req)))))))"

definition versions_list ::
  "('j, 'v, 'l, 'a, 'z) api_scheme \<Rightarrow> string \<Rightarrow> ('l, 'a, list_model_versions_response) request" where
  "versions_list A full_name =
     h_bind (h_res (split3 full_name)) (\<lambda>(cat, sch, mdl).
     h_bind (h_model A cat sch mdl) (\<lambda>model.
     h_bind (h_read A (\<lambda>s. list_versions s (mdl_id model))) (\<lambda>rows.
     h_ret \<lparr>lver_model_versions = map (\<lambda>r. to_version_info r cat sch mdl) rows,
            lver_next_page_token = None\<rparr>)))"

definition versions_get ::
  "('j, 'v, 'l, 'a, 'z) api_scheme \<Rightarrow> string \<Rightarrow> string \<Rightarrow> ('l, 'a, model_version_info) request" where
  "versions_get A full_name ver_text =
     h_bind (h_res (split3 full_name)) (\<lambda>(cat, sch, mdl).
     h_bind (h_model A cat sch mdl) (\<lambda>model.
     h_bind (h_res (parse_version ver_text)) (\<lambda>ver.
     h_bind (h_read A (\<lambda>s. get_version s (mdl_id model) ver)) (\<lambda>row.
     h_ret (to_version_info row cat sch mdl)))))"

definition versions_update ::
  "('j, 'v, 'l, 'a, 'z) api_scheme \<Rightarrow> uc_claims \<Rightarrow> string \<Rightarrow> string \<Rightarrow> update_model_version \<Rightarrow>
   ('l, 'a, model_version_info) request" where
  "versions_update A claims full_name ver_text req =
     h_bind (h_res (split3 full_name)) (\<lambda>(cat, sch, mdl).
     h_bind (h_model A cat sch mdl) (\<lambda>model.
     h_bind (h_res (parse_version ver_text)) (\<lambda>ver.
     h_bind (h_read A (\<lambda>s. get_version s (mdl_id model) ver)) (\<lambda>row.
     h_bind (ensure A claims (mdl_id model) Owner) (\<lambda>_.
     h_bind (now_ms A) (\<lambda>now.
     h_bind (h_write A (\<lambda>w. update_version A (ap_ops A) w (mv_id row) (uver_comment req) now
       (auth_sub A claims))) (\<lambda>_.
     h_bind (h_read A (\<lambda>s. get_version s (mdl_id model) ver)) (\<lambda>updated.
     h_ret (to_version_info updated cat sch mdl)))))))))"

definition versions_delete ::
  "('j, 'v, 'l, 'a, 'z) api_scheme \<Rightarrow> string \<Rightarrow> string \<Rightarrow> ('l, 'a, unit) request" where
  "versions_delete A full_name ver_text =
     h_bind (h_res (split3 full_name)) (\<lambda>(cat, sch, mdl).
     h_bind (h_model A cat sch mdl) (\<lambda>model.
     h_bind (h_res (parse_version ver_text)) (\<lambda>ver.
     h_write A (\<lambda>w. delete_version A (ap_ops A) w (mdl_id model) ver))))"

definition versions_finalize ::
  "('j, 'v, 'l, 'a, 'z) api_scheme \<Rightarrow> string \<Rightarrow> string \<Rightarrow> finalize_model_version \<Rightarrow>
   ('l, 'a, model_version_info) request" where
  "versions_finalize A full_name ver_text req =
     h_bind (h_res (split3 full_name)) (\<lambda>(cat, sch, mdl).
     h_bind (h_model A cat sch mdl) (\<lambda>model.
     h_bind (h_res (parse_version ver_text)) (\<lambda>ver.
     h_bind (h_read A (\<lambda>s. get_version s (mdl_id model) ver)) (\<lambda>row.
     h_bind (h_write A (\<lambda>w. set_version_status A (ap_ops A) w (mv_id row)
       (model_status_text (fver_status req)))) (\<lambda>_.
     h_bind (h_read A (\<lambda>s. get_version s (mdl_id model) ver)) (\<lambda>updated.
     h_ret (to_version_info updated cat sch mdl)))))))"

end
