(* ===== verification/ApiVending.thy ===== *)
theory ApiVending
  imports ApiTables
begin

text \<open>
  Credential vending as the server does it: \<open>CloudCredentialVendor::vend\<close> of
  \<^verbatim>\<open>uc_credentials::vendor\<close> with its cache, and the handlers of \<^verbatim>\<open>catalog_api::temp_credentials\<close>.
\<close>

section \<open>Vending\<close>

definition vend ::
  "('j, 'v, 'l, 'a, 'z) api_scheme \<Rightarrow> credential_context \<Rightarrow> ('l, 'a, temporary_credentials) request" where
  "vend A ctx =
     (if ctx_scheme ctx \<in> {File, NullScheme} then h_ret no_credentials
      else
        h_bind (h_step A (\<lambda>n s. Some (Inr (cache_hit (app_cache s) (ap_instant A n) ctx), s))) (\<lambda>hit.
        case hit of
          Some creds \<Rightarrow> h_ret creds
        | None \<Rightarrow>
           h_bind (h_step A (\<lambda>n s. Some (vend_fresh (ap_cloud A n) ctx, s))) (\<lambda>creds.
           h_bind (h_step A (\<lambda>n s. Some (Inr (),
             s\<lparr>app_cache := cache_store (ap_cloud A n) (ap_now A n) (ap_instant A n) ctx creds (app_cache s)\<rparr>))) (\<lambda>_.
           h_ret creds))))"

section \<open>Temporary credentials\<close>

fun to_internal_op :: "api_operation \<Rightarrow> credential_operation" where
  "to_internal_op OpRead = CoRead"
| "to_internal_op OpReadVolume = CoRead"
| "to_internal_op OpReadModelVersion = CoRead"
| "to_internal_op OpReadWrite = CoReadWrite"
| "to_internal_op OpWriteVolume = CoReadWrite"
| "to_internal_op OpReadWriteModelVersion = CoReadWrite"

text \<open>The role in the stored credential: its text, parsed, and the string under \<open>role_arn\<close>.\<close>

definition role_arn_of :: "('j, 'v, 'l, 'a, 'z) api_scheme \<Rightarrow> string \<Rightarrow> string option" where
  "role_arn_of A credential =
     (case dec (cd_value A) credential of
        Inl _ \<Rightarrow> None
      | Inr v \<Rightarrow> Option.bind (val_get A v ''role_arn'') (ap_val_str A))"

definition build_ctx ::
  "('j, 'v, 'l, 'a, 'z) api_scheme \<Rightarrow> string \<Rightarrow> credential_operation \<Rightarrow> uuid option \<Rightarrow>
   ('l, 'a, credential_context) request" where
  "build_ctx A url operation table_id =
     (let scheme = from_url url in
     h_bind (if scheme \<in> {File, NullScheme} then h_ret (None, None)
             else
               h_bind (h_read A (\<lambda>s. find_by_path_prefix s url)) (\<lambda>found.
               case found of
                 None \<Rightarrow> h_ret (None, None)
               | Some ext_loc \<Rightarrow>
                  h_bind (h_read A (\<lambda>s. credential_get_by_id A s (loc_credential_id ext_loc))) (\<lambda>cred.
                  h_ret (role_arn_of A (crd_credential cred), Some (crd_credential cred)))))
       (\<lambda>(role_arn, credential_json).
     h_ret \<lparr>ctx_scheme = scheme, ctx_locations = [url], ctx_operation = operation,
            ctx_table_id = table_id, ctx_credential_json = credential_json,
            ctx_role_arn = role_arn, ctx_external_id = None\<rparr>))"

definition ensure_vending ::
  "('j, 'v, 'l, 'a, 'z) api_scheme \<Rightarrow> uc_claims \<Rightarrow> uuid \<Rightarrow> privilege \<Rightarrow> string \<Rightarrow> ('l, 'a, unit) request" where
  "ensure_vending A claims resource priv msg =
     h_when (ap_auth_enabled A)
       (h_bind (get_user A (clm_sub claims)) (\<lambda>user.
        h_bind (h_authorize A (usr_id user) resource priv) (\<lambda>allowed.
        if \<not> allowed then h_err (err_permission_denied msg) else h_ret ())))"

definition vend_for ::
  "('j, 'v, 'l, 'a, 'z) api_scheme \<Rightarrow> string \<Rightarrow> api_operation \<Rightarrow> uuid option \<Rightarrow>
   ('l, 'a, temporary_credentials) request" where
  "vend_for A url operation table_id =
     h_bind (build_ctx A url (to_internal_op operation) table_id) (\<lambda>ctx. vend A ctx)"

definition table_privilege :: "api_operation \<Rightarrow> privilege" where
  "table_privilege operation = (if operation = OpRead then Select else Modify)"

definition table_credentials ::
  "('j, 'v, 'l, 'a, 'z) api_scheme \<Rightarrow> uc_claims \<Rightarrow> generate_temporary_table_credential \<Rightarrow>
   ('l, 'a, temporary_credentials) request" where
  "table_credentials A claims req =
     h_bind (h_read A (\<lambda>s. table_get_by_id A s (gtt_table_id req))) (\<lambda>table.
     h_bind (ensure_vending A claims (tab_id table) (table_privilege (gtt_operation req))
       ''Insufficient privileges on table'') (\<lambda>_.
     vend_for A (or_empty (tab_url table)) (gtt_operation req) (Some (gtt_table_id req))))"

definition volume_privilege :: "api_operation \<Rightarrow> privilege" where
  "volume_privilege operation = (if operation = OpReadVolume then ReadVolume else Owner)"

definition volume_credentials ::
  "('j, 'v, 'l, 'a, 'z) api_scheme \<Rightarrow> uc_claims \<Rightarrow> generate_temporary_volume_credential \<Rightarrow>
   ('l, 'a, temporary_credentials) request" where
  "volume_credentials A claims req =
     h_bind (h_read A (\<lambda>s. volume_get_by_id A s (gtv_volume_id req))) (\<lambda>volume.
     h_bind (ensure_vending A claims (vol_id volume) (volume_privilege (gtv_operation req))
       ''Insufficient privileges on volume'') (\<lambda>_.
     vend_for A (or_empty (vol_storage_location volume)) (gtv_operation req) None))"

text \<open>\<open>i32::try_from(req.version)\<close>\<close>

definition version_i32 :: "int \<Rightarrow> int res" where
  "version_i32 v =
     (if - i32_max - 1 \<le> v \<and> v \<le> i32_max then Inr v
      else Inl (uc_err InvalidArgument (''Model version '' @ show_int v @ '' is out of range'')))"

definition model_version_credentials ::
  "('j, 'v, 'l, 'a, 'z) api_scheme \<Rightarrow> generate_temporary_model_version_credential \<Rightarrow>
   ('l, 'a, temporary_credentials) request" where
  "model_version_credentials A req =
     h_bind (h_schema A (gtm_catalog_name req) (gtm_schema_name req)) (\<lambda>schema.
     h_bind (h_read A (\<lambda>s. get_model_by_schema_and_name A s (sch_id schema) (gtm_model_name req))) (\<lambda>model.
     h_bind (h_res (version_i32 (gtm_version req))) (\<lambda>requested.
     h_bind (h_read A (\<lambda>s. get_version s (mdl_id model) requested)) (\<lambda>ver.
     vend_for A (or_empty (case mv_url ver of Some u \<Rightarrow> Some u | None \<Rightarrow> mdl_url model))
       (gtm_operation req) None))))"

definition uncovered_path :: "string \<Rightarrow> uc_error" where
  "uncovered_path url = uc_err NotFound (''No external location found covering path '' @ quoted url)"

definition path_privilege :: "api_operation \<Rightarrow> privilege" where
  "path_privilege operation = (if operation = OpRead then ReadFiles else WriteFiles)"

definition ensure_path ::
  "('j, 'v, 'l, 'a, 'z) api_scheme \<Rightarrow> uc_claims \<Rightarrow> string \<Rightarrow> api_operation \<Rightarrow> ('l, 'a, unit) request" where
  "ensure_path A claims url operation =
     h_when (ap_auth_enabled A)
       (h_bind (get_user A (clm_sub claims)) (\<lambda>user.
        h_bind (h_read A (\<lambda>s. find_by_path_prefix s url)) (\<lambda>found.
        h_bind (h_res (ok_or (uncovered_path url) found)) (\<lambda>ext_loc.
        h_bind (h_authorize A (usr_id user) (loc_id ext_loc) (path_privilege operation)) (\<lambda>allowed.
        if \<not> allowed
        then h_err (err_permission_denied
          (''Insufficient privileges on external location '' @ quoted (loc_name ext_loc)))
        else h_ret ())))))"

definition path_credentials ::
  "('j, 'v, 'l, 'a, 'z) api_scheme \<Rightarrow> uc_claims \<Rightarrow> generate_temporary_path_credential \<Rightarrow>
   ('l, 'a, temporary_credentials) request" where
  "path_credentials A claims req =
     h_bind (ensure_path A claims (gtp_url req) (gtp_operation req)) (\<lambda>_.
     vend_for A (gtp_url req) (gtp_operation req) None)"

end
