(* ===== verification/DeltaTypes.thy ===== *)
theory DeltaTypes
  imports Rows OMap
begin

text \<open>
  The requests and responses of the Delta API, \<^verbatim>\<open>uc_openapi::delta\<close>, as in \<open>ApiTypes\<close>. A JSON value
  is the type variable \<open>'v\<close>. \<open>DeltaAwsCredentialConfig\<close> and \<open>DeltaReportMetricsRequest\<close> are used
  nowhere and left out.
\<close>

section \<open>Column types\<close>

datatype 'v delta_data_type =
    DtStruct "'v delta_struct_type"
  | DtArray "'v delta_array_type"
  | DtMap "'v delta_map_type"
  | DtPrimitive string
and 'v delta_struct_type =
    DeltaStructType (dst_type_tag: string) (dst_fields: "'v delta_struct_field list")
and 'v delta_struct_field =
    DeltaStructField (dsf_name: string) (dsf_field_type: "'v delta_data_type") (dsf_nullable: bool)
      (dsf_metadata: "(string \<times> 'v) list option")
and 'v delta_array_type =
    DeltaArrayType (dat_type_tag: string) (dat_element_type: "'v delta_data_type")
      (dat_contains_null: bool)
and 'v delta_map_type =
    DeltaMapType (dmt_type_tag: string) (dmt_key_type: "'v delta_data_type")
      (dmt_value_type: "'v delta_data_type") (dmt_value_contains_null: bool)

section \<open>Requests and responses\<close>

record delta_catalog_config =
  dcc_endpoints :: "string list"
  dcc_protocol_version :: string

record delta_protocol =
  dpr_min_reader_version :: int
  dpr_min_writer_version :: int
  dpr_reader_features :: "string list option"
  dpr_writer_features :: "string list option"

record delta_commit =
  dcm_version :: int
  dcm_timestamp :: int
  dcm_file_name :: string
  dcm_file_size :: int
  dcm_file_modification_timestamp :: int

record delta_uniform_iceberg_metadata =
  dui_metadata_location :: "string option"
  dui_converted_delta_version :: "int option"
  dui_converted_delta_timestamp :: "int option"
  dui_base_converted_delta_version :: "int option"

record delta_uniform_metadata =
  dum_iceberg :: "delta_uniform_iceberg_metadata option"

record delta_clustering_domain_metadata =
  dcd_clustering_columns :: "string list list"

record delta_row_tracking_domain_metadata =
  drt_row_id_high_water_mark :: int

record delta_domain_metadata_updates =
  ddm_clustering :: "delta_clustering_domain_metadata option"
  ddm_row_tracking :: "delta_row_tracking_domain_metadata option"

record 'v delta_table_metadata =
  dtm_etag :: "string option"
  dtm_table_type :: "string option"
  dtm_table_uuid :: "uuid option"
  dtm_location :: "string option"
  dtm_created_time :: "int option"
  dtm_updated_time :: "int option"
  dtm_columns :: "'v delta_struct_type option"
  dtm_partition_columns :: "string list option"
  dtm_properties :: "(string, string) omap option"
  dtm_last_commit_version :: "int option"
  dtm_last_commit_timestamp_ms :: "int option"

record 'v delta_load_table_response =
  dlt_metadata :: "'v delta_table_metadata"
  dlt_commits :: "delta_commit list option"
  dlt_uniform :: "delta_uniform_metadata option"
  dlt_latest_table_version :: "int option"

record 'v delta_create_table_request =
  dct_name :: string
  dct_location :: "string option"
  dct_table_type :: "string option"
  dct_columns :: "'v delta_struct_type option"
  dct_partition_columns :: "string list option"
  dct_protocol :: "delta_protocol option"
  dct_properties :: "(string, string) omap option"
  dct_last_commit_timestamp_ms :: "int option"
  dct_uniform :: "delta_uniform_metadata option"

record delta_create_staging_table_request =
  dcs_name :: string

datatype delta_credential_operation = DcoRead | DcoReadWrite

record 'v delta_storage_credential =
  dsc_prefix :: string
  dsc_operation :: delta_credential_operation
  dsc_config :: "'v option"
  dsc_expiration_time_ms :: "int option"

record 'v delta_staging_table_response =
  dsr_table_id :: uuid
  dsr_table_type :: "string option"
  dsr_location :: "string option"
  dsr_storage_credentials :: "'v delta_storage_credential list option"
  dsr_required_protocol :: "delta_protocol option"
  dsr_suggested_protocol :: "delta_protocol option"
  dsr_required_properties :: "(string, string) omap option"
  dsr_suggested_properties :: "(string, string) omap option"

datatype delta_table_requirement = AssertTableUuid uuid | AssertEtag string

datatype 'v delta_table_update =
    SetProperties "(string, string) omap"
  | RemoveProperties "string list"
  | SetColumns "'v delta_struct_type"
  | SetTableComment string
  | AddCommit delta_commit "delta_uniform_metadata option"
  | SetLatestBackfilledVersion int
  | SetProtocol delta_protocol
  | SetDomainMetadata delta_domain_metadata_updates
  | RemoveDomainMetadata "string list"
  | SetPartitionColumns "string list"
  | UpdateMetadataSnapshotVersion int int    \<comment> \<open>last commit version, its timestamp\<close>

record 'v delta_update_table_request =
  dur_requirements :: "delta_table_requirement list option"
  dur_updates :: "'v delta_table_update list"

record delta_rename_table_request =
  drn_new_name :: string

record 'v delta_credentials_response =
  dcr_storage_credentials :: "'v delta_storage_credential list"

end
