(* ===== verification/ApiDelta.thy ===== *)
theory ApiDelta
  imports ApiVending DeltaTypes
begin

text \<open>
  The Delta handlers: \<^verbatim>\<open>catalog_api::delta_commits\<close>, \<^verbatim>\<open>delta_api::tables\<close>,
  \<^verbatim>\<open>delta_api::credentials\<close> and \<^verbatim>\<open>delta_api::config\<close>. None of them takes claims.
\<close>

text \<open>The JSON these handlers make, and Rust's \<open>to_uppercase\<close>, which is Unicode's.\<close>

record ('j, 'v, 'l, 'a) delta_api = "('j, 'v, 'l, 'a) api" +
  dx_struct_text :: "'v delta_struct_type \<Rightarrow> string + string"
  dx_strings_text :: "string list \<Rightarrow> string + string"
  dx_domains_text :: "delta_domain_metadata_updates \<Rightarrow> string + string"
  dx_aws_config :: "string \<Rightarrow> string \<Rightarrow> string \<Rightarrow> 'v"
  dx_uppercase :: "string \<Rightarrow> string"

section \<open>The Delta log as steps\<close>

definition h_commits ::
  "('j, 'v, 'l, 'a, 'z) api_scheme \<Rightarrow> uuid \<Rightarrow> int option \<Rightarrow> int option \<Rightarrow>
   ('l, 'a, delta_commit_row list) request" where
  "h_commits A t starting ending = h_delta A (\<lambda>l h.
     map_option (\<lambda>r. (r, l, h)) (delta_list_for_table A (ap_ops A) t starting ending l))"

definition h_latest ::
  "('j, 'v, 'l, 'a, 'z) api_scheme \<Rightarrow> uuid \<Rightarrow> ('l, 'a, int option) request" where
  "h_latest A t = h_delta A (\<lambda>l h.
     map_option (\<lambda>(r, h'). (r, l, h')) (delta_latest A (ap_ops A) t l h))"

definition h_insert_commit ::
  "('j, 'v, 'l, 'a, 'z) api_scheme \<Rightarrow> delta_commit_row \<Rightarrow> ('l, 'a, delta_commit_row) request" where
  "h_insert_commit A row = h_delta A (\<lambda>l h. Some (delta_insert A (ap_ops A) row l h))"

text \<open>Between reading the commit and writing it back others may act, as before a commit's PUT.\<close>

definition h_mark_backfilled ::
  "('j, 'v, 'l, 'a, 'z) api_scheme \<Rightarrow> uuid \<Rightarrow> int \<Rightarrow> ('l, 'a, unit) request" where
  "h_mark_backfilled A t v = h_step A (\<lambda>n s.
     map_option (\<lambda>(r, l). (r, s\<lparr>app_store := (app_store s)\<lparr>log := l\<rparr>\<rparr>))
       (mark_backfilled A (ap_ops A) (others (ap_world A n) 0) t v (log (app_store s))))"

section \<open>Commits of a table\<close>

definition commits_table ::
  "('j, 'v, 'l, 'a, 'z) api_scheme \<Rightarrow> string \<Rightarrow> ('l, 'a, table_row) request" where
  "commits_table A full_name =
     h_bind (h_res (ok_or (err_invalid_argument ''table_full_name must be catalog.schema.table'')
       (split3_opt full_name))) (\<lambda>(cat, sch, tbl).
     h_table A cat sch tbl)"

definition or_int :: "int \<Rightarrow> int option \<Rightarrow> int" where
  "or_int d x = (case x of None \<Rightarrow> d | Some v \<Rightarrow> v)"

definition to_commit_info :: "delta_commit_row \<Rightarrow> delta_commit_info" where
  "to_commit_info c =
     \<lparr>dci_version = dc_commit_version c, dci_timestamp = dc_commit_timestamp c, dci_operation = None,
      dci_file_name = Some (dc_commit_filename c), dci_file_size = Some (dc_commit_filesize c),
      dci_file_modification_timestamp = Some (dc_commit_file_modification_timestamp c)\<rparr>"

definition commits_get ::
  "('j, 'v, 'l, 'a, 'z) api_scheme \<Rightarrow> string \<Rightarrow> int option \<Rightarrow> int option \<Rightarrow>
   ('l, 'a, get_commits_response) request" where
  "commits_get A full_name starting ending =
     h_bind (commits_table A full_name) (\<lambda>table.
     h_bind (h_commits A (tab_id table) starting ending) (\<lambda>commits.
     h_bind (h_latest A (tab_id table)) (\<lambda>latest.
     h_ret \<lparr>gcs_commits_info = map to_commit_info commits,
            gcs_latest_table_version = or_int (- 1) latest\<rparr>)))"

record commit_request =
  cmr_table_full_name :: string
  cmr_version :: int
  cmr_timestamp :: int
  cmr_file_name :: "string option"
  cmr_file_size :: "int option"
  cmr_file_modification_timestamp :: "int option"

definition commit_row_of :: "commit_request \<Rightarrow> uuid \<Rightarrow> uuid \<Rightarrow> delta_commit_row" where
  "commit_row_of req i table_id =
     \<lparr>dc_id = i, dc_table_id = table_id, dc_commit_version = cmr_version req,
      dc_commit_filename = (case cmr_file_name req of
          Some n \<Rightarrow> n | None \<Rightarrow> pad0_int 20 (cmr_version req) @ ''.json''),
      dc_commit_filesize = or_int 0 (cmr_file_size req),
      dc_commit_file_modification_timestamp =
        or_int (cmr_timestamp req) (cmr_file_modification_timestamp req),
      dc_commit_timestamp = cmr_timestamp req, dc_is_backfilled_latest_commit = False\<rparr>"

definition commits_post ::
  "('j, 'v, 'l, 'a, 'z) api_scheme \<Rightarrow> commit_request \<Rightarrow> ('l, 'a, get_commits_response) request" where
  "commits_post A req =
     h_bind (commits_table A (cmr_table_full_name req)) (\<lambda>table.
     h_bind (h_uuid A) (\<lambda>i.
     let row = commit_row_of req i (tab_id table) in
     h_bind (h_insert_commit A row) (\<lambda>_.
     h_bind (h_latest A (tab_id table)) (\<lambda>latest.
     h_ret \<lparr>gcs_commits_info = [to_commit_info row],
            gcs_latest_table_version = or_int (- 1) latest\<rparr>))))"

section \<open>Tables of the Delta API\<close>

definition delta_create_staging_table ::
  "('j, 'v, 'l, 'a, 'z) api_scheme \<Rightarrow> string \<Rightarrow> string \<Rightarrow> delta_create_staging_table_request \<Rightarrow>
   ('l, 'a, 'v delta_staging_table_response) request" where
  "delta_create_staging_table A cat sch req =
     h_bind (h_schema A cat sch) (\<lambda>schema.
     h_bind (h_uuid A) (\<lambda>i.
     h_bind (now_ms A) (\<lambda>now.
     let loc = ''file:///tmp/uc/staging/'' @ uuid_text A i in
     h_bind (h_write A (\<lambda>w. staging_create A (ap_ops A) w
       (new_staging i (sch_id schema) (dcs_name req) loc now None))) (\<lambda>_.
     h_ret \<lparr>dsr_table_id = i, dsr_table_type = Some ''MANAGED'', dsr_location = Some loc,
            dsr_storage_credentials = None, dsr_required_protocol = None,
            dsr_suggested_protocol = None, dsr_required_properties = None,
            dsr_suggested_properties = None\<rparr>))))"

definition new_delta_table ::
  "('j, 'v, 'l, 'a, 'z) delta_api_scheme \<Rightarrow> 'v delta_create_table_request \<Rightarrow> uuid \<Rightarrow> uuid \<Rightarrow> int \<Rightarrow>
   table_row" where
  "new_delta_table A req i schema_id now =
     \<lparr>tab_id = i, tab_schema_id = schema_id, tab_name = dct_name req,
      tab_type = dx_uppercase A (case dct_table_type req of None \<Rightarrow> ''EXTERNAL'' | Some t \<Rightarrow> t),
      tab_owner = None, tab_created_at = now, tab_created_by = None, tab_updated_at = None,
      tab_updated_by = None, tab_data_source_format = Some ''DELTA'', tab_comment = None,
      tab_url = dct_location req,
      tab_column_count = map_option (\<lambda>c. count_i32 (length (dst_fields c))) (dct_columns req),
      tab_view_definition = None, tab_uniform_iceberg_metadata_location = None,
      tab_uniform_iceberg_converted_delta_version = None,
      tab_uniform_iceberg_converted_delta_timestamp = None\<rparr>"

definition build_metadata ::
  "('j, 'v, 'l, 'a, 'z) api_scheme \<Rightarrow> uuid \<Rightarrow> 'v delta_create_table_request \<Rightarrow> int \<Rightarrow>
   'v delta_table_metadata" where
  "build_metadata A i req now =
     \<lparr>dtm_etag = Some (uuid_text A i), dtm_table_type = dct_table_type req, dtm_table_uuid = Some i,
      dtm_location = dct_location req, dtm_created_time = Some now, dtm_updated_time = None,
      dtm_columns = dct_columns req, dtm_partition_columns = dct_partition_columns req,
      dtm_properties = dct_properties req, dtm_last_commit_version = Some (- 1),
      dtm_last_commit_timestamp_ms = dct_last_commit_timestamp_ms req\<rparr>"

definition loaded :: "'v delta_table_metadata \<Rightarrow> int option \<Rightarrow> 'v delta_load_table_response" where
  "loaded metadata latest =
     \<lparr>dlt_metadata = metadata, dlt_commits = None, dlt_uniform = None, dlt_latest_table_version = latest\<rparr>"

definition delta_create_table ::
  "('j, 'v, 'l, 'a, 'z) delta_api_scheme \<Rightarrow> string \<Rightarrow> string \<Rightarrow> 'v delta_create_table_request \<Rightarrow>
   ('l, 'a, 'v delta_load_table_response) request" where
  "delta_create_table A cat sch req =
     h_bind (h_schema A cat sch) (\<lambda>schema.
     h_bind (h_uuid A) (\<lambda>i.
     h_bind (now_ms A) (\<lambda>now.
     h_bind (h_write A (\<lambda>w. table_create A (ap_ops A) w (new_delta_table A req i (sch_id schema) now))) (\<lambda>_.
     h_bind (now_ms A) (\<lambda>made.
     h_ret (loaded (build_metadata A i req made) (Some 0)))))))"

text \<open>What the metadata says of a stored table.\<close>

definition row_metadata ::
  "('j, 'v, 'l, 'a, 'z) api_scheme \<Rightarrow> table_row \<Rightarrow> int option \<Rightarrow> int option \<Rightarrow> 'w delta_table_metadata" where
  "row_metadata A row updated_time last_version =
     \<lparr>dtm_etag = Some (uuid_text A (tab_id row)), dtm_table_type = Some (tab_type row),
      dtm_table_uuid = Some (tab_id row), dtm_location = tab_url row,
      dtm_created_time = Some (tab_created_at row), dtm_updated_time = updated_time,
      dtm_columns = None, dtm_partition_columns = None, dtm_properties = None,
      dtm_last_commit_version = last_version, dtm_last_commit_timestamp_ms = None\<rparr>"

definition delta_load_table ::
  "('j, 'v, 'l, 'a, 'z) api_scheme \<Rightarrow> string \<Rightarrow> string \<Rightarrow> string \<Rightarrow>
   ('l, 'a, 'w delta_load_table_response) request" where
  "delta_load_table A cat sch tbl =
     h_bind (h_table A cat sch tbl) (\<lambda>row.
     h_bind (h_latest A (tab_id row)) (\<lambda>found.
     let latest = or_int 0 found in
     h_ret (loaded (row_metadata A row (tab_updated_at row) (Some latest)) (Some latest))))"

definition delta_table_exists ::
  "('j, 'v, 'l, 'a, 'z) api_scheme \<Rightarrow> string \<Rightarrow> string \<Rightarrow> string \<Rightarrow> ('l, 'a, unit) request" where
  "delta_table_exists A cat sch tbl = h_bind (h_table A cat sch tbl) (\<lambda>_. h_ret ())"

section \<open>Updates of a table\<close>

fun check_requirements ::
  "('j, 'z) row_codecs_scheme \<Rightarrow> uuid \<Rightarrow> delta_table_requirement list \<Rightarrow> unit res" where
  "check_requirements E i [] = Inr ()"
| "check_requirements E i (AssertTableUuid u # rs) =
     (if u \<noteq> i then Inl (uc_err UpdateRequirementConflict
        (''assert-table-uuid failed: expected '' @ uuid_text E u @ '' but got '' @ uuid_text E i))
      else check_requirements E i rs)"
| "check_requirements E i (AssertEtag etag # rs) =
     (if etag \<noteq> uuid_text E i then Inl (uc_err UpdateRequirementConflict
        (''assert-etag failed: expected '' @ etag @ '' but current etag is '' @ uuid_text E i))
      else check_requirements E i rs)"

definition stale_version :: "int \<Rightarrow> int \<Rightarrow> uc_error" where
  "stale_version v latest = uc_err CommitVersionConflict
     (''Commit version '' @ show_int v @ '' already exists (latest: '' @ show_int latest @ '')'')"

definition added_commit :: "delta_commit \<Rightarrow> uuid \<Rightarrow> uuid \<Rightarrow> delta_commit_row" where
  "added_commit c i table_id =
     \<lparr>dc_id = i, dc_table_id = table_id, dc_commit_version = dcm_version c,
      dc_commit_filename = dcm_file_name c, dc_commit_filesize = dcm_file_size c,
      dc_commit_file_modification_timestamp = dcm_file_modification_timestamp c,
      dc_commit_timestamp = dcm_timestamp c, dc_is_backfilled_latest_commit = False\<rparr>"

text \<open>One update; the result is the latest version, which only \<open>AddCommit\<close> moves.\<close>

fun apply_update ::
  "('j, 'v, 'l, 'a, 'z) delta_api_scheme \<Rightarrow> uuid \<Rightarrow> int \<Rightarrow> int \<Rightarrow> 'v delta_table_update \<Rightarrow>
   ('l, 'a, int) request" where
  "apply_update A t now latest (AddCommit c uniform) =
     (if dcm_version c \<le> latest then h_err (stale_version (dcm_version c) latest)
      else
        h_bind (h_uuid A) (\<lambda>i.
        h_bind (h_insert_commit A (added_commit c i t)) (\<lambda>_.
        h_ret (dcm_version c))))"
| "apply_update A t now latest (SetProperties props) =
     h_bind (h_replace_properties A t ''table'' props) (\<lambda>_. h_ret latest)"
| "apply_update A t now latest (RemoveProperties keys) =
     h_bind (h_each (\<lambda>k. h_write A (\<lambda>w. property_delete_key A (ap_ops A) w t ''table'' k)) keys) (\<lambda>_.
     h_ret latest)"
| "apply_update A t now latest (SetColumns cols) =
     h_bind (h_write A (\<lambda>w. table_patch A (ap_ops A) w t (Some (count_i32 (length (dst_fields cols))))
       None None None now)) (\<lambda>_.
     h_bind (h_set_property A t ''table'' ''__delta_schema__'' (text_or_empty (dx_struct_text A cols))) (\<lambda>_.
     h_ret latest))"
| "apply_update A t now latest (SetTableComment comment) =
     h_bind (h_write A (\<lambda>w. table_patch A (ap_ops A) w t None (Some comment) None None now)) (\<lambda>_.
     h_ret latest)"
| "apply_update A t now latest (SetPartitionColumns cols) =
     h_bind (h_set_property A t ''table'' ''__delta_partition_cols__''
       (text_or_empty (dx_strings_text A cols))) (\<lambda>_.
     h_ret latest)"
| "apply_update A t now latest (SetProtocol p) =
     h_bind (h_set_property A t ''table'' ''delta.minReaderVersion''
       (show_int (dpr_min_reader_version p))) (\<lambda>_.
     h_bind (h_set_property A t ''table'' ''delta.minWriterVersion''
       (show_int (dpr_min_writer_version p))) (\<lambda>_.
     h_ret latest))"
| "apply_update A t now latest (SetDomainMetadata domains) =
     h_bind (h_set_property A t ''table'' ''__delta_domain_metadata__''
       (text_or_empty (dx_domains_text A domains))) (\<lambda>_.
     h_ret latest)"
| "apply_update A t now latest (RemoveDomainMetadata domains) =
     h_bind (h_each (\<lambda>d. h_write A (\<lambda>w. property_delete_key A (ap_ops A) w t ''table''
       (''__delta_domain__'' @ d))) domains) (\<lambda>_.
     h_ret latest)"
| "apply_update A t now latest (SetLatestBackfilledVersion v) =
     h_bind (h_mark_backfilled A t v) (\<lambda>_. h_ret latest)"
| "apply_update A t now latest (UpdateMetadataSnapshotVersion v ts) =
     h_bind (h_write A (\<lambda>w. table_patch A (ap_ops A) w t None None (Some v) (Some ts) now)) (\<lambda>_.
     h_ret latest)"

fun apply_updates ::
  "('j, 'v, 'l, 'a, 'z) delta_api_scheme \<Rightarrow> uuid \<Rightarrow> int \<Rightarrow> int \<Rightarrow> 'v delta_table_update list \<Rightarrow>
   ('l, 'a, int) request" where
  "apply_updates A t now latest [] = h_ret latest"
| "apply_updates A t now latest (u # us) =
     h_bind (apply_update A t now latest u) (\<lambda>latest'. apply_updates A t now latest' us)"

definition delta_update_table ::
  "('j, 'v, 'l, 'a, 'z) delta_api_scheme \<Rightarrow> string \<Rightarrow> string \<Rightarrow> string \<Rightarrow>
   'v delta_update_table_request \<Rightarrow> ('l, 'a, 'v delta_load_table_response) request" where
  "delta_update_table A cat sch tbl req =
     h_bind (h_table A cat sch tbl) (\<lambda>row.
     h_bind (now_ms A) (\<lambda>now.
     h_bind (h_latest A (tab_id row)) (\<lambda>found.
     h_bind (h_res (case dur_requirements req of
         None \<Rightarrow> Inr () | Some rs \<Rightarrow> check_requirements A (tab_id row) rs)) (\<lambda>_.
     h_bind (apply_updates A (tab_id row) now (or_int (- 1) found) (dur_updates req)) (\<lambda>latest.
     h_ret (loaded (row_metadata A row (Some now) (Some latest)) (Some latest)))))))"

definition delta_delete_table ::
  "('j, 'v, 'l, 'a, 'z) api_scheme \<Rightarrow> string \<Rightarrow> string \<Rightarrow> string \<Rightarrow> ('l, 'a, unit) request" where
  "delta_delete_table A cat sch tbl =
     h_bind (h_table A cat sch tbl) (\<lambda>row.
     h_bind (h_write A (\<lambda>w. delete_columns A (ap_ops A) w (tab_id row))) (\<lambda>_.
     h_bind (h_delete_properties A (tab_id row) ''table'') (\<lambda>_.
     h_write A (\<lambda>w. table_delete A (ap_ops A) w (tab_id row)))))"

definition delta_rename_table ::
  "('j, 'v, 'l, 'a, 'z) api_scheme \<Rightarrow> string \<Rightarrow> string \<Rightarrow> string \<Rightarrow> delta_rename_table_request \<Rightarrow>
   ('l, 'a, 'w delta_load_table_response) request" where
  "delta_rename_table A cat sch tbl req =
     h_bind (h_table A cat sch tbl) (\<lambda>row.
     h_bind (now_ms A) (\<lambda>now.
     h_bind (h_write A (\<lambda>w. table_rename A (ap_ops A) w (tab_id row) (drn_new_name req) now)) (\<lambda>_.
     h_bind (h_read A (\<lambda>s. table_get_by_id A s (tab_id row))) (\<lambda>updated.
     h_ret (loaded (row_metadata A updated (Some now) None) None)))))"

definition delta_report_metrics :: "('l, 'a, unit) request" where
  "delta_report_metrics = h_ret ()"

section \<open>Credentials and configuration\<close>

definition delta_context :: "string \<Rightarrow> uuid option \<Rightarrow> credential_context" where
  "delta_context url table_id =
     \<lparr>ctx_scheme = from_url url, ctx_locations = [url], ctx_operation = CoReadWrite,
      ctx_table_id = table_id, ctx_credential_json = None, ctx_role_arn = None, ctx_external_id = None\<rparr>"

definition delta_vend ::
  "('j, 'v, 'l, 'a, 'z) delta_api_scheme \<Rightarrow> string \<Rightarrow> uuid option \<Rightarrow>
   ('l, 'a, 'v delta_credentials_response) request" where
  "delta_vend A url table_id =
     h_bind (vend A (delta_context url table_id)) (\<lambda>creds.
     h_ret \<lparr>dcr_storage_credentials = (case tmc_aws_temp_credentials creds of
         None \<Rightarrow> []
       | Some aws \<Rightarrow> [\<lparr>dsc_prefix = url, dsc_operation = DcoReadWrite,
             dsc_config = Some (dx_aws_config A (awc_access_key_id aws) (awc_secret_access_key aws)
               (awc_session_token aws)),
             dsc_expiration_time_ms = tmc_expiration_time creds\<rparr>])\<rparr>)"

definition delta_table_credentials ::
  "('j, 'v, 'l, 'a, 'z) delta_api_scheme \<Rightarrow> string \<Rightarrow> string \<Rightarrow> string \<Rightarrow>
   ('l, 'a, 'v delta_credentials_response) request" where
  "delta_table_credentials A cat sch tbl =
     h_bind (h_table A cat sch tbl) (\<lambda>row.
     delta_vend A (or_empty (tab_url row)) (Some (tab_id row)))"

definition delta_staging_credentials ::
  "('j, 'v, 'l, 'a, 'z) delta_api_scheme \<Rightarrow> string \<Rightarrow> ('l, 'a, 'v delta_credentials_response) request" where
  "delta_staging_credentials A table_id =
     h_bind (h_res (ok_or (err_invalid_argument ''invalid table_id'') (ap_uuid_parse A table_id))) (\<lambda>i.
     h_bind (h_read A (\<lambda>s. staging_get_by_id A s i)) (\<lambda>staging.
     delta_vend A (stg_staging_location staging) (Some i)))"

definition delta_path_credentials ::
  "('j, 'v, 'l, 'a, 'z) delta_api_scheme \<Rightarrow> string option \<Rightarrow> ('l, 'a, 'v delta_credentials_response) request" where
  "delta_path_credentials A path = delta_vend A (or_empty path) None"

definition delta_config :: "('l, 'a, delta_catalog_config) request" where
  "delta_config = h_ret \<lparr>dcc_endpoints = [], dcc_protocol_version = ''1''\<rparr>"

end
