(* ===== verification/ApiPrincipals.thy ===== *)
theory ApiPrincipals
  imports Api
begin

text \<open>
  The handlers of credentials, external locations, the metastore and permissions:
  \<^verbatim>\<open>catalog_api::credentials\<close>, \<^verbatim>\<open>catalog_api::external_locations\<close>, \<^verbatim>\<open>catalog_api::metastore\<close> and
  \<^verbatim>\<open>catalog_api::permissions\<close>.
\<close>

section \<open>Credentials\<close>

fun purpose_text :: "credential_purpose \<Rightarrow> string" where
  "purpose_text CpServicePrincipal = ''SERVICEPRINCIPAL''"
| "purpose_text CpGcsServiceAccount = ''GCSSERVICEACCOUNT''"
| "purpose_text CpAwsIamRole = ''AWSIAMROLE''"
| "purpose_text CpAzureManagedIdentity = ''AZUREMANAGEDIDENTITY''"
| "purpose_text CpAwsAssumeRole = ''AWSASSUMEROLE''"
| "purpose_text CpDatabricksGcpServiceAccount = ''DATABRICKSGCPSERVICEACCOUNT''"

definition to_cred_info ::
  "('j, 'v, 'l, 'a, 'z) api_scheme \<Rightarrow> credential_row \<Rightarrow> credential_info" where
  "to_cred_info A r =
     \<lparr>cdi_id = crd_id r, cdi_name = crd_name r, cdi_purpose = CpAwsIamRole,
      cdi_full_name = Some (crd_name r), cdi_comment = crd_comment r, cdi_owner = crd_owner r,
      cdi_created_at = Some (crd_created_at r), cdi_created_by = crd_created_by r,
      cdi_updated_at = crd_updated_at r, cdi_updated_by = crd_updated_by r,
      cdi_aws_iam_role = (case dec (ap_aws_role A) (crd_credential r) of
          Inr role \<Rightarrow> Some role | Inl _ \<Rightarrow> None)\<rparr>"

definition credentials_create ::
  "('j, 'v, 'l, 'a, 'z) api_scheme \<Rightarrow> uc_claims \<Rightarrow> create_credential_request \<Rightarrow>
   ('l, 'a, credential_info) request" where
  "credentials_create A claims req =
     h_bind (ensure A claims (ap_metastore_id A) CreateStorageCredential) (\<lambda>_.
     h_bind (h_uuid A) (\<lambda>i.
     h_bind (now_ms A) (\<lambda>now.
     let row = \<lparr>crd_id = i, crd_name = ccred_name req,
                crd_credential_type = purpose_text (ccred_purpose req),
                crd_credential = text_or_empty (ap_aws_role_opt A (ccred_aws_iam_role req)),
                crd_purpose = purpose_text (ccred_purpose req), crd_comment = ccred_comment req,
                crd_owner = None, crd_created_at = now, crd_created_by = auth_sub A claims,
                crd_updated_at = None, crd_updated_by = None\<rparr> in
     h_bind (h_write A (\<lambda>w. credential_create A (ap_ops A) w row)) (\<lambda>created.
     h_bind (own A claims i None) (\<lambda>_.
     h_ret (to_cred_info A created))))))"

definition credentials_list ::
  "('j, 'v, 'l, 'a, 'z) api_scheme \<Rightarrow> uc_claims \<Rightarrow> int option \<Rightarrow> string option \<Rightarrow>
   ('l, 'a, list_credentials_response) request" where
  "credentials_list A claims max_results page_token =
     h_bind (ensure A claims (ap_metastore_id A) CreateStorageCredential) (\<lambda>_.
     h_bind (h_read A (\<lambda>s. credential_list s page_token (page_size max_results))) (\<lambda>(rows, next_token).
     h_ret \<lparr>lcred_credentials = map (to_cred_info A) rows, lcred_next_page_token = next_token\<rparr>))"

definition credentials_get ::
  "('j, 'v, 'l, 'a, 'z) api_scheme \<Rightarrow> uc_claims \<Rightarrow> string \<Rightarrow> ('l, 'a, credential_info) request" where
  "credentials_get A claims name =
     h_bind (h_read A (\<lambda>s. credential_get_by_name s name)) (\<lambda>row.
     h_bind (ensure A claims (ap_metastore_id A) CreateStorageCredential) (\<lambda>_.
     h_ret (to_cred_info A row)))"

definition credentials_update ::
  "('j, 'v, 'l, 'a, 'z) api_scheme \<Rightarrow> uc_claims \<Rightarrow> string \<Rightarrow> update_credential_request \<Rightarrow>
   ('l, 'a, credential_info) request" where
  "credentials_update A claims name req =
     h_bind (h_read A (\<lambda>s. credential_get_by_name s name)) (\<lambda>existing.
     h_bind (ensure A claims (crd_id existing) Owner) (\<lambda>_.
     let effective_name = (case ucred_new_name req of None \<Rightarrow> name | Some n \<Rightarrow> n) in
     h_bind (now_ms A) (\<lambda>now.
     h_bind (h_write A (\<lambda>w. credential_update A (ap_ops A) w (crd_id existing) (ucred_new_name req)
       (ucred_comment req) (ucred_owner req)
       (map_option (\<lambda>r. text_or_empty (enc (ap_aws_role A) r)) (ucred_aws_iam_role req))
       now (auth_sub A claims))) (\<lambda>_.
     h_bind (h_read A (\<lambda>s. credential_get_by_name s effective_name)) (\<lambda>updated.
     h_ret (to_cred_info A updated))))))"

definition credentials_delete ::
  "('j, 'v, 'l, 'a, 'z) api_scheme \<Rightarrow> uc_claims \<Rightarrow> string \<Rightarrow> ('l, 'a, unit) request" where
  "credentials_delete A claims name =
     h_bind (h_when (ap_auth_enabled A)
       (h_bind (h_read A (\<lambda>s. credential_get_by_name s name)) (\<lambda>existing.
        h_bind (get_user A (clm_sub claims)) (\<lambda>user.
        require A (usr_id user) (crd_id existing) Owner)))) (\<lambda>_.
     h_write A (\<lambda>w. credential_delete A (ap_ops A) w name))"

section \<open>External locations\<close>

definition to_ext_loc_info :: "external_location_row \<Rightarrow> string \<Rightarrow> external_location_info" where
  "to_ext_loc_info r cred_name =
     \<lparr>eli_id = loc_id r, eli_name = loc_name r, eli_url = loc_url r, eli_credential_name = cred_name,
      eli_comment = loc_comment r, eli_owner = loc_owner r, eli_created_at = loc_created_at r,
      eli_created_by = loc_created_by r, eli_updated_at = loc_updated_at r,
      eli_updated_by = loc_updated_by r\<rparr>"

definition locations_create ::
  "('j, 'v, 'l, 'a, 'z) api_scheme \<Rightarrow> uc_claims \<Rightarrow> create_external_location \<Rightarrow>
   ('l, 'a, external_location_info) request" where
  "locations_create A claims req =
     h_bind (ensure A claims (ap_metastore_id A) CreateExternalLocation) (\<lambda>_.
     h_bind (h_read A (\<lambda>s. credential_get_by_name s (cext_credential_name req))) (\<lambda>cred.
     h_bind (h_when (ap_auth_enabled A)
       (h_bind (h_ok (get_user A (clm_sub claims))) (\<lambda>user.
        h_if_some user (\<lambda>u. require A (usr_id u) (crd_id cred) CreateExternalLocation)))) (\<lambda>_.
     h_bind (h_uuid A) (\<lambda>i.
     h_bind (now_ms A) (\<lambda>now.
     let row = \<lparr>loc_id = i, loc_name = cext_name req, loc_url = cext_url req,
                loc_comment = cext_comment req, loc_owner = None, loc_credential_id = crd_id cred,
                loc_created_at = Some now, loc_created_by = auth_sub A claims,
                loc_updated_at = None, loc_updated_by = None\<rparr> in
     h_bind (h_write A (\<lambda>w. location_create A (ap_ops A) w row)) (\<lambda>created.
     h_bind (own A claims i None) (\<lambda>_.
     h_ret (to_ext_loc_info created (cext_credential_name req)))))))))"

definition locations_list ::
  "('j, 'v, 'l, 'a, 'z) api_scheme \<Rightarrow> int option \<Rightarrow> string option \<Rightarrow>
   ('l, 'a, list_external_locations_response) request" where
  "locations_list A max_results page_token =
     h_bind (h_read A (\<lambda>s. location_list s page_token (page_size max_results))) (\<lambda>(rows, next_token).
     h_bind (h_map (\<lambda>r.
       h_bind (h_ok (h_read A (\<lambda>s. credential_get_by_id A s (loc_credential_id r)))) (\<lambda>cred.
       h_ret (to_ext_loc_info r (or_empty (map_option crd_name cred))))) rows) (\<lambda>infos.
     h_ret \<lparr>lext_external_locations = infos, lext_next_page_token = next_token\<rparr>))"

definition locations_get ::
  "('j, 'v, 'l, 'a, 'z) api_scheme \<Rightarrow> string \<Rightarrow> ('l, 'a, external_location_info) request" where
  "locations_get A name =
     h_bind (h_read A (\<lambda>s. location_get_by_name s name)) (\<lambda>row.
     h_bind (h_read A (\<lambda>s. credential_get_by_id A s (loc_credential_id row))) (\<lambda>cred.
     h_ret (to_ext_loc_info row (crd_name cred))))"

definition locations_update ::
  "('j, 'v, 'l, 'a, 'z) api_scheme \<Rightarrow> uc_claims \<Rightarrow> string \<Rightarrow> update_external_location \<Rightarrow>
   ('l, 'a, external_location_info) request" where
  "locations_update A claims name req =
     h_bind (h_read A (\<lambda>s. location_get_by_name s name)) (\<lambda>existing.
     h_bind (ensure A claims (loc_id existing) Owner) (\<lambda>_.
     let effective_name = (case uext_new_name req of None \<Rightarrow> name | Some n \<Rightarrow> n) in
     h_bind (now_ms A) (\<lambda>now.
     h_bind (case uext_credential_name req of
         Some cred_name \<Rightarrow> h_bind (h_read A (\<lambda>s. credential_get_by_name s cred_name)) (\<lambda>c.
           h_ret (Some (crd_id c)))
       | None \<Rightarrow> h_ret None) (\<lambda>new_cred_id.
     h_bind (h_write A (\<lambda>w. location_update A (ap_ops A) w (loc_id existing) (uext_new_name req)
       (uext_url req) (uext_comment req) (uext_owner req) new_cred_id now (auth_sub A claims))) (\<lambda>_.
     h_bind (h_read A (\<lambda>s. location_get_by_name s effective_name)) (\<lambda>updated.
     h_bind (h_read A (\<lambda>s. credential_get_by_id A s (loc_credential_id updated))) (\<lambda>cred.
     h_ret (to_ext_loc_info updated (crd_name cred)))))))))"

definition locations_delete ::
  "('j, 'v, 'l, 'a, 'z) api_scheme \<Rightarrow> uc_claims \<Rightarrow> string \<Rightarrow> ('l, 'a, unit) request" where
  "locations_delete A claims name =
     h_bind (h_when (ap_auth_enabled A)
       (h_bind (h_read A (\<lambda>s. location_get_by_name s name)) (\<lambda>existing.
        h_bind (get_user A (clm_sub claims)) (\<lambda>user.
        require A (usr_id user) (loc_id existing) Owner)))) (\<lambda>_.
     h_write A (\<lambda>w. location_delete A (ap_ops A) w name))"

section \<open>The metastore\<close>

definition metastore_summary_get ::
  "('j, 'v, 'l, 'a, 'z) api_scheme \<Rightarrow> ('l, 'a, metastore_summary) request" where
  "metastore_summary_get A =
     h_bind (h_read A metastore_get) (\<lambda>row.
     h_ret \<lparr>ms_metastore_id = met_id row, ms_name = met_name row, ms_owner = None, ms_created_at = None,
            ms_created_by = None, ms_updated_at = None, ms_updated_by = None\<rparr>)"

section \<open>Permissions\<close>

definition assignment_of ::
  "('j, 'v, 'l, 'a, 'z) api_scheme \<Rightarrow> uuid \<times> privilege list \<Rightarrow> ('l, 'a, privilege_assignment) request" where
  "assignment_of A g = (case g of (who, privs) \<Rightarrow>
     h_bind (h_try (h_read A (\<lambda>s. user_get_by_id A s who))) (\<lambda>found.
     h_ret \<lparr>pas_principal = (case found of
                Inr u \<Rightarrow> (case usr_email u of Some e \<Rightarrow> e | None \<Rightarrow> usr_name u)
              | Inl _ \<Rightarrow> uuid_text A who),
            pas_privileges = map as_casbin_str privs\<rparr>))"

definition grants_to_assignments ::
  "('j, 'v, 'l, 'a, 'z) api_scheme \<Rightarrow> (uuid \<times> privilege list) list \<Rightarrow>
   ('l, 'a, privilege_assignment list) request" where
  "grants_to_assignments A grants = h_map (assignment_of A) grants"

text \<open>The object below a schema that a full name of three parts stands for.\<close>

definition resolve3 ::
  "('j, 'v, 'l, 'a, 'z) api_scheme \<Rightarrow> string \<Rightarrow> (uuid \<Rightarrow> string \<Rightarrow> snapshot \<Rightarrow> uuid res) \<Rightarrow>
   ('l, 'a, uuid) request" where
  "resolve3 A full_name get =
     h_bind (h_res (split3 full_name)) (\<lambda>(cat, sch, name).
     h_bind (h_schema A cat sch) (\<lambda>schema.
     h_read A (get (sch_id schema) name)))"

definition map_ok :: "('x \<Rightarrow> 'y) \<Rightarrow> 'x res \<Rightarrow> 'y res" where
  "map_ok f r = rbind r (\<lambda>x. Inr (f x))"

definition resolve_resource_id ::
  "('j, 'v, 'l, 'a, 'z) api_scheme \<Rightarrow> string \<Rightarrow> string \<Rightarrow> ('l, 'a, uuid) request" where
  "resolve_resource_id A securable_type full_name =
    (let t = to_uppercase_ascii securable_type in
     if t = ''METASTORE'' then h_ret (ap_metastore_id A)
     else if t = ''CATALOG'' then h_read A (\<lambda>s. map_ok cat_id (catalog_get_by_name s full_name))
     else if t = ''EXTERNAL_LOCATION'' then h_read A (\<lambda>s. map_ok loc_id (location_get_by_name s full_name))
     else if t = ''SCHEMA'' then
       h_bind (h_res (split2 full_name)) (\<lambda>(cat, sch).
       h_bind (h_schema A cat sch) (\<lambda>schema. h_ret (sch_id schema)))
     else if t = ''TABLE'' then
       resolve3 A full_name (\<lambda>i n s. map_ok tab_id (table_get_by_schema_and_name A s i n))
     else if t = ''VOLUME'' then
       resolve3 A full_name (\<lambda>i n s. map_ok vol_id (volume_get_by_schema_and_name A s i n))
     else if t = ''FUNCTION'' then
       resolve3 A full_name (\<lambda>i n s. map_ok fn_id (function_get_by_schema_and_name A s i n))
     else if t = ''REGISTERED_MODEL'' \<or> t = ''MODEL'' then
       resolve3 A full_name (\<lambda>i n s. map_ok mdl_id (get_model_by_schema_and_name A s i n))
     else h_err (err_invalid_argument (''Unknown securable type: '' @ securable_type)))"

definition permissions_get ::
  "('j, 'v, 'l, 'a, 'z) api_scheme \<Rightarrow> string \<Rightarrow> string \<Rightarrow> string option \<Rightarrow>
   ('l, 'a, permissions_list) request" where
  "permissions_get A securable_type full_name principal_email =
     h_bind (resolve_resource_id A securable_type full_name) (\<lambda>resource.
     h_bind (case principal_email of
         Some email \<Rightarrow>
           h_bind (h_read A (\<lambda>s. user_get_by_email s email)) (\<lambda>found.
           case found of
             None \<Rightarrow> h_ret []
           | Some user \<Rightarrow>
              h_bind (h_ask A (au_list_privileges (ap_authorizer A) (usr_id user) resource)) (\<lambda>privs.
              h_ret (if privs = [] then []
                     else [\<lparr>pas_principal = email, pas_privileges = map as_casbin_str privs\<rparr>])))
       | None \<Rightarrow>
           h_bind (h_ask A (au_list_grants_on_resource (ap_authorizer A) resource)) (\<lambda>grants.
           grants_to_assignments A grants)) (\<lambda>assignments.
     h_ret \<lparr>pls_securable_type = Some (to_uppercase_ascii securable_type),
            pls_full_name = Some full_name, pls_privilege_assignments = assignments\<rparr>))"

text \<open>Only owners of the object or of the metastore manage grants.\<close>

definition ensure_manager ::
  "('j, 'v, 'l, 'a, 'z) api_scheme \<Rightarrow> uc_claims \<Rightarrow> uuid \<Rightarrow> ('l, 'a, unit) request" where
  "ensure_manager A claims resource =
     h_when (ap_auth_enabled A)
       (h_bind (get_user A (clm_sub claims)) (\<lambda>caller.
        h_bind (h_authorize A (usr_id caller) resource Owner) (\<lambda>is_owner.
        h_bind (h_authorize A (usr_id caller) (ap_metastore_id A) Owner) (\<lambda>is_metastore_admin.
        if \<not> is_owner \<and> \<not> is_metastore_admin
        then h_err (err_permission_denied ''OWNER privilege required to manage permissions'')
        else h_ret ()))))"

definition find_or_provision ::
  "('j, 'v, 'l, 'a, 'z) api_scheme \<Rightarrow> string \<Rightarrow> ('l, 'a, user_row) request" where
  "find_or_provision A sub =
     h_bind (h_uuids A) (\<lambda>fresh.
     h_bind (now_ms A) (\<lambda>now.
     h_write A (\<lambda>w. find_or_create_by_external_id A (ap_ops A) w (\<lambda>a. fresh a 0) now sub)))"

definition resolve_grantee ::
  "('j, 'v, 'l, 'a, 'z) api_scheme \<Rightarrow> string \<Rightarrow> ('l, 'a, user_row) request" where
  "resolve_grantee A name =
     h_bind (h_read A (\<lambda>s. user_get_by_email s name)) (\<lambda>found.
     case found of
       Some u \<Rightarrow> h_ret u
     | None \<Rightarrow>
        h_bind (h_read A (\<lambda>s. user_get_by_external_id s name)) (\<lambda>found.
        case found of
          Some u \<Rightarrow> h_ret u
        | None \<Rightarrow> find_or_provision A name))"

definition parse_privilege :: "string \<Rightarrow> privilege res" where
  "parse_privilege s =
     ok_or (err_invalid_argument (''Unknown privilege: '' @ quoted s)) (from_casbin_str s)"

definition apply_change ::
  "('j, 'v, 'l, 'a, 'z) api_scheme \<Rightarrow> uuid \<Rightarrow> privilege_assignment_change \<Rightarrow> ('l, 'a, unit) request" where
  "apply_change A resource change =
     h_bind (resolve_grantee A (pac_principal change)) (\<lambda>user.
     h_bind (h_each (\<lambda>priv.
       h_bind (h_res (parse_privilege priv)) (\<lambda>p.
       h_tell A (au_grant (ap_authorizer A) (usr_id user) resource p))) (pac_add change)) (\<lambda>_.
     h_each (\<lambda>priv.
       h_bind (h_res (parse_privilege priv)) (\<lambda>p.
       h_tell A (au_revoke (ap_authorizer A) (usr_id user) resource p))) (pac_remove change)))"

definition permissions_update ::
  "('j, 'v, 'l, 'a, 'z) api_scheme \<Rightarrow> uc_claims \<Rightarrow> string \<Rightarrow> string \<Rightarrow> update_permissions \<Rightarrow>
   ('l, 'a, permissions_list) request" where
  "permissions_update A claims securable_type full_name req =
     h_bind (resolve_resource_id A securable_type full_name) (\<lambda>resource.
     h_bind (ensure_manager A claims resource) (\<lambda>_.
     h_bind (h_each (apply_change A resource) (upd_changes req)) (\<lambda>_.
     h_bind (h_ask A (au_list_grants_on_resource (ap_authorizer A) resource)) (\<lambda>grants.
     h_bind (grants_to_assignments A grants) (\<lambda>assignments.
     h_ret \<lparr>pls_securable_type = Some (to_uppercase_ascii securable_type),
            pls_full_name = Some full_name, pls_privilege_assignments = assignments\<rparr>)))))"

end
