(* ===== verification/ApiControl.thy ===== *)
theory ApiControl
  imports ApiPrincipals
begin

text \<open>
  The control API, \<^verbatim>\<open>control_api::scim2\<close> over \<^verbatim>\<open>uc_openapi::control\<close>, and the way of a request to
  its handler: \<^verbatim>\<open>uc_auth::jwt\<close> and \<^verbatim>\<open>uc_api::middleware\<close>.
\<close>

section \<open>SCIM users\<close>

record scim_email =
  sem_value :: string
  sem_primary :: "bool option"
  sem_type :: "string option"

record scim_name =
  snm_given_name :: "string option"
  snm_family_name :: "string option"

record user_resource =
  ur_id :: "string option"
  ur_user_name :: string
  ur_display_name :: "string option"
  ur_emails :: "scim_email list option"
  ur_name :: "scim_name option"
  ur_active :: "bool option"
  ur_external_id :: "string option"

record user_resource_list =
  url_resources :: "user_resource list"
  url_total_results :: int
  url_start_index :: int
  url_items_per_page :: int
  url_schemas :: "string list"

record 'v scim_patch_operation =
  spo_op :: string
  spo_path :: "string option"
  spo_value :: "'v option"

record 'v scim_patch_op =
  sop_schemas :: "string list"
  sop_operations :: "'v scim_patch_operation list"

definition to_user_resource :: "('j, 'z) row_codecs_scheme \<Rightarrow> user_row \<Rightarrow> user_resource" where
  "to_user_resource E row =
     \<lparr>ur_id = Some (uuid_text E (usr_id row)), ur_user_name = usr_name row, ur_display_name = None,
      ur_emails = None, ur_name = None, ur_active = Some (is_enabled row),
      ur_external_id = usr_external_id row\<rparr>"

definition state_text :: "bool \<Rightarrow> string" where
  "state_text active = (if active then ''ENABLED'' else ''DISABLED'')"

definition active_text :: "bool option \<Rightarrow> string" where
  "active_text active = state_text (case active of None \<Rightarrow> True | Some b \<Rightarrow> b)"

definition scim_create_user ::
  "('j, 'v, 'l, 'a, 'z) api_scheme \<Rightarrow> user_resource \<Rightarrow> ('l, 'a, user_resource) request" where
  "scim_create_user A req =
     h_bind (h_uuid A) (\<lambda>i.
     h_bind (now_ms A) (\<lambda>now.
     let email = (case ur_emails req of
           Some (e # _) \<Rightarrow> Some (sem_value e)
         | _ \<Rightarrow> Some (ur_user_name req)) in
     h_bind (h_write A (\<lambda>w. user_create A (ap_ops A) w i (ur_user_name req) email (ur_external_id req)
       (active_text (ur_active req)) now)) (\<lambda>row.
     h_ret (to_user_resource A row))))"

definition count_of_len :: "nat \<Rightarrow> int" where
  "count_of_len n = min (int n) i32_max"

definition scim_list_users ::
  "('j, 'v, 'l, 'a, 'z) api_scheme \<Rightarrow> int option \<Rightarrow> ('l, 'a, user_resource_list) request" where
  "scim_list_users A count =
     h_bind (h_read A (\<lambda>s. user_list s None (case count of None \<Rightarrow> 50 | Some n \<Rightarrow> n))) (\<lambda>(rows, _).
     let resources = map (to_user_resource A) rows; total = count_of_len (length resources) in
     h_ret \<lparr>url_resources = resources, url_total_results = total, url_start_index = 1,
            url_items_per_page = total,
            url_schemas = [''urn:ietf:params:scim:api:messages:2.0:ListResponse'']\<rparr>)"

definition parse_user_id :: "('j, 'v, 'l, 'a, 'z) api_scheme \<Rightarrow> string \<Rightarrow> uuid res" where
  "parse_user_id A i = ok_or (err_invalid_argument ''invalid user id'') (ap_uuid_parse A i)"

definition scim_get_user ::
  "('j, 'v, 'l, 'a, 'z) api_scheme \<Rightarrow> string \<Rightarrow> ('l, 'a, user_resource) request" where
  "scim_get_user A i =
     h_bind (h_res (parse_user_id A i)) (\<lambda>uid.
     h_bind (h_read A (\<lambda>s. user_get_by_id A s uid)) (\<lambda>row.
     h_ret (to_user_resource A row)))"

definition h_update_user ::
  "('j, 'v, 'l, 'a, 'z) api_scheme \<Rightarrow> uuid \<Rightarrow> string option \<Rightarrow> string option \<Rightarrow>
   ('l, 'a, user_resource) request" where
  "h_update_user A uid name state_str =
     h_bind (now_ms A) (\<lambda>now.
     h_bind (h_write A (\<lambda>w. user_update A (ap_ops A) w uid name None state_str now)) (\<lambda>row.
     h_ret (to_user_resource A row)))"

definition scim_update_user ::
  "('j, 'v, 'l, 'a, 'z) api_scheme \<Rightarrow> string \<Rightarrow> user_resource \<Rightarrow> ('l, 'a, user_resource) request" where
  "scim_update_user A i req =
     h_bind (h_res (parse_user_id A i)) (\<lambda>uid.
     h_update_user A uid (Some (ur_user_name req)) (Some (active_text (ur_active req))))"

definition scim_delete_user ::
  "('j, 'v, 'l, 'a, 'z) api_scheme \<Rightarrow> string \<Rightarrow> ('l, 'a, unit) request" where
  "scim_delete_user A i =
     h_bind (h_res (parse_user_id A i)) (\<lambda>uid.
     h_write A (\<lambda>w. user_delete A (ap_ops A) w uid))"

text \<open>What a patch asks for: the last \<open>replace\<close> that names the field wins.\<close>

fun patched ::
  "('v \<Rightarrow> 'x option) \<Rightarrow> 'x option \<Rightarrow> 'v scim_patch_operation list \<Rightarrow> 'x option" where
  "patched field found [] = found"
| "patched field found (p # ps) =
     patched field
       (if to_lowercase_ascii (spo_op p) = ''replace''
        then (case Option.bind (spo_value p) field of Some x \<Rightarrow> Some x | None \<Rightarrow> found)
        else found) ps"

definition patched_state ::
  "('j, 'v, 'l, 'a, 'z) api_scheme \<Rightarrow> 'v scim_patch_op \<Rightarrow> string option" where
  "patched_state A req = map_option state_text
     (patched (\<lambda>v. Option.bind (val_get A v ''active'') (ap_val_bool A)) None (sop_operations req))"

definition patched_name ::
  "('j, 'v, 'l, 'a, 'z) api_scheme \<Rightarrow> 'v scim_patch_op \<Rightarrow> string option" where
  "patched_name A req =
     patched (\<lambda>v. Option.bind (val_get A v ''userName'') (ap_val_str A)) None (sop_operations req)"

definition scim_patch_user ::
  "('j, 'v, 'l, 'a, 'z) api_scheme \<Rightarrow> string \<Rightarrow> 'v scim_patch_op \<Rightarrow> ('l, 'a, user_resource) request" where
  "scim_patch_user A i req =
     h_bind (h_res (parse_user_id A i)) (\<lambda>uid.
     h_update_user A uid (patched_name A req) (patched_state A req))"

definition find_me ::
  "('j, 'v, 'l, 'a, 'z) api_scheme \<Rightarrow> uc_claims \<Rightarrow> ('l, 'a, user_row option) request" where
  "find_me A claims =
     h_bind (h_read A (\<lambda>s. user_get_by_email s (clm_sub claims))) (\<lambda>found.
     case found of
       Some u \<Rightarrow> h_ret (Some u)
     | None \<Rightarrow> h_read A (\<lambda>s. user_get_by_external_id s (clm_sub claims)))"

definition scim_get_me ::
  "('j, 'v, 'l, 'a, 'z) api_scheme \<Rightarrow> uc_claims \<Rightarrow> ('l, 'a, user_resource) request" where
  "scim_get_me A claims =
     h_bind (find_me A claims) (\<lambda>found.
     case found of
       Some user \<Rightarrow> h_ret (to_user_resource A user)
     | None \<Rightarrow>
        if \<not> ap_auth_enabled A then
          h_ret \<lparr>ur_id = None, ur_user_name = clm_sub claims, ur_display_name = None, ur_emails = None,
                 ur_name = None, ur_active = Some True, ur_external_id = None\<rparr>
        else h_err (err_not_found ''User'' (clm_sub claims)))"

definition scim_patch_me ::
  "('j, 'v, 'l, 'a, 'z) api_scheme \<Rightarrow> uc_claims \<Rightarrow> 'v scim_patch_op \<Rightarrow>
   ('l, 'a, user_resource) request" where
  "scim_patch_me A claims req =
     h_bind (find_me A claims) (\<lambda>found.
     case found of
       Some user \<Rightarrow> h_update_user A (usr_id user) None (patched_state A req)
     | None \<Rightarrow> h_err (err_not_found ''User'' (clm_sub claims)))"

definition logout :: "('l, 'a, unit) request" where
  "logout = h_ret ()"

section \<open>Tokens\<close>

text \<open>
  The \<^verbatim>\<open>jsonwebtoken\<close> library: the header of a token is its key id and algorithm; a JWK may give a key;
  decoding checks signature, issuer and expiry at the time of the call and gives the claims.
\<close>

record ('w, 'k, 'g, 'v) jwt_lib =
  jl_header :: "string \<Rightarrow> string + string option \<times> 'g"
  jl_key_id :: "'w \<Rightarrow> string option"
  jl_key :: "'w \<Rightarrow> 'k option"
  jl_decode :: "string \<Rightarrow> 'k \<Rightarrow> 'g \<Rightarrow> string \<Rightarrow> int \<Rightarrow> 'v option"

record 'w oidc_config =
  oidc_issuer :: string
  oidc_jwks :: "'w list"

definition jwk_subject ::
  "('j, 'v, 'l, 'a, 'z) api_scheme \<Rightarrow> ('w, 'k, 'g, 'v) jwt_lib \<Rightarrow> string \<Rightarrow> int \<Rightarrow> string \<Rightarrow>
   string option \<Rightarrow> 'g \<Rightarrow> 'w \<Rightarrow> string option" where
  "jwk_subject A J issuer now token kid alg jwk =
     (if kid \<noteq> None \<and> jl_key_id J jwk \<noteq> kid then None
      else
        Option.bind (jl_key J jwk) (\<lambda>key.
        map_option (\<lambda>claims.
            case Option.bind (val_get A claims ''sub'') (ap_val_str A) of
              Some sub \<Rightarrow> sub
            | None \<Rightarrow> ''oidc-principal'')
          (jl_decode J token key alg issuer now)))"

fun first_subject :: "('w \<Rightarrow> string option) \<Rightarrow> 'w list \<Rightarrow> string res" where
  "first_subject f [] =
     Inl (uc_err Unauthenticated ''OIDC token validation failed against all JWKS keys'')"
| "first_subject f (w # ws) = (case f w of Some sub \<Rightarrow> Inr sub | None \<Rightarrow> first_subject f ws)"

definition decode_oidc_sub ::
  "('j, 'v, 'l, 'a, 'z) api_scheme \<Rightarrow> ('w, 'k, 'g, 'v) jwt_lib \<Rightarrow> 'w oidc_config \<Rightarrow> int \<Rightarrow> string \<Rightarrow>
   string res" where
  "decode_oidc_sub A J config now token =
     rbind (map_err (\<lambda>e. uc_err Unauthenticated (''OIDC token header: '' @ e)) (jl_header J token))
       (\<lambda>(kid, alg).
     first_subject (jwk_subject A J (oidc_issuer config) now token kid alg) (oidc_jwks config))"

section \<open>The middleware\<close>

text \<open>
  The two headers, as the text \<open>to_str\<close> gives, if it gives one; such a text is ASCII, so trimming it
  is cutting ASCII blanks.
\<close>

record headers =
  hd_authorization :: "string option"
  hd_cookie :: "string option"

definition trim_ascii :: "string \<Rightarrow> string" where
  "trim_ascii s =
     (let blank_char = (\<lambda>c. cp_whitespace (byte c)) in
      rev (dropWhile blank_char (rev (dropWhile blank_char s))))"

function split_on :: "char \<Rightarrow> string \<Rightarrow> string list" where
  "split_on c s =
     (case dropWhile (\<lambda>x. x \<noteq> c) s of
        [] \<Rightarrow> [s]
      | _ # r \<Rightarrow> takeWhile (\<lambda>x. x \<noteq> c) s # split_on c r)"
  by pat_completeness auto
termination
proof (relation "measure (\<lambda>(_, s). length s)")
  fix c :: char and s :: string and x r
  assume "dropWhile (\<lambda>x. x \<noteq> c) s = x # r"
  then have "length (x # r) \<le> length s" by (metis length_dropWhile_le)
  then show "((c, r), c, s) \<in> measure (\<lambda>(_, s). length s)" by simp
qed simp

declare split_on.simps [simp del]

definition cookie_token :: "string \<Rightarrow> string option" where
  "cookie_token val =
     (case List.map_filter (\<lambda>c. strip_prefix ''UC_TOKEN='' (trim_ascii c)) (split_on (CHR '';'') val) of
        [] \<Rightarrow> None | t # _ \<Rightarrow> Some t)"

definition extract_token :: "headers \<Rightarrow> string option" where
  "extract_token h =
     (case Option.bind (hd_authorization h) (strip_prefix ''Bearer '') of
        Some t \<Rightarrow> Some (trim_ascii t)
      | None \<Rightarrow> Option.bind (hd_cookie h) cookie_token)"

definition dummy_claims :: uc_claims where
  "dummy_claims = \<lparr>clm_sub = ''anonymous@unitycatalog.io'', clm_iss = ''internal'', clm_iat = 0,
     clm_jti = ''disabled'', clm_token_type = TokService\<rparr>"

text \<open>The commits of a request carry its actor: \<open>actor_scope::scope\<close>.\<close>

definition with_actor ::
  "actor option \<Rightarrow> ('j, 'v, 'l, 'a, 'z) api_scheme \<Rightarrow> ('j, 'v, 'l, 'a, 'z) api_scheme" where
  "with_actor who A = A\<lparr>ap_world := \<lambda>n. (ap_world A n)\<lparr>current_actor := who\<rparr>\<rparr>"

definition caller_name :: "user_row \<Rightarrow> string \<Rightarrow> string" where
  "caller_name row sub =
     (case usr_email row of
        Some e \<Rightarrow> e
      | None \<Rightarrow> (case usr_external_id row of Some x \<Rightarrow> x | None \<Rightarrow> sub))"

text \<open>Claims and actor of a valid token; the two clocks are the server's.\<close>

definition authenticate ::
  "('j, 'v, 'l, 'a, 'z) api_scheme \<Rightarrow> ('w, 'k, 'g, 'v) jwt_lib \<Rightarrow> 'w oidc_config option \<Rightarrow> headers \<Rightarrow>
   ('l, 'a, uc_claims \<times> actor) request" where
  "authenticate A J config h =
     h_bind (h_res (ok_or (err_unauthenticated ''No authentication token provided'') (extract_token h))) (\<lambda>token.
     h_bind (h_res (ok_or (err_unauthenticated ''No OIDC issuer configured'') config)) (\<lambda>oidc.
     h_bind (now_ms A) (\<lambda>now.
     h_bind (h_res (decode_oidc_sub A J oidc now token)) (\<lambda>sub.
     h_bind (find_or_provision A sub) (\<lambda>row.
     let name = caller_name row sub in
     h_bind (now_ms A) (\<lambda>now.
     h_bind (h_uuid A) (\<lambda>jti.
     h_ret (\<lparr>clm_sub = name, clm_iss = oidc_issuer oidc, clm_iat = now div 1000,
             clm_jti = uuid_text A jti, clm_token_type = TokService\<rparr>,
            \<lparr>actor_id = Some (usr_id row), actor_name = name\<rparr>))))))))"

definition ensure_active ::
  "('j, 'v, 'l, 'a, 'z) api_scheme \<Rightarrow> uc_claims \<Rightarrow> ('l, 'a, unit) request" where
  "ensure_active A claims =
     h_when (clm_token_type claims \<noteq> TokService)
       (h_bind (h_read A (\<lambda>s. user_get_by_email s (clm_sub claims))) (\<lambda>found.
        case found of
          Some user \<Rightarrow> if is_enabled user then h_ret ()
            else h_err (err_unauthenticated ''User account is disabled'')
        | None \<Rightarrow> h_err (err_unauthenticated
            (''User '' @ quoted (clm_sub claims) @ '' not found''))))"

text \<open>\<open>next\<close> is the handler; \<open>AUTH_BYPASS_PATHS\<close> is empty.\<close>

definition auth_middleware ::
  "('j, 'v, 'l, 'a, 'z) api_scheme \<Rightarrow> ('w, 'k, 'g, 'v) jwt_lib \<Rightarrow> 'w oidc_config option \<Rightarrow> headers \<Rightarrow>
   (('j, 'v, 'l, 'a, 'z) api_scheme \<Rightarrow> uc_claims \<Rightarrow> ('l, 'a, 'x) request) \<Rightarrow> ('l, 'a, 'x) request" where
  "auth_middleware A J config h handler =
     (if \<not> ap_auth_enabled A then handler A dummy_claims
      else
        h_bind (authenticate A J config h) (\<lambda>(claims, who).
        h_bind (ensure_active A claims) (\<lambda>_.
        handler (with_actor (Some who) A) claims)))"

end
