(* ===== verification/ApiRouter.thy ===== *)
theory ApiRouter
  imports ApiNamespaces ApiAssets ApiDelta ApiControl
begin

text \<open>
  The routers of \<^verbatim>\<open>catalog_api\<close>, \<^verbatim>\<open>control_api\<close> and \<^verbatim>\<open>delta_api\<close>: a route is a method and a path with
  what axum extracts for its handler, and serving it runs that handler. \<^verbatim>\<open>error_ext\<close> tags the requests
  of each router with the shape its errors should have.
\<close>

section \<open>Routes\<close>

text \<open>
  The routes of the catalog API, by resource as its router lists them. The services the datatype
  package adds are cut down to code equations and sizes. Catalogs and schemas:
\<close>

datatype (plugins only: code size) namespace_route =
    PostCatalogs create_catalog
  | GetCatalogs "int option" "string option"
  | GetCatalog string
  | PatchCatalog string update_catalog
  | DeleteCatalog string "bool option"
  | PostSchemas create_schema
  | GetSchemas string "int option" "string option"
  | GetSchema string
  | PatchSchema string update_schema
  | DeleteSchema string "bool option"

text \<open>Tables, volumes, functions.\<close>

datatype (plugins only: code size) asset_route =
    PostTables create_table
  | GetTables string string "int option" "string option"
  | GetTable string
  | DeleteTable string
  | PostVolumes create_volume_request_content
  | GetVolumes string string "int option" "string option"
  | GetVolume string
  | PatchVolume string update_volume_request_content
  | DeleteVolume string
  | PostFunctions create_function_request
  | GetFunctions string string "int option" "string option"
  | GetFunction string
  | DeleteFunction string

text \<open>Registered models and their versions.\<close>

datatype (plugins only: code size) model_route =
    PostModels create_registered_model
  | GetModels "string option" "string option" "int option" "string option"
  | GetModel string
  | PatchModel string update_registered_model
  | DeleteModel string
  | PostVersions create_model_version
  | GetVersions string
  | GetVersion string string
  | PatchVersion string string update_model_version
  | DeleteVersion string string
  | FinalizeVersion string string finalize_model_version

text \<open>Credentials, external locations, permissions, the metastore.\<close>

datatype (plugins only: code size) principal_route =
    PostCredentials create_credential_request
  | GetCredentials "int option" "string option"
  | GetCredential string
  | PatchCredential string update_credential_request
  | DeleteCredential string
  | PostLocations create_external_location
  | GetLocations "int option" "string option"
  | GetLocation string
  | PatchLocation string update_external_location
  | DeleteLocation string
  | GetPermissions string string "string option"
  | PatchPermissions string string update_permissions
  | GetMetastore

text \<open>Temporary credentials, staging tables, the commits of tables.\<close>

datatype (plugins only: code size) access_route =
    PostTableCredentials generate_temporary_table_credential
  | PostVolumeCredentials generate_temporary_volume_credential
  | PostVersionCredentials generate_temporary_model_version_credential
  | PostPathCredentials generate_temporary_path_credential
  | PostStagingTables create_staging_table
  | GetCommits string "int option" "int option"
  | PostCommits commit_request

datatype (plugins only: code size) catalog_route =
    NamespaceApi namespace_route
  | AssetApi asset_route
  | ModelApi model_route
  | PrincipalApi principal_route
  | AccessApi access_route

datatype (plugins only: code size) 'v control_route =
    Logout
  | PostUsers user_resource
  | GetUsers "int option"
  | GetUser string
  | PutUser string user_resource
  | DeleteUser string
  | PatchUser string "'v scim_patch_op"
  | GetMe
  | PatchMe "'v scim_patch_op"

datatype (plugins only: code size) 'v delta_route =
    DeltaConfig
  | DeltaPostStaging string string delta_create_staging_table_request
  | DeltaPostTables string string "'v delta_create_table_request"
  | DeltaGetTable string string string
  | DeltaHeadTable string string string
  | DeltaPostTable string string string "'v delta_update_table_request"
  | DeltaDeleteTable string string string
  | DeltaRename string string string delta_rename_table_request
  | DeltaMetrics
  | DeltaTableCredentials string string string
  | DeltaStagingCredentials string
  | DeltaPathCredentials "string option"

datatype (plugins only: code size) 'v route =
    CatalogApi catalog_route
  | ControlApi "'v control_route"
  | DeltaApi "'v delta_route"

section \<open>Serving\<close>

datatype (plugins only: code size) 'v reply =
    ReEmpty
  | ReCatalog catalog_info
  | ReCatalogs list_catalogs_response
  | ReSchema schema_info
  | ReSchemas list_schemas_response
  | ReTable table_info
  | ReTables list_tables_response
  | ReVolume volume_info
  | ReVolumes list_volumes_response_content
  | ReFunction function_info
  | ReFunctions list_functions_response
  | ReModel registered_model_info
  | ReModels list_registered_models_response
  | ReVersion model_version_info
  | ReVersions list_model_versions_response
  | ReCredential credential_info
  | ReCredentials list_credentials_response
  | ReLocation external_location_info
  | ReLocations list_external_locations_response
  | RePermissions permissions_list
  | ReMetastore metastore_summary
  | ReVended temporary_credentials
  | ReStaging staging_table_info
  | ReCommits get_commits_response
  | ReUser user_resource
  | ReUsers user_resource_list
  | ReConfig delta_catalog_config
  | ReDeltaStaging "'v delta_staging_table_response"
  | ReDeltaTable "'v delta_load_table_response"
  | ReDeltaCredentials "'v delta_credentials_response"

definition h_then :: "('x \<Rightarrow> 'y) \<Rightarrow> ('l, 'a, 'x) request \<Rightarrow> ('l, 'a, 'y) request" where
  "h_then g f = h_bind f (\<lambda>x. h_ret (g x))"

fun serve_namespace ::
  "('j, 'v, 'l, 'a, 'z) api_scheme \<Rightarrow> uc_claims \<Rightarrow> namespace_route \<Rightarrow> ('l, 'a, 'v reply) request"
where
  "serve_namespace A claims (PostCatalogs x1) = h_then ReCatalog (catalogs_create A claims x1)"
| "serve_namespace A claims (GetCatalogs x1 x2) = h_then ReCatalogs (catalogs_list A x1 x2)"
| "serve_namespace A claims (GetCatalog x1) = h_then ReCatalog (catalogs_get A x1)"
| "serve_namespace A claims (PatchCatalog x1 x2) = h_then ReCatalog (catalogs_update A claims x1 x2)"
| "serve_namespace A claims (DeleteCatalog x1 x2) =
     h_then (\<lambda>_. ReEmpty) (catalogs_delete A claims x1 x2)"
| "serve_namespace A claims (PostSchemas x1) = h_then ReSchema (schemas_create A claims x1)"
| "serve_namespace A claims (GetSchemas x1 x2 x3) = h_then ReSchemas (schemas_list A claims x1 x2 x3)"
| "serve_namespace A claims (GetSchema x1) = h_then ReSchema (schemas_get A x1)"
| "serve_namespace A claims (PatchSchema x1 x2) = h_then ReSchema (schemas_update A claims x1 x2)"
| "serve_namespace A claims (DeleteSchema x1 x2) =
     h_then (\<lambda>_. ReEmpty) (schemas_delete A claims x1 x2)"

fun serve_asset ::
  "('j, 'v, 'l, 'a, 'z) api_scheme \<Rightarrow> uc_claims \<Rightarrow> asset_route \<Rightarrow> ('l, 'a, 'v reply) request"
where
  "serve_asset A claims (PostTables x1) = h_then ReTable (tables_create A claims x1)"
| "serve_asset A claims (GetTables x1 x2 x3 x4) = h_then ReTables (tables_list A claims x1 x2 x3 x4)"
| "serve_asset A claims (GetTable x1) = h_then ReTable (tables_get A x1)"
| "serve_asset A claims (DeleteTable x1) = h_then (\<lambda>_. ReEmpty) (tables_delete A claims x1)"
| "serve_asset A claims (PostVolumes x1) = h_then ReVolume (volumes_create A claims x1)"
| "serve_asset A claims (GetVolumes x1 x2 x3 x4) = h_then ReVolumes (volumes_list A claims x1 x2 x3 x4)"
| "serve_asset A claims (GetVolume x1) = h_then ReVolume (volumes_get A x1)"
| "serve_asset A claims (PatchVolume x1 x2) = h_then ReVolume (volumes_update A claims x1 x2)"
| "serve_asset A claims (DeleteVolume x1) = h_then (\<lambda>_. ReEmpty) (volumes_delete A claims x1)"
| "serve_asset A claims (PostFunctions x1) = h_then ReFunction (functions_create A claims x1)"
| "serve_asset A claims (GetFunctions x1 x2 x3 x4) =
     h_then ReFunctions (functions_list A claims x1 x2 x3 x4)"
| "serve_asset A claims (GetFunction x1) = h_then ReFunction (functions_get A x1)"
| "serve_asset A claims (DeleteFunction x1) =
     h_then (\<lambda>_. ReEmpty) (functions_delete A claims x1)"

fun serve_model ::
  "('j, 'v, 'l, 'a, 'z) api_scheme \<Rightarrow> uc_claims \<Rightarrow> model_route \<Rightarrow> ('l, 'a, 'v reply) request"
where
  "serve_model A claims (PostModels x1) = h_then ReModel (models_create A claims x1)"
| "serve_model A claims (GetModels x1 x2 x3 x4) = h_then ReModels (models_list A claims x1 x2 x3 x4)"
| "serve_model A claims (GetModel x1) = h_then ReModel (models_get A x1)"
| "serve_model A claims (PatchModel x1 x2) = h_then ReModel (models_update A claims x1 x2)"
| "serve_model A claims (DeleteModel x1) = h_then (\<lambda>_. ReEmpty) (models_delete A claims x1)"
| "serve_model A claims (PostVersions x1) = h_then ReVersion (versions_create A claims x1)"
| "serve_model A claims (GetVersions x1) = h_then ReVersions (versions_list A x1)"
| "serve_model A claims (GetVersion x1 x2) = h_then ReVersion (versions_get A x1 x2)"
| "serve_model A claims (PatchVersion x1 x2 x3) = h_then ReVersion (versions_update A claims x1 x2 x3)"
| "serve_model A claims (DeleteVersion x1 x2) = h_then (\<lambda>_. ReEmpty) (versions_delete A x1 x2)"
| "serve_model A claims (FinalizeVersion x1 x2 x3) = h_then ReVersion (versions_finalize A x1 x2 x3)"

fun serve_principal ::
  "('j, 'v, 'l, 'a, 'z) api_scheme \<Rightarrow> uc_claims \<Rightarrow> principal_route \<Rightarrow> ('l, 'a, 'v reply) request"
where
  "serve_principal A claims (PostCredentials x1) = h_then ReCredential (credentials_create A claims x1)"
| "serve_principal A claims (GetCredentials x1 x2) = h_then ReCredentials (credentials_list A claims x1 x2)"
| "serve_principal A claims (GetCredential x1) = h_then ReCredential (credentials_get A claims x1)"
| "serve_principal A claims (PatchCredential x1 x2) =
     h_then ReCredential (credentials_update A claims x1 x2)"
| "serve_principal A claims (DeleteCredential x1) =
     h_then (\<lambda>_. ReEmpty) (credentials_delete A claims x1)"
| "serve_principal A claims (PostLocations x1) = h_then ReLocation (locations_create A claims x1)"
| "serve_principal A claims (GetLocations x1 x2) = h_then ReLocations (locations_list A x1 x2)"
| "serve_principal A claims (GetLocation x1) = h_then ReLocation (locations_get A x1)"
| "serve_principal A claims (PatchLocation x1 x2) = h_then ReLocation (locations_update A claims x1 x2)"
| "serve_principal A claims (DeleteLocation x1) =
     h_then (\<lambda>_. ReEmpty) (locations_delete A claims x1)"
| "serve_principal A claims (GetPermissions x1 x2 x3) = h_then RePermissions (permissions_get A x1 x2 x3)"
| "serve_principal A claims (PatchPermissions x1 x2 x3) =
     h_then RePermissions (permissions_update A claims x1 x2 x3)"
| "serve_principal A claims GetMetastore = h_then ReMetastore (metastore_summary_get A)"

fun serve_access ::
  "('j, 'v, 'l, 'a, 'z) api_scheme \<Rightarrow> uc_claims \<Rightarrow> access_route \<Rightarrow> ('l, 'a, 'v reply) request"
where
  "serve_access A claims (PostTableCredentials x1) = h_then ReVended (table_credentials A claims x1)"
| "serve_access A claims (PostVolumeCredentials x1) = h_then ReVended (volume_credentials A claims x1)"
| "serve_access A claims (PostVersionCredentials x1) = h_then ReVended (model_version_credentials A x1)"
| "serve_access A claims (PostPathCredentials x1) = h_then ReVended (path_credentials A claims x1)"
| "serve_access A claims (PostStagingTables x1) = h_then ReStaging (staging_tables_create A claims x1)"
| "serve_access A claims (GetCommits x1 x2 x3) = h_then ReCommits (commits_get A x1 x2 x3)"
| "serve_access A claims (PostCommits x1) = h_then ReCommits (commits_post A x1)"

fun serve_catalog ::
  "('j, 'v, 'l, 'a, 'z) api_scheme \<Rightarrow> uc_claims \<Rightarrow> catalog_route \<Rightarrow> ('l, 'a, 'v reply) request"
where
  "serve_catalog A claims (NamespaceApi r) = serve_namespace A claims r"
| "serve_catalog A claims (AssetApi r) = serve_asset A claims r"
| "serve_catalog A claims (ModelApi r) = serve_model A claims r"
| "serve_catalog A claims (PrincipalApi r) = serve_principal A claims r"
| "serve_catalog A claims (AccessApi r) = serve_access A claims r"

fun serve_control ::
  "('j, 'v, 'l, 'a, 'z) api_scheme \<Rightarrow> uc_claims \<Rightarrow> 'v control_route \<Rightarrow> ('l, 'a, 'v reply) request"
where
  "serve_control A claims Logout = h_then (\<lambda>_. ReEmpty) (logout)"
| "serve_control A claims (PostUsers x1) = h_then ReUser (scim_create_user A x1)"
| "serve_control A claims (GetUsers x1) = h_then ReUsers (scim_list_users A x1)"
| "serve_control A claims (GetUser x1) = h_then ReUser (scim_get_user A x1)"
| "serve_control A claims (PutUser x1 x2) = h_then ReUser (scim_update_user A x1 x2)"
| "serve_control A claims (DeleteUser x1) = h_then (\<lambda>_. ReEmpty) (scim_delete_user A x1)"
| "serve_control A claims (PatchUser x1 x2) = h_then ReUser (scim_patch_user A x1 x2)"
| "serve_control A claims GetMe = h_then ReUser (scim_get_me A claims)"
| "serve_control A claims (PatchMe x1) = h_then ReUser (scim_patch_me A claims x1)"

fun serve_delta ::
  "('j, 'v, 'l, 'a, 'z) delta_api_scheme \<Rightarrow> uc_claims \<Rightarrow> 'v delta_route \<Rightarrow> ('l, 'a, 'v reply) request"
where
  "serve_delta A claims DeltaConfig = h_then ReConfig (delta_config)"
| "serve_delta A claims (DeltaPostStaging x1 x2 x3) =
     h_then ReDeltaStaging (delta_create_staging_table A x1 x2 x3)"
| "serve_delta A claims (DeltaPostTables x1 x2 x3) = h_then ReDeltaTable (delta_create_table A x1 x2 x3)"
| "serve_delta A claims (DeltaGetTable x1 x2 x3) = h_then ReDeltaTable (delta_load_table A x1 x2 x3)"
| "serve_delta A claims (DeltaHeadTable x1 x2 x3) =
     h_then (\<lambda>_. ReEmpty) (delta_table_exists A x1 x2 x3)"
| "serve_delta A claims (DeltaPostTable x1 x2 x3 x4) =
     h_then ReDeltaTable (delta_update_table A x1 x2 x3 x4)"
| "serve_delta A claims (DeltaDeleteTable x1 x2 x3) =
     h_then (\<lambda>_. ReEmpty) (delta_delete_table A x1 x2 x3)"
| "serve_delta A claims (DeltaRename x1 x2 x3 x4) =
     h_then ReDeltaTable (delta_rename_table A x1 x2 x3 x4)"
| "serve_delta A claims DeltaMetrics = h_then (\<lambda>_. ReEmpty) (delta_report_metrics)"
| "serve_delta A claims (DeltaTableCredentials x1 x2 x3) =
     h_then ReDeltaCredentials (delta_table_credentials A x1 x2 x3)"
| "serve_delta A claims (DeltaStagingCredentials x1) =
     h_then ReDeltaCredentials (delta_staging_credentials A x1)"
| "serve_delta A claims (DeltaPathCredentials x1) =
     h_then ReDeltaCredentials (delta_path_credentials A x1)"

fun serve ::
  "('j, 'v, 'l, 'a, 'z) delta_api_scheme \<Rightarrow> uc_claims \<Rightarrow> 'v route \<Rightarrow> ('l, 'a, 'v reply) request"
where
  "serve A claims (CatalogApi r) = serve_catalog A claims r"
| "serve A claims (ControlApi r) = serve_control A claims r"
| "serve A claims (DeltaApi r) = serve_delta A claims r"

section \<open>The shape of errors\<close>

text \<open>What \<open>inject_*_format\<close> puts on the request.\<close>

fun route_format :: "'v route \<Rightarrow> error_format" where
  "route_format (CatalogApi _) = FormatCatalog"
| "route_format (ControlApi _) = FormatControl"
| "route_format (DeltaApi _) = FormatDelta"

text \<open>
  The response: a reply, or an error turned into one by \<open>IntoResponse for UcError\<close>, which sees the
  error and not the request.
\<close>

definition respond ::
  "('j, 'v, 'l, 'a, 'z) delta_api_scheme \<Rightarrow> uc_claims \<Rightarrow> 'v route \<Rightarrow> ('l, 'a) moment \<Rightarrow>
   ((nat \<times> error_body + 'v reply) \<times> ('l, 'a) moment) option" where
  "respond A claims r m =
     map_option (\<lambda>(x, m'). (map_err uc_error_into_response x, m')) (serve A claims r m)"

text \<open>A request of a client, from its headers to the response: the middleware wraps every router.\<close>

definition handle ::
  "('j, 'v, 'l, 'a, 'z) delta_api_scheme \<Rightarrow> ('w, 'k, 'g, 'v) jwt_lib \<Rightarrow> 'w oidc_config option \<Rightarrow> headers \<Rightarrow>
   'v route \<Rightarrow> ('l, 'a, 'v reply) request" where
  "handle A J config h r = auth_middleware A J config h (\<lambda>A' claims. serve A' claims r)"

end
