(* ===== verification/ApiRules.thy ===== *)
theory ApiRules
  imports ApiRouter LogProperties
begin

text \<open>
  Rules for requests. A request moves the clock of its steps forward; what the application would be if
  only the other requests had acted is \<open>drift\<close>. Three judgements, each with one rule per combinator
  and collected for the proofs of the handlers: a request \<open>answers\<close>, that is comes back; it \<open>looks\<close>,
  that is changes nothing and a result of it carries a fact; it is \<open>guarded\<close>, that is changes
  something only after a fact that stays true.
\<close>

named_theorems answering \<open>requests that come back\<close>
named_theorems forwards \<open>requests that do not turn the clock back\<close>
named_theorems looking \<open>requests that change nothing\<close>

section \<open>Requests come back\<close>

definition answers :: "('l, 'a, 'x) request \<Rightarrow> bool" where
  "answers f \<longleftrightarrow> (\<forall>m. f m \<noteq> None)"

lemma answers_res [answering]: "answers (h_res r)"
  by (simp add: answers_def h_res_def)

lemma answers_bind [answering]: "answers f \<Longrightarrow> (\<And>x. answers (g x)) \<Longrightarrow> answers (h_bind f g)"
  by (auto simp: answers_def h_bind_def split: option.splits sum.splits)

lemma answers_try [answering]: "answers f \<Longrightarrow> answers (h_try f)"
  by (simp add: answers_def h_try_def)

lemma answers_step [answering]: "(\<And>n s. f n s \<noteq> None) \<Longrightarrow> answers (h_step A f)"
  by (simp add: answers_def h_step_def split: prod.splits)

lemma answers_ok [answering]: "answers f \<Longrightarrow> answers (h_ok f)"
  unfolding h_ok_def by (intro answering)

lemma answers_then [answering]: "answers f \<Longrightarrow> answers (h_then g f)"
  unfolding h_then_def by (intro answering)

lemma answers_when [answering]: "(b \<Longrightarrow> answers f) \<Longrightarrow> answers (h_when b f)"
  by (simp add: h_when_def answers_res)

lemma answers_if [answering]: "(b \<Longrightarrow> answers f) \<Longrightarrow> (\<not> b \<Longrightarrow> answers g) \<Longrightarrow> answers (if b then f else g)"
  by simp

lemma answers_if_some [answering]: "(\<And>y. answers (f y)) \<Longrightarrow> answers (h_if_some x f)"
  by (simp add: h_if_some_def answers_res split: option.split)

lemma answers_option [answering]:
  "(x = None \<Longrightarrow> answers f) \<Longrightarrow> (\<And>y. x = Some y \<Longrightarrow> answers (g y)) \<Longrightarrow>
   answers (case x of None \<Rightarrow> f | Some y \<Rightarrow> g y)"
  by (cases x) simp_all

lemma answers_prod [answering]: "(\<And>x y. p = (x, y) \<Longrightarrow> answers (f x y)) \<Longrightarrow> answers (case p of (x, y) \<Rightarrow> f x y)"
  by (cases p) simp

lemma answers_each [answering]: "(\<And>x. answers (f x)) \<Longrightarrow> answers (h_each f xs)"
  by (induction xs) (simp_all add: answering)

lemma answers_map [answering]: "(\<And>x. answers (f x)) \<Longrightarrow> answers (h_map f xs)"
  by (induction xs) (simp_all add: answering)

lemma answers_look [answering]: "answers (h_look A f)"
  unfolding h_look_def by (intro answering) simp

lemma answers_read [answering]: "answers (h_read A f)"
  unfolding h_read_def by (intro answering)

lemma answers_ask [answering]: "answers (h_ask A f)"
  unfolding h_ask_def by (intro answering)

lemma answers_tell [answering]: "answers (h_tell A f)"
  unfolding h_tell_def by (intro answering) (simp split: prod.split)

lemma answers_write [answering]: "(\<And>w st. f w st \<noteq> None) \<Longrightarrow> answers (h_write A f)"
  unfolding h_write_def by (intro answering) simp

lemma answers_delta [answering]: "(\<And>l h. f l h \<noteq> None) \<Longrightarrow> answers (h_delta A f)"
  unfolding h_delta_def by (intro answering) simp

text \<open>A backend whose keys are finitely many, conforming or not: every loop over its pages ends.\<close>

definition finite_keys :: "'l log_ops \<Rightarrow> bool" where
  "finite_keys ops \<longleftrightarrow>
     (\<forall>l. \<exists>K. finite K \<and> (\<forall>p a ks. op_list_after ops p a l = Inr ks \<longrightarrow> set ks \<subseteq> K))"

lemma finite_keys_list: "finite_keys ops \<Longrightarrow> list_all_loop ops l p stop a acc \<noteq> None"
proof -
  assume "finite_keys ops"
  then have "\<exists>K. finite K \<and> (\<forall>p a ks. op_list_after ops p a l = Inr ks \<longrightarrow> set ks \<subseteq> K)"
    unfolding finite_keys_def by (rule spec)
  then obtain K where K: "finite K" "\<forall>p a ks. op_list_after ops p a l = Inr ks \<longrightarrow> set ks \<subseteq> K"
    by (elim exE conjE)
  have "\<exists>r. list_all_loop ops l p stop a acc = Some r"
    by (rule list_all_loop_ends [OF K(1)]) (use K(2) in simp)
  then show ?thesis by auto
qed

lemma finite_keys_read:
  assumes "finite_keys ops"
  shows "read_commits_after E ops l v \<noteq> None"
  using finite_keys_list [OF assms]
  by (simp add: read_commits_after_def list_all_after_def list_all_in_range_def)

lemma finite_keys_catch_up:
  assumes "finite_keys ops"
  shows "catch_up E ops st \<noteq> None"
proof (cases "start_state E ops (log st) (state st)")
  case (Inr s0)
  obtain r where "read_commits_after E ops (log st) (version s0) = Some r"
    using finite_keys_read [OF assms] by (metis not_Some_eq)
  with Inr show ?thesis by (cases r) (simp_all add: catch_up_def split: prod.split)
qed (simp add: catch_up_def)

lemma finite_keys_commit_attempts:
  assumes "finite_keys ops"
  shows "commit_attempts E ops w operation build ns st \<noteq> None"
proof (induction ns arbitrary: st)
  case (Cons n ns)
  have again: "(case catch_up E ops st1 of None \<Rightarrow> None | Some (Inl e, st') \<Rightarrow> Some (Inl e, st')
      | Some (Inr _, st') \<Rightarrow> commit_attempts E ops w operation build ns st') \<noteq> None" for st1
    using finite_keys_catch_up [OF assms, of E st1] Cons.IH by (auto split: option.split sum.split)
  then show ?case
    by (simp add: Let_def split: sum.split prod.split put_result.split)
qed simp

lemma finite_keys_commit: "finite_keys ops \<Longrightarrow> commit E ops w operation build st \<noteq> None"
  unfolding commit_def by (rule finite_keys_commit_attempts)

section \<open>The clock of steps\<close>

definition forward :: "('l, 'a, 'x) request \<Rightarrow> bool" where
  "forward f \<longleftrightarrow> (\<forall>s n r s' n'. f (s, n) = Some (r, (s', n')) \<longrightarrow> n \<le> n')"

lemma forward_res [forwards]: "forward (h_res r)"
  by (simp add: forward_def h_res_def)

lemma forward_bind [forwards]: "forward f \<Longrightarrow> (\<And>x. forward (g x)) \<Longrightarrow> forward (h_bind f g)"
  by (fastforce simp: forward_def h_bind_def split: option.splits sum.splits)

lemma forward_try [forwards]: "forward f \<Longrightarrow> forward (h_try f)"
  by (auto simp: forward_def h_try_def)

lemma forward_step [forwards]: "forward (h_step A f)"
  by (auto simp: forward_def h_step_def)

lemma forward_ok [forwards]: "forward f \<Longrightarrow> forward (h_ok f)"
  unfolding h_ok_def by (intro forwards)

lemma forward_then [forwards]: "forward f \<Longrightarrow> forward (h_then g f)"
  unfolding h_then_def by (intro forwards)

lemma forward_when [forwards]: "forward f \<Longrightarrow> forward (h_when b f)"
  by (simp add: h_when_def forward_res)

lemma forward_if [forwards]: "forward f \<Longrightarrow> forward g \<Longrightarrow> forward (if b then f else g)"
  by simp

lemma forward_if_some [forwards]: "(\<And>y. forward (f y)) \<Longrightarrow> forward (h_if_some x f)"
  by (simp add: h_if_some_def forward_res split: option.split)

lemma forward_option [forwards]:
  "forward f \<Longrightarrow> (\<And>y. forward (g y)) \<Longrightarrow> forward (case x of None \<Rightarrow> f | Some y \<Rightarrow> g y)"
  by (cases x) simp_all

lemma forward_prod [forwards]: "(\<And>x y. forward (f x y)) \<Longrightarrow> forward (case p of (x, y) \<Rightarrow> f x y)"
  by (cases p) simp

lemma forward_each [forwards]: "(\<And>x. forward (f x)) \<Longrightarrow> forward (h_each f xs)"
  by (induction xs) (simp_all add: forwards)

lemma forward_map [forwards]: "(\<And>x. forward (f x)) \<Longrightarrow> forward (h_map f xs)"
  by (induction xs) (simp_all add: forwards)

lemma forward_steps [forwards]:
  "forward (h_look A f)" "forward (h_read A f')" "forward (h_ask A g)" "forward (h_tell A t)"
  "forward (h_write A w)" "forward (h_delta A d)"
  by (simp_all add: h_look_def h_read_def h_ask_def h_tell_def h_write_def h_delta_def forward_step)

section \<open>What the others do\<close>

text \<open>The application at step \<open>k\<close> of a request that started at step \<open>n\<close> and changed nothing.\<close>

definition drift :: "('j, 'v, 'l, 'a, 'z) api_scheme \<Rightarrow> ('l, 'a) app \<Rightarrow> nat \<Rightarrow> nat \<Rightarrow> ('l, 'a) app" where
  "drift A s n k = fold (ap_between A) [n..<k] s"

lemma drift_start [simp]: "drift A s n n = s"
  by (simp add: drift_def)

lemma drift_Suc: "n \<le> k \<Longrightarrow> drift A s n (Suc k) = ap_between A k (drift A s n k)"
  by (simp add: drift_def)

text \<open>What a step sees: the state, and its snapshot, after the others acted before it.\<close>

abbreviation seen :: "('j, 'v, 'l, 'a, 'z) api_scheme \<Rightarrow> ('l, 'a) app \<Rightarrow> nat \<Rightarrow> nat \<Rightarrow> snapshot" where
  "seen A s n i \<equiv> state (app_store (drift A s n (Suc i)))"

section \<open>Requests that only look\<close>

text \<open>From step \<open>k\<close> on, \<open>f\<close> changes nothing, and a result \<open>x\<close> of it at step \<open>k'\<close> satisfies \<open>Q k' x\<close>.\<close>

definition looks ::
  "('j, 'v, 'l, 'a, 'z) api_scheme \<Rightarrow> ('l, 'a) app \<Rightarrow> nat \<Rightarrow> nat \<Rightarrow> (nat \<Rightarrow> 'x \<Rightarrow> bool) \<Rightarrow>
   ('l, 'a, 'x) request \<Rightarrow> bool" where
  "looks A s n k Q f \<longleftrightarrow> n \<le> k \<longrightarrow>
     (\<forall>r s' k'. f (drift A s n k, k) = Some (r, (s', k')) \<longrightarrow>
        k \<le> k' \<and> s' = drift A s n k' \<and> (\<forall>x. r = Inr x \<longrightarrow> Q k' x))"

lemma looks_mono: "looks A s n k Q f \<Longrightarrow> (\<And>k' x. k \<le> k' \<Longrightarrow> Q k' x \<Longrightarrow> Q' k' x) \<Longrightarrow> looks A s n k Q' f"
  unfolding looks_def by blast

lemma looks_res: "(\<And>x. r = Inr x \<Longrightarrow> Q k x) \<Longrightarrow> looks A s n k Q (h_res r)"
  by (simp add: looks_def h_res_def)

lemma looks_bind:
  assumes "looks A s n k R f" "\<And>j x. k \<le> j \<Longrightarrow> R j x \<Longrightarrow> looks A s n j Q (g x)"
  shows "looks A s n k Q (h_bind f g)"
  unfolding looks_def
proof (intro impI allI)
  fix r s' k' assume n: "n \<le> k" and run: "h_bind f g (drift A s n k, k) = Some (r, (s', k'))"
  then obtain r1 s1 j where 1: "f (drift A s n k, k) = Some (r1, (s1, j))"
    by (auto simp: h_bind_def split: option.splits)
  with assms(1) n have j: "k \<le> j" "s1 = drift A s n j" "\<And>x. r1 = Inr x \<Longrightarrow> R j x"
    unfolding looks_def by blast+
  show "k \<le> k' \<and> s' = drift A s n k' \<and> (\<forall>x. r = Inr x \<longrightarrow> Q k' x)"
  proof (cases r1)
    case (Inl e)
    with run 1 j show ?thesis by (auto simp: h_bind_def)
  next
    case (Inr x)
    with run 1 j(2) have "g x (drift A s n j, j) = Some (r, (s', k'))" by (simp add: h_bind_def)
    with assms(2) [OF j(1) j(3) [OF Inr]] n j(1) show ?thesis unfolding looks_def by fastforce
  qed
qed

lemma looks_try: "looks A s n k R f \<Longrightarrow> (\<And>k' r. k \<le> k' \<Longrightarrow> (\<And>x. r = Inr x \<Longrightarrow> R k' x) \<Longrightarrow> Q k' r) \<Longrightarrow>
    looks A s n k Q (h_try f)"
  unfolding looks_def h_try_def by auto

lemma looks_look:
  "(\<And>x. f (drift A s n (Suc k)) = Inr x \<Longrightarrow> Q (Suc k) x) \<Longrightarrow> looks A s n k Q (h_look A f)"
  by (auto simp: looks_def h_look_def h_step_def drift_Suc)

lemma looks_read:
  "(\<And>x. f (seen A s n k) = Inr x \<Longrightarrow> Q (Suc k) x) \<Longrightarrow> looks A s n k Q (h_read A f)"
  unfolding h_read_def by (rule looks_look)

lemma looks_ask:
  "(\<And>x. f (authz_state (drift A s n (Suc k))) = Inr x \<Longrightarrow> Q (Suc k) x) \<Longrightarrow> looks A s n k Q (h_ask A f)"
  unfolding h_ask_def by (rule looks_look)

lemma looks_now [looking]: "looks A s n k (\<lambda>_ _. True) (now_ms A)"
  by (auto simp: looks_def now_ms_def h_step_def drift_Suc)

lemma looks_uuids [looking]: "looks A s n k (\<lambda>_ _. True) (h_uuids A)"
  by (auto simp: looks_def h_uuids_def h_step_def drift_Suc)

lemma looks_when: "(b \<Longrightarrow> looks A s n k Q f) \<Longrightarrow> (\<not> b \<Longrightarrow> Q k ()) \<Longrightarrow> looks A s n k Q (h_when b f)"
  by (simp add: h_when_def looks_res)

lemma looks_if: "(b \<Longrightarrow> looks A s n k Q f) \<Longrightarrow> (\<not> b \<Longrightarrow> looks A s n k Q g) \<Longrightarrow>
    looks A s n k Q (if b then f else g)"
  by simp

lemma looks_true: "looks A s n k Q f \<Longrightarrow> looks A s n k (\<lambda>_ _. True) f"
  by (rule looks_mono) simp_all

text \<open>Requests that change nothing, whatever their results.\<close>

abbreviation still :: "('j, 'v, 'l, 'a, 'z) api_scheme \<Rightarrow> ('l, 'a) app \<Rightarrow> nat \<Rightarrow> nat \<Rightarrow> ('l, 'a, 'x) request \<Rightarrow> bool"
  where "still A s n k \<equiv> looks A s n k (\<lambda>_ _. True)"

lemma still_res [looking]: "still A s n k (h_res r)"
  by (rule looks_res) simp

lemma still_bind [looking]: "still A s n k f \<Longrightarrow> (\<And>j x. still A s n j (g x)) \<Longrightarrow> still A s n k (h_bind f g)"
  by (rule looks_bind)

lemma still_try [looking]: "still A s n k f \<Longrightarrow> still A s n k (h_try f)"
  by (rule looks_try) simp_all

lemma still_ok [looking]: "still A s n k f \<Longrightarrow> still A s n k (h_ok f)"
  unfolding h_ok_def by (intro looking)

lemma still_then [looking]: "still A s n k f \<Longrightarrow> still A s n k (h_then g f)"
  unfolding h_then_def by (intro looking)

lemma still_steps [looking]:
  "still A s n k (h_look A f)" "still A s n k (h_read A f')" "still A s n k (h_ask A g)"
  by (rule looks_look looks_read looks_ask, simp)+

lemma still_if [looking]: "still A s n k f \<Longrightarrow> still A s n k g \<Longrightarrow> still A s n k (if b then f else g)"
  by simp

lemma still_option [looking]:
  "still A s n k f \<Longrightarrow> (\<And>y. still A s n k (g y)) \<Longrightarrow> still A s n k (case x of None \<Rightarrow> f | Some y \<Rightarrow> g y)"
  by (cases x) simp_all

lemma still_prod [looking]: "(\<And>x y. still A s n k (f x y)) \<Longrightarrow> still A s n k (case p of (x, y) \<Rightarrow> f x y)"
  by (cases p) simp

lemma still_map [looking]: "(\<And>j x. still A s n j (f x)) \<Longrightarrow> still A s n k (h_map f xs)"
  by (induction xs arbitrary: k) (simp_all add: looking)

section \<open>Requests that succeed or change something only after a check\<close>

definition guarded ::
  "('j, 'v, 'l, 'a, 'z) api_scheme \<Rightarrow> ('l, 'a) app \<Rightarrow> nat \<Rightarrow> nat \<Rightarrow> (nat \<Rightarrow> bool) \<Rightarrow>
   ('l, 'a, 'x) request \<Rightarrow> bool" where
  "guarded A s n k D f \<longleftrightarrow> n \<le> k \<longrightarrow>
     (\<forall>r s' k'. f (drift A s n k, k) = Some (r, (s', k')) \<longrightarrow>
        s' = drift A s n k' \<and> (\<exists>e. r = Inl e) \<or> D k')"

lemma guarded_bind:
  assumes "looks A s n k Q f" "\<And>j x. k \<le> j \<Longrightarrow> Q j x \<Longrightarrow> guarded A s n j D (g x)"
  shows "guarded A s n k D (h_bind f g)"
  unfolding guarded_def
proof (intro impI allI)
  fix r s' k' assume n: "n \<le> k" and run: "h_bind f g (drift A s n k, k) = Some (r, (s', k'))"
  then obtain r1 s1 j where 1: "f (drift A s n k, k) = Some (r1, (s1, j))"
    by (auto simp: h_bind_def split: option.splits)
  with assms(1) n have j: "k \<le> j" "s1 = drift A s n j" "\<And>x. r1 = Inr x \<Longrightarrow> Q j x"
    unfolding looks_def by blast+
  show "s' = drift A s n k' \<and> (\<exists>e. r = Inl e) \<or> D k'"
  proof (cases r1)
    case (Inl e)
    with run 1 j show ?thesis by (auto simp: h_bind_def)
  next
    case (Inr x)
    with run 1 j(2) have "g x (drift A s n j, j) = Some (r, (s', k'))" by (simp add: h_bind_def)
    with assms(2) [OF j(1) j(3) [OF Inr]] n j(1) show ?thesis unfolding guarded_def by auto
  qed
qed

lemma guarded_pass:
  assumes "D k" "\<And>j. k \<le> j \<Longrightarrow> D k \<Longrightarrow> D j" "forward f"
  shows "guarded A s n k D f"
  using assms unfolding guarded_def forward_def by blast

lemma guarded_then: "guarded A s n k D f \<Longrightarrow> guarded A s n k D (h_then g f)"
  by (fastforce simp: guarded_def h_then_def h_bind_def h_res_def split: option.splits sum.splits)

lemma guarded_prod: "(\<And>x y. p = (x, y) \<Longrightarrow> guarded A s n k D (f x y)) \<Longrightarrow> guarded A s n k D (case p of (x, y) \<Rightarrow> f x y)"
  by (cases p) simp

end
