(* ===== verification/ApiGuards.thy ===== *)
theory ApiGuards
  imports ApiRules
begin

text \<open>
  Who may change what: the privilege every route of the catalog API asks for, and that a handler changes
  the application only after the authorizer has granted it to the caller.
\<close>

section \<open>The privileges of the routes\<close>

definition on :: "'x res \<Rightarrow> ('x \<Rightarrow> 'y set) \<Rightarrow> 'y set" where
  "on r f = (case r of Inl _ \<Rightarrow> {} | Inr x \<Rightarrow> f x)"

lemma in_on [simp]: "y \<in> on r f \<longleftrightarrow> (\<exists>x. r = Inr x \<and> y \<in> f x)"
  by (cases r) (simp_all add: on_def)

text \<open>
  A name is resolved by one lookup, or by two, which may see two snapshots: the schema in the first, what
  is in the schema in the second.
\<close>

definition below ::
  "('j, 'z) row_codecs_scheme \<Rightarrow> snapshot \<Rightarrow> snapshot \<Rightarrow> string \<times> string \<times> string \<Rightarrow>
   (snapshot \<Rightarrow> uuid \<Rightarrow> string \<Rightarrow> 'x res) \<Rightarrow> 'x res" where
  "below E g1 g2 name get =
     (case name of (cat, sch, leaf) \<Rightarrow>
        rbind (schema_get_by_full_name E g1 cat sch) (\<lambda>schema. get g2 (sch_id schema) leaf))"

definition securable ::
  "('j, 'v, 'l, 'a, 'z) api_scheme \<Rightarrow> snapshot \<Rightarrow> snapshot \<Rightarrow> string \<Rightarrow> string \<Rightarrow> uuid res" where
  "securable A g1 g2 type name =
    (let t = to_uppercase_ascii type;
         leaf = (\<lambda>get. rbind (split3 name) (\<lambda>path. below A g1 g2 path get)) in
     if t = ''METASTORE'' then Inr (ap_metastore_id A)
     else if t = ''CATALOG'' then map_ok cat_id (catalog_get_by_name g1 name)
     else if t = ''EXTERNAL_LOCATION'' then map_ok loc_id (location_get_by_name g1 name)
     else if t = ''SCHEMA'' then rbind (split2 name) (\<lambda>(cat, sch).
       map_ok sch_id (schema_get_by_full_name A g1 cat sch))
     else if t = ''TABLE'' then leaf (\<lambda>g i n. map_ok tab_id (table_get_by_schema_and_name A g i n))
     else if t = ''VOLUME'' then leaf (\<lambda>g i n. map_ok vol_id (volume_get_by_schema_and_name A g i n))
     else if t = ''FUNCTION'' then leaf (\<lambda>g i n. map_ok fn_id (function_get_by_schema_and_name A g i n))
     else if t = ''REGISTERED_MODEL'' \<or> t = ''MODEL'' then
       leaf (\<lambda>g i n. map_ok mdl_id (get_model_by_schema_and_name A g i n))
     else Inl (err_invalid_argument (''Unknown securable type: '' @ type)))"

fun wanted ::
  "('j, 'v, 'l, 'a, 'z) api_scheme \<Rightarrow> snapshot \<Rightarrow> snapshot \<Rightarrow> 'w route \<Rightarrow> (uuid \<times> privilege) set"
where
  "wanted A g1 g2 (CatalogApi (NamespaceApi (PostCatalogs req))) = {(ap_metastore_id A, CreateCatalog)}"
| "wanted A g1 g2 (CatalogApi (NamespaceApi (PatchCatalog name req))) =
     on (catalog_get_by_name g1 name) (\<lambda>c. {(cat_id c, Owner)})"
| "wanted A g1 g2 (CatalogApi (NamespaceApi (DeleteCatalog name force))) =
     on (catalog_get_by_name g1 name) (\<lambda>c. {(cat_id c, Owner)})"
| "wanted A g1 g2 (CatalogApi (NamespaceApi (PostSchemas req))) =
     on (catalog_get_by_name g1 (csch_catalog_name req)) (\<lambda>c. {(cat_id c, CreateSchema)})"
| "wanted A g1 g2 (CatalogApi (NamespaceApi (PatchSchema name req))) = on (split2 name) (\<lambda>(cat, sch).
     on (schema_get_by_full_name A g1 cat sch) (\<lambda>x. {(sch_id x, Owner)}))"
| "wanted A g1 g2 (CatalogApi (NamespaceApi (DeleteSchema name force))) = on (split2 name) (\<lambda>(cat, sch).
     on (schema_get_by_full_name A g1 cat sch) (\<lambda>x. {(sch_id x, Owner)}))"
| "wanted A g1 g2 (CatalogApi (AssetApi (PostTables req))) =
     on (schema_get_by_full_name A g1 (ctab_catalog_name req) (ctab_schema_name req)) (\<lambda>x. {(sch_id x, CreateTable)})"
| "wanted A g1 g2 (CatalogApi (AccessApi (PostStagingTables req))) =
     on (schema_get_by_full_name A g1 (cstg_catalog_name req) (cstg_schema_name req)) (\<lambda>x. {(sch_id x, CreateTable)})"
| "wanted A g1 g2 (CatalogApi (AssetApi (PostVolumes req))) =
     on (schema_get_by_full_name A g1 (cvol_catalog_name req) (cvol_schema_name req)) (\<lambda>x. {(sch_id x, CreateVolume)})"
| "wanted A g1 g2 (CatalogApi (AssetApi (PostFunctions req))) = (let fi = cfun_function_info req in
     on (schema_get_by_full_name A g1 (fni_catalog_name fi) (fni_schema_name fi)) (\<lambda>x. {(sch_id x, CreateFunction)}))"
| "wanted A g1 g2 (CatalogApi (ModelApi (PostModels req))) =
     on (schema_get_by_full_name A g1 (cmod_catalog_name req) (cmod_schema_name req)) (\<lambda>x. {(sch_id x, CreateModel)})"
| "wanted A g1 g2 (CatalogApi (AssetApi (DeleteTable name))) = on (split3 name) (\<lambda>path.
     on (below A g1 g2 path (table_get_by_schema_and_name A)) (\<lambda>x. {(tab_id x, Owner)}))"
| "wanted A g1 g2 (CatalogApi (AssetApi (PatchVolume name req))) = on (split3 name) (\<lambda>path.
     on (below A g1 g2 path (volume_get_by_schema_and_name A)) (\<lambda>x. {(vol_id x, Owner)}))"
| "wanted A g1 g2 (CatalogApi (AssetApi (DeleteVolume name))) = on (split3 name) (\<lambda>path.
     on (below A g1 g2 path (volume_get_by_schema_and_name A)) (\<lambda>x. {(vol_id x, Owner)}))"
| "wanted A g1 g2 (CatalogApi (AssetApi (DeleteFunction name))) = on (split3 name) (\<lambda>path.
     on (below A g1 g2 path (function_get_by_schema_and_name A)) (\<lambda>x. {(fn_id x, Owner)}))"
| "wanted A g1 g2 (CatalogApi (ModelApi (PatchModel name req))) = on (split3 name) (\<lambda>path.
     on (below A g1 g2 path (get_model_by_schema_and_name A)) (\<lambda>x. {(mdl_id x, Owner)}))"
| "wanted A g1 g2 (CatalogApi (ModelApi (DeleteModel name))) = on (split3 name) (\<lambda>path.
     on (below A g1 g2 path (get_model_by_schema_and_name A)) (\<lambda>x. {(mdl_id x, Owner)}))"
| "wanted A g1 g2 (CatalogApi (ModelApi (PatchVersion name ver req))) = on (split3 name) (\<lambda>path.
     on (below A g1 g2 path (get_model_by_schema_and_name A)) (\<lambda>x. {(mdl_id x, Owner)}))"
| "wanted A g1 g2 (CatalogApi (PrincipalApi (PostCredentials req))) = {(ap_metastore_id A, CreateStorageCredential)}"
| "wanted A g1 g2 (CatalogApi (PrincipalApi (PatchCredential name req))) =
     on (credential_get_by_name g1 name) (\<lambda>c. {(crd_id c, Owner)})"
| "wanted A g1 g2 (CatalogApi (PrincipalApi (DeleteCredential name))) =
     (if ap_auth_enabled A then on (credential_get_by_name g1 name) (\<lambda>c. {(crd_id c, Owner)}) else UNIV)"
| "wanted A g1 g2 (CatalogApi (PrincipalApi (PostLocations req))) = {(ap_metastore_id A, CreateExternalLocation)}"
| "wanted A g1 g2 (CatalogApi (PrincipalApi (PatchLocation name req))) =
     on (location_get_by_name g1 name) (\<lambda>c. {(loc_id c, Owner)})"
| "wanted A g1 g2 (CatalogApi (PrincipalApi (DeleteLocation name))) =
     (if ap_auth_enabled A then on (location_get_by_name g1 name) (\<lambda>c. {(loc_id c, Owner)}) else UNIV)"
| "wanted A g1 g2 (CatalogApi (PrincipalApi (PatchPermissions type name req))) =
     on (securable A g1 g2 type name) (\<lambda>i. {(i, Owner), (ap_metastore_id A, Owner)})"
| "wanted A g1 g2 (CatalogApi (AccessApi (PostTableCredentials req))) =
     on (table_get_by_id A g1 (gtt_table_id req)) (\<lambda>t. {(tab_id t, table_privilege (gtt_operation req))})"
| "wanted A g1 g2 (CatalogApi (AccessApi (PostVolumeCredentials req))) =
     on (volume_get_by_id A g1 (gtv_volume_id req)) (\<lambda>v. {(vol_id v, volume_privilege (gtv_operation req))})"
| "wanted A g1 g2 (CatalogApi (AccessApi (PostPathCredentials req))) =
     (if ap_auth_enabled A then on (find_by_path_prefix g1 (gtp_url req)) (\<lambda>found.
        case found of None \<Rightarrow> {} | Some l \<Rightarrow> {(loc_id l, path_privilege (gtp_operation req))})
      else UNIV)"
| "wanted A g1 g2 _ = {}"

text \<open>
  The routes whose handlers check nothing: four of the model versions, the coordinator of commits, the
  users of the control API and the whole Delta API.
\<close>

fun unguarded :: "'v route \<Rightarrow> bool" where
  "unguarded (CatalogApi (ModelApi (PostVersions _))) = True"
| "unguarded (CatalogApi (ModelApi (DeleteVersion _ _))) = True"
| "unguarded (CatalogApi (ModelApi (FinalizeVersion _ _ _))) = True"
| "unguarded (CatalogApi (AccessApi (PostVersionCredentials _))) = True"
| "unguarded (CatalogApi (AccessApi (GetCommits _ _ _))) = True"
| "unguarded (CatalogApi (AccessApi (PostCommits _))) = True"
| "unguarded (CatalogApi _) = False"
| "unguarded _ = True"

text \<open>The routes of the catalog API that read; of these, some show the caller only what it may see.\<close>

fun reading :: "'v route \<Rightarrow> bool" where
  "reading (CatalogApi (NamespaceApi (GetCatalogs _ _))) = True"
| "reading (CatalogApi (NamespaceApi (GetCatalog _))) = True"
| "reading (CatalogApi (NamespaceApi (GetSchemas _ _ _))) = True"
| "reading (CatalogApi (NamespaceApi (GetSchema _))) = True"
| "reading (CatalogApi (AssetApi (GetTables _ _ _ _))) = True"
| "reading (CatalogApi (AssetApi (GetTable _))) = True"
| "reading (CatalogApi (AssetApi (GetVolumes _ _ _ _))) = True"
| "reading (CatalogApi (AssetApi (GetVolume _))) = True"
| "reading (CatalogApi (AssetApi (GetFunctions _ _ _ _))) = True"
| "reading (CatalogApi (AssetApi (GetFunction _))) = True"
| "reading (CatalogApi (ModelApi (GetModels _ _ _ _))) = True"
| "reading (CatalogApi (ModelApi (GetModel _))) = True"
| "reading (CatalogApi (ModelApi (GetVersions _))) = True"
| "reading (CatalogApi (ModelApi (GetVersion _ _))) = True"
| "reading (CatalogApi (PrincipalApi (GetCredentials _ _))) = True"
| "reading (CatalogApi (PrincipalApi (GetCredential _))) = True"
| "reading (CatalogApi (PrincipalApi (GetLocations _ _))) = True"
| "reading (CatalogApi (PrincipalApi (GetLocation _))) = True"
| "reading (CatalogApi (PrincipalApi (GetPermissions _ _ _))) = True"
| "reading (CatalogApi (PrincipalApi GetMetastore)) = True"
| "reading _ = False"

section \<open>What a request has seen\<close>

definition glimpses ::
  "('j, 'v, 'l, 'a, 'z) api_scheme \<Rightarrow> ('l, 'a) app \<Rightarrow> nat \<Rightarrow> nat \<Rightarrow> snapshot set" where
  "glimpses A s n k = insert (state (app_store s)) (seen A s n ` {n..<k})"

definition known :: "snapshot set \<Rightarrow> string \<Rightarrow> user_row \<Rightarrow> bool" where
  "known G sub u \<longleftrightarrow> (\<exists>g \<in> G. user_get_by_email g sub = Inr (Some u) \<or>
     user_get_by_external_id g sub = Inr (Some u))"

text \<open>Before step \<open>k\<close> the caller was found to be a user the authorizer allows \<open>p\<close> on \<open>i\<close>.\<close>

definition permitted ::
  "('j, 'v, 'l, 'a, 'z) api_scheme \<Rightarrow> ('l, 'a) app \<Rightarrow> nat \<Rightarrow> nat \<Rightarrow> uuid \<Rightarrow> uuid \<Rightarrow> privilege \<Rightarrow> bool" where
  "permitted A s n k who i p \<longleftrightarrow> (\<exists>l \<in> {n..<k}.
     au_authorize (ap_authorizer A) who i p (authz_state (drift A s n (Suc l))) = Inr True)"

definition passed ::
  "('j, 'v, 'l, 'a, 'z) api_scheme \<Rightarrow> ('l, 'a) app \<Rightarrow> nat \<Rightarrow> nat \<Rightarrow> uc_claims \<Rightarrow> uuid \<Rightarrow> privilege \<Rightarrow> bool" where
  "passed A s n k claims i p \<longleftrightarrow> (ap_auth_enabled A \<longrightarrow>
     (\<exists>u. known (glimpses A s n k) (clm_sub claims) u \<and> permitted A s n k (usr_id u) i p))"

definition cleared ::
  "('j, 'v, 'l, 'a, 'z) api_scheme \<Rightarrow> ('l, 'a) app \<Rightarrow> nat \<Rightarrow> uc_claims \<Rightarrow> 'w route \<Rightarrow> nat \<Rightarrow> bool" where
  "cleared A s n claims r k \<longleftrightarrow> (\<exists>g1 \<in> glimpses A s n k. \<exists>g2 \<in> glimpses A s n k.
     \<exists>(i, p) \<in> wanted A g1 g2 r. passed A s n k claims i p)"

lemma glimpses_mono: "g \<in> glimpses A s n j \<Longrightarrow> j \<le> k \<Longrightarrow> g \<in> glimpses A s n k"
  by (fastforce simp: glimpses_def)

lemma glimpses_start [simp]: "state (app_store s) \<in> glimpses A s n k"
  by (simp add: glimpses_def)

lemma some_glimpse [simp]: "\<exists>g. g \<in> glimpses A s n k"
  using glimpses_start by blast

lemma glimpses_seen: "n \<le> k \<Longrightarrow> seen A s n k \<in> glimpses A s n (Suc k)"
  by (simp add: glimpses_def)

lemma known_mono: "known (glimpses A s n j) sub u \<Longrightarrow> j \<le> k \<Longrightarrow> known (glimpses A s n k) sub u"
  by (auto simp: known_def dest: glimpses_mono)

lemma permitted_mono: "permitted A s n j who i p \<Longrightarrow> j \<le> k \<Longrightarrow> permitted A s n k who i p"
  by (fastforce simp: permitted_def)

lemma passed_mono: "passed A s n j claims i p \<Longrightarrow> j \<le> k \<Longrightarrow> passed A s n k claims i p"
  by (auto simp: passed_def dest: known_mono permitted_mono)

lemma clearedI:
  assumes "passed A s n k claims i p"
    and "g1 \<in> glimpses A s n j1" "g2 \<in> glimpses A s n j2" "j1 \<le> k" "j2 \<le> k" "(i, p) \<in> wanted A g1 g2 r"
  shows "cleared A s n claims r k"
  using assms(1,6) glimpses_mono [OF assms(2,4)] glimpses_mono [OF assms(3,5)]
  by (auto simp: cleared_def)

lemma clearedI1:
  "passed A s n k claims i p \<Longrightarrow> g \<in> glimpses A s n j \<Longrightarrow> j \<le> k \<Longrightarrow> (i, p) \<in> wanted A g g r \<Longrightarrow>
   cleared A s n claims r k"
  by (rule clearedI)

lemma cleared_mono:
  assumes "cleared A s n claims r j" "j \<le> k"
  shows "cleared A s n claims r k"
proof -
  from assms(1) obtain g1 g2 i p where "passed A s n j claims i p" "(i, p) \<in> wanted A g1 g2 r"
    "g1 \<in> glimpses A s n j" "g2 \<in> glimpses A s n j" by (auto simp: cleared_def)
  with assms(2) show ?thesis by (blast intro: clearedI passed_mono)
qed

lemma guarded_cleared:
  assumes "cleared A s n claims r k" "forward f"
  shows "guarded A s n k (cleared A s n claims r) f"
  by (rule guarded_pass) (use assms cleared_mono in auto)

end
