(* ===== verification/ApiSafety.thy ===== *)
theory ApiSafety
  imports ApiGuards
begin

text \<open>
  The handlers of the catalog API, one by one: those that only read change nothing, those that write are
  guarded by the privilege \<open>wanted\<close> gives for their route.
\<close>

section \<open>Checks\<close>

lemma looks_lookup: "looks A s n k (\<lambda>k' x. \<exists>g \<in> glimpses A s n k'. f g = Inr x) (h_read A f)"
  unfolding looks_def
  by (auto simp: h_read_def h_look_def h_step_def drift_Suc glimpses_def)

lemma looks_pure: "looks A s n k (\<lambda>_ x. r = Inr x) (h_res r)"
  by (rule looks_res) simp

lemma looks_schema:
  "looks A s n k (\<lambda>k' x. \<exists>g \<in> glimpses A s n k'. schema_get_by_full_name A g cat sch = Inr x) (h_schema A cat sch)"
  unfolding h_schema_def by (rule looks_lookup)

lemma belowI:
  "schema_get_by_full_name E g1 cat sch = Inr x \<Longrightarrow> get g2 (sch_id x) leaf = Inr y \<Longrightarrow>
   below E g1 g2 (cat, sch, leaf) get = Inr y"
  by (simp add: below_def)

lemma looks_leaf:
  "looks A s n k (\<lambda>k' x. \<exists>g1 \<in> glimpses A s n k'. \<exists>g2 \<in> glimpses A s n k'.
     below A g1 g2 (cat, sch, leaf) get = Inr x)
   (h_bind (h_schema A cat sch) (\<lambda>schema. h_read A (\<lambda>s. get s (sch_id schema) leaf)))"
proof (rule looks_bind [OF looks_schema])
  fix j x assume j: "k \<le> j" and x: "\<exists>g \<in> glimpses A s n j. schema_get_by_full_name A g cat sch = Inr x"
  show "looks A s n j (\<lambda>k' y. \<exists>g1 \<in> glimpses A s n k'. \<exists>g2 \<in> glimpses A s n k'.
     below A g1 g2 (cat, sch, leaf) get = Inr y) (h_read A (\<lambda>s. get s (sch_id x) leaf))"
  proof (rule looks_mono [OF looks_lookup])
    fix k' y assume k': "j \<le> k'" and y: "\<exists>g \<in> glimpses A s n k'. get g (sch_id x) leaf = Inr y"
    from x obtain g1 where "g1 \<in> glimpses A s n k'" "schema_get_by_full_name A g1 cat sch = Inr x"
      by (auto dest: glimpses_mono [OF _ k'])
    moreover from y obtain g2 where "g2 \<in> glimpses A s n k'" "get g2 (sch_id x) leaf = Inr y" by auto
    ultimately show "\<exists>g1 \<in> glimpses A s n k'. \<exists>g2 \<in> glimpses A s n k'. below A g1 g2 (cat, sch, leaf) get = Inr y"
      by (intro bexI [of _ g1] bexI [of _ g2] belowI)
  qed
qed

lemma looks_get_user: "looks A s n k (\<lambda>k' u. known (glimpses A s n k') sub u) (get_user A sub)"
  unfolding get_user_def
proof (rule looks_bind [OF looks_lookup])
  fix j found
  assume found: "\<exists>g \<in> glimpses A s n j. user_get_by_email g sub = Inr found"
  show "looks A s n j (\<lambda>k' u. known (glimpses A s n k') sub u)
     (case found of
        None \<Rightarrow> h_bind (h_read A (\<lambda>s. user_get_by_external_id s sub)) (\<lambda>found.
          h_res (ok_or (err_unauthenticated ''User not found'') found))
      | Some row \<Rightarrow> h_ret row)"
  proof (cases found)
    case None
    then show ?thesis
      by (simp, intro looks_bind [OF looks_lookup] looks_res)
        (auto simp: known_def ok_or_def split: option.splits)
  next
    case (Some u)
    with found show ?thesis by (auto simp: known_def intro: looks_res)
  qed
qed

lemma looks_authorize:
  "looks A s n k (\<lambda>k' b. b \<longrightarrow> permitted A s n k' who i p) (h_authorize A who i p)"
  unfolding looks_def
  by (auto simp: h_authorize_def h_ask_def h_look_def h_step_def drift_Suc permitted_def intro: bexI [where x = k])

lemma looks_require: "looks A s n k (\<lambda>k' _. permitted A s n k' who i p) (require A who i p)"
  unfolding require_def
  by (rule looks_bind [OF looks_authorize]) (auto simp: h_res_def looks_def)

lemma passedI:
  "known (glimpses A s n j) (clm_sub claims) u \<Longrightarrow> permitted A s n k (usr_id u) i p \<Longrightarrow> j \<le> k \<Longrightarrow>
   passed A s n k claims i p"
  by (auto simp: passed_def dest: known_mono)

lemma passed_off: "\<not> ap_auth_enabled A \<Longrightarrow> passed A s n k claims i p"
  by (simp add: passed_def)

lemma looks_user_check:
  assumes "\<And>j u. k \<le> j \<Longrightarrow> known (glimpses A s n j) (clm_sub claims) u \<Longrightarrow>
     looks A s n j (\<lambda>k' _. passed A s n k' claims i p) (f u)"
  shows "looks A s n k (\<lambda>k' _. passed A s n k' claims i p)
    (h_when (ap_auth_enabled A) (h_bind (get_user A (clm_sub claims)) f))"
  by (intro looks_when looks_bind [OF looks_get_user] assms passed_off)

lemma looks_ensure: "looks A s n k (\<lambda>k' _. passed A s n k' claims i p) (ensure A claims i p)"
  unfolding ensure_def
  by (intro looks_user_check looks_mono [OF looks_require]) (auto intro: passedI)

lemma looks_allowed:
  "known (glimpses A s n j) (clm_sub claims) u \<Longrightarrow>
   looks A s n j (\<lambda>k' _. passed A s n k' claims i p)
     (h_bind (h_authorize A (usr_id u) i p) (\<lambda>allowed. if \<not> allowed then h_err e else h_ret ()))"
  by (rule looks_bind [OF looks_authorize]) (auto simp: h_res_def looks_def intro: passedI)

lemma looks_ensure_catalog:
  "looks A s n k (\<lambda>k' _. passed A s n k' claims i p) (ensure_catalog A claims i p msg)"
  unfolding ensure_catalog_def by (intro looks_user_check looks_allowed)

lemma looks_ensure_vending:
  "looks A s n k (\<lambda>k' _. passed A s n k' claims i p) (ensure_vending A claims i p msg)"
  unfolding ensure_vending_def by (intro looks_user_check looks_allowed)

section \<open>What handlers repeat\<close>

lemma still_uuid [looking]: "still A s n k (h_uuid A)"
  unfolding h_uuid_def by (intro looking)

lemma still_properties [looking]: "still A s n k (h_properties A i type)"
  unfolding h_properties_def by (intro looking)

lemma still_get_user [looking]: "still A s n k (get_user A sub)"
  by (rule looks_true [OF looks_get_user])

lemma still_schema [looking]: "still A s n k (h_schema A cat sch)"
  by (rule looks_true [OF looks_schema])

lemma still_ensure [looking]: "still A s n k (ensure A claims i p)"
  by (rule looks_true [OF looks_ensure])

lemma still_authorize [looking]: "still A s n k (h_authorize A who i p)"
  by (rule looks_true [OF looks_authorize])

lemma still_visible_of: "still A s n k (visible_of A who p is)"
  by (induction "is" arbitrary: k) (auto intro!: looking)

lemma still_visible [looking]: "still A s n k (visible_ids A claims is p)"
  unfolding visible_ids_def filter_visible_def by (intro looking still_visible_of)

lemma forward_helpers [forwards]:
  "forward (now_ms A)" "forward (h_uuids A)" "forward (h_schema A cat sch)" "forward (h_authorize A who i p)"
  "forward (h_unlink A i)"
  by (simp_all add: now_ms_def h_uuids_def h_schema_def h_authorize_def h_unlink_def forwards)

lemma forward_uuid [forwards]: "forward (h_uuid A)"
  unfolding h_uuid_def by (intro forwards)

lemma forward_get_user [forwards]: "forward (get_user A sub)"
  unfolding get_user_def by (intro forwards)

lemma forward_require [forwards]: "forward (require A who i p)"
  unfolding require_def by (intro forwards)

lemma forward_own [forwards]: "forward (own A claims i parent)"
  unfolding own_def by (intro forwards)

lemma forward_properties [forwards]:
  "forward (h_replace_properties A i type props)" "forward (h_properties A i type)"
  "forward (h_delete_properties A i type)" "forward (h_set_property A i type key val)"
  unfolding h_replace_properties_def h_properties_def h_delete_properties_def h_set_property_def
  by (intro forwards)+

lemma forward_storage_root [forwards]: "forward (h_storage_root A cat sch)"
  unfolding h_storage_root_def by (intro forwards)

lemma forward_delete_schema_children [forwards]: "forward (delete_schema_children A i)"
  unfolding delete_schema_children_def delete_tables_def by (intro forwards)

section \<open>Catalogs and schemas\<close>

lemma still_namespaces [looking]:
  "still A s n k (catalogs_list A mr tok)" "still A s n k (catalogs_get A name)"
  "still A s n k (schemas_list A claims cat mr tok)" "still A s n k (schemas_get A name)"
  unfolding catalogs_list_def catalogs_get_def schemas_list_def schemas_get_def by (intro looking)+

lemma catalogs_create_guarded:
  "guarded A s n k (cleared A s n claims (CatalogApi (NamespaceApi (PostCatalogs req))))
     (catalogs_create A claims req)"
  unfolding catalogs_create_def Let_def
  by (rule guarded_bind [OF looks_ensure_catalog], rule guarded_cleared)
    (auto intro: clearedI1 [OF _ glimpses_start] intro!: forwards)

lemma catalogs_update_guarded:
  "guarded A s n k (cleared A s n claims (CatalogApi (NamespaceApi (PatchCatalog name req))))
     (catalogs_update A claims name req)"
  unfolding catalogs_update_def Let_def
  by (rule guarded_bind [OF looks_lookup], rule guarded_bind [OF looks_ensure_catalog], rule guarded_cleared)
    (auto elim: clearedI1 intro!: forwards)

lemma catalogs_delete_guarded:
  "guarded A s n k (cleared A s n claims (CatalogApi (NamespaceApi (DeleteCatalog name force))))
     (catalogs_delete A claims name force)"
  unfolding catalogs_delete_def Let_def
  by (rule guarded_bind [OF looks_lookup], rule guarded_bind [OF looks_ensure_catalog], rule guarded_cleared)
    (auto elim: clearedI1 intro!: forwards)

lemma schemas_create_guarded:
  "guarded A s n k (cleared A s n claims (CatalogApi (NamespaceApi (PostSchemas req)))) (schemas_create A claims req)"
  unfolding schemas_create_def Let_def
  by (rule guarded_bind [OF looks_lookup], rule guarded_bind [OF looks_ensure], rule guarded_cleared)
    (auto elim: clearedI1 intro!: forwards)

lemma schemas_update_guarded:
  "guarded A s n k (cleared A s n claims (CatalogApi (NamespaceApi (PatchSchema name req))))
     (schemas_update A claims name req)"
  unfolding schemas_update_def Let_def
  by (rule guarded_bind [OF looks_pure], rule guarded_prod, rule guarded_bind [OF looks_schema], rule guarded_bind [OF looks_ensure], rule guarded_cleared)
    (auto elim: clearedI1 intro!: forwards)

lemma schemas_delete_guarded:
  "guarded A s n k (cleared A s n claims (CatalogApi (NamespaceApi (DeleteSchema name force))))
     (schemas_delete A claims name force)"
  unfolding schemas_delete_def Let_def
  by (rule guarded_bind [OF looks_pure], rule guarded_prod, rule guarded_bind [OF looks_schema], rule guarded_bind [OF looks_ensure], rule guarded_cleared)
    (auto elim: clearedI1 intro!: forwards)

section \<open>Tables and volumes\<close>

lemma forward_places [forwards]:
  "forward (table_place A claims req i now)" "forward (volume_place A vreq i j)"
  unfolding table_place_def commit_staging_def volume_place_def
  by (auto intro!: forwards simp: Let_def split: table_type.split)

lemma still_tables [looking]:
  "still A s n k (tables_list A claims cat sch mr tok)" "still A s n k (tables_get A name)"
  "still A s n k (volumes_list A claims cat sch mr tok)" "still A s n k (volumes_get A name)"
  unfolding tables_list_def tables_get_def volumes_list_def volumes_get_def h_table_def h_volume_def
  by (intro looking)+

lemma tables_create_guarded:
  "guarded A s n k (cleared A s n claims (CatalogApi (AssetApi (PostTables req)))) (tables_create A claims req)"
  unfolding tables_create_def Let_def
  by (rule guarded_bind [OF looks_schema], rule guarded_bind [OF looks_ensure], rule guarded_cleared)
    (auto elim: clearedI1 intro!: forwards)

lemma staging_tables_create_guarded:
  "guarded A s n k (cleared A s n claims (CatalogApi (AccessApi (PostStagingTables req))))
     (staging_tables_create A claims req)"
  unfolding staging_tables_create_def Let_def
  by (rule guarded_bind [OF looks_schema], rule guarded_bind [OF looks_ensure], rule guarded_cleared)
    (auto elim: clearedI1 intro!: forwards)

lemma volumes_create_guarded:
  "guarded A s n k (cleared A s n claims (CatalogApi (AssetApi (PostVolumes req)))) (volumes_create A claims req)"
  unfolding volumes_create_def Let_def
  by (rule guarded_bind [OF looks_schema], rule guarded_bind [OF looks_ensure], rule guarded_cleared)
    (auto elim: clearedI1 intro!: forwards)

lemma tables_delete_guarded:
  "guarded A s n k (cleared A s n claims (CatalogApi (AssetApi (DeleteTable name)))) (tables_delete A claims name)"
  unfolding tables_delete_def h_table_def Let_def
  by (rule guarded_bind [OF looks_pure], rule guarded_prod, rule guarded_prod, rule guarded_bind [OF looks_leaf [where get = "table_get_by_schema_and_name A"]], rule guarded_bind [OF looks_ensure], rule guarded_cleared)
    (auto elim: clearedI intro!: forwards)

lemma volumes_update_guarded:
  "guarded A s n k (cleared A s n claims (CatalogApi (AssetApi (PatchVolume name req))))
     (volumes_update A claims name req)"
  unfolding volumes_update_def h_volume_def Let_def
  by (rule guarded_bind [OF looks_pure], rule guarded_prod, rule guarded_prod, rule guarded_bind [OF looks_leaf [where get = "volume_get_by_schema_and_name A"]], rule guarded_bind [OF looks_ensure], rule guarded_cleared)
    (auto elim: clearedI intro!: forwards)

lemma volumes_delete_guarded:
  "guarded A s n k (cleared A s n claims (CatalogApi (AssetApi (DeleteVolume name)))) (volumes_delete A claims name)"
  unfolding volumes_delete_def h_volume_def Let_def
  by (rule guarded_bind [OF looks_pure], rule guarded_prod, rule guarded_prod, rule guarded_bind [OF looks_leaf [where get = "volume_get_by_schema_and_name A"]], rule guarded_bind [OF looks_ensure], rule guarded_cleared)
    (auto elim: clearedI intro!: forwards)

section \<open>Functions and models\<close>

lemma forward_model_place [forwards]: "forward (model_place A req i j)"
  unfolding model_place_def by (intro forwards)

lemma still_model [looking]: "still A s n k (h_model A cat sch mdl)"
  unfolding h_model_def by (intro looking)

lemma still_assets [looking]:
  "still A s n k (functions_list A claims cat sch mr tok)" "still A s n k (functions_get A name)"
  "still A s n k (models_list A claims c d mr tok)" "still A s n k (models_get A name)"
  "still A s n k (versions_list A name)" "still A s n k (versions_get A name ver)"
  unfolding functions_list_def functions_get_def models_list_def models_get_def versions_list_def
    versions_get_def h_function_def Let_def
  by (intro looking)+

lemma functions_create_guarded:
  "guarded A s n k (cleared A s n claims (CatalogApi (AssetApi (PostFunctions req)))) (functions_create A claims req)"
  unfolding functions_create_def Let_def
  by (rule guarded_bind [OF looks_schema], rule guarded_bind [OF looks_ensure], rule guarded_cleared)
    (auto elim: clearedI1 intro!: forwards)

lemma functions_delete_guarded:
  "guarded A s n k (cleared A s n claims (CatalogApi (AssetApi (DeleteFunction name))))
     (functions_delete A claims name)"
  unfolding functions_delete_def h_function_def Let_def
  by (rule guarded_bind [OF looks_pure], rule guarded_prod, rule guarded_prod, rule guarded_bind [OF looks_leaf [where get = "function_get_by_schema_and_name A"]], rule guarded_bind [OF looks_ensure], rule guarded_cleared)
    (auto elim: clearedI intro!: forwards)

lemma models_create_guarded:
  "guarded A s n k (cleared A s n claims (CatalogApi (ModelApi (PostModels req)))) (models_create A claims req)"
  unfolding models_create_def Let_def
  by (rule guarded_bind [OF looks_schema], rule guarded_bind [OF looks_ensure], rule guarded_cleared)
    (auto elim: clearedI1 intro!: forwards)

lemma models_update_guarded:
  "guarded A s n k (cleared A s n claims (CatalogApi (ModelApi (PatchModel name req))))
     (models_update A claims name req)"
  unfolding models_update_def Let_def
  by (rule guarded_bind [OF looks_pure], rule guarded_prod, rule guarded_prod, rule guarded_bind [OF looks_schema],
      rule guarded_bind [OF looks_lookup], rule guarded_bind [OF looks_ensure], rule guarded_cleared)
    (auto elim: clearedI intro!: forwards simp: below_def)

lemma models_delete_guarded:
  "guarded A s n k (cleared A s n claims (CatalogApi (ModelApi (DeleteModel name)))) (models_delete A claims name)"
  unfolding models_delete_def h_model_def Let_def
  by (rule guarded_bind [OF looks_pure], rule guarded_prod, rule guarded_prod, rule guarded_bind [OF looks_leaf [where get = "get_model_by_schema_and_name A"]], rule guarded_bind [OF looks_ensure], rule guarded_cleared)
    (auto elim: clearedI intro!: forwards)

lemma versions_update_guarded:
  "guarded A s n k (cleared A s n claims (CatalogApi (ModelApi (PatchVersion name ver req))))
     (versions_update A claims name ver req)"
  unfolding versions_update_def h_model_def Let_def
  by (rule guarded_bind [OF looks_pure], rule guarded_prod, rule guarded_prod, rule guarded_bind [OF looks_leaf [where get = "get_model_by_schema_and_name A"]], rule guarded_bind [OF looks_pure], rule guarded_bind [OF looks_lookup], rule guarded_bind [OF looks_ensure], rule guarded_cleared)
    (auto elim: clearedI intro!: forwards)

section \<open>Credentials, locations and permissions\<close>

lemma still_principals [looking]:
  "still A s n k (credentials_list A claims mr tok)" "still A s n k (credentials_get A claims name)"
  "still A s n k (locations_list A mr tok)" "still A s n k (locations_get A name)"
  "still A s n k (metastore_summary_get A)"
  unfolding credentials_list_def credentials_get_def locations_list_def locations_get_def
    metastore_summary_get_def
  by (intro looking)+

lemma credentials_create_guarded:
  "guarded A s n k (cleared A s n claims (CatalogApi (PrincipalApi (PostCredentials req))))
     (credentials_create A claims req)"
  unfolding credentials_create_def Let_def
  by (rule guarded_bind [OF looks_ensure], rule guarded_cleared)
    (auto elim: clearedI1 [OF _ glimpses_start] intro!: forwards)

lemma credentials_update_guarded:
  "guarded A s n k (cleared A s n claims (CatalogApi (PrincipalApi (PatchCredential name req))))
     (credentials_update A claims name req)"
  unfolding credentials_update_def Let_def
  by (rule guarded_bind [OF looks_lookup], rule guarded_bind [OF looks_ensure], rule guarded_cleared)
    (auto elim: clearedI1 intro!: forwards)

lemma locations_create_guarded:
  "guarded A s n k (cleared A s n claims (CatalogApi (PrincipalApi (PostLocations req))))
     (locations_create A claims req)"
  unfolding locations_create_def Let_def
  by (rule guarded_bind [OF looks_ensure], rule guarded_cleared)
    (auto elim: clearedI1 [OF _ glimpses_start] intro!: forwards)

lemma locations_update_guarded:
  "guarded A s n k (cleared A s n claims (CatalogApi (PrincipalApi (PatchLocation name req))))
     (locations_update A claims name req)"
  unfolding locations_update_def Let_def
  by (rule guarded_bind [OF looks_lookup], rule guarded_bind [OF looks_ensure], rule guarded_cleared)
    (auto elim: clearedI1 intro!: forwards)

text \<open>The two deletes that look for the row only when there is something to check.\<close>

lemma looks_delete_check:
  assumes "\<And>g x. get g = Inr x \<Longrightarrow> ap_auth_enabled A \<Longrightarrow> (i x, Owner) \<in> wanted A g g r"
    and "\<And>g. \<not> ap_auth_enabled A \<Longrightarrow> wanted A g g r = UNIV"
  shows "looks A s n k (\<lambda>j _. cleared A s n claims r j) (h_when (ap_auth_enabled A)
    (h_bind (h_read A get) (\<lambda>x. h_bind (get_user A (clm_sub claims)) (\<lambda>user.
      require A (usr_id user) (i x) Owner))))"
proof (rule looks_when)
  assume on: "ap_auth_enabled A"
  show "looks A s n k (\<lambda>j _. cleared A s n claims r j)
    (h_bind (h_read A get) (\<lambda>x. h_bind (get_user A (clm_sub claims)) (\<lambda>user. require A (usr_id user) (i x) Owner)))"
    by (rule looks_bind [OF looks_lookup], rule looks_bind [OF looks_get_user], rule looks_mono [OF looks_require])
      (auto elim!: clearedI1 [OF passedI] intro: assms(1) on)
next
  assume "\<not> ap_auth_enabled A"
  then show "cleared A s n claims r k"
    by (auto intro!: clearedI1 [OF passed_off glimpses_start] simp: assms(2))
qed

lemma credentials_delete_guarded:
  "guarded A s n k (cleared A s n claims (CatalogApi (PrincipalApi (DeleteCredential name))))
     (credentials_delete A claims name)"
  unfolding credentials_delete_def
  by (rule guarded_bind [OF looks_delete_check [where i = crd_id and get = "\<lambda>s. credential_get_by_name s name"
      and r = "CatalogApi (PrincipalApi (DeleteCredential name))"]],
      simp, simp, rule guarded_cleared) (auto intro!: forwards)

lemma locations_delete_guarded:
  "guarded A s n k (cleared A s n claims (CatalogApi (PrincipalApi (DeleteLocation name))))
     (locations_delete A claims name)"
  unfolding locations_delete_def
  by (rule guarded_bind [OF looks_delete_check [where i = loc_id and get = "\<lambda>s. location_get_by_name s name"
      and r = "CatalogApi (PrincipalApi (DeleteLocation name))"]],
      simp, simp, rule guarded_cleared) (auto intro!: forwards)

text \<open>Permissions.\<close>

abbreviation securable_seen where
  "securable_seen A s n type name \<equiv> \<lambda>k' i. \<exists>g1 \<in> glimpses A s n k'. \<exists>g2 \<in> glimpses A s n k'.
     securable A g1 g2 type name = Inr i"

lemma looks_resolve3:
  "looks A s n k (\<lambda>k' i. \<exists>g1 \<in> glimpses A s n k'. \<exists>g2 \<in> glimpses A s n k'.
     rbind (split3 name) (\<lambda>path. below A g1 g2 path (\<lambda>g j m. get j m g)) = Inr i) (resolve3 A name get)"
  unfolding resolve3_def
  by (rule looks_bind [OF looks_pure], auto, rule looks_mono [OF looks_leaf [where get = "\<lambda>g j m. get j m g"]]) simp

lemma looks_resolve: "looks A s n k (securable_seen A s n type name) (resolve_resource_id A type name)"
proof -
  have two: "looks A s n k (\<lambda>k' i. \<exists>g1 \<in> glimpses A s n k'.
      rbind (split2 name) (\<lambda>(cat, sch). map_ok sch_id (schema_get_by_full_name A g1 cat sch)) = Inr i)
    (h_bind (h_res (split2 name)) (\<lambda>(cat, sch). h_bind (h_schema A cat sch) (\<lambda>schema. h_ret (sch_id schema))))"
    by (rule looks_bind [OF looks_pure], auto, rule looks_bind [OF looks_schema])
      (auto simp: looks_def h_res_def map_ok_def intro: bexI [rotated])
  show ?thesis
    unfolding resolve_resource_id_def securable_def Let_def
    by (auto intro!: looks_if looks_lookup two looks_resolve3 looks_res)
qed

lemma looks_ensure_manager:
  "looks A s n k (\<lambda>k' _. passed A s n k' claims i Owner \<or> passed A s n k' claims (ap_metastore_id A) Owner)
     (ensure_manager A claims i)"
  unfolding ensure_manager_def
  by (intro looks_when looks_bind [OF looks_get_user] looks_bind [OF looks_authorize])
    (auto simp: looks_def h_res_def intro: passedI passed_off dest: permitted_mono)

lemma forward_permissions [forwards]:
  "forward (apply_change A i change)" "forward (grants_to_assignments A grants)"
  unfolding apply_change_def resolve_grantee_def find_or_provision_def grants_to_assignments_def
    assignment_of_def
  by (intro forwards)+

lemma permissions_update_guarded:
  "guarded A s n k (cleared A s n claims (CatalogApi (PrincipalApi (PatchPermissions type name req))))
     (permissions_update A claims type name req)"
  unfolding permissions_update_def
  by (rule guarded_bind [OF looks_resolve], rule guarded_bind [OF looks_ensure_manager], rule guarded_cleared)
    (auto elim: clearedI intro!: forwards)

lemma still_permissions [looking]: "still A s n k (permissions_get A type name email)"
  unfolding permissions_get_def grants_to_assignments_def assignment_of_def
  by (intro looking looks_true [OF looks_resolve])

section \<open>Vending\<close>

lemma forward_vend [forwards]: "forward (vend A ctx)" "forward (vend_for A url op t)"
  unfolding vend_for_def build_ctx_def vend_def Let_def by (intro forwards)+

lemma table_credentials_guarded:
  "guarded A s n k (cleared A s n claims (CatalogApi (AccessApi (PostTableCredentials req))))
     (table_credentials A claims req)"
  unfolding table_credentials_def
  by (rule guarded_bind [OF looks_lookup], rule guarded_bind [OF looks_ensure_vending], rule guarded_cleared)
    (auto elim: clearedI1 intro!: forwards)

lemma volume_credentials_guarded:
  "guarded A s n k (cleared A s n claims (CatalogApi (AccessApi (PostVolumeCredentials req))))
     (volume_credentials A claims req)"
  unfolding volume_credentials_def
  by (rule guarded_bind [OF looks_lookup], rule guarded_bind [OF looks_ensure_vending], rule guarded_cleared)
    (auto elim: clearedI1 intro!: forwards)

lemma looks_ensure_path:
  "looks A s n k (\<lambda>j _. cleared A s n claims (CatalogApi (AccessApi (PostPathCredentials req))) j)
     (ensure_path A claims (gtp_url req) (gtp_operation req))"
  unfolding ensure_path_def
proof (rule looks_when)
  assume "ap_auth_enabled A"
  then show "looks A s n k (\<lambda>j _. cleared A s n claims (CatalogApi (AccessApi (PostPathCredentials req))) j)
    (h_bind (get_user A (clm_sub claims)) (\<lambda>user.
        h_bind (h_read A (\<lambda>s. find_by_path_prefix s (gtp_url req))) (\<lambda>found.
        h_bind (h_res (ok_or (uncovered_path (gtp_url req)) found)) (\<lambda>ext_loc.
        h_bind (h_authorize A (usr_id user) (loc_id ext_loc) (path_privilege (gtp_operation req))) (\<lambda>allowed.
        if \<not> allowed
        then h_err (err_permission_denied
          (''Insufficient privileges on external location '' @ quoted (loc_name ext_loc)))
        else h_ret ())))))"
    by (rule_tac looks_bind [OF looks_get_user], rule_tac looks_bind [OF looks_lookup],
        rule_tac looks_bind [OF looks_pure], rule_tac looks_bind [OF looks_authorize])
      (auto simp: looks_def h_res_def ok_or_def split: option.splits elim!: clearedI1 [OF passedI])
next
  assume "\<not> ap_auth_enabled A"
  then show "cleared A s n claims (CatalogApi (AccessApi (PostPathCredentials req))) k"
    by (auto intro!: clearedI1 [OF passed_off glimpses_start])
qed

lemma path_credentials_guarded:
  "guarded A s n k (cleared A s n claims (CatalogApi (AccessApi (PostPathCredentials req))))
     (path_credentials A claims req)"
  unfolding path_credentials_def
  by (rule guarded_bind [OF looks_ensure_path], rule guarded_cleared) (auto intro!: forwards)

section \<open>Every route\<close>

lemmas handlers_guarded =
  catalogs_create_guarded catalogs_update_guarded catalogs_delete_guarded schemas_create_guarded
  schemas_update_guarded schemas_delete_guarded tables_create_guarded tables_delete_guarded
  staging_tables_create_guarded volumes_create_guarded volumes_update_guarded volumes_delete_guarded
  functions_create_guarded functions_delete_guarded models_create_guarded models_update_guarded
  models_delete_guarded versions_update_guarded credentials_create_guarded credentials_update_guarded
  credentials_delete_guarded locations_create_guarded locations_update_guarded locations_delete_guarded
  permissions_update_guarded table_credentials_guarded volume_credentials_guarded
  path_credentials_guarded

lemma serve_catalog_guarded:
  assumes "\<not> unguarded (CatalogApi c)" "\<not> reading (CatalogApi c)"
  shows "guarded A s n n (cleared A s n claims (CatalogApi c)) (serve_catalog A claims c)"
proof (cases c)
  case (NamespaceApi q)
  show ?thesis by (insert assms [unfolded NamespaceApi], unfold NamespaceApi, cases q; simp; rule guarded_then; rule handlers_guarded)
next
  case (AssetApi q)
  show ?thesis by (insert assms [unfolded AssetApi], unfold AssetApi, cases q; simp; rule guarded_then; rule handlers_guarded)
next
  case (ModelApi q)
  show ?thesis by (insert assms [unfolded ModelApi], unfold ModelApi, cases q; simp; rule guarded_then; rule handlers_guarded)
next
  case (PrincipalApi q)
  show ?thesis by (insert assms [unfolded PrincipalApi], unfold PrincipalApi, cases q; simp; rule guarded_then; rule handlers_guarded)
next
  case (AccessApi q)
  show ?thesis by (insert assms [unfolded AccessApi], unfold AccessApi, cases q; simp; rule guarded_then; rule handlers_guarded)
qed

lemma serve_guarded:
  assumes "\<not> unguarded r" "\<not> reading r"
  shows "guarded A s n n (cleared A s n claims r) (serve A claims r)"
proof (cases r)
  case (CatalogApi c)
  with assms serve_catalog_guarded show ?thesis by simp
qed (use assms in simp_all)

lemma serve_catalog_still:
  assumes "reading (CatalogApi c)"
  shows "still A s n k (serve_catalog A claims c)"
proof (cases c)
  case (NamespaceApi q)
  show ?thesis by (insert assms [unfolded NamespaceApi], unfold NamespaceApi, cases q; simp; rule still_then; rule looking)
next
  case (AssetApi q)
  show ?thesis by (insert assms [unfolded AssetApi], unfold AssetApi, cases q; simp; rule still_then; rule looking)
next
  case (ModelApi q)
  show ?thesis by (insert assms [unfolded ModelApi], unfold ModelApi, cases q; simp; rule still_then; rule looking)
next
  case (PrincipalApi q)
  show ?thesis by (insert assms [unfolded PrincipalApi], unfold PrincipalApi, cases q; simp; rule still_then; rule looking)
next
  case (AccessApi q)
  show ?thesis by (insert assms [unfolded AccessApi], unfold AccessApi, cases q; simp; rule still_then; rule looking)
qed

lemma serve_still:
  assumes "reading r"
  shows "still A s n k (serve A claims r)"
proof (cases r)
  case (CatalogApi c)
  with assms serve_catalog_still show ?thesis by simp
qed (use assms in simp_all)

end
