(* ===== verification/ApiQuiet.thy ===== *)
theory ApiQuiet
  imports ApiSafety
begin

text \<open>
  Requests in a process where no other request acts between their steps: a handler is then a function of
  the state it starts from, and its steps are evaluated one after the other.
\<close>

definition quiet :: "('j, 'v, 'l, 'a, 'z) api_scheme \<Rightarrow> bool" where
  "quiet A \<longleftrightarrow> ap_between A = (\<lambda>_ s. s)"

named_theorems quiet_steps \<open>evaluation of steps when no other request acts\<close>

lemma quiet_step [quiet_steps]:
  "quiet A \<Longrightarrow> h_step A f (s, n) = map_option (\<lambda>(r, s'). (r, (s', Suc n))) (f n s)"
  by (simp add: h_step_def quiet_def)

lemma quiet_looks [quiet_steps]:
  assumes "quiet A"
  shows "h_look A f (s, n) = Some (f s, (s, Suc n))"
    "h_read A g (s, n) = Some (g (state (app_store s)), (s, Suc n))"
    "h_ask A h (s, n) = Some (h (authz_state s), (s, Suc n))"
    "now_ms A (s, n) = Some (Inr (ap_now A n), (s, Suc n))"
    "h_uuids A (s, n) = Some (Inr (ap_uuid A n), (s, Suc n))"
  using assms by (simp_all add: h_look_def h_read_def h_ask_def now_ms_def h_uuids_def quiet_steps)

lemma quiet_write [quiet_steps]:
  "quiet A \<Longrightarrow> h_write A f (s, n) =
     map_option (\<lambda>(r, st). (r, (s\<lparr>app_store := st\<rparr>, Suc n))) (f (ap_world A n) (app_store s))"
  by (cases "f (ap_world A n) (app_store s)") (auto simp: h_write_def quiet_steps)

lemma run_res [quiet_steps]: "h_res r m = Some (r, m)"
  by (simp add: h_res_def)

lemma run_bind [quiet_steps]:
  "h_bind f g m = (case f m of None \<Rightarrow> None | Some (Inl e, m') \<Rightarrow> Some (Inl e, m') | Some (Inr x, m') \<Rightarrow> g x m')"
  by (simp add: h_bind_def)

lemma run_try [quiet_steps]: "h_try f m = map_option (\<lambda>(r, m'). (Inr r, m')) (f m)"
  by (simp add: h_try_def)

lemma quiet_drift [simp]: "quiet A \<Longrightarrow> drift A s n k = s"
  by (simp add: drift_def quiet_def fold_invariant [where P = "\<lambda>x. x = s" and Q = "\<lambda>_. True"])

lemma quiet_glimpses [simp]: "quiet A \<Longrightarrow> glimpses A s n k = {state (app_store s)}"
  by (auto simp: glimpses_def)

lemma quiet_uuid [quiet_steps]: "quiet A \<Longrightarrow> h_uuid A (s, n) = Some (Inr (ap_uuid A n 0 0), (s, Suc n))"
  by (simp add: h_uuid_def quiet_steps)

text \<open>The user that claims stand for, in a state.\<close>

definition caller_of :: "snapshot \<Rightarrow> string \<Rightarrow> user_row res" where
  "caller_of g sub = rbind (user_get_by_email g sub) (\<lambda>found. case found of
     Some u \<Rightarrow> Inr u
   | None \<Rightarrow> rbind (user_get_by_external_id g sub) (ok_or (err_unauthenticated ''User not found'')))"

lemma quiet_get_user [quiet_steps]:
  assumes "quiet A"
  shows "\<exists>k. get_user A sub (s, n) = Some (caller_of (state (app_store s)) sub, (s, k))"
  by (simp add: get_user_def caller_of_def quiet_steps assms rbind_def split: sum.split option.split)

section \<open>Listings\<close>

text \<open>One page of a listing endpoint, as its client gets it.\<close>

definition page_of ::
  "('y \<Rightarrow> 'x list) \<Rightarrow> ('y \<Rightarrow> string option) \<Rightarrow> ('l, 'a, 'y) request \<Rightarrow> ('l, 'a) moment \<Rightarrow>
   ('x list \<times> string option) res" where
  "page_of rows next f m =
     (case f m of
        Some (Inr y, _) \<Rightarrow> Inr (rows y, next y)
      | Some (Inl e, _) \<Rightarrow> Inl e
      | None \<Rightarrow> Inl (err_internal ''no answer''))"

text \<open>Following the tokens of a listing that shows some rows of another, in another form.\<close>

lemma follow_filtered:
  assumes "\<And>t. fetch' t = (map g (filter Q (fst (fetch t))), snd (fetch t))"
  shows "follow fetch' fuel t = (map g (filter Q (fst (follow fetch fuel t))), snd (follow fetch fuel t))"
proof (induction fuel arbitrary: t)
  case (Suc fuel)
  obtain rows nxt where "fetch t = (rows, nxt)" by (cases "fetch t")
  with assms [of t] Suc show ?case
    by (auto split: option.split prod.split)
qed simp

lemma walk_filtered:
  assumes "walk_ok fetch fuel name present"
    and "\<And>t rows next. fetch t = Inr (rows, next) \<Longrightarrow> fetch' t = Inr (map g (filter Q rows), next)"
    and "\<And>r. name' (g r) = name r"
  shows "walk_ok fetch' fuel name' (\<lambda>x. \<exists>r. present r \<and> Q r \<and> x = g r)"
proof -
  from assms(1) obtain rows where ok: "\<And>t. \<exists>pg. fetch t = Inr pg"
    and rows: "follow (\<lambda>t. projr (fetch t)) fuel None = (rows, True)"
      "sorted_wrt (\<lambda>a b. name a < name b) rows" "\<And>r. r \<in> set rows \<longleftrightarrow> present r"
    by (auto simp: walk_ok_def)
  have page: "fetch' t = Inr (map g (filter Q (fst (projr (fetch t)))), snd (projr (fetch t)))" for t
    using ok [of t] assms(2) [of t] by auto
  have "follow (\<lambda>t. projr (fetch' t)) fuel None = (map g (filter Q rows), True)"
    using follow_filtered [of "\<lambda>t. projr (fetch' t)" g Q "\<lambda>t. projr (fetch t)" fuel None] rows(1)
    by (simp add: page)
  moreover have "sorted_wrt (\<lambda>a b. name' a < name' b) (map g (filter Q rows))"
    using rows(2) by (simp add: sorted_wrt_map assms(3) sorted_wrt_filter)
  ultimately show ?thesis
    using page rows(3) by (auto simp: walk_ok_def)
qed

lemma quiet_visible_of:
  assumes "quiet A" "\<And>i. au_authorize (ap_authorizer A) who i p (authz_state s) = Inr (may i)"
  shows "\<exists>k. visible_of A who p is (s, n) = Some (Inr (filter may is), (s, k))"
proof (induction "is" arbitrary: n)
  case (Cons i "is")
  obtain k where "visible_of A who p is (s, Suc n) = Some (Inr (filter may is), (s, k))"
    using Cons by blast
  then show ?case by (simp add: quiet_steps assms h_authorize_def)
qed (simp add: quiet_steps)

lemma quiet_visible_ids:
  assumes "quiet A" "ap_auth_enabled A" "caller_of (state (app_store s)) (clm_sub claims) = Inr u"
    and "\<And>i. au_authorize (ap_authorizer A) (usr_id u) i p (authz_state s) = Inr (may i)"
  shows "\<exists>k. visible_ids A claims is p (s, n) = Some (Inr (filter may is), (s, k))"
proof -
  obtain j where j: "get_user A (clm_sub claims) (s, n) = Some (Inr u, (s, j))"
    using quiet_get_user [OF assms(1), of "clm_sub claims" s n] assms(3) by auto
  obtain k where "visible_of A (usr_id u) p is (s, j) = Some (Inr (filter may is), (s, k))"
    using quiet_visible_of [OF assms(1,4)] by blast
  with j show ?thesis
    by (simp add: visible_ids_def filter_visible_def quiet_steps assms(2) h_ok_def res_ok_def)
qed

lemma filter_ids: "filter (\<lambda>r. f r \<in> set (filter may (map f rows))) rows = filter (\<lambda>r. may (f r)) rows"
  by (rule filter_cong) auto

text \<open>The page of a listing of a schema, from the page of its repository.\<close>

lemma quiet_child_page:
  assumes "quiet A" "ap_auth_enabled A" "caller_of (state (app_store s)) (clm_sub claims) = Inr u"
    and "\<And>i. au_authorize (ap_authorizer A) (usr_id u) i p (authz_state s) = Inr (may i)"
    and "parent (state (app_store s)) = Inr schema"
    and "list (state (app_store s)) schema = Inr (rows, nxt)"
  shows "page_of xs nx
      (h_bind (h_read A parent) (\<lambda>schema. h_bind (h_read A (\<lambda>s. list s schema)) (\<lambda>(rows, next).
        h_bind (visible_ids A claims (map ident rows) p) (\<lambda>visible.
        h_ret (reply schema (filter (\<lambda>r. ident r \<in> set visible) rows) next))))) (s, n) =
    (let y = reply schema (filter (\<lambda>r. may (ident r)) rows) nxt in Inr (xs y, nx y))"
proof -
  obtain k where "visible_ids A claims (map ident rows) p (s, Suc (Suc n)) =
      Some (Inr (filter may (map ident rows)), (s, k))"
    using quiet_visible_ids [OF assms(1-4)] by blast
  then show ?thesis
    by (simp add: page_of_def quiet_steps assms filter_ids Let_def del: set_filter)
qed

text \<open>Walking a listing endpoint shows what walking its repository shows, less what is hidden.\<close>

lemma quiet_child_walk:
  assumes "quiet A" "ap_auth_enabled A" "caller_of g (clm_sub claims) = Inr u" "g = state (app_store s)"
    and "\<And>i. au_authorize (ap_authorizer A) (usr_id u) i p (authz_state s) = Inr (may i)"
    and "parent g = Inr x" "walk_ok (\<lambda>t. list g x t) fuel name present"
    and "\<And>rows next. xs (reply x rows next) = map info rows" "\<And>rows next. nx (reply x rows next) = next"
    and "\<And>r. name' (info r) = name r"
  shows "walk_ok (\<lambda>t. page_of xs nx
      (h_bind (h_read A parent) (\<lambda>x. h_bind (h_read A (\<lambda>s. list s x t)) (\<lambda>(rows, next).
        h_bind (visible_ids A claims (map ident rows) p) (\<lambda>visible.
        h_ret (reply x (filter (\<lambda>r. ident r \<in> set visible) rows) next))))) (s, n))
      fuel name' (\<lambda>y. \<exists>r. present r \<and> may (ident r) \<and> y = info r)"
proof -
  have page: "page_of xs nx
      (h_bind (h_read A parent) (\<lambda>x. h_bind (h_read A (\<lambda>s. list s x t)) (\<lambda>(rows, next).
        h_bind (visible_ids A claims (map ident rows) p) (\<lambda>visible.
        h_ret (reply x (filter (\<lambda>r. ident r \<in> set visible) rows) next))))) (s, n) =
      Inr (map info (filter (\<lambda>r. may (ident r)) rows), nxt)"
    if "list g x t = Inr (rows, nxt)" for t rows nxt
    using that assms(4,6)
    by (subst quiet_child_page [OF assms(1,2) assms(3) [unfolded assms(4)] assms(5), where rows = rows and nxt = nxt],
        simp_all add: Let_def) (simp only: assms(8,9))
  show ?thesis
    by (rule walk_filtered [OF assms(7)]) (simp_all add: page assms(10))
qed

section \<open>Asking whether there are children\<close>

context child_kind
begin

text \<open>A listing of at most one child is empty exactly when there is none.\<close>

lemma child_probe:
  assumes "snap_ok E s" "uuid_text_ok (uuid_text E)"
    and "fetch = rbind (collect_res sel (scan_prefix s kind (child_prefix E p) None (over_fetch 1)))
      (\<lambda>rows. Inr (page rows 1 name))"
  shows "\<exists>rows nxt. fetch = Inr (rows, nxt) \<and>
    (rows = [] \<longleftrightarrow> \<not> (\<exists>r. snap_get s kind (rid r) = Some (con r) \<and> parent r = p))"
proof -
  let ?all = "children sel kind parent s p"
  have "fetch = Inr (page (take (over_fetch 1) ?all) 1 name)"
    unfolding assms(3) child_page [OF assms(1,2)] by (simp add: later_than_None)
  moreover have "take (nat 1) ?all = [] \<longleftrightarrow> \<not> (\<exists>r. r \<in> set ?all)" by simp
  ultimately show ?thesis
    by (simp add: page_over_fetched i64_max_def set_children [OF assms(1)])
qed

end

end
