(* ===== verification/ApiAnswers.thy ===== *)
theory ApiAnswers
  imports ApiRules
begin

text \<open>
  Every handler comes back: over a backend with finitely many keys no loop of a commit, a catch-up or a
  listing runs forever, and no handler repeats itself.
\<close>

section \<open>Writes and the Delta log\<close>

lemmas repo_writes =
  catalog_create_def catalog_update_def catalog_delete_def schema_create_def schema_update_def
  schema_delete_def table_create_def table_delete_def table_patch_def table_rename_def
  insert_columns_def delete_columns_def staging_create_def staging_mark_committed_def
  volume_create_def volume_update_def volume_delete_def function_create_def function_delete_def
  insert_params_def create_model_def update_model_def delete_model_def set_max_version_def
  create_version_def update_version_def set_version_status_def delete_version_def user_create_def
  user_update_def user_delete_def find_or_create_by_external_id_def credential_create_def
  credential_update_def credential_delete_def location_create_def location_update_def
  location_delete_def property_replace_def property_set_def property_delete_for_entity_def
  property_delete_key_def

lemma finite_keys_delta:
  assumes "finite_keys ops"
  shows "delta_latest E ops t l h \<noteq> None" "delta_list_for_table E' ops t starting ending l \<noteq> None"
  using finite_keys_list [OF assms]
  by (simp_all add: delta_latest_def delta_list_for_table_def delta_versions_def list_all_after_def
      list_all_in_range_def Let_def)

section \<open>Handlers\<close>

lemma answers_helpers [answering]:
  "answers (now_ms A)" "answers (h_uuids A)" "answers (h_schema A cat sch)" "answers (h_authorize A who i p)"
  "answers (h_unlink A i)"
  unfolding now_ms_def h_uuids_def h_schema_def h_authorize_def h_unlink_def by (intro answering; simp)+

lemma answers_uuid [answering]: "answers (h_uuid A)"
  unfolding h_uuid_def by (intro answering)

lemma answers_checks [answering]: "answers (get_user A sub)" "answers (require A who i p)"
  unfolding get_user_def require_def by (intro answering)+

lemma answers_ensure [answering]: "answers (ensure A claims i p)" "answers (own A claims i parent)"
  unfolding ensure_def own_def by (intro answering)+

lemma answers_visible [answering]: "answers (visible_ids A claims is p)"
proof -
  have "answers (visible_of A who p is)" for who by (induction "is") (auto intro!: answering)
  then show ?thesis unfolding visible_ids_def filter_visible_def by (intro answering)
qed

lemma answers_storage_root [answering]: "answers (h_storage_root A cat sch)"
  unfolding h_storage_root_def by (intro answering)

lemma answers_properties [answering]:
  assumes "finite_keys (ap_ops A)"
  shows "answers (h_replace_properties A i type props)" "answers (h_properties A i type)"
    "answers (h_delete_properties A i type)" "answers (h_set_property A i type key val)"
  unfolding h_replace_properties_def h_properties_def h_delete_properties_def h_set_property_def
  by (intro answering; simp add: repo_writes finite_keys_commit assms)+

lemma answers_namespaces [answering]:
  assumes "finite_keys (ap_ops A)"
  shows "answers (delete_schema_children A i)" "answers (catalogs_create A claims creq)"
    "answers (catalogs_list A mr tok)" "answers (catalogs_get A name)"
    "answers (catalogs_update A claims name ureq)" "answers (catalogs_delete A claims name force)"
  unfolding delete_schema_children_def delete_tables_def catalogs_create_def catalogs_list_def catalogs_get_def
    catalogs_update_def catalogs_delete_def ensure_catalog_def Let_def
  by (intro answering assms; simp add: repo_writes finite_keys_commit assms)+

lemma answers_schemas [answering]:
  assumes "finite_keys (ap_ops A)"
  shows "answers (schemas_create A claims creq)" "answers (schemas_list A claims cat mr tok)"
    "answers (schemas_get A name)" "answers (schemas_update A claims name ureq)"
    "answers (schemas_delete A claims name force)"
  unfolding schemas_create_def schemas_list_def schemas_get_def schemas_update_def schemas_delete_def Let_def
  by (intro answering assms; simp add: repo_writes finite_keys_commit assms)+

lemma answers_table_place [answering]:
  assumes "finite_keys (ap_ops A)"
  shows "answers (table_place A claims req i now)"
  unfolding table_place_def commit_staging_def Let_def
  by (cases "ctab_table_type req"; simp split del: if_split; intro answering assms; simp add: repo_writes finite_keys_commit assms)

lemma answers_leaves [answering]:
  "answers (h_table A cat sch leaf)" "answers (h_volume A cat sch leaf)" "answers (h_function A cat sch leaf)"
  "answers (h_model A cat sch leaf)"
  unfolding h_table_def h_volume_def h_function_def h_model_def by (intro answering)+

lemma answers_tables [answering]:
  assumes "finite_keys (ap_ops A)"
  shows "answers (tables_create A claims creq)"
    "answers (tables_list A claims cat sch mr tok)"
    "answers (tables_get A name)" "answers (tables_delete A claims name)"
    "answers (staging_tables_create A claims sreq)"
  unfolding tables_create_def tables_list_def tables_get_def tables_delete_def
    staging_tables_create_def Let_def
  by (intro answering assms; simp add: repo_writes finite_keys_commit assms)+

lemma answers_volumes [answering]:
  assumes "finite_keys (ap_ops A)"
  shows "answers (volumes_create A claims creq)" "answers (volumes_list A claims cat sch mr tok)"
    "answers (volumes_get A name)" "answers (volumes_update A claims name ureq)"
    "answers (volumes_delete A claims name)"
  unfolding volumes_create_def volumes_list_def volumes_get_def volumes_update_def volumes_delete_def
    volume_place_def Let_def
  by (intro answering assms; simp add: repo_writes finite_keys_commit assms)+

lemma answers_functions [answering]:
  assumes "finite_keys (ap_ops A)"
  shows "answers (functions_create A claims creq)" "answers (functions_list A claims cat sch mr tok)"
    "answers (functions_get A name)" "answers (functions_delete A claims name)"
  unfolding functions_create_def functions_list_def functions_get_def functions_delete_def Let_def
  by (intro answering assms; simp add: repo_writes finite_keys_commit assms)+

lemma answers_models [answering]:
  assumes "finite_keys (ap_ops A)"
  shows "answers (models_create A claims creq)" "answers (models_list A claims c d mr tok)"
    "answers (models_get A name)" "answers (models_update A claims name ureq)"
    "answers (models_delete A claims name)"
  unfolding models_create_def models_list_def models_get_def models_update_def models_delete_def
    model_place_def Let_def
  by (intro answering assms; simp add: repo_writes finite_keys_commit assms)+

lemma answers_versions [answering]:
  assumes "finite_keys (ap_ops A)"
  shows "answers (versions_create A claims creq)" "answers (versions_list A name)"
    "answers (versions_get A name ver)" "answers (versions_update A claims name ver ureq)"
    "answers (versions_delete A name ver)" "answers (versions_finalize A name ver freq)"
  unfolding versions_create_def versions_list_def versions_get_def versions_update_def
    versions_delete_def versions_finalize_def Let_def
  by (intro answering assms; simp add: repo_writes finite_keys_commit assms)+

lemma answers_principals [answering]:
  assumes "finite_keys (ap_ops A)"
  shows "answers (credentials_create A claims creq)" "answers (credentials_list A claims mr tok)"
    "answers (credentials_get A claims name)" "answers (credentials_update A claims name ureq)"
    "answers (credentials_delete A claims name)" "answers (locations_create A claims lreq)"
    "answers (locations_list A mr tok)" "answers (locations_get A name)"
    "answers (locations_update A claims name mreq)" "answers (locations_delete A claims name)"
    "answers (metastore_summary_get A)"
  unfolding credentials_create_def credentials_list_def credentials_get_def credentials_update_def
    credentials_delete_def locations_create_def locations_list_def locations_get_def locations_update_def
    locations_delete_def metastore_summary_get_def Let_def
  by (intro answering assms; simp add: repo_writes finite_keys_commit assms)+

lemma answers_provision [answering]: "finite_keys (ap_ops A) \<Longrightarrow> answers (find_or_provision A sub)"
  unfolding find_or_provision_def by (intro answering) (simp add: repo_writes finite_keys_commit)

lemma answers_grants [answering]: "answers (grants_to_assignments A grants)"
  unfolding grants_to_assignments_def assignment_of_def by (intro answering)

lemma answers_resolve [answering]: "answers (resolve_resource_id A type name)"
  unfolding resolve_resource_id_def resolve3_def Let_def by (intro answering)

lemma answers_permissions [answering]:
  assumes "finite_keys (ap_ops A)"
  shows "answers (permissions_get A type name email)" "answers (permissions_update A claims type name req)"
  unfolding permissions_get_def permissions_update_def ensure_manager_def apply_change_def resolve_grantee_def
  by (intro answering assms)+

lemma answers_vend [answering]: "answers (vend A ctx)" "answers (vend_for A url op t)"
  unfolding vend_for_def build_ctx_def vend_def Let_def by (intro answering; simp)+

lemma answers_vending [answering]:
  "answers (table_credentials A claims treq)" "answers (volume_credentials A claims vreq)"
  "answers (model_version_credentials A mreq)" "answers (path_credentials A claims preq)"
  unfolding table_credentials_def volume_credentials_def model_version_credentials_def
    path_credentials_def ensure_vending_def ensure_path_def
  by (intro answering)+

lemma answers_delta_steps [answering]:
  assumes "finite_keys (ap_ops A)"
  shows "answers (h_commits A t starting ending)" "answers (h_latest A t)" "answers (h_insert_commit A row)"
  unfolding h_commits_def h_latest_def h_insert_commit_def
  by (intro answering; simp add: finite_keys_delta assms)+

lemma answers_commits [answering]:
  assumes "finite_keys (ap_ops A)"
  shows "answers (commits_get A name starting ending)" "answers (commits_post A req)"
  unfolding commits_get_def commits_post_def commits_table_def Let_def
  by (intro answering assms)+

lemma answers_catalog_api:
  assumes "finite_keys (ap_ops A)"
  shows "answers (serve_catalog A claims r)"
proof (cases r)
  case (NamespaceApi q) then show ?thesis by (cases q; simp; intro answering assms)
next
  case (AssetApi q) then show ?thesis by (cases q; simp; intro answering assms)
next
  case (ModelApi q) then show ?thesis by (cases q; simp; intro answering assms)
next
  case (PrincipalApi q) then show ?thesis by (cases q; simp; intro answering assms)
next
  case (AccessApi q) then show ?thesis by (cases q; simp; intro answering assms)
qed

lemma answers_users [answering]: "finite_keys (ap_ops A) \<Longrightarrow> answers (h_update_user A i name status)"
    "answers (find_me A claims)"
  unfolding h_update_user_def find_me_def by (intro answering; simp add: repo_writes finite_keys_commit)+

lemma answers_control_api:
  assumes "finite_keys (ap_ops A)"
  shows "answers (serve_control A claims r)"
  by (cases r; simp add: logout_def scim_create_user_def scim_list_users_def scim_get_user_def
      scim_update_user_def scim_delete_user_def scim_patch_user_def scim_get_me_def scim_patch_me_def
      Let_def split del: if_split; intro answering assms; simp add: repo_writes finite_keys_commit assms)

text \<open>
  Marking a commit as backfilled indexes into the stored document, which panics when that is no object;
  a request is then dropped. This is the only call of the program that may not come back.
\<close>

fun marks_backfilled :: "'v delta_table_update \<Rightarrow> bool" where
  "marks_backfilled (SetLatestBackfilledVersion _) = True"
| "marks_backfilled _ = False"

fun may_panic :: "'v route \<Rightarrow> bool" where
  "may_panic (DeltaApi (DeltaPostTable _ _ _ req)) = list_ex marks_backfilled (dur_updates req)"
| "may_panic _ = False"

lemma answers_update:
  assumes "finite_keys (ap_ops A)" "\<not> marks_backfilled u"
  shows "answers (apply_update A t now latest u)"
  using assms(2)
  by (cases u; simp split del: if_split; intro answering assms; simp add: repo_writes finite_keys_commit assms)

lemma answers_updates:
  assumes "finite_keys (ap_ops A)" "\<not> list_ex marks_backfilled us"
  shows "answers (apply_updates A t now latest us)"
  using assms(2)
  by (induction us arbitrary: latest) (auto intro!: answering answers_update assms(1))

lemma answers_delta_vend [answering]: "answers (delta_vend A url t)"
  unfolding delta_vend_def by (intro answering)

lemma answers_delta_api:
  assumes "finite_keys (ap_ops A)" "\<not> may_panic (DeltaApi r)"
  shows "answers (serve_delta A claims r)"
  using assms(2)
  by (cases r; simp add: delta_config_def delta_create_staging_table_def delta_create_table_def
      delta_load_table_def delta_table_exists_def delta_update_table_def delta_delete_table_def
      delta_rename_table_def delta_report_metrics_def delta_table_credentials_def
      delta_staging_credentials_def delta_path_credentials_def Let_def split del: if_split;
      intro answering answers_updates assms; simp add: repo_writes finite_keys_commit assms)

lemma serve_answers:
  "finite_keys (ap_ops A) \<Longrightarrow> \<not> may_panic r \<Longrightarrow> answers (serve A claims r)"
  by (cases r) (simp_all add: answers_catalog_api answers_control_api answers_delta_api)

lemma finite_keys_memory [simp]: "finite_keys (truncating_ops pg)"
proof -
  have "\<exists>K. finite K \<and> (\<forall>p a ks. op_list_after (truncating_ops pg) p a l = Inr ks \<longrightarrow> set ks \<subseteq> K)" for l
    by (rule exI [of _ "set (map fst (objects l))"]) (auto simp: truncating_ops_def
        truncating_list_after_def memory_list_after_def dest: in_set_takeD)
  then show ?thesis by (simp add: finite_keys_def)
qed

end
