(* ===== verification/ApiSamples.thy ===== *)
theory ApiSamples
  imports ApiQuiet ApiAnswers RepoProperties DeltaProperties
begin

text \<open>
  A concrete server: the sample codecs, an authorizer that keeps a list of grants, clocks that stand
  still, and a state with a catalog, a schema, a table and an administrator. The witnesses of the
  properties of the API apply them here.
\<close>

type_synonym sample_grants = "(uuid \<times> uuid \<times> privilege) list"

definition sample_authorizer :: "('s \<times> sample_grants) authorizer" where
  "sample_authorizer =
     \<lparr>au_authorize = (\<lambda>who i p (_, g). Inr ((who, i, p) \<in> set g)),
      au_authorize_any = (\<lambda>who i ps (_, g). Inr (\<exists>p \<in> set ps. (who, i, p) \<in> set g)),
      au_grant = (\<lambda>who i p (s, g). (Inr (), s, (who, i, p) # g)),
      au_revoke = (\<lambda>who i p (s, g). (Inr (), s, filter (\<lambda>x. x \<noteq> (who, i, p)) g)),
      au_add_hierarchy_child = (\<lambda>_ _ x. (Inr (), x)),
      au_remove_hierarchy_children = (\<lambda>_ x. (Inr (), x)),
      au_list_privileges = (\<lambda>who i (_, g).
        Inr (map (\<lambda>(_, _, p). p) (filter (\<lambda>(w, j, _). w = who \<and> j = i) g))),
      au_list_grants_on_resource = (\<lambda>i (_, g).
        Inr (map (\<lambda>(w, _, p). (w, [p])) (filter (\<lambda>(_, j, _). j = i) g)))\<rparr>"

definition sample_cloud :: cloud where
  "sample_cloud = \<lparr>cl_aws = True,
     cl_assume_role = (\<lambda>role _. Inr (Some \<lparr>sts_access_key_id = ''key'', sts_secret_access_key = ''secret'',
       sts_session_token = role, sts_expiration = ''soon'', sts_expiration_ms = Some 3600000\<rparr>)),
     cl_presign = (\<lambda>_ _ _ _ _ _. None), cl_var = (\<lambda>_. None), cl_rfc3339 = (\<lambda>_. Some 3600000)\<rparr>"

definition sample_role :: "(aws_iam_role_request, string) codec" where
  "sample_role = \<lparr>enc = (\<lambda>_. Inl ''unlisted''), dec = (\<lambda>_. Inl ''unlisted'')\<rparr>"

definition sample_api :: "row line list \<Rightarrow> bool \<Rightarrow> (row, json, memory_log, sample_grants) delta_api" where
  "sample_api lines auth =
     api.extend
       (delta_env.extend
         (log_env.extend (sample_env lines [])
           (delta_env.fields (table_codec [sample_commit, backfilled sample_commit])
             (table_codec [commit_value sample_commit, commit_value (backfilled sample_commit)])
             json_get json_assign JBool commit_value))
         (api.fields (truncating_ops (Suc 1)) sample_authorizer 7 auth (\<lambda>_ s. s) (\<lambda>_. sample_world)
           (\<lambda>_. 0) (\<lambda>_. 0) (\<lambda>_. sample_cloud) (\<lambda>_ _ _. 1) (\<lambda>_. None) (\<lambda>_. None) (\<lambda>_. None)
           sample_role (\<lambda>_. Inl ''unlisted'')))
       (delta_api.fields (\<lambda>_. Inl ''unlisted'') (\<lambda>_. Inl ''unlisted'') (\<lambda>_. Inl ''unlisted'') (\<lambda>_ _ _. JNull) id)"

lemma sample_api_simps [simp]:
  "uuid_text (sample_api lines auth) = uuid_display"
  "ap_ops (sample_api lines auth) = truncating_ops (Suc 1)"
  "ap_authorizer (sample_api lines auth) = sample_authorizer"
  "ap_metastore_id (sample_api lines auth) = 7"
  "ap_auth_enabled (sample_api lines auth) = auth"
  "ap_between (sample_api lines auth) = (\<lambda>_ s. s)"
  "ap_world (sample_api lines auth) = (\<lambda>_. sample_world)"
  "ap_now (sample_api lines auth) = (\<lambda>_. 0)"
  "ap_uuid (sample_api lines auth) = (\<lambda>_ _ _. 1)"
  by (simp_all add: sample_api_def log_env.defs delta_env.defs api.defs delta_api.defs sample_env_def)

lemma sample_quiet [simp]: "quiet (sample_api lines auth)"
  by (simp add: quiet_def)

definition sample_table :: table_row where
  "sample_table = \<lparr>tab_id = 4, tab_schema_id = 2, tab_name = ''t'', tab_type = ''EXTERNAL'', tab_owner = None,
     tab_created_at = 0, tab_created_by = None, tab_updated_at = None, tab_updated_by = None,
     tab_data_source_format = Some ''DELTA'', tab_comment = None, tab_url = Some ''s3://b/t'',
     tab_column_count = None, tab_view_definition = None, tab_uniform_iceberg_metadata_location = None,
     tab_uniform_iceberg_converted_delta_version = None,
     tab_uniform_iceberg_converted_delta_timestamp = None\<rparr>"

definition sample_admin :: user_row where
  "sample_admin = \<lparr>usr_id = 6, usr_name = ''root'', usr_email = Some ''root'', usr_external_id = None,
     usr_state = Some ''DISABLED'', usr_created_at = None, usr_updated_at = None, usr_picture_url = None\<rparr>"

definition api_tree :: snapshot where
  "api_tree = upsert_row sample (upsert_row sample sample_tree EkTable 4 (RowTable sample_table))
     EkUser 6 (RowUser sample_admin)"

definition sample_app :: "(memory_log, sample_grants) app" where
  "sample_app = \<lparr>app_store = \<lparr>log = memory_new, state = api_tree\<rparr>, app_hints = Map.empty,
     app_cache = Map.empty, app_authz = [(6, 7, Owner), (6, 4, Select)]\<rparr>"

definition sample_claims :: uc_claims where
  "sample_claims = \<lparr>clm_sub = ''root'', clm_iss = ''i'', clm_iat = 0, clm_jti = ''j'', clm_token_type = TokService\<rparr>"

lemma snap_get_api_tree:
  "snap_get api_tree k i =
     (if k = EkUser \<and> i = 6 then Some (RowUser sample_admin)
      else if k = EkTable \<and> i = 4 then Some (RowTable sample_table) else snap_get sample_tree k i)"
  by (simp add: api_tree_def)

text \<open>The invariant of the state reads nothing of the environment but the texts of ids.\<close>

lemma natural_key_for_cong: "uuid_text E = uuid_text E' \<Longrightarrow> natural_key_for E r = natural_key_for E' r"
  by (cases r) (simp_all add: child_key_def)

lemma snap_ok_cong: "uuid_text E = uuid_text E' \<Longrightarrow> snap_ok E s = snap_ok E' s"
proof -
  assume "uuid_text E = uuid_text E'"
  then have "nk_of E s k i = nk_of E' s k i" for k i
    using natural_key_for_cong [of E E'] by (auto simp: nk_of_def split: option.split)
  then show ?thesis by (simp add: snap_ok_def index_ok_def)
qed

lemma api_tree_ok: "snap_ok (sample_api lines auth) api_tree"
proof -
  have free: "get_by_natural_key s k nk = None"
    if "snap_ok sample s" "\<And>i r. snap_get s k i = Some r \<Longrightarrow> natural_key_for sample r \<noteq> Some nk" for s k nk
    using that(2) id_by_natural_key_iff [OF that(1), of k nk]
    by (auto simp: get_by_natural_key_None [OF that(1)]) (metis not_Some_eq)
  let ?s1 = "upsert_row sample sample_tree EkTable 4 (RowTable sample_table)"
  have 1: "snap_ok sample ?s1"
    using table.upsert_new [OF sample_tree_ok free [OF sample_tree_ok], of sample_table]
    by (intro snap_ok_upsert [OF sample_tree_ok]) (simp add: snap_get_sample_tree sample_table_def)
  have root: "get_by_natural_key ?s1 EkUser ''root'' = None"
    by (rule free [OF 1]) (auto simp: snap_get_sample_tree sample_user_def split: if_splits)
  have "snap_ok sample api_tree"
    using user.upsert_new [OF 1, of sample_admin] root unfolding api_tree_def
    by (intro snap_ok_upsert [OF 1]) (simp add: sample_admin_def)
  then show ?thesis
    by (simp add: snap_ok_cong [of sample "sample_api lines auth"])
qed

text \<open>What the state holds.\<close>

lemma api_tree_key:
  "get_by_natural_key api_tree k nk = Some r \<longleftrightarrow>
   (\<exists>i. snap_get api_tree k i = Some r \<and> natural_key_for (sample_api [] True) r = Some nk)"
  using get_by_natural_key_iff [OF api_tree_ok] by simp

lemma api_tree_catalog: "catalog_get_by_name api_tree ''main'' = Inr sample_catalog"
proof -
  have "get_by_natural_key api_tree EkCatalog ''main'' = Some (RowCatalog sample_catalog)"
    by (auto simp: api_tree_key snap_get_api_tree snap_get_sample_tree) (simp add: sample_catalog_def)
  then show ?thesis by (simp add: catalog_get_by_name_def ok_or_def catalog_of_def)
qed

lemma api_tree_schema: "schema_get_by_full_name (sample_api lines auth) api_tree ''main'' ''s'' = Inr sample_schema"
proof -
  have "get_by_natural_key api_tree EkSchema (child_key (sample_api lines auth) 1 ''s'') = Some (RowSchema sample_schema)"
    by (auto simp: api_tree_key snap_get_api_tree snap_get_sample_tree) (simp add: sample_schema_def child_key_def)
  then show ?thesis
    using api_tree_catalog by (auto simp: schema_get_by_full_name_def catalog_get_by_name_def ok_or_def rbind_eq_Inr
        sample_catalog_def schema_of_def split: option.splits)
qed

lemma api_tree_caller: "caller_of api_tree ''root'' = Inr sample_admin"
proof -
  have "snap_iter api_tree EkUser = [RowUser sample_user, RowUser sample_admin]"
    by (simp add: snap_iter_def api_tree_def sample_tree_def kind_table_upsert)
      (simp add: kind_table_def sample_state_def)
  then show ?thesis
    by (simp add: caller_of_def user_get_by_email_def first_where_def user_of_def) (simp add: sample_admin_def sample_user_def)
qed

end
