(* ===== verification/ApiProperties.thy ===== *)
theory ApiProperties
  imports ApiSamples
begin

text \<open>
  Properties of the API: who may change what, that every request is answered, what listings show, how
  names and errors are read.
\<close>

section \<open>Authorization\<close>

text \<open>
  C3: However the requests of the process interleave: if a request on a guarded route succeeds, or fails
  and leaves anything different from what the others alone would have left, then at an earlier step, on
  a state it had not touched yet, the caller was resolved to a user and the authorizer allowed that user
  the privilege the route asks for on the object it names; so also credentials are vended to nobody
  else. A route that only reads changes nothing at all.
\<close>

lemma changes_authorised:
  assumes "\<not> unguarded r" "serve A claims r (s, n) = Some (x, (s', n'))"
  shows "s' = drift A s n n' \<and> (reading r \<or> (\<exists>e. x = Inl e)) \<or>
    \<not> reading r \<and> cleared A s n claims r n'"
proof (cases "reading r")
  case True
  with serve_still [OF True, of A s n n claims] assms(2) show ?thesis by (auto simp: looks_def)
next
  case False
  with serve_guarded [OF assms(1) False, of A s n claims] assms(2) show ?thesis by (auto simp: guarded_def)
qed

definition sample_grant_request :: "json route" where
  "sample_grant_request = CatalogApi (PrincipalApi (PatchPermissions ''METASTORE'' ''m''
     \<lparr>upd_changes = [\<lparr>pac_principal = ''root'', pac_add = [''SELECT''], pac_remove = []\<rparr>]\<rparr>))"

lemma api_tree_root: "user_get_by_email api_tree ''root'' = Inr (Some sample_admin)"
proof -
  have "snap_iter api_tree EkUser = [RowUser sample_user, RowUser sample_admin]"
    by (simp add: snap_iter_def api_tree_def sample_tree_def kind_table_upsert)
      (simp add: kind_table_def sample_state_def)
  then show ?thesis
    by (simp add: user_get_by_email_def first_where_def user_of_def) (simp add: sample_admin_def sample_user_def)
qed

lemma sample_grant_runs:
  "\<exists>x n'. serve (sample_api [] True) sample_claims sample_grant_request (sample_app, 0) =
     Some (x, (sample_app\<lparr>app_authz := (6, 7, Select) # app_authz sample_app\<rparr>, n'))"
proof -
  let ?A = "sample_api [] True"
  let ?s = "sample_app\<lparr>app_authz := (6, 7, Select) # app_authz sample_app\<rparr>"
  have user: "get_user ?A ''root'' (sample_app, n) = Some (Inr sample_admin, (sample_app, Suc n))" for n
    by (simp add: get_user_def quiet_steps sample_app_def api_tree_root)
  have manager: "\<exists>k. ensure_manager ?A sample_claims 7 (sample_app, n) = Some (Inr (), (sample_app, k))" for n
    by (simp add: ensure_manager_def h_when_def sample_claims_def quiet_steps user h_authorize_def)
      (simp add: sample_app_def authz_state_def sample_authorizer_def sample_admin_def quiet_steps)
  have grant: "\<exists>k. apply_change ?A 7 \<lparr>pac_principal = ''root'', pac_add = [''SELECT''], pac_remove = []\<rparr> (sample_app, n) =
      Some (Inr (), (?s, k))" for n
    by (simp add: apply_change_def resolve_grantee_def quiet_steps sample_app_def api_tree_root parse_privilege_def
        ok_or_def from_casbin_str_def h_tell_def)
      (simp add: sample_authorizer_def authz_state_def sample_admin_def quiet_steps)
  have rest: "\<exists>ys k. grants_to_assignments ?A gs (?s, n) = Some (Inr ys, (?s, k))" for gs n
    unfolding grants_to_assignments_def
  proof (induction gs arbitrary: n)
    case (Cons g gs)
    obtain ys k where "h_map (assignment_of ?A) gs (?s, Suc n) = Some (Inr ys, (?s, k))"
      using Cons [of "Suc n"] by blast
    moreover have "\<exists>y. assignment_of ?A g (?s, n) = Some (Inr y, (?s, Suc n))"
      by (cases g) (simp add: assignment_of_def quiet_steps)
    ultimately show ?case by (auto simp: quiet_steps)
  qed (simp add: quiet_steps)
  have upper_metastore: "to_uppercase_ascii ''METASTORE'' = ''METASTORE''"
    by (simp add: to_uppercase_ascii.simps upper_special_def upper_byte_def byte_def)
  obtain k where k: "ensure_manager ?A sample_claims 7 (sample_app, 0) = Some (Inr (), (sample_app, k))"
    using manager by blast
  obtain j where j: "apply_change ?A 7 \<lparr>pac_principal = ''root'', pac_add = [''SELECT''], pac_remove = []\<rparr>
      (sample_app, k) = Some (Inr (), (?s, j))"
    using grant by blast
  obtain gs where gs: "au_list_grants_on_resource sample_authorizer 7 (authz_state ?s) = Inr gs"
    by (simp add: sample_authorizer_def authz_state_def)
  obtain ys l where "grants_to_assignments ?A gs (?s, Suc j) = Some (Inr ys, (?s, l))"
    using rest by blast
  with k j gs show ?thesis
    by (simp add: sample_grant_request_def h_then_def permissions_update_def resolve_resource_id_def
        upper_metastore quiet_steps)
qed

lemma changes_authorised_witness:
  "\<exists>x n'. serve (sample_api [] True) sample_claims sample_grant_request (sample_app, 0) =
      Some (x, (sample_app\<lparr>app_authz := (6, 7, Select) # app_authz sample_app\<rparr>, n')) \<and>
    cleared (sample_api [] True) sample_app 0 sample_claims sample_grant_request n'"
proof -
  obtain x n' where run: "serve (sample_api [] True) sample_claims sample_grant_request (sample_app, 0) =
      Some (x, (sample_app\<lparr>app_authz := (6, 7, Select) # app_authz sample_app\<rparr>, n'))"
    using sample_grant_runs by blast
  have "\<not> unguarded sample_grant_request" by (simp add: sample_grant_request_def)
  from changes_authorised [OF this run] have "cleared (sample_api [] True) sample_app 0 sample_claims sample_grant_request n'"
    by (auto dest: arg_cong [where f = app_authz])
  with run show ?thesis by blast
qed

section \<open>Answers\<close>



section \<open>Errors\<close>

text \<open>
  Errors of the Delta API never have the shape \<open>inject_delta_format\<close> asks for: whatever the route,
  an error is written in the shape of the catalog API, with its status.
\<close>

lemma delta_errors_misformatted:
  "respond A claims r m = Some (Inl resp, m') \<Longrightarrow>
   \<exists>e. serve A claims r m = Some (Inl e, m') \<and> resp = error_into_response e FormatCatalog \<and>
     (route_format r = FormatDelta \<longrightarrow> resp \<noteq> error_into_response e (route_format r))"
proof -
  assume "respond A claims r m = Some (Inl resp, m')"
  then obtain x where "serve A claims r m = Some (x, m')" "map_err uc_error_into_response x = Inl resp"
    by (auto simp: respond_def)
  then show ?thesis
    by (cases x) (auto simp: map_err_def uc_error_into_response_def)
qed

section \<open>Listings\<close>

lemma page_size_limit: "0 < m \<Longrightarrow> m \<le> 1000 \<Longrightarrow> page_size (Some m) = m"
  by (simp add: page_size_def)

text \<open>
  C9: A client that follows the page tokens of a listing endpoint gets exactly the objects the caller
  has the viewing privilege on, each once and in name order: hiding rows neither loses a later page nor
  ends the listing early. Tables and models are shown to those who may select, volumes to those who may
  read them, functions to those who may execute them, schemas to those who may use them.
\<close>

lemma visible_listings_complete:
  assumes "quiet A" "ap_auth_enabled A" "g = state (app_store s)" "caller_of g (clm_sub claims) = Inr u"
    and may: "\<And>i p. au_authorize (ap_authorizer A) (usr_id u) i p (authz_state s) = Inr (may i p)"
    and "snap_ok A g" "uuid_text_ok (uuid_text A)" "0 < m" "m \<le> 1000" "length (by_natural_key g) < fuel"
    and "schema_get_by_full_name A g cat sch = Inr schema" "catalog_get_by_name g cat = Inr catalog"
  shows "walk_ok (\<lambda>t. page_of lsch_schemas lsch_next_page_token (schemas_list A claims cat (Some m) t) (s, n))
      fuel sci_name (\<lambda>x. \<exists>r. (snap_get g EkSchema (sch_id r) = Some (RowSchema r) \<and>
        sch_catalog_id r = cat_id catalog) \<and> may (sch_id r) UseSchema \<and> x = to_schema_info r (cat_name catalog) None) \<and>
    walk_ok (\<lambda>t. page_of ltab_tables ltab_next_page_token (tables_list A claims cat sch (Some m) t) (s, n))
      fuel tbi_name (\<lambda>x. \<exists>r. (snap_get g EkTable (tab_id r) = Some (RowTable r) \<and>
        tab_schema_id r = sch_id schema) \<and> may (tab_id r) Select \<and> x = to_table_info r cat sch None None) \<and>
    walk_ok (\<lambda>t. page_of lvol_volumes lvol_next_page_token (volumes_list A claims cat sch (Some m) t) (s, n))
      fuel vli_name (\<lambda>x. \<exists>r. (snap_get g EkVolume (vol_id r) = Some (RowVolume r) \<and>
        vol_schema_id r = sch_id schema) \<and> may (vol_id r) ReadVolume \<and> x = to_volume_info r cat sch None) \<and>
    walk_ok (\<lambda>t. page_of lfun_functions lfun_next_page_token (functions_list A claims cat sch (Some m) t) (s, n))
      fuel fni_name (\<lambda>x. \<exists>r. (snap_get g EkFunction (fn_id r) = Some (RowFunction r) \<and>
        fn_schema_id r = sch_id schema) \<and> may (fn_id r) Execute \<and> x = to_function_info r cat sch [] None) \<and>
    walk_ok (\<lambda>t. page_of lmod_registered_models lmod_next_page_token
        (models_list A claims (Some cat) (Some sch) (Some m) t) (s, n))
      fuel rmi_name (\<lambda>x. \<exists>r. (snap_get g EkRegisteredModel (mdl_id r) = Some (RowRegisteredModel r) \<and>
        mdl_schema_id r = sch_id schema) \<and> may (mdl_id r) Select \<and> x = to_model_info r cat sch None)"
proof -
  have m: "page_size (Some m) = m" "m \<le> i64_max"
    using assms(8,9) by (simp_all add: page_size_limit i64_max_def)
  note walks = child_listings_complete [OF assms(6,7,8) m(2) assms(10)]
  note walk = quiet_child_walk [OF assms(1,2,4,3) may]
  show ?thesis
    unfolding schemas_list_def tables_list_def volumes_list_def functions_list_def models_list_def
      h_schema_def or_empty_def Let_def option.case m(1)
    apply (intro conjI)
    apply (rule walk [where parent = "\<lambda>g. catalog_get_by_name g cat" and list = "\<lambda>g x t. schema_list A g (cat_id x) t m" and ident = sch_id and
        reply = "\<lambda>x rows next. \<lparr>lsch_schemas = map (\<lambda>r. to_schema_info r (cat_name x) None) rows,
          lsch_next_page_token = next\<rparr>", OF assms(12)
        walks [of "cat_id catalog", THEN conjunct1]]; simp add: to_schema_info_def)
    apply (rule walk [where parent = "\<lambda>g. schema_get_by_full_name A g cat sch" and list = "\<lambda>g x t. table_list A g (sch_id x) t m" and ident = tab_id and
        reply = "\<lambda>_ rows next. \<lparr>ltab_tables = map (\<lambda>r. to_table_info r cat sch None None) rows,
          ltab_next_page_token = next\<rparr>", OF assms(11)
        walks [of "sch_id schema", THEN conjunct2, THEN conjunct1]]; simp add: to_table_info_def)
    apply (rule walk [where parent = "\<lambda>g. schema_get_by_full_name A g cat sch" and list = "\<lambda>g x t. volume_list A g (sch_id x) t m" and ident = vol_id and
        reply = "\<lambda>_ rows next. \<lparr>lvol_volumes = map (\<lambda>r. to_volume_info r cat sch None) rows,
          lvol_next_page_token = next\<rparr>", OF assms(11)
        walks [of "sch_id schema", THEN conjunct2, THEN conjunct2, THEN conjunct1]]; simp add: to_volume_info_def)
    apply (rule walk [where parent = "\<lambda>g. schema_get_by_full_name A g cat sch" and list = "\<lambda>g x t. function_list A g (sch_id x) t m" and ident = fn_id and
        reply = "\<lambda>_ rows next. \<lparr>lfun_functions = map (\<lambda>r. to_function_info r cat sch [] None) rows,
          lfun_next_page_token = next\<rparr>", OF assms(11)
        walks [of "sch_id schema", THEN conjunct2, THEN conjunct2, THEN conjunct2, THEN conjunct1]]; simp add: to_function_info_def)
    apply (rule walk [where parent = "\<lambda>g. schema_get_by_full_name A g cat sch" and list = "\<lambda>g x t. list_models A g (sch_id x) t m" and ident = mdl_id and
        reply = "\<lambda>_ rows next. \<lparr>lmod_registered_models = map (\<lambda>r. to_model_info r cat sch None) rows,
          lmod_next_page_token = next\<rparr>", OF assms(11)
        walks [of "sch_id schema", THEN conjunct2, THEN conjunct2, THEN conjunct2, THEN conjunct2]]; simp add: to_model_info_def)
    done
qed

lemma sample_may:
  "au_authorize (ap_authorizer (sample_api [] True)) (usr_id sample_admin) i p (authz_state sample_app) =
    Inr ((i, p) \<in> {(7, Owner), (4, Select)})"
  by (auto simp: sample_authorizer_def authz_state_def sample_app_def sample_admin_def)

lemma visible_listings_complete_witness:
  "walk_ok (\<lambda>t. page_of ltab_tables ltab_next_page_token
      (tables_list (sample_api [] True) sample_claims ''main'' ''s'' (Some 1) t) (sample_app, 0))
    (Suc (length (by_natural_key api_tree))) tbi_name
    (\<lambda>x. \<exists>r. (snap_get api_tree EkTable (tab_id r) = Some (RowTable r) \<and> tab_schema_id r = sch_id sample_schema) \<and>
      (tab_id r, Select) \<in> {(7, Owner), (4, Select)} \<and> x = to_table_info r ''main'' ''s'' None None)"
proof -
  have "api_tree = state (app_store sample_app)" by (simp add: sample_app_def)
  moreover have "caller_of api_tree (clm_sub sample_claims) = Inr sample_admin"
    by (simp add: sample_claims_def api_tree_caller)
  ultimately show ?thesis
    using visible_listings_complete [OF sample_quiet _ _ _ sample_may api_tree_ok, of sample_claims 1
        "Suc (length (by_natural_key api_tree))" "''main''" "''s''" sample_schema sample_catalog 0]
    by (simp add: uuid_display_ok api_tree_schema api_tree_catalog)
qed

section \<open>Deletes\<close>

text \<open>Something is in a schema.\<close>

definition occupied :: "snapshot \<Rightarrow> uuid \<Rightarrow> bool" where
  "occupied g i \<longleftrightarrow>
     (\<exists>r. snap_get g EkTable (tab_id r) = Some (RowTable r) \<and> tab_schema_id r = i) \<or>
     (\<exists>r. snap_get g EkVolume (vol_id r) = Some (RowVolume r) \<and> vol_schema_id r = i) \<or>
     (\<exists>r. snap_get g EkFunction (fn_id r) = Some (RowFunction r) \<and> fn_schema_id r = i) \<or>
     (\<exists>r. snap_get g EkRegisteredModel (mdl_id r) = Some (RowRegisteredModel r) \<and> mdl_schema_id r = i)"

lemma quiet_ensured:
  assumes "quiet A" "ap_auth_enabled A \<Longrightarrow> caller_of (state (app_store s)) (clm_sub claims) = Inr u \<and>
      au_authorize (ap_authorizer A) (usr_id u) i p (authz_state s) = Inr True"
  shows "\<exists>k. ensure A claims i p (s, n) = Some (Inr (), (s, k))"
    "\<exists>k. ensure_catalog A claims i p msg (s, n) = Some (Inr (), (s, k))"
proof -
  obtain j where "get_user A (clm_sub claims) (s, n) = Some (caller_of (state (app_store s)) (clm_sub claims), (s, j))"
    using quiet_get_user [OF assms(1)] by blast
  then show "\<exists>k. ensure A claims i p (s, n) = Some (Inr (), (s, k))"
    "\<exists>k. ensure_catalog A claims i p msg (s, n) = Some (Inr (), (s, k))"
    using assms(2) by (auto simp: ensure_def ensure_catalog_def h_when_def require_def h_authorize_def
        quiet_steps assms(1))
qed

text \<open>
  C19: Without force, deleting a catalog that has a schema, or a schema that has a table, a volume, a
  function or a model, is refused with the error that says so, and nothing at all is changed.
\<close>

lemma nonempty_refused:
  assumes "quiet A" "g = state (app_store s)" "snap_ok A g" "uuid_text_ok (uuid_text A)" "force \<noteq> Some True"
    and auth: "\<And>i. ap_auth_enabled A \<Longrightarrow> caller_of g (clm_sub claims) = Inr u \<and>
      au_authorize (ap_authorizer A) (usr_id u) i Owner (authz_state s) = Inr True"
  shows "(catalog_get_by_name g name = Inr c \<and> snap_get g EkSchema (sch_id x) = Some (RowSchema x) \<and>
      sch_catalog_id x = cat_id c \<longrightarrow>
      (\<exists>k. catalogs_delete A claims name force (s, n) = Some (Inl (not_empty ''Catalog'' name), (s, k)))) \<and>
    (split2 path = Inr (cat, sch) \<and> schema_get_by_full_name A g cat sch = Inr y \<and> occupied g (sch_id y) \<longrightarrow>
      (\<exists>k. schemas_delete A claims path force (s, n) = Some (Inl (not_empty ''Schema'' path), (s, k))))"
proof (intro conjI impI; elim conjE)
  assume c: "catalog_get_by_name g name = Inr c" "snap_get g EkSchema (sch_id x) = Some (RowSchema x)"
    "sch_catalog_id x = cat_id c"
  obtain rows nxt where "schema_list A g (cat_id c) None 1 = Inr (rows, nxt)" "rows \<noteq> []"
    using schema.child_probe [OF assms(3,4) schema_list_def, of "cat_id c"] c by blast
  moreover obtain k where "ensure_catalog A claims (cat_id c) Owner
      ''OWNER privilege required on catalog'' (s, Suc n) = Some (Inr (), (s, k))"
    using quiet_ensured(2) [OF assms(1)] auth assms(2) by blast
  ultimately show "\<exists>k. catalogs_delete A claims name force (s, n) = Some (Inl (not_empty ''Catalog'' name), (s, k))"
    using assms(2,5) c(1)
    by (auto simp: catalogs_delete_def h_when_def quiet_steps assms(1) Let_def split: option.split)
next
  assume c: "split2 path = Inr (cat, sch)" "schema_get_by_full_name A g cat sch = Inr y" "occupied g (sch_id y)"
  obtain ts a where ts: "table_list A g (sch_id y) None 1 = Inr (ts, a)"
      "ts = [] \<longleftrightarrow> \<not> (\<exists>r. snap_get g EkTable (tab_id r) = Some (RowTable r) \<and> tab_schema_id r = sch_id y)"
    using table.child_probe [OF assms(3,4) table_list_def, of "sch_id y"] by blast
  obtain vs b where vs: "volume_list A g (sch_id y) None 1 = Inr (vs, b)"
      "vs = [] \<longleftrightarrow> \<not> (\<exists>r. snap_get g EkVolume (vol_id r) = Some (RowVolume r) \<and> vol_schema_id r = sch_id y)"
    using volume.child_probe [OF assms(3,4) volume_list_def, of "sch_id y"] by blast
  obtain fs d where fs: "function_list A g (sch_id y) None 1 = Inr (fs, d)"
      "fs = [] \<longleftrightarrow> \<not> (\<exists>r. snap_get g EkFunction (fn_id r) = Some (RowFunction r) \<and> fn_schema_id r = sch_id y)"
    using fn.child_probe [OF assms(3,4) function_list_def, of "sch_id y"] by blast
  obtain ms e where ms: "list_models A g (sch_id y) None 1 = Inr (ms, e)"
      "ms = [] \<longleftrightarrow> \<not> (\<exists>r. snap_get g EkRegisteredModel (mdl_id r) = Some (RowRegisteredModel r) \<and> mdl_schema_id r = sch_id y)"
    using model.child_probe [OF assms(3,4) list_models_def, of "sch_id y"] by blast
  from c(3) have found: "ts \<noteq> [] \<or> vs \<noteq> [] \<or> fs \<noteq> [] \<or> ms \<noteq> []"
    by (simp add: occupied_def ts(2) vs(2) fs(2) ms(2))
  obtain k where "ensure A claims (sch_id y) Owner (s, Suc n) = Some (Inr (), (s, k))"
    using quiet_ensured(1) [OF assms(1)] auth assms(2) by blast
  with ts(1) vs(1) fs(1) ms(1) found show "\<exists>k. schemas_delete A claims path force (s, n) = Some (Inl (not_empty ''Schema'' path), (s, k))"
    using assms(2,5) c(1,2)
    by (auto simp: schemas_delete_def h_schema_def h_when_def quiet_steps assms(1) Let_def split: option.split)
qed

lemma nonempty_refused_witness:
  "\<exists>k. catalogs_delete (sample_api [] False) sample_claims ''main'' None (sample_app, 0) =
    Some (Inl (not_empty ''Catalog'' ''main''), (sample_app, k))"
proof -
  have "api_tree = state (app_store sample_app)" by (simp add: sample_app_def)
  moreover have "snap_get api_tree EkSchema (sch_id sample_schema) = Some (RowSchema sample_schema)"
    "sch_catalog_id sample_schema = cat_id sample_catalog"
    by (simp_all add: snap_get_api_tree snap_get_sample_tree sample_schema_def sample_catalog_def)
  ultimately show ?thesis
    using nonempty_refused [where A = "sample_api [] False" and s = sample_app and g = api_tree and force = None
        and claims = sample_claims and u = sample_admin and name = "''main''" and c = sample_catalog and
        x = sample_schema and n = 0, OF sample_quiet _ api_tree_ok] api_tree_catalog
    by (simp add: uuid_display_ok)
qed

section \<open>Names\<close>

text \<open>A byte below 128 in what one character takes is that character.\<close>

lemma utf8_step_ascii:
  "utf8_step xs = Some (c, n) \<Longrightarrow> b \<in> set (take n xs) \<Longrightarrow> b < 128 \<Longrightarrow> c = b"
  by (auto simp: utf8_step_def utf8_cont_def split: list.splits if_splits)

lemma name_chars_ascii:
  "c \<in> set s \<Longrightarrow> byte c < 128 \<Longrightarrow> \<exists>ch. (byte c, ch) \<in> set (name_chars s)"
proof (induction s rule: name_chars.induct)
  case (1 s)
  obtain d r where s: "s = d # r" using 1(3) by (cases s) auto
  show ?case
  proof (cases "utf8_step (map byte s)")
    case None
    with 1 s show ?thesis by (subst name_chars.simps) auto
  next
    case (Some p)
    obtain cp n where p: "utf8_step (map byte s) = Some (cp, n)" using Some by (cases p) simp
    have "c \<in> set (take n s) \<or> c \<in> set (drop n s)"
      using 1(3) by (metis append_take_drop_id set_append Un_iff)
    then show ?thesis
    proof
      assume "c \<in> set (take n s)"
      then have "byte c \<in> set (take n (map byte s))" by (simp add: take_map)
      from utf8_step_ascii [OF p this 1(4)] p s show ?thesis by (subst name_chars.simps) auto
    next
      assume "c \<in> set (drop n s)"
      then have "\<exists>ch. (byte c, ch) \<in> set (name_chars (drop n s))"
        using 1(2) [OF s p refl] 1(4) by blast
      with p s show ?thesis by (subst name_chars.simps) auto
    qed
  qed
qed

lemma valid_name_no_dot: "validate_sql_name name = Inr () \<Longrightarrow> CHR ''.'' \<notin> set name"
proof
  assume ok: "validate_sql_name name = Inr ()" and dot: "CHR ''.'' \<in> set name"
  have "byte (CHR ''.'') = 46" by (simp add: byte_def)
  with name_chars_ascii [OF dot] obtain ch where "(46, ch) \<in> set (name_chars name)" by auto
  moreover from ok have "find (\<lambda>(cp, _). bad_name_char cp) (name_chars name) = None"
    by (auto simp: validate_sql_name_def split: if_splits option.splits)
  ultimately show False by (auto simp: find_None_iff bad_name_char_def)
qed

lemma dot_split_eq: "dot_split s = (a, Some b) \<longleftrightarrow> s = a @ ''.'' @ b \<and> CHR ''.'' \<notin> set a"
proof
  assume "dot_split s = (a, Some b)"
  then obtain c where c: "a = takeWhile (\<lambda>c. c \<noteq> CHR ''.'') s" "dropWhile (\<lambda>c. c \<noteq> CHR ''.'') s = c # b"
    by (auto simp: dot_split_def split: list.splits)
  moreover have "c = CHR ''.''" using c(2) by (auto simp: dropWhile_eq_Cons_conv)
  ultimately show "s = a @ ''.'' @ b \<and> CHR ''.'' \<notin> set a"
    using takeWhile_dropWhile_id [of "\<lambda>c. c \<noteq> CHR ''.''" s] by (auto dest: set_takeWhileD)
next
  assume "s = a @ ''.'' @ b \<and> CHR ''.'' \<notin> set a"
  then show "dot_split s = (a, Some b)"
    by (auto simp: dot_split_def takeWhile_append dropWhile_append)
qed

text \<open>
  C20: Full names read back: an object below two validated names is found again under its dotted name,
  whatever dots its own name has, and a path splits into three parts exactly when it is three parts joined
  by dots of which the first two have none.
\<close>

lemma names_round_trip:
  assumes "validate_sql_name cat = Inr ()" "validate_sql_name sch = Inr ()"
  shows "split3 (dotted cat sch name) = Inr (cat, sch, name) \<and> split2 (cat @ ''.'' @ sch) = Inr (cat, sch) \<and>
    (split3 path = Inr (a, b, c) \<longleftrightarrow> path = dotted a b c \<and> CHR ''.'' \<notin> set a \<and> CHR ''.'' \<notin> set b)"
proof -
  have split: "split3 path = Inr (a, b, c) \<longleftrightarrow> path = dotted a b c \<and> CHR ''.'' \<notin> set a \<and> CHR ''.'' \<notin> set b"
    for path a b c
  proof -
    have "split3 path = Inr (a, b, c) \<longleftrightarrow> (\<exists>r. dot_split path = (a, Some r) \<and> dot_split r = (b, Some c))"
      by (auto simp: split3_def split3_opt_def ok_or_def split: prod.splits option.splits)
    then show ?thesis by (auto simp: dot_split_eq dotted_def)
  qed
  moreover have "dot_split (cat @ ''.'' @ sch) = (cat, Some sch)"
    using valid_name_no_dot [OF assms(1)] by (simp only: dot_split_eq) simp
  ultimately show ?thesis
    using valid_name_no_dot [OF assms(1)] valid_name_no_dot [OF assms(2)] by (simp add: split2_def)
qed

lemma names_round_trip_witness:
  "split3 (dotted ''main'' ''s'' ''a.b'') = Inr (''main'', ''s'', ''a.b'') \<and>
    split2 (''main'' @ ''.'' @ ''s'') = Inr (''main'', ''s'')"
proof -
  have "validate_sql_name ''main'' = Inr ()" "validate_sql_name ''s'' = Inr ()"
    by (simp_all add: validate_sql_name_def name_chars.simps utf8_step_def byte_def bad_name_char_def
        cp_whitespace_def cp_control_def)
  from names_round_trip [OF this, of "''a.b''"] show ?thesis by blast
qed

end
