(* ===== verification/AccessProperties.thy ===== *)
theory AccessProperties
  imports ApiSamples
begin

text \<open>
  Properties of the way of a request to its handler: which tokens are refused, and what becomes of
  disabled accounts.
\<close>

section \<open>Tokens\<close>

text \<open>Some key of the issuer accepts the token now.\<close>

definition accepted :: "('w, 'k, 'g, 'v) jwt_lib \<Rightarrow> 'w oidc_config \<Rightarrow> string \<Rightarrow> int \<Rightarrow> bool" where
  "accepted J config token now \<longleftrightarrow>
     (case jl_header J token of
        Inl _ \<Rightarrow> False
      | Inr (kid, alg) \<Rightarrow> (\<exists>jwk \<in> set (oidc_jwks config). (kid \<noteq> None \<longrightarrow> jl_key_id J jwk = kid) \<and>
          (case jl_key J jwk of None \<Rightarrow> False
           | Some key \<Rightarrow> jl_decode J token key alg (oidc_issuer config) now \<noteq> None)))"

lemma first_subject_Inl:
  "(\<And>w. w \<in> set ws \<Longrightarrow> f w = None) \<Longrightarrow>
   first_subject f ws = Inl (uc_err Unauthenticated ''OIDC token validation failed against all JWKS keys'')"
  by (induction ws) simp_all

lemma refused_token:
  assumes "\<not> accepted J config token now"
  shows "\<exists>e. decode_oidc_sub A J config now token = Inl e \<and> err_code e = Unauthenticated"
proof (cases "jl_header J token")
  case (Inr p)
  obtain kid alg where p: "jl_header J token = Inr (kid, alg)" using Inr by (cases p) simp
  have "jwk_subject A J (oidc_issuer config) now token kid alg w = None" if "w \<in> set (oidc_jwks config)" for w
    using assms p that by (cases "jl_key J w") (auto simp: accepted_def jwk_subject_def split: option.splits)
  then have "first_subject (jwk_subject A J (oidc_issuer config) now token kid alg) (oidc_jwks config) =
      Inl (uc_err Unauthenticated ''OIDC token validation failed against all JWKS keys'')"
    by (rule first_subject_Inl)
  with p show ?thesis by (simp add: decode_oidc_sub_def map_err_def)
qed (simp add: decode_oidc_sub_def map_err_def)

text \<open>
  With authentication on, a request without a token, or with one that no key of the issuer accepts, ends
  as unauthenticated before its handler runs, and nothing is changed, not even a user provisioned.
\<close>

lemma middleware_refuses:
  assumes "ap_auth_enabled A" "auth_middleware A J config h handler (s, n) = Some (r, (s', n'))"
    and "\<And>token c k. extract_token h = Some token \<Longrightarrow> config = Some c \<Longrightarrow> \<not> accepted J c token (ap_now A k)"
  shows "\<exists>e. r = Inl e \<and> err_code e = Unauthenticated \<and> s' = drift A s n n'"
proof (cases "extract_token h")
  case None
  with assms(1,2) show ?thesis
    by (auto simp: auth_middleware_def authenticate_def h_bind_def h_res_def ok_or_def err_unauthenticated_def)
next
  case token: (Some token)
  show ?thesis
  proof (cases config)
    case None
    with token assms(1,2) show ?thesis
      by (auto simp: auth_middleware_def authenticate_def h_bind_def h_res_def ok_or_def err_unauthenticated_def)
  next
    case (Some c)
    obtain e where "decode_oidc_sub A J c (ap_now A n) token = Inl e" "err_code e = Unauthenticated"
      using refused_token [OF assms(3) [OF token Some]] by blast
    with token Some assms(1,2) show ?thesis
      by (auto simp: auth_middleware_def authenticate_def h_bind_def h_res_def ok_or_def now_ms_def h_step_def drift_Suc)
  qed
qed

text \<open>A library that accepts no token.\<close>

definition deaf_lib :: "(unit, unit, unit, json) jwt_lib" where
  "deaf_lib = \<lparr>jl_header = (\<lambda>_. Inr (None, ())), jl_key_id = (\<lambda>_. None), jl_key = (\<lambda>_. Some ()),
     jl_decode = (\<lambda>_ _ _ _ _. None)\<rparr>"

lemma deaf_lib_accepts [simp]: "\<not> accepted deaf_lib c token now"
  by (cases c) (simp add: accepted_def deaf_lib_def)

section \<open>Disabled accounts\<close>

text \<open>
  C40: The check that a caller's account is enabled decides nothing: the claims the middleware makes are
  those of a service token, for which the check is skipped. The middleware is the same without it, so a
  disabled account with a valid token reaches every handler.
\<close>

lemma disabled_check_skipped:
  "auth_middleware A J config h handler =
    (if \<not> ap_auth_enabled A then handler A dummy_claims
     else h_bind (authenticate A J config h) (\<lambda>(claims, who). handler (with_actor (Some who) A) claims))"
proof -
  have service: "clm_token_type claims = TokService"
    if "authenticate A J config h m = Some (Inr (claims, who), m')" for m claims who m'
    using that by (auto simp: authenticate_def h_bind_def h_res_def Let_def split: option.splits sum.splits prod.splits)
  have "h_bind (ensure_active A claims) (\<lambda>_. f) = f" if "clm_token_type claims = TokService" for claims f
    using that by (simp add: fun_eq_iff ensure_active_def h_when_def h_bind_def h_res_def)
  then show ?thesis
    by (auto simp: fun_eq_iff auth_middleware_def h_bind_def [where f = "authenticate A J config h"] dest!: service
        split: option.split sum.split)
qed

end
