(* ===== verification/VendingProperties.thy ===== *)
theory VendingProperties
  imports ApiSamples
begin

text \<open>
  How long a credential that was vended once is served from the cache.
\<close>

section \<open>Credentials\<close>

text \<open>How long after being stored an entry is served, in nanoseconds.\<close>

definition served_for :: "(string \<Rightarrow> int option) \<Rightarrow> int \<Rightarrow> temporary_credentials \<Rightarrow> int" where
  "served_for rfc3339 wall creds =
     (case parse_expiry_ttl rfc3339 wall creds of None \<Rightarrow> default_ttl | Some t \<Rightarrow> t) * 10 ^ 9"

lemma div_trunc_1000: "div_trunc a 1000 = (if a < 0 then - (- a div 1000) else a div 1000)"
  by (auto simp: div_trunc_def sgn_if)

lemma ttl_cases:
  assumes "expiry_ms rfc3339 creds = Some exp"
  shows "(exp - wall < 61000 \<longrightarrow> parse_expiry_ttl rfc3339 wall creds = None) \<and>
    (61000 \<le> exp - wall \<longrightarrow>
      (\<exists>t. parse_expiry_ttl rfc3339 wall creds = Some t \<and> 0 < t \<and> t * 1000 \<le> exp - wall - 60000 \<and>
        (exp - wall \<le> i64_max \<longrightarrow> exp - wall - 61000 < t * 1000)))"
proof -
  define d where "d = saturating_sub_i64 exp wall"
  have d: "exp - wall < 61000 \<longleftrightarrow> d < 61000" "61000 \<le> d \<Longrightarrow> d \<le> exp - wall"
    "61000 \<le> d \<Longrightarrow> exp - wall \<le> i64_max \<Longrightarrow> d = exp - wall"
    by (auto simp: d_def saturating_sub_i64_def i64_min_def i64_max_def)
  have ttl: "parse_expiry_ttl rfc3339 wall creds = (let r = div_trunc d 1000 in
      if r < 0 then None else if r \<le> 60 then None else Some (r - 60))"
    by (simp add: parse_expiry_ttl_def assms d_def Let_def cache_expiry_buffer_secs_def)
  show ?thesis
    using d unfolding ttl div_trunc_1000 Let_def by auto
qed

lemma hit_after_store:
  assumes "make_cache_key ctx' = make_cache_key ctx"
  shows "cache_hit (cache_store C wall inst ctx creds cache) now ctx' =
    (if now < inst + served_for (cl_rfc3339 C) wall creds then Some creds else None)"
  by (simp add: cache_hit_def cache_store_def served_for_def Let_def assms)

lemma quiet_vend_hit:
  assumes "quiet A" "ctx_scheme ctx \<notin> {File, NullScheme}" "cache_hit (app_cache s) (ap_instant A n) ctx = Some creds"
  shows "vend A ctx (s, n) = Some (Inr creds, (s, Suc n))"
  using assms by (simp add: vend_def quiet_steps)

lemma quiet_vend_miss:
  assumes "quiet A" "ctx_scheme ctx \<notin> {File, NullScheme}" "cache_hit (app_cache s) (ap_instant A n) ctx = None"
    and "vend A ctx (s, n) = Some (Inr creds, (s', n'))"
  shows "vend_fresh (ap_cloud A (Suc n)) ctx = Inr creds \<and> n' = n + 3 \<and>
    s' = s\<lparr>app_cache := cache_store (ap_cloud A (n + 2)) (ap_now A (n + 2)) (ap_instant A (n + 2)) ctx creds (app_cache s)\<rparr>"
  using assms by (auto simp: vend_def quiet_steps numeral_2_eq_2 numeral_3_eq_3 split: sum.splits)

text \<open>
  C14: A credential fetched from the cloud answers every later request of the same role, location and
  operation until its time in the cache is over, and none after. With at least 61 seconds to live when
  stored, it is served until 61 seconds before its end and has more than 60 seconds left whenever it is
  served, if the two clocks run alike; how long its presigned URL is good for plays no part. With less
  than 61 seconds, or expired already, it is served for 55 minutes.
\<close>

lemma cached_credential_life:
  assumes "quiet A" "ctx_scheme ctx \<notin> {File, NullScheme}" "cache_hit (app_cache s) (ap_instant A n) ctx = None"
    and "vend A ctx (s, n) = Some (Inr creds, (s', n'))"
    and "expiry_ms (cl_rfc3339 (ap_cloud A (n + 2))) creds = Some exp"
    and "ctx_scheme ctx' = ctx_scheme ctx" "make_cache_key ctx' = make_cache_key ctx"
    and "elapsed = ap_instant A m - ap_instant A (n + 2)" "left = exp - ap_now A (n + 2)"
  shows "(cache_hit (app_cache s') (ap_instant A m) ctx' \<noteq> None \<longrightarrow>
      vend A ctx' (s', m) = Some (Inr creds, (s', Suc m)) \<and> (61000 \<le> left \<longrightarrow> 60000 < left - elapsed div 10 ^ 6)) \<and>
    (61000 \<le> left \<and> left \<le> i64_max \<and> elapsed \<le> (left - 61000) * 10 ^ 6 \<longrightarrow>
      cache_hit (app_cache s') (ap_instant A m) ctx' \<noteq> None) \<and>
    (left < 61000 \<longrightarrow> (cache_hit (app_cache s') (ap_instant A m) ctx' \<noteq> None \<longleftrightarrow> elapsed < 55 * 60 * 10 ^ 9))"
proof -
  have hit: "cache_hit (app_cache s') (ap_instant A m) ctx' =
      (if elapsed < served_for (cl_rfc3339 (ap_cloud A (n + 2))) (ap_now A (n + 2)) creds then Some creds else None)"
    using quiet_vend_miss [OF assms(1-4)] hit_after_store [OF assms(7)] assms(8) by auto
  have "60000 < left - elapsed div 10 ^ 6" if "elapsed < t * 10 ^ 9" "t * 1000 \<le> left - 60000" for t
    using that by simp
  with ttl_cases [OF assms(5), of "ap_now A (n + 2)"] quiet_vend_hit [OF assms(1), of ctx' s' m creds] hit assms(2,6)
  show ?thesis
    by (auto simp: served_for_def default_ttl_def assms(9) split: if_splits)
qed

text \<open>A location on S3 whose role was found, asked for at second 0 by the sample server.\<close>

definition sample_context :: credential_context where
  "sample_context = \<lparr>ctx_scheme = S3, ctx_locations = [''s3://b/t''], ctx_operation = CoRead,
     ctx_table_id = Some 4, ctx_credential_json = None, ctx_role_arn = Some ''arn'', ctx_external_id = None\<rparr>"

lemma cached_credential_life_witness:
  "\<exists>creds s'. vend (sample_api [] True) sample_context (sample_app, 0) = Some (Inr creds, (s', 3)) \<and>
    vend (sample_api [] True) (sample_context\<lparr>ctx_table_id := None\<rparr>) (s', 9) = Some (Inr creds, (s', 10))"
proof -
  let ?A = "sample_api [] True"
  let ?ctx = "sample_context\<lparr>ctx_table_id := None\<rparr>"
  have key: "make_cache_key ?ctx = make_cache_key sample_context"
    by (simp add: make_cache_key_def)
  have instant: "ap_instant ?A = (\<lambda>_. 0)" "ap_cloud ?A = (\<lambda>_. sample_cloud)"
    by (simp_all add: sample_api_def log_env.defs delta_env.defs api.defs delta_api.defs sample_env_def)
  have miss: "cache_hit (app_cache sample_app) (ap_instant ?A 0) sample_context = None"
    by (simp add: sample_app_def cache_hit_def)
  obtain creds where fresh: "vend_fresh sample_cloud sample_context = Inr creds"
    "expiry_ms (cl_rfc3339 sample_cloud) creds = Some 3600000"
    by (simp add: vend_fresh_def aws_vend_def sample_cloud_def sample_context_def ok_or_def map_err_def
        expiry_ms_def no_credentials_def)
  then obtain s' where run: "vend ?A sample_context (sample_app, 0) = Some (Inr creds, (s', 3))"
    using miss by (simp add: vend_def quiet_steps instant sample_context_def numeral_3_eq_3)
  have exp: "expiry_ms (cl_rfc3339 (ap_cloud ?A (0 + 2))) creds = Some 3600000"
    using fresh by (simp add: instant)
  have scheme: "ctx_scheme sample_context \<notin> {File, NullScheme}" "ctx_scheme ?ctx = ctx_scheme sample_context"
    by (simp_all add: sample_context_def)
  have "app_cache s' = cache_store sample_cloud 0 0 sample_context creds (app_cache sample_app)"
    using quiet_vend_miss [OF sample_quiet scheme(1) miss run] by (simp add: instant)
  moreover obtain t where "parse_expiry_ttl (cl_rfc3339 sample_cloud) 0 creds = Some t" "0 < t"
    using ttl_cases [OF fresh(2), of 0] by auto
  ultimately have "cache_hit (app_cache s') (ap_instant ?A 9) ?ctx \<noteq> None"
    by (simp add: hit_after_store [OF key] instant served_for_def)
  with cached_credential_life [OF sample_quiet scheme(1) miss run exp scheme(2) key refl refl, of 9]
  have "vend ?A ?ctx (s', 9) = Some (Inr creds, (s', Suc 9))" by blast
  with run show ?thesis by auto
qed

end
