(* ===== verification/UpdateProperties.thy ===== *)
theory UpdateProperties
  imports ApiSamples
begin

text \<open>
  The updates of a Delta table: the order of the commits a request adds, what a refused request leaves,
  and that an update which fails does not undo the ones before it.
\<close>

fun added_versions :: "'v delta_table_update list \<Rightarrow> int list" where
  "added_versions [] = []"
| "added_versions (AddCommit c u # us) = dcm_version c # added_versions us"
| "added_versions (u # us) = added_versions us"

text \<open>An update that succeeds moves the latest version to the version it adds, if it adds one.\<close>

lemma apply_update_latest:
  assumes "apply_update A t now latest u m = Some (Inr v, m')"
  shows "v = last (latest # added_versions [u]) \<and> sorted_wrt (<) (latest # added_versions [u])"
  using assms by (cases u) (auto simp: h_bind_def h_res_def split: if_splits option.splits sum.splits)

lemma added_versions_Cons: "added_versions (u # us) = added_versions [u] @ added_versions us"
  by (cases u) simp_all

lemma sorted_from_last:
  "sorted_wrt (<) (x # xs) \<Longrightarrow> sorted_wrt (<) (last (x # xs) # ys) \<Longrightarrow> sorted_wrt (<) (x # xs @ (ys :: int list))"
proof (induction xs arbitrary: x)
  case (Cons y xs)
  have rest: "sorted_wrt (<) (y # xs @ ys)" using Cons.IH [of y] Cons.prems by simp
  have "x < z" if "z \<in> set (y # xs @ ys)" for z
  proof -
    have "x < y" using Cons.prems(1) by simp
    moreover have "z = y \<or> y < z" using rest that by auto
    ultimately show ?thesis by linarith
  qed
  with rest show ?case by simp
qed simp

lemma apply_updates_sorted:
  assumes "apply_updates A t now latest us m = Some (Inr v, m')"
  shows "v = last (latest # added_versions us) \<and> sorted_wrt (<) (latest # added_versions us)"
  using assms
proof (induction us arbitrary: latest m)
  case (Cons u us)
  then obtain w m1 where step: "apply_update A t now latest u m = Some (Inr w, m1)"
      "apply_updates A t now w us m1 = Some (Inr v, m')"
    by (auto simp: h_bind_def split: option.splits sum.splits)
  from apply_update_latest [OF step(1)] Cons.IH [OF step(2)] show ?case
    using sorted_from_last [of latest "added_versions [u]" "added_versions us"]
    by (auto simp: added_versions_Cons [of u us])
qed (simp add: h_res_def)

lemma apply_updates_append:
  "apply_updates A t now latest (us @ vs) m =
    (case apply_updates A t now latest us m of
       None \<Rightarrow> None
     | Some (Inl e, m') \<Rightarrow> Some (Inl e, m')
     | Some (Inr v, m') \<Rightarrow> apply_updates A t now v vs m')"
  by (induction us arbitrary: latest m) (auto simp: h_bind_def h_res_def split: option.splits sum.splits)

lemma refused_requirement:
  "check_requirements E i rs = Inl e \<Longrightarrow> err_code e = UpdateRequirementConflict"
  by (induction rs rule: check_requirements.induct) (auto split: if_splits)

text \<open>
  C15: The updates of a request are applied in order, one by one. If they all succeed, the commits they
  add have strictly increasing versions above the latest one, and the last of them is the version
  reported. A commit at or below the latest version is refused, the updates after it are not made, and
  the ones before it stay. A requirement that does not hold refuses the request before any update, and
  the store, the authorizer and the cached credentials stay as they were.
\<close>

lemma delta_updates_ordered:
  "(apply_updates A t now latest us m = Some (Inr v, m') \<longrightarrow>
      sorted_wrt (<) (latest # added_versions us) \<and> v = last (latest # added_versions us) \<and>
      (dcm_version c \<le> v \<longrightarrow>
        apply_updates A t now latest (us @ AddCommit c u # vs) m = Some (Inl (stale_version (dcm_version c) v), m'))) \<and>
    (quiet A \<and> schema_get_by_full_name A (state (app_store s)) cat sch = Inr schema \<and>
      table_get_by_schema_and_name A (state (app_store s)) (sch_id schema) tbl = Inr row \<and>
      delta_latest A (ap_ops A) (tab_id row) (log (app_store s)) (app_hints s) = Some (Inr found, hints) \<and>
      dur_requirements req = Some rs \<and> check_requirements A (tab_id row) rs = Inl e \<longrightarrow>
      err_code e = UpdateRequirementConflict \<and>
      (\<exists>k. delta_update_table A cat sch tbl req (s, n) = Some (Inl e, (s\<lparr>app_hints := hints\<rparr>, k))))"
proof (intro conjI impI)
  assume run: "apply_updates A t now latest us m = Some (Inr v, m')"
  from apply_updates_sorted [OF run]
  show "sorted_wrt (<) (latest # added_versions us)" "v = last (latest # added_versions us)" by simp_all
  assume "dcm_version c \<le> v"
  with run show "apply_updates A t now latest (us @ AddCommit c u # vs) m =
      Some (Inl (stale_version (dcm_version c) v), m')"
    by (simp add: apply_updates_append h_bind_def h_res_def)
next
  assume a: "quiet A \<and> schema_get_by_full_name A (state (app_store s)) cat sch = Inr schema \<and>
      table_get_by_schema_and_name A (state (app_store s)) (sch_id schema) tbl = Inr row \<and>
      delta_latest A (ap_ops A) (tab_id row) (log (app_store s)) (app_hints s) = Some (Inr found, hints) \<and>
      dur_requirements req = Some rs \<and> check_requirements A (tab_id row) rs = Inl e"
  then show "err_code e = UpdateRequirementConflict" by (blast intro: refused_requirement)
  from a show "\<exists>k. delta_update_table A cat sch tbl req (s, n) = Some (Inl e, (s\<lparr>app_hints := hints\<rparr>, k))"
    by (simp add: delta_update_table_def h_table_def h_schema_def quiet_steps h_latest_def h_delta_def)
qed

text \<open>Two commits are added, the second one below the first.\<close>

definition sample_added :: "int \<Rightarrow> delta_commit" where
  "sample_added v = \<lparr>dcm_version = v, dcm_timestamp = 0, dcm_file_name = ''f'', dcm_file_size = 10,
     dcm_file_modification_timestamp = 0\<rparr>"

lemma sample_update_runs:
  "\<exists>m. apply_updates (sample_api [] True) 9 0 (- 1) [AddCommit (sample_added 3) None] (sample_app, 0) = Some (Inr 3, m)"
proof -
  have row: "added_commit (sample_added 3) 1 9 = sample_commit"
    by (simp add: added_commit_def sample_added_def sample_commit_def)
  have "cd_delta_commit (sample_api [] True) = table_codec [sample_commit, backfilled sample_commit]"
    by (simp add: sample_api_def log_env.defs delta_env.defs api.defs delta_api.defs sample_env_def)
  then have "fst (delta_insert (sample_api [] True) (truncating_ops (Suc 1)) sample_commit memory_new Map.empty) = Inr sample_commit"
    by (simp add: delta_insert_def delta_append_def truncating_ops_def memory_defs memory_new_def
        table_codec_def json_err_def sample_commit_def)
  then obtain l h where "delta_insert (sample_api [] True) (truncating_ops (Suc 1)) sample_commit memory_new Map.empty =
      (Inr sample_commit, l, h)"
    by (metis prod.collapse)
  then show ?thesis
    by (simp add: quiet_steps h_insert_commit_def h_delta_def row) (simp add: sample_added_def sample_app_def run_res)
qed

lemma delta_updates_ordered_witness:
  "\<exists>m. apply_updates (sample_api [] True) 9 0 (- 1)
      ([AddCommit (sample_added 3) None] @ AddCommit (sample_added 2) None # [SetTableComment ''later'']) (sample_app, 0) =
    Some (Inl (stale_version 2 3), m)"
proof -
  obtain m where "apply_updates (sample_api [] True) 9 0 (- 1) [AddCommit (sample_added 3) None] (sample_app, 0) = Some (Inr 3, m)"
    using sample_update_runs by blast
  with delta_updates_ordered [where us = "[AddCommit (sample_added 3) None]" and A = "sample_api [] True" and
      latest = "- 1" and t = 9 and now = 0 and v = 3 and m = "(sample_app, 0)" and m' = m and c = "sample_added 2" and
      u = None and vs = "[SetTableComment ''later'']"]
  have "dcm_version (sample_added 2) \<le> 3 \<longrightarrow> apply_updates (sample_api [] True) 9 0 (- 1)
      ([AddCommit (sample_added 3) None] @ AddCommit (sample_added 2) None # [SetTableComment ''later'']) (sample_app, 0) =
      Some (Inl (stale_version (dcm_version (sample_added 2)) 3), m)"
    by blast
  then show ?thesis by (simp only: sample_added_def delta_commit.simps) auto
qed

end
