(* ===== verification/Wire.thy ===== *)
theory Wire
  imports Api
begin

text \<open>
  What the wire types decode by hand, in \<^verbatim>\<open>uc_openapi\<close>: properties that come as an object or as a text
  that holds one, and the types of the control API no handler uses.
\<close>

section \<open>Texts\<close>

text \<open>\<open>str::trim\<close>\<close>

definition trim_text :: "string \<Rightarrow> string" where
  "trim_text s =
     (let blank = (\<lambda>(cp, _). cp_whitespace cp)
      in concat (map snd (rev (dropWhile blank (rev (dropWhile blank (name_chars s)))))))"

section \<open>Properties\<close>

text \<open>The value as serde's untagged enum reads it; \<open>decode\<close> is \<open>serde_json::from_str\<close> for a map.\<close>

datatype string_or_map = SmMap "(string, string) omap" | SmStr string | SmNull

definition deser_props_or_string ::
  "(string \<Rightarrow> string + (string, string) omap) \<Rightarrow> string_or_map \<Rightarrow> string + (string, string) omap option" where
  "deser_props_or_string decode v =
     (case v of
        SmMap m \<Rightarrow> Inr (Some m)
      | SmStr s \<Rightarrow>
         (if trim_text s = [] \<or> trim_text s = ''{}'' \<or> trim_text s = [CHR 0x22] @ ''{}'' @ [CHR 0x22]
          then Inr (Some [])
          else map_sum id Some (decode s))
      | SmNull \<Rightarrow> Inr None)"

text \<open>
  Both encodings of properties are read alike: a text that holds a map gives that map, when the decoder
  reads the empty object as the empty map.
\<close>

lemma properties_read_alike:
  assumes "decode s = Inr m" "trim_text s = ''{}'' \<longrightarrow> m = []"
    and "trim_text s \<noteq> []" "trim_text s \<noteq> [CHR 0x22] @ ''{}'' @ [CHR 0x22]"
  shows "deser_props_or_string decode (SmStr s) = deser_props_or_string decode (SmMap m)"
  using assms by (simp add: deser_props_or_string_def)

section \<open>The Delta API\<close>

record delta_aws_credential_config =
  dac_aws_access_key :: string
  dac_aws_secret_key :: string
  dac_aws_session_token :: "string option"

record 'v delta_report_metrics_request =
  drm_table_id :: uuid
  drm_report :: "'v option"

section \<open>Token exchange\<close>

record oauth_token_exchange_form =
  oxf_grant_type :: string
  oxf_subject_token :: string
  oxf_subject_token_type :: string
  oxf_requested_token_type :: "string option"
  oxf_scope :: "string option"
  oxf_actor_token :: "string option"
  oxf_actor_token_type :: "string option"

record oauth_token_exchange_response =
  oxr_access_token :: string
  oxr_token_type :: string
  oxr_expires_in :: "int option"
  oxr_scope :: "string option"
  oxr_issued_token_type :: string

datatype user_state = UsEnabled | UsDisabled

end
