(* ===== verification/ServerStart.thy ===== *)
theory ServerStart
  imports ApiRouter S3Log Wire
begin

text \<open>
  The start of the server (\<^verbatim>\<open>uc_server::main\<close>): opening the log, the metastore, the authorizer, the
  first users, and the state handed to the routers. Its steps are those of a request, since with several
  replicas others act on the log meanwhile. The process, its sockets and its signals are left out.
\<close>

section \<open>Errors\<close>

text \<open>\<open>anyhow::Error\<close>: an error of the crates, a message, or a cause in a context.\<close>

datatype startup_error = Caused uc_error | Bailed string | InContext string startup_error

type_synonym 'x start_res = "startup_error + 'x"

type_synonym ('l, 'a, 'x) startup = "('l, 'a) moment \<Rightarrow> ('x start_res \<times> ('l, 'a) moment) option"

definition b_res :: "'x start_res \<Rightarrow> ('l, 'a, 'x) startup" where
  "b_res r m = Some (r, m)"

abbreviation b_ret :: "'x \<Rightarrow> ('l, 'a, 'x) startup" where
  "b_ret x \<equiv> b_res (Inr x)"

definition b_bind :: "('l, 'a, 'x) startup \<Rightarrow> ('x \<Rightarrow> ('l, 'a, 'y) startup) \<Rightarrow> ('l, 'a, 'y) startup" where
  "b_bind f k m =
     (case f m of
        None \<Rightarrow> None
      | Some (Inl e, m') \<Rightarrow> Some (Inl e, m')
      | Some (Inr x, m') \<Rightarrow> k x m')"

lemma sum_map_Inr: "map_sum f id r = Inr x \<longleftrightarrow> r = Inr x"
  by (cases r) simp_all

text \<open>\<open>f.await?\<close>, and \<open>.context(..)\<close>, of which the text is the \<open>Display\<close> of the error.\<close>

definition caused :: "('l, 'a, 'x) request \<Rightarrow> ('l, 'a, 'x) startup" where
  "caused f m = map_option (\<lambda>(r, m'). (map_sum Caused id r, m')) (f m)"

definition in_context :: "string \<Rightarrow> ('l, 'a, 'x) startup \<Rightarrow> ('l, 'a, 'x) startup" where
  "in_context what f m = map_option (\<lambda>(r, m'). (map_sum (InContext what) id r, m')) (f m)"

definition b_when :: "bool \<Rightarrow> ('l, 'a, unit) startup \<Rightarrow> ('l, 'a, unit) startup" where
  "b_when b f = (if b then f else b_ret ())"

fun b_each :: "('x \<Rightarrow> ('l, 'a, unit) startup) \<Rightarrow> 'x list \<Rightarrow> ('l, 'a, unit) startup" where
  "b_each f [] = b_ret ()"
| "b_each f (x # xs) = b_bind (f x) (\<lambda>_. b_each f xs)"

section \<open>The log\<close>

text \<open>The bucket and the prefix of \<open>--storage-root\<close>; the \<open>Debug\<close> of the argument is cut from the messages.\<close>

definition split_storage_root :: "string \<Rightarrow> (string \<times> string) start_res" where
  "split_storage_root root =
     (case strip_prefix ''s3://'' root of
        None \<Rightarrow> Inl (Bailed ''--storage-root must be s3://bucket[/prefix]'')
      | Some rest \<Rightarrow>
         (let (bucket, pre) = (case split_once_slash rest of Some bp \<Rightarrow> bp | None \<Rightarrow> (rest, []))
          in if bucket = [] then Inl (Bailed ''--storage-root has no bucket'') else Inr (bucket, pre)))"

text \<open>An endpoint that is set and not empty is used, with path-style addressing.\<close>

definition s3_endpoint :: "(string \<Rightarrow> string option) \<Rightarrow> string option" where
  "s3_endpoint var = Option.bind (var ''AWS_ENDPOINT_URL'') (\<lambda>e. if e = [] then None else Some e)"

text \<open>\<open>client\<close> is the SDK's client for an endpoint and a bucket.\<close>

definition open_log_store ::
  "('j, 'z) log_env_scheme \<Rightarrow> (string \<Rightarrow> string option) \<Rightarrow> (string option \<Rightarrow> string \<Rightarrow> 'b s3_client) \<Rightarrow>
   string \<Rightarrow> 'b \<Rightarrow> ('b log_ops \<times> 'b store) start_res option" where
  "open_log_store E var client root b =
     (case split_storage_root root of
        Inl e \<Rightarrow> Some (Inl e)
      | Inr (bucket, pre) \<Rightarrow>
         (let ops = s3_ops (client (s3_endpoint var) bucket) (s3_new pre)
          in map_option (\<lambda>r. case r of Inl e \<Rightarrow> Inl (Bailed (err_display e)) | Inr st \<Rightarrow> Inr (ops, st))
               (store_open E ops b)))"

section \<open>The keys of the issuer\<close>

text \<open>
  The HTTP client, or why it was not built: a GET of a URL with a bearer token, or none, gives the
  body or an error. \<open>ht_token\<close> is the token file of the pod, \<open>ht_jwks\<close> the decoder of a key set.
\<close>

record 'w http =
  ht_client :: "string + (string \<Rightarrow> string option \<Rightarrow> string + string)"
  ht_token :: "string option"
  ht_jwks :: "string \<Rightarrow> string + 'w list"

definition failed_in :: "string \<Rightarrow> string + 'x \<Rightarrow> 'x start_res" where
  "failed_in what r = map_sum (\<lambda>e. InContext what (Bailed e)) id r"

definition fetch_oidc_jwks ::
  "('j, 'v, 'l, 'a, 'z) api_scheme \<Rightarrow> 'w http \<Rightarrow> string \<Rightarrow> 'w list start_res" where
  "fetch_oidc_jwks A H issuer =
     rbind (failed_in ''Failed to build HTTP client'' (ht_client H)) (\<lambda>get.
     let token = trim_text (or_empty (ht_token H)); bearer = (if token = [] then None else Some token) in
     rbind (failed_in ''OIDC discovery request failed''
       (get (trim_end_slashes issuer @ ''/.well-known/openid-configuration'') bearer)) (\<lambda>body.
     rbind (failed_in ''OIDC discovery response not valid JSON'' (dec (cd_value A) body)) (\<lambda>discovery.
     case Option.bind (val_get A discovery ''jwks_uri'') (ap_val_str A) of
       None \<Rightarrow> Inl (Bailed (''OIDC discovery response missing '' @ quoted ''jwks_uri''))
     | Some uri \<Rightarrow>
        rbind (failed_in ''JWKS fetch failed'' (get uri bearer)) (\<lambda>keys.
        failed_in ''JWKS response not valid JSON'' (ht_jwks H keys)))))"

section \<open>The first users\<close>

definition ensure_metastore :: "('j, 'v, 'l, 'a, 'z) api_scheme \<Rightarrow> ('l, 'a, metastore_row) request" where
  "ensure_metastore A =
     h_bind (h_uuids A) (\<lambda>fresh. h_write A (\<lambda>w. get_or_init A (ap_ops A) w (\<lambda>a. fresh a 0) ''unity-catalog''))"

definition admin_email :: string where
  "admin_email = ''admin@unitycatalog.io''"

definition bootstrap_admin ::
  "('j, 'v, 'l, 'a, 'z) api_scheme \<Rightarrow> uuid \<Rightarrow> ('l, 'a, unit) startup" where
  "bootstrap_admin A metastore_id =
     b_bind (caused (h_read A (\<lambda>s. user_get_by_email s admin_email))) (\<lambda>found.
     b_when (found = None)
       (b_bind (caused (h_uuid A)) (\<lambda>admin_id.
        b_bind (caused (now_ms A)) (\<lambda>now.
        b_bind (in_context ''Failed to create admin user'' (caused (h_write A (\<lambda>w.
          user_create A (ap_ops A) w admin_id admin_email (Some admin_email) None ''ENABLED'' now)))) (\<lambda>_.
        in_context ''Failed to grant admin OWNER on metastore''
          (caused (h_tell A (au_grant (ap_authorizer A) admin_id metastore_id Owner))))))))"

definition bootstrap_operator ::
  "('j, 'v, 'l, 'a, 'z) api_scheme \<Rightarrow> uuid \<Rightarrow> string \<Rightarrow> ('l, 'a, unit) startup" where
  "bootstrap_operator A metastore_id external_id =
     b_bind (in_context ''Failed to find_or_create operator principal''
       (caused (find_or_provision A external_id))) (\<lambda>user.
     b_bind (in_context ''Failed to check operator principal's existing grants''
       (caused (h_authorize A (usr_id user) metastore_id Owner))) (\<lambda>already_owner.
     b_when (\<not> already_owner)
       (in_context ''Failed to grant operator principal OWNER on metastore''
         (caused (h_tell A (au_grant (ap_authorizer A) (usr_id user) metastore_id Owner))))))"

definition bootstrap_operator_principal ::
  "('j, 'v, 'l, 'a, 'z) api_scheme \<Rightarrow> uuid \<Rightarrow> string list \<Rightarrow> ('l, 'a, unit) startup" where
  "bootstrap_operator_principal A metastore_id external_ids =
     b_each (bootstrap_operator A metastore_id) external_ids"

section \<open>The start\<close>

record server_args =
  sa_oidc_issuer :: "string option"
  sa_enable_aws_credentials :: bool
  sa_operator_external_id :: "string list"

text \<open>
  \<open>new_authorizer\<close> is \<open>UcAuthorizer::new_with_db\<close> on a store, which it writes to when it seeds the
  hierarchy. The result is the id of the metastore and the issuer's keys.
\<close>

definition start_server ::
  "('j, 'v, 'l, 'a, 'z) api_scheme \<Rightarrow> ('l store \<Rightarrow> unit res \<times> 'l store \<times> 'a) \<Rightarrow> 'w http \<Rightarrow> server_args \<Rightarrow>
   ('l, 'a, uuid \<times> 'w oidc_config option) startup" where
  "start_server A new_authorizer H args =
     b_bind (in_context ''Failed to initialize metastore'' (caused (ensure_metastore A))) (\<lambda>metastore.
     b_bind (b_when (sa_oidc_issuer args \<noteq> None)
       (in_context ''Failed to initialize casbin authorizer''
         (caused (h_tell A (new_authorizer \<circ> fst))))) (\<lambda>_.
     b_bind (b_when (sa_oidc_issuer args \<noteq> None) (bootstrap_admin A (met_id metastore))) (\<lambda>_.
     b_bind (b_when (sa_oidc_issuer args \<noteq> None)
       (in_context ''Failed to bootstrap operator principal''
         (bootstrap_operator_principal A (met_id metastore) (sa_operator_external_id args)))) (\<lambda>_.
     b_bind (case sa_oidc_issuer args of
         None \<Rightarrow> b_ret None
       | Some issuer \<Rightarrow> in_context ''Failed to fetch OIDC JWKS'' (b_res
           (map_sum id (\<lambda>jwks. Some \<lparr>oidc_issuer = issuer, oidc_jwks = jwks\<rparr>) (fetch_oidc_jwks A H issuer)))) (\<lambda>config.
     b_ret (met_id metastore, config))))))"

text \<open>
  The vendor of credentials: its cache and whether it vends for AWS. \<open>CloudCredentialVendor::new\<close>,
  \<open>with_aws\<close>, and the choice of the server.
\<close>

record cloud_vendor =
  cv_cache :: vendor_cache
  cv_aws :: bool

definition vendor_new :: cloud_vendor where
  "vendor_new = \<lparr>cv_cache = Map.empty, cv_aws = False\<rparr>"

definition with_aws :: cloud_vendor where
  "with_aws = \<lparr>cv_cache = Map.empty, cv_aws = True\<rparr>"

definition build_credential_vendor :: "bool \<Rightarrow> cloud_vendor" where
  "build_credential_vendor enable_aws = (if enable_aws then with_aws else vendor_new)"

text \<open>The fixed part of \<open>AppState::new\<close>.\<close>

definition app_state ::
  "('j, 'v, 'l, 'a, 'z) api_scheme \<Rightarrow> server_args \<Rightarrow> uuid \<Rightarrow> ('j, 'v, 'l, 'a, 'z) api_scheme" where
  "app_state A args metastore_id = A
     \<lparr>ap_authorizer := (if sa_oidc_issuer args = None then allowing_authorizer else ap_authorizer A),
      ap_metastore_id := metastore_id, ap_auth_enabled := sa_oidc_issuer args \<noteq> None,
      ap_cloud := (\<lambda>n. (ap_cloud A n)\<lparr>cl_aws := cv_aws (build_credential_vendor (sa_enable_aws_credentials args))\<rparr>)\<rparr>"

text \<open>One tick of the refresh: what it fails with is only logged.\<close>

definition refresh_tick :: "('j, 'v, 'l, 'a, 'z) api_scheme \<Rightarrow> ('l, 'a, unit) request" where
  "refresh_tick A = h_step A (\<lambda>_ s.
     map_option (\<lambda>(_, st). (Inr (), s\<lparr>app_store := st\<rparr>)) (catch_up A (ap_ops A) (app_store s)))"

end
