(* ===== verification/StartProperties.thy ===== *)
theory StartProperties
  imports ServerStart ApiSamples
begin

text \<open>
  What a start of the server establishes: the operators it is given own the metastore.
\<close>

text \<open>What a commit hands out was built by one of its attempts.\<close>

lemma commit_attempts_out:
  "commit_attempts E ops w operation build attempts st = Some (Inr out, st') \<Longrightarrow>
    \<exists>a s acts. build a s = Inr (acts, out)"
  by (induction E ops w operation build attempts st rule: commit_attempts.induct)
    (auto simp: Let_def split: sum.splits prod.splits option.splits if_splits put_result.splits)

lemma first_where_holds:
  assumes "first_where s f = Inr (Some u)"
  shows "f u"
proof -
  from assms obtain rows rest where "sort_key usr_id (filter f rows) = u # rest"
    by (auto simp: first_where_def rbind_def split: sum.splits list.splits)
  then have "u \<in> set (filter f rows)" by (metis list.set_intros(1) set_sort)
  then show ?thesis by simp
qed

lemma provisioned_external:
  assumes "quiet A" "find_or_provision A external_id (s, n) = Some (Inr u, (s', n'))"
  shows "usr_external_id u = Some external_id \<and> (\<exists>st. s' = s\<lparr>app_store := st\<rparr>)"
proof -
  from assms obtain w fresh now st st' where run:
      "commit A (ap_ops A) w ''FIND OR CREATE USER'' (\<lambda>a. find_or_create_build A now external_id (fresh a)) st =
        Some (Inr u, st')" and s': "s' = s\<lparr>app_store := st'\<rparr>"
    by (auto simp: find_or_provision_def quiet_steps find_or_create_by_external_id_def)
  from commit_attempts_out [OF run [unfolded commit_def]] obtain a t acts where
    "find_or_create_build A now external_id (fresh a) t = Inr (acts, u)" by blast
  then have "usr_external_id u = Some external_id"
    by (auto simp: find_or_create_build_def rbind_def write_row_def Let_def dest: first_where_holds
        split: sum.splits option.splits)
  with s' show ?thesis by blast
qed

section \<open>Owners\<close>

text \<open>Being refused ownership, and what is asked of an authorizer: a grant is honoured and takes nothing away.\<close>

definition owns :: "('l store \<times> 'a) authorizer \<Rightarrow> uuid \<Rightarrow> uuid \<Rightarrow> ('l, 'a) app \<Rightarrow> bool" where
  "owns Au who i s \<longleftrightarrow> au_authorize Au who i Owner (authz_state s) \<noteq> Inr False"

definition honours_grants :: "('l store \<times> 'a) authorizer \<Rightarrow> bool" where
  "honours_grants Au \<longleftrightarrow>
     (\<forall>who i x y. au_grant Au who i Owner x = (Inr (), y) \<longrightarrow> au_authorize Au who i Owner y \<noteq> Inr False) \<and>
     (\<forall>who i w x r y. au_grant Au w i Owner x = (r, y) \<longrightarrow> au_authorize Au who i Owner x \<noteq> Inr False \<longrightarrow>
        au_authorize Au who i Owner y \<noteq> Inr False) \<and>
     (\<forall>who i st st' a. au_authorize Au who i Owner (st, a) = au_authorize Au who i Owner (st', a))"

lemma owns_store: "honours_grants Au \<Longrightarrow> owns Au who i (s\<lparr>app_store := st\<rparr>) = owns Au who i s"
  by (simp add: owns_def honours_grants_def authz_state_def) metis

lemma owns_granted:
  assumes "honours_grants Au" "au_grant Au w i Owner (authz_state s) = (r, st, a)"
  shows "owns Au who i s \<longrightarrow> owns Au who i (s\<lparr>app_store := st, app_authz := a\<rparr>)"
    "r = Inr () \<longrightarrow> owns Au w i (s\<lparr>app_store := st, app_authz := a\<rparr>)"
proof -
  have state: "authz_state (s\<lparr>app_store := st, app_authz := a\<rparr>) = (st, a)" by (simp add: authz_state_def)
  from assms show "owns Au who i s \<longrightarrow> owns Au who i (s\<lparr>app_store := st, app_authz := a\<rparr>)"
    unfolding owns_def state honours_grants_def by blast
  from assms show "r = Inr () \<longrightarrow> owns Au w i (s\<lparr>app_store := st, app_authz := a\<rparr>)"
    unfolding owns_def state honours_grants_def by blast
qed

lemma quiet_tell [quiet_steps]:
  "quiet A \<Longrightarrow> h_tell A f (s, n) =
     (case f (authz_state s) of (r, st, a) \<Rightarrow> Some (r, (s\<lparr>app_store := st, app_authz := a\<rparr>, Suc n)))"
  by (simp add: h_tell_def quiet_steps split: prod.split)

lemma started [quiet_steps]:
  "b_bind f k m = Some (Inr y, m2) \<longleftrightarrow> (\<exists>x m1. f m = Some (Inr x, m1) \<and> k x m1 = Some (Inr y, m2))"
  "caused g m = Some (Inr x, m1) \<longleftrightarrow> g m = Some (Inr x, m1)"
  "in_context what f m = Some (Inr x, m1) \<longleftrightarrow> f m = Some (Inr x, m1)"
  "b_res r m = Some (r, m)"
  "b_when b h m = (if b then h m else Some (Inr (), m))"
  by (cases m1; auto simp: b_bind_def caused_def in_context_def b_res_def b_when_def sum_map_Inr
      split: option.splits sum.splits)+

lemma operator_bootstrapped:
  assumes "quiet A" "honours_grants (ap_authorizer A)"
    and "bootstrap_operator A i external_id (s, n) = Some (Inr (), (s', n'))"
  shows "(\<exists>u :: user_row. usr_external_id u = Some external_id \<and> owns (ap_authorizer A) (usr_id u) i s') \<and>
    (\<forall>who. owns (ap_authorizer A) who i s \<longrightarrow> owns (ap_authorizer A) who i s')"
proof -
  obtain u s1 n1 where u: "find_or_provision A external_id (s, n) = Some (Inr u, (s1, n1))"
    using assms(3) by (auto simp: bootstrap_operator_def quiet_steps)
  obtain st where ext: "usr_external_id u = Some external_id" and s1: "s1 = s\<lparr>app_store := st\<rparr>"
    using provisioned_external [OF assms(1) u] by blast
  have keep: "owns (ap_authorizer A) who i s1 = owns (ap_authorizer A) who i s" for who
    using s1 owns_store [OF assms(2)] by simp
  have "(s' = s1 \<and> owns (ap_authorizer A) (usr_id u) i s1) \<or>
      (\<exists>st a. au_grant (ap_authorizer A) (usr_id u) i Owner (authz_state s1) = (Inr (), st, a) \<and>
        s' = s1\<lparr>app_store := st, app_authz := a\<rparr>)"
    using assms(3) by (auto simp: bootstrap_operator_def quiet_steps u h_authorize_def assms(1)
        owns_def split: if_splits prod.splits)
  then show ?thesis
  proof (elim disjE exE conjE)
    assume "s' = s1" "owns (ap_authorizer A) (usr_id u) i s1"
    then show ?thesis using ext by (auto simp: keep)
  next
    fix st a
    assume g: "au_grant (ap_authorizer A) (usr_id u) i Owner (authz_state s1) = (Inr (), st, a)"
      and s': "s' = s1\<lparr>app_store := st, app_authz := a\<rparr>"
    from owns_granted(2) [OF assms(2) g] ext owns_granted(1) [OF assms(2) g] show ?thesis
      unfolding s' by (auto simp: keep)
  qed
qed

lemma operators_bootstrapped:
  assumes "quiet A" "honours_grants (ap_authorizer A)"
  shows "bootstrap_operator_principal A i ids (s, n) = Some (Inr (), (s', n')) \<Longrightarrow>
    (\<forall>external_id \<in> set ids. \<exists>u :: user_row. usr_external_id u = Some external_id \<and> owns (ap_authorizer A) (usr_id u) i s') \<and>
    (\<forall>who. owns (ap_authorizer A) who i s \<longrightarrow> owns (ap_authorizer A) who i s')"
  unfolding bootstrap_operator_principal_def
proof (induction ids arbitrary: s n)
  case (Cons external_id ids)
  then obtain s1 n1 where first: "bootstrap_operator A i external_id (s, n) = Some (Inr (), (s1, n1))"
    and later: "b_each (bootstrap_operator A i) ids (s1, n1) = Some (Inr (), (s', n'))"
    by (auto simp: quiet_steps)
  from operator_bootstrapped [OF assms first] Cons.IH [OF later] show ?case by auto
qed (simp add: quiet_steps)


text \<open>A log with a metastore, the administrator, and an operator who has no grant yet.\<close>

definition start_admin :: user_row where
  "start_admin = sample_admin\<lparr>usr_id := 8, usr_name := admin_email, usr_email := Some admin_email\<rparr>"

definition start_operator :: user_row where
  "start_operator = sample_admin\<lparr>usr_id := 9, usr_name := ''op'', usr_email := None, usr_external_id := Some ''op''\<rparr>"

definition start_tree :: snapshot where
  "start_tree = upsert_row sample (upsert_row sample (upsert_row sample empty_snapshot
       EkMetastore 7 (RowMetastore \<lparr>met_id = 7, met_name = ''unity-catalog''\<rparr>))
     EkUser 8 (RowUser start_admin)) EkUser 9 (RowUser start_operator)"

definition start_app :: "(memory_log, sample_grants) app" where
  "start_app = sample_app\<lparr>app_store := \<lparr>log = memory_new, state = start_tree\<rparr>\<rparr>"

definition start_api :: "(row, json, memory_log, sample_grants) delta_api" where
  "start_api = (sample_api [] True)\<lparr>cd_value := \<lparr>enc = (\<lambda>_. Inl []), dec = (\<lambda>_. Inr JNull)\<rparr>,
     val_get := (\<lambda>_ _. Some JNull), ap_val_str := (\<lambda>_. Some ''https://i/keys'')\<rparr>"

definition start_http :: "unit http" where
  "start_http = \<lparr>ht_client = Inr (\<lambda>_ _. Inr []), ht_token = None, ht_jwks = (\<lambda>_. Inr [()])\<rparr>"

definition start_args :: server_args where
  "start_args = \<lparr>sa_oidc_issuer = Some ''https://i/'', sa_enable_aws_credentials = True,
     sa_operator_external_id = [''op'']\<rparr>"

lemma start_tree_rows:
  "snap_iter start_tree EkMetastore = [RowMetastore \<lparr>met_id = 7, met_name = ''unity-catalog''\<rparr>]"
  "snap_iter start_tree EkUser = [RowUser start_admin, RowUser start_operator]"
  by (simp_all add: snap_iter_def start_tree_def kind_table_upsert) (simp_all add: kind_table_def empty_snapshot_def)

lemma commit_nothing:
  assumes "build 1 (state st) = Inr ([], out)"
  shows "commit E ops w operation build st = Some (Inr out, st)"
proof -
  have "[1..<Suc max_commit_attempts] = 1 # [2..<Suc max_commit_attempts]"
    by (simp add: max_commit_attempts_def upt_conv_Cons numeral_2_eq_2)
  with assms show ?thesis by (simp add: commit_def)
qed

lemma honest_sample: "honours_grants sample_authorizer"
  by (auto simp: honours_grants_def sample_authorizer_def)

lemma start_api_facts: "ap_authorizer start_api = sample_authorizer" "quiet start_api"
  by (simp_all add: start_api_def quiet_def)

lemma start_keys: "fetch_oidc_jwks start_api start_http ''https://i/'' = Inr [()]"
  by (simp add: fetch_oidc_jwks_def start_http_def failed_in_def start_api_def or_empty_def trim_text_def
      name_chars.simps)

lemma start_runs:
  "\<exists>s' n'. start_server start_api (\<lambda>st. (Inr (), st, [])) start_http start_args (start_app, 0) =
      Some (Inr (7, Some \<lparr>oidc_issuer = ''https://i/'', oidc_jwks = [()]\<rparr>), (s', n'))"
proof -
  have api: "ap_authorizer start_api = sample_authorizer" "ap_ops start_api = truncating_ops (Suc 1)"
      "cd_value start_api = \<lparr>enc = (\<lambda>_. Inl []), dec = (\<lambda>_. Inr JNull)\<rparr>" "val_get start_api = (\<lambda>_ _. Some JNull)"
      "ap_val_str start_api = (\<lambda>_. Some ''https://i/keys'')" and quiet: "quiet start_api"
    by (simp_all add: start_api_def quiet_def)
  have metastore: "get_or_init_build start_api name i start_tree =
      Inr ([], \<lparr>met_id = 7, met_name = ''unity-catalog''\<rparr>)" for name i
    by (simp add: get_or_init_build_def start_tree_rows metastore_of_def)
  have admin: "user_get_by_email start_tree admin_email = Inr (Some start_admin)"
    by (simp add: user_get_by_email_def first_where_def start_tree_rows user_of_def)
      (simp add: start_admin_def start_operator_def)
  have operator: "find_or_create_build start_api now ''op'' i start_tree = Inr ([], start_operator)" for now i
    by (simp add: find_or_create_build_def first_where_def start_tree_rows user_of_def)
      (simp add: start_admin_def start_operator_def sample_admin_def)
  let ?s = "start_app\<lparr>app_authz := []\<rparr>"
  have begun: "bootstrap_admin start_api 7 (?s, k) = Some (Inr (), (?s, Suc k))" for k
    by (simp add: bootstrap_admin_def quiet_steps quiet start_app_def admin)
  have "\<exists>s' n'. bootstrap_operator_principal start_api 7 [''op''] (?s, k) = Some (Inr (), (s', n'))" for k
    by (simp add: bootstrap_operator_principal_def bootstrap_operator_def find_or_provision_def h_authorize_def
        quiet_steps quiet find_or_create_by_external_id_def commit_nothing operator start_app_def)
      (simp add: api sample_authorizer_def authz_state_def, blast)
  then obtain s' n' where operators: "bootstrap_operator_principal start_api 7 [''op''] (?s, 4) = Some (Inr (), (s', n'))"
    by blast
  have state: "start_app\<lparr>app_store := fst (authz_state start_app), app_authz := []\<rparr> = ?s"
    by (simp add: authz_state_def)
  have "ensure_metastore start_api (start_app, 0) = Some (Inr \<lparr>met_id = 7, met_name = ''unity-catalog''\<rparr>, (start_app, 2))"
    by (simp add: ensure_metastore_def get_or_init_def quiet_steps quiet commit_nothing metastore start_app_def)
  with operators have "start_server start_api (\<lambda>st. (Inr (), st, [])) start_http start_args (start_app, 0) =
      Some (Inr (7, Some \<lparr>oidc_issuer = ''https://i/'', oidc_jwks = [()]\<rparr>), (s', n'))"
    by (simp add: start_server_def start_args_def quiet_steps quiet start_keys state begun)
  then show ?thesis by blast
qed


end
