(* ===== verification/NamespaceProperties.thy ===== *)
theory NamespaceProperties
  imports StartProperties
begin

text \<open>
  A catalog through the API: what a client that creates one reads afterwards.
\<close>

text \<open>The row a request for a catalog makes.\<close>

definition requested_catalog ::
  "('j, 'v, 'l, 'a, 'z) api_scheme \<Rightarrow> uc_claims \<Rightarrow> create_catalog \<Rightarrow> uuid \<Rightarrow> int \<Rightarrow> catalog_row" where
  "requested_catalog A claims req i now =
     \<lparr>cat_id = i, cat_name = ccat_name req, cat_comment = ccat_comment req, cat_owner = None,
      cat_created_at = now, cat_created_by = auth_sub A claims, cat_updated_at = None, cat_updated_by = None,
      cat_storage_root = ccat_storage_root req, cat_storage_location = None\<rparr>"

text \<open>What two applications agree on.\<close>

definition agree :: "('j, 'v, 'l, 'a, 'z) api_scheme \<Rightarrow> ('l, 'a) app \<Rightarrow> ('l, 'a) app \<Rightarrow> bool" where
  "agree A s t \<longleftrightarrow>
     (\<forall>name. catalog_get_by_name (state (app_store s)) name = catalog_get_by_name (state (app_store t)) name) \<and>
     (\<forall>i. get_for_entity A (state (app_store s)) i ''catalog'' = get_for_entity A (state (app_store t)) i ''catalog'') \<and>
     (\<forall>sub. caller_of (state (app_store s)) sub = caller_of (state (app_store t)) sub)"

lemma agree_refl [simp]: "agree A s s"
  by (simp add: agree_def)

text \<open>
  What is asked of an authorizer that writes to the store: it keeps catalogs, properties and users, and
  placing an object below another takes ownership from nobody.
\<close>

definition told_keeps ::
  "('j, 'v, 'l, 'a, 'z) api_scheme \<Rightarrow> ('l store \<times> 'a \<Rightarrow> unit res \<times> 'l store \<times> 'a) \<Rightarrow> bool" where
  "told_keeps A f \<longleftrightarrow> (\<forall>s r st a. f (authz_state s) = (r, st, a) \<longrightarrow>
     agree A (s\<lparr>app_store := st, app_authz := a\<rparr>) s)"

definition keeps_objects :: "('j, 'v, 'l, 'a, 'z) api_scheme \<Rightarrow> bool" where
  "keeps_objects A \<longleftrightarrow>
     (\<forall>who i. told_keeps A (au_grant (ap_authorizer A) who i Owner)) \<and>
     (\<forall>p c. told_keeps A (au_add_hierarchy_child (ap_authorizer A) p c)) \<and>
     (\<forall>p c x r y who i. au_add_hierarchy_child (ap_authorizer A) p c x = (r, y) \<longrightarrow>
       au_authorize (ap_authorizer A) who i Owner x \<noteq> Inr False \<longrightarrow>
       au_authorize (ap_authorizer A) who i Owner y \<noteq> Inr False)"

text \<open>The creator of an object owns it, when the step succeeds.\<close>

lemma quiet_own:
  assumes "quiet A" "keeps_objects A" "honours_grants (ap_authorizer A)"
    and "own A claims i (Some p) (s, n) = Some (Inr (), (s', n'))"
  shows "agree A s' s \<and> (ap_auth_enabled A \<and> caller_of (state (app_store s)) (clm_sub claims) = Inr u \<longrightarrow>
    owns (ap_authorizer A) (usr_id u) i s')"
proof (cases "ap_auth_enabled A")
  case False
  with assms(4) show ?thesis by (simp add: own_def h_when_def quiet_steps)
next
  case True
  obtain k where k: "get_user A (clm_sub claims) (s, n) = Some (caller_of (state (app_store s)) (clm_sub claims), (s, k))"
    using quiet_get_user [OF assms(1)] by blast
  show ?thesis
  proof (cases "caller_of (state (app_store s)) (clm_sub claims)")
    case (Inl e)
    with True k assms(4) show ?thesis by (simp add: own_def h_when_def quiet_steps h_ok_def res_ok_def)
  next
    case (Inr v)
    obtain g st a where g: "au_grant (ap_authorizer A) (usr_id v) i Owner (authz_state s) = (g, st, a)"
      by (metis prod_cases3)
    let ?t = "s\<lparr>app_store := st, app_authz := a\<rparr>"
    obtain h st' a' where h: "au_add_hierarchy_child (ap_authorizer A) p i (authz_state ?t) = (h, st', a')"
      by (metis prod_cases3)
    have run: "g = Inr ()" "s' = ?t\<lparr>app_store := st', app_authz := a'\<rparr>"
      using True k Inr g h assms(4)
      by (auto simp: own_def h_when_def quiet_steps h_ok_def res_ok_def assms(1) split: sum.splits)
    have "agree A ?t s" "agree A s' ?t"
      using assms(2) g h run(2) unfolding keeps_objects_def told_keeps_def by blast+
    then have "agree A s' s" by (simp add: agree_def)
    moreover have "owns (ap_authorizer A) (usr_id v) i ?t"
      using owns_granted(2) [OF assms(3) g] run(1) by simp
    then have "owns (ap_authorizer A) (usr_id v) i s'"
      using assms(2) h unfolding run(2) keeps_objects_def owns_def by (auto simp: authz_state_def)
    ultimately show ?thesis using Inr by auto
  qed
qed

lemma quiet_ensure_catalog:
  assumes "quiet A" "ensure_catalog A claims i p msg (s, n) = Some (r, (s', n'))"
  shows "s' = s"
proof -
  obtain k where "get_user A (clm_sub claims) (s, n) = Some (caller_of (state (app_store s)) (clm_sub claims), (s, k))"
    using quiet_get_user [OF assms(1)] by blast
  with assms show ?thesis
    by (auto simp: ensure_catalog_def h_when_def h_authorize_def quiet_steps split: sum.splits if_splits)
qed

lemma quiet_properties [quiet_steps]:
  "quiet A \<Longrightarrow> h_properties A i type (s, n) =
     Some (Inr (res_ok (get_for_entity A (state (app_store s)) i type)), (s, Suc n))"
  by (simp add: h_properties_def h_ok_def quiet_steps)


text \<open>A server without authentication, on an empty log.\<close>

declare to_body.simps [simp del] from_body.simps [simp del]

definition create_api :: "(row, json, memory_log, sample_grants) delta_api" where
  "create_api = sample_api [LineCommitInfo sample_info, line_of_action sample_action] False"

definition create_app :: "(memory_log, sample_grants) app" where
  "create_app = sample_app\<lparr>app_store := sample_start\<rparr>"

definition create_request :: create_catalog where
  "create_request = \<lparr>ccat_name = ''main'', ccat_comment = None, ccat_properties = None, ccat_storage_root = None\<rparr>"

lemma create_api_facts:
  "codecs_ok create_api" "to_body create_api r = Inr r"
  "cd_line create_api = table_codec [LineCommitInfo sample_info, line_of_action sample_action]"
  "from_body create_api EkCatalog (RowCatalog c) = Inr (RowCatalog c)"
  by (simp_all add: create_api_def sample_api_def log_env.defs delta_env.defs api.defs delta_api.defs codecs_ok_def
      sample_env_def wrap_codec_ok) ((cases r; simp add: wrap_codec_def json_err_def to_body.simps), simp add: wrap_codec_def from_body.simps parse_row_def)

lemma create_line_ok: "line_ok create_api l \<longleftrightarrow> line_ok sample l"
  by (simp add: line_ok_def create_api_facts(3) sample_def sample_env_def)

lemma create_requested: "requested_catalog create_api sample_claims create_request 1 0 = sample_catalog"
  by (simp add: requested_catalog_def create_request_def sample_catalog_def auth_sub_def create_api_def)

lemma create_build_free:
  "get_by_natural_key s EkCatalog ''main'' = None \<Longrightarrow>
   catalog_create_build create_api sample_catalog s = Inr ([sample_action], sample_catalog)"
  by (simp add: catalog_create_build_def write_row_def create_api_facts sample_action_def)
    (simp add: sample_catalog_def)

lemma create_build_cases:
  "catalog_create_build create_api sample_catalog s = Inr (acts, out) \<Longrightarrow> acts = [sample_action]"
  by (auto simp: catalog_create_build_def write_row_def rbind_eq_Inr create_api_facts
      sample_action_def sample_catalog_def split: if_splits)

lemma create_runs:
  "\<exists>st. catalog_create create_api (truncating_ops (Suc 1)) sample_world 1 ''main'' None None None None 0 sample_start =
    Some (Inr sample_catalog, st)"
proof -
  have row: "\<lparr>cat_id = 1, cat_name = ''main'', cat_comment = None, cat_owner = None, cat_created_at = 0,
      cat_created_by = None, cat_updated_at = None, cat_updated_by = None, cat_storage_root = None,
      cat_storage_location = None\<rparr> = sample_catalog"
    by (simp add: sample_catalog_def)
  have build: "catalog_create_build create_api sample_catalog empty_snapshot = Inr ([sample_action], sample_catalog)"
    by (rule create_build_free) (simp add: get_by_natural_key_def empty_snapshot_def)
  have encode: "encode_commit create_api sample_info [sample_action] = Inr sample_body"
    by (simp add: encode_commit_def create_api_facts table_codec_def json_err_def sample_action_def
        show_nat.simps digit_char_def sample_body_def)
  have "\<exists>l. op_put_if_absent (truncating_ops (Suc 1)) (commit_key (wadd64 (version empty_snapshot) 1)) sample_body memory_new =
      (Inr PutCreated, l)"
    by (simp add: truncating_ops_def memory_defs memory_new_def)
  then obtain l where put: "op_put_if_absent (truncating_ops (Suc 1)) (commit_key (wadd64 (version empty_snapshot) 1))
      sample_body memory_new = (Inr PutCreated, l)"
    by blast
  have "\<exists>s'. adopt create_api (wadd64 (version empty_snapshot) 1) [sample_action] empty_snapshot = (Inr (), s')"
    by (simp add: adopt_def sample_action_def create_api_facts)
  then obtain s' where adopt: "adopt create_api (wadd64 (version empty_snapshot) 1) [sample_action] empty_snapshot = (Inr (), s')"
    by blast
  have "\<exists>st. commit_attempts create_api (truncating_ops (Suc 1)) sample_world ''CREATE CATALOG''
      (\<lambda>_. catalog_create_build create_api sample_catalog) (1 # later) sample_start = Some (Inr sample_catalog, st)" for later
    using put adopt by (simp add: sample_start_def build sample_header encode sample_alone Let_def)
  moreover have "[1..<Suc max_commit_attempts] = 1 # [2..<Suc max_commit_attempts]"
    by (simp add: max_commit_attempts_def upt_conv_Cons numeral_2_eq_2)
  ultimately show ?thesis
    unfolding catalog_create_def Let_def row commit_def by (simp only:)
qed


end
