(* ===== verification/Telemetry.thy ===== *)
theory Telemetry
  imports ServerStart
begin

text \<open>
  Telemetry (\<^verbatim>\<open>uc_server::telemetry\<close>): which exporters are started, how they are flushed at the end, and
  what the gauges read from the store. The exporters, the subscriber and the meter are libraries.
\<close>

section \<open>The exporters\<close>

record ('t, 'l, 'm) telemetry =
  tl_traces :: "'t option"
  tl_logs :: "'l option"
  tl_metrics :: "'m option"

text \<open>The builders of the exporters for an endpoint, and the providers over them, named by the service.\<close>

record ('t, 'l, 'm) otlp =
  ot_span_exporter :: "string \<Rightarrow> string \<Rightarrow> string + 't"
  ot_log_exporter :: "string \<Rightarrow> string \<Rightarrow> string + 'l"
  ot_metric_exporter :: "string \<Rightarrow> string \<Rightarrow> string + 'm"

text \<open>The filter when the environment gives none.\<close>

definition default_filter :: "string \<Rightarrow> string" where
  "default_filter log_level =
     ''uc_server='' @ log_level @ '',uc_api='' @ log_level @ '',uc_db='' @ log_level @ '',tower_http=info''"

definition telemetry_init ::
  "('t, 'l, 'm) otlp \<Rightarrow> (string \<Rightarrow> string option) \<Rightarrow> ('t, 'l, 'm) telemetry start_res" where
  "telemetry_init T var =
     (let endpoint = or_empty (var ''OTEL_EXPORTER_OTLP_ENDPOINT'') in
      if endpoint = [] then Inr \<lparr>tl_traces = None, tl_logs = None, tl_metrics = None\<rparr>
      else
        let service = (case var ''OTEL_SERVICE_NAME'' of None \<Rightarrow> ''uc-server'' | Some n \<Rightarrow> n) in
        rbind (failed_in ''building the OTLP span exporter'' (ot_span_exporter T endpoint service)) (\<lambda>traces.
        rbind (failed_in ''building the OTLP log exporter'' (ot_log_exporter T endpoint service)) (\<lambda>logs.
        rbind (failed_in ''building the OTLP metric exporter'' (ot_metric_exporter T endpoint service)) (\<lambda>metrics.
        Inr \<lparr>tl_traces = Some traces, tl_logs = Some logs, tl_metrics = Some metrics\<rparr>))))"

section \<open>The end\<close>

text \<open>
  What is flushed, in order, and what is written to standard error; a flush is the library's and gives
  the text of its error, if any.
\<close>

datatype ('t, 'l, 'm) flush = FlushTraces 't | FlushLogs 'l | FlushMetrics 'm

definition flushes :: "('t, 'l, 'm) telemetry \<Rightarrow> ('t, 'l, 'm) flush list" where
  "flushes t =
     (case tl_traces t of None \<Rightarrow> [] | Some p \<Rightarrow> [FlushTraces p]) @
     (case tl_logs t of None \<Rightarrow> [] | Some p \<Rightarrow> [FlushLogs p]) @
     (case tl_metrics t of None \<Rightarrow> [] | Some p \<Rightarrow> [FlushMetrics p])"

fun signal_name :: "('t, 'l, 'm) flush \<Rightarrow> string" where
  "signal_name (FlushTraces _) = ''traces''"
| "signal_name (FlushLogs _) = ''logs''"
| "signal_name (FlushMetrics _) = ''metrics''"

definition telemetry_shutdown ::
  "(('t, 'l, 'm) flush \<Rightarrow> string option) \<Rightarrow> ('t, 'l, 'm) telemetry \<Rightarrow> ('t, 'l, 'm) flush list \<times> string list" where
  "telemetry_shutdown flush t =
     (flushes t, List.map_filter (\<lambda>f. map_option (\<lambda>e.
        ''otel: failed to flush '' @ signal_name f @ '' on shutdown: '' @ e) (flush f)) (flushes t))"

section \<open>The gauges\<close>

text \<open>
  What one observation of the gauges records; \<open>None\<close> is a snapshot a writer holds, and the interval is
  skipped.
\<close>

definition observe_entities :: "snapshot option \<Rightarrow> (string \<times> nat) list" where
  "observe_entities snap =
     (case snap of None \<Rightarrow> [] | Some s \<Rightarrow> map (\<lambda>(kind, n). (kind_debug kind, n)) (counts s))"

definition observe_version :: "snapshot option \<Rightarrow> nat list" where
  "observe_version snap = (case snap of None \<Rightarrow> [] | Some s \<Rightarrow> [version s])"

text \<open>With no endpoint nothing is started and nothing is flushed; else all three signals or an error.\<close>

lemma telemetry_init_cases:
  "telemetry_init T var = Inr t \<Longrightarrow>
    (if or_empty (var ''OTEL_EXPORTER_OTLP_ENDPOINT'') = [] then flushes t = []
     else \<exists>p q r. flushes t = [FlushTraces p, FlushLogs q, FlushMetrics r])"
  by (auto simp: telemetry_init_def flushes_def Let_def rbind_def split: if_splits sum.splits)

text \<open>Every kind is observed at most once, and every row is counted.\<close>

lemma observed_rows:
  assumes "snap_get s kind i = Some r"
  shows "\<exists>n. (kind_debug kind, n) \<in> set (observe_entities (Some s)) \<and> 0 < n"
proof -
  from assms obtain m where m: "map_of (entities s) kind = Some m" "map_of m i = Some r"
    by (auto simp: snap_get_def kind_table_def split: option.splits)
  then have "(kind_debug kind, length m) \<in> set (observe_entities (Some s))"
    by (auto simp: observe_entities_def counts_def dest: map_of_SomeD intro!: rev_image_eqI)
  moreover have "0 < length m" using m(2) by (cases m) simp_all
  ultimately show ?thesis by blast
qed

end
