(* ===== verification/ServerMain.thy ===== *)
theory ServerMain
  imports Telemetry
begin

text \<open>
  The server as a whole (\<^verbatim>\<open>uc_server::main\<close>): telemetry, the log, the start, the routers, and the end.
  Binding and serving are the runtime's: what they return is a parameter.
\<close>

section \<open>The arguments\<close>

record main_args = server_args +
  ma_port :: nat
  ma_refresh_interval_secs :: nat
  ma_storage_root :: string
  ma_log_level :: string

section \<open>The routers\<close>

text \<open>The greeting is behind the middleware, the health check is not.\<close>

datatype 'v server_page = Page "'v route" | Greeting | Health

datatype 'v answer = Replied "'v reply" | Plain string

fun visit ::
  "('j, 'v, 'l, 'a, 'z) delta_api_scheme \<Rightarrow> ('w, 'k, 'g, 'v) jwt_lib \<Rightarrow> 'w oidc_config option \<Rightarrow> headers \<Rightarrow>
   'v server_page \<Rightarrow> ('l, 'a, 'v answer) request" where
  "visit A J config h (Page r) = h_then Replied (handle A J config h r)"
| "visit A J config h Greeting =
     auth_middleware A J config h (\<lambda>_ _. h_ret (Plain ''Hello, Unity Catalog!''))"
| "visit A J config h Health = h_ret (Plain ''OK'')"

section \<open>Up to serving\<close>

text \<open>What serving starts from: the application, its configuration, and whether the snapshot is refreshed.\<close>

record ('s, 'l, 'a, 'w) running =
  ru_api :: 's
  ru_config :: "'w oidc_config option"
  ru_moment :: "('l, 'a) moment"
  ru_refreshed :: bool

text \<open>
  \<open>A\<close> is what the process has before its log is opened, \<open>a0\<close> the state of an authorizer nothing was
  told.
\<close>

definition prepare_server ::
  "('j, 'v, 'l, 'a, 'z) api_scheme \<Rightarrow> (string \<Rightarrow> string option) \<Rightarrow>
   (string option \<Rightarrow> string \<Rightarrow> 'l s3_client) \<Rightarrow> ('l store \<Rightarrow> unit res \<times> 'l store \<times> 'a) \<Rightarrow> 'w http \<Rightarrow>
   main_args \<Rightarrow> 'a \<Rightarrow> 'l \<Rightarrow> (('j, 'v, 'l, 'a, 'z) api_scheme, 'l, 'a, 'w) running start_res option" where
  "prepare_server A var client new_authorizer H args a0 l =
     (case open_log_store A var client (ma_storage_root args) l of
        None \<Rightarrow> None
      | Some (Inl e) \<Rightarrow> Some (Inl (InContext ''Failed to open the metadata log'' e))
      | Some (Inr (ops, st)) \<Rightarrow>
         let opened = A\<lparr>ap_ops := ops\<rparr>; sargs = server_args.truncate args;
             app = \<lparr>app_store = st, app_hints = Map.empty,
               app_cache = cv_cache (build_credential_vendor (sa_enable_aws_credentials args)), app_authz = a0\<rparr>
         in map_option (\<lambda>(r, m).
              case r of
                Inl e \<Rightarrow> Inl e
              | Inr (metastore_id, config) \<Rightarrow>
                 Inr \<lparr>ru_api = app_state opened sargs metastore_id, ru_config = config, ru_moment = m,
                   ru_refreshed = 0 < ma_refresh_interval_secs args\<rparr>)
            (start_server opened new_authorizer H sargs (app, 0)))"

section \<open>The whole run\<close>

text \<open>What a run leaves: its result, what it flushed, and what it wrote to standard error then.\<close>

record ('t, 'l, 'm) run_end =
  re_result :: "unit start_res"
  re_flushed :: "('t, 'l, 'm) flush list"
  re_stderr :: "string list"

definition ended_early :: "startup_error \<Rightarrow> ('t, 'l, 'm) run_end" where
  "ended_early e = \<lparr>re_result = Inl e, re_flushed = [], re_stderr = []\<rparr>"

text \<open>How \<open>main\<close> returns: the question marks leave before telemetry is shut down.\<close>

definition finish_run ::
  "(('t, 'l, 'm) flush \<Rightarrow> string option) \<Rightarrow> ('t, 'l, 'm) telemetry \<Rightarrow> unit start_res \<Rightarrow> ('t, 'l, 'm) run_end" where
  "finish_run flush telemetry r =
     (case r of
        Inl e \<Rightarrow> ended_early e
      | Inr _ \<Rightarrow> (case telemetry_shutdown flush telemetry of (flushed, stderr) \<Rightarrow>
          \<lparr>re_result = Inr (), re_flushed = flushed, re_stderr = stderr\<rparr>))"

text \<open>The log line of every request and the traces are the library's; \<open>None\<close> is a start that does not come back.\<close>

definition server_main ::
  "('t, 'l, 'm) otlp \<Rightarrow> (('t, 'l, 'm) flush \<Rightarrow> string option) \<Rightarrow> ('j, 'v, 'b, 'a, 'z) api_scheme \<Rightarrow>
   (string \<Rightarrow> string option) \<Rightarrow> (string option \<Rightarrow> string \<Rightarrow> 'b s3_client) \<Rightarrow>
   ('b store \<Rightarrow> unit res \<times> 'b store \<times> 'a) \<Rightarrow> 'w http \<Rightarrow> main_args \<Rightarrow> 'a \<Rightarrow> 'b \<Rightarrow> (nat \<Rightarrow> string + unit) \<Rightarrow>
   ((('j, 'v, 'b, 'a, 'z) api_scheme, 'b, 'a, 'w) running \<Rightarrow> string + unit) \<Rightarrow> ('t, 'l, 'm) run_end option"
where
  "server_main T flush A var client new_authorizer H args a0 l bind serve_all =
     (case telemetry_init T var of
        Inl e \<Rightarrow> Some (ended_early e)
      | Inr telemetry \<Rightarrow> map_option (\<lambda>prepared. finish_run flush telemetry
          (rbind prepared (\<lambda>running.
           rbind (failed_in ''Failed to bind to port'' (bind (ma_port args))) (\<lambda>_.
           failed_in ''Server error'' (serve_all running)))))
          (prepare_server A var client new_authorizer H args a0 l))"

text \<open>
  Whatever exporters were started, they are flushed only by a run that ends well: a start that fails, or
  a server that does, leaves the batches of all three signals as they are.
\<close>

lemma server_main_cases:
  assumes "server_main T flush A var client new_authorizer H args a0 l bind serve_all = Some run"
  obtains e where "run = ended_early e"
  | telemetry r where "telemetry_init T var = Inr telemetry" "run = finish_run flush telemetry r"
  using assms by (cases "telemetry_init T var") (auto simp: server_main_def)

lemma failed_run_flushes_nothing:
  assumes "server_main T flush A var client new_authorizer H args a0 l bind serve_all = Some run" "re_result run = Inl e"
  shows "re_flushed run = []"
  using assms(1)
proof (cases rule: server_main_cases)
  case (2 telemetry r)
  with assms(2) show ?thesis by (cases r) (auto simp: finish_run_def ended_early_def split: prod.splits)
qed (simp add: ended_early_def)

lemma good_run_flushes_all:
  assumes "server_main T flush A var client new_authorizer H args a0 l bind serve_all = Some run" "re_result run = Inr ()"
    and "or_empty (var ''OTEL_EXPORTER_OTLP_ENDPOINT'') \<noteq> []"
  shows "\<exists>p q r. re_flushed run = [FlushTraces p, FlushLogs q, FlushMetrics r]"
  using assms(1)
proof (cases rule: server_main_cases)
  case (2 telemetry r)
  from telemetry_init_cases [OF 2(1)] assms(3) obtain p q r' where
    "flushes telemetry = [FlushTraces p, FlushLogs q, FlushMetrics r']" by auto
  with 2(2) assms(2) show ?thesis
    by (cases r) (simp_all add: finish_run_def ended_early_def telemetry_shutdown_def)
qed (use assms(2) in \<open>simp add: ended_early_def\<close>)

text \<open>The health check answers anyone and changes nothing; the greeting asks for what every route asks for.\<close>

lemma health_open: "visit A J config h Health m = Some (Inr (Plain ''OK''), m)"
  by (simp add: h_res_def)

text \<open>What serves: authentication is on exactly when an issuer was given, whose keys were then fetched.\<close>

lemma prepared_state:
  assumes "prepare_server A var client new_authorizer H args a0 l = Some (Inr running)"
  shows "ap_auth_enabled (ru_api running) = (sa_oidc_issuer args \<noteq> None)"
    and "map_option oidc_issuer (ru_config running) = sa_oidc_issuer args"
proof -
  from assms obtain ops st where open_log: "open_log_store A var client (ma_storage_root args) l = Some (Inr (ops, st))"
    by (auto simp: prepare_server_def split: option.splits sum.splits)
  let ?s = "\<lparr>app_store = st, app_hints = Map.empty,
     app_cache = cv_cache (build_credential_vendor (sa_enable_aws_credentials args)), app_authz = a0\<rparr>"
  let ?args = "server_args.truncate args"
  have issuer: "sa_oidc_issuer ?args = sa_oidc_issuer args" by (simp add: server_args.truncate_def)
  obtain i config m where
      start: "start_server (A\<lparr>ap_ops := ops\<rparr>) new_authorizer H ?args (?s, 0) = Some (Inr (i, config), m)"
    and running: "running = \<lparr>ru_api = app_state (A\<lparr>ap_ops := ops\<rparr>) ?args i, ru_config = config, ru_moment = m,
      ru_refreshed = 0 < ma_refresh_interval_secs args\<rparr>"
  proof (cases "start_server (A\<lparr>ap_ops := ops\<rparr>) new_authorizer H ?args (?s, 0)")
    case (Some rm)
    obtain r m where rm: "rm = (r, m)" by (cases rm)
    show thesis
    proof (cases r)
      case (Inr ic)
      obtain i config where ic: "ic = (i, config)" by (cases ic)
      show thesis
        by (rule that [of i config m]) (use assms open_log Some rm Inr ic in \<open>simp_all add: prepare_server_def\<close>)
    qed (use assms open_log Some rm in \<open>simp add: prepare_server_def\<close>)
  qed (use assms open_log in \<open>simp add: prepare_server_def\<close>)
  show "ap_auth_enabled (ru_api running) = (sa_oidc_issuer args \<noteq> None)"
    by (simp add: running app_state_def issuer)
  show "map_option oidc_issuer (ru_config running) = sa_oidc_issuer args"
    using start issuer
    by (cases "sa_oidc_issuer args"; cases "fetch_oidc_jwks (A\<lparr>ap_ops := ops\<rparr>) H (the (sa_oidc_issuer args))")
      (auto simp: running start_server_def b_bind_def in_context_def b_res_def
        split: option.splits sum.splits)
qed

end
