(* ===== verification/MainProperties.thy ===== *)
theory MainProperties
  imports ServerMain StartProperties AccessProperties
begin

text \<open>
  What a started server lets in: the start, the routers and the middleware together.
\<close>

text \<open>
  C11: A server that was started with an issuer is closed. Whatever happened to it since, a request for
  any page that carries no token, or one that none of the keys fetched from that issuer accepts, ends as
  unauthenticated and changes nothing, the greeting included; only the health check answers anyone.
\<close>

lemma started_server_closed:
  assumes "start_server A new_authorizer H args m0 = Some (Inr (i, config), m1)"
    and "sa_oidc_issuer args = Some issuer"
    and "visit (app_state A args i) J config h p (s, n) = Some (r, (s', n'))"
    and "\<And>jwks token k. fetch_oidc_jwks A H issuer = Inr jwks \<Longrightarrow> extract_token h = Some token \<Longrightarrow>
      \<not> accepted J \<lparr>oidc_issuer = issuer, oidc_jwks = jwks\<rparr> token (ap_now A k)"
  shows "p = Health \<and> r = Inr (Plain ''OK'') \<and> s' = s \<or>
    p \<noteq> Health \<and> (\<exists>e. r = Inl e \<and> err_code e = Unauthenticated \<and> s' = drift (app_state A args i) s n n')"
proof -
  let ?A = "app_state A args i"
  obtain jwks where config: "config = Some \<lparr>oidc_issuer = issuer, oidc_jwks = jwks\<rparr>"
    and jwks: "fetch_oidc_jwks A H issuer = Inr jwks"
    using assms(1,2) by (cases "fetch_oidc_jwks A H issuer"; cases m0; cases m1)
      (auto simp: start_server_def b_bind_def in_context_def b_res_def split: option.splits sum.splits)
  have on: "ap_auth_enabled ?A" and clock: "ap_now ?A = ap_now A"
    using assms(2) by (simp_all add: app_state_def)
  have refused: "\<exists>e. x = Inl e \<and> err_code e = Unauthenticated \<and> s' = drift ?A s n n'"
    if "auth_middleware ?A J config h f (s, n) = Some (x, (s', n'))" for f and x :: "'x res"
    using middleware_refuses [OF on that] assms(4) [OF jwks] by (auto simp: config clock)
  show ?thesis
  proof (cases p)
    case (Page q)
    with assms(3) obtain y where "handle ?A J config h q (s, n) = Some (y, (s', n'))" "r = map_sum id Replied y"
      by (auto simp: h_then_def h_bind_def h_res_def split: option.splits sum.splits)
    with refused Page show ?thesis unfolding handle_def by fastforce
  next
    case Greeting
    with assms(3) refused show ?thesis by auto
  next
    case Health
    with assms(3) show ?thesis by (simp add: h_res_def)
  qed
qed

lemma started_server_closed_witness:
  "\<exists>config m1 r s' n'. start_server start_api (\<lambda>st. (Inr (), st, [])) start_http start_args (start_app, 0) =
      Some (Inr (7, config), m1) \<and>
    visit (app_state start_api start_args 7) deaf_lib config
      \<lparr>hd_authorization = Some ''Bearer x'', hd_cookie = None\<rparr> (Page (CatalogApi (NamespaceApi (DeleteCatalog ''main'' None)))) m1 =
      Some (Inl r, (s', n')) \<and> err_code r = Unauthenticated \<and> s' = fst m1"
proof -
  let ?A = "app_state start_api start_args 7"
  let ?h = "\<lparr>hd_authorization = Some ''Bearer x'', hd_cookie = None\<rparr>"
  let ?page = "Page (CatalogApi (NamespaceApi (DeleteCatalog ''main'' None)))"
  let ?config = "Some \<lparr>oidc_issuer = ''https://i/'', oidc_jwks = [()]\<rparr>"
  obtain s1 n1 where run: "start_server start_api (\<lambda>st. (Inr (), st, [])) start_http start_args (start_app, 0) =
      Some (Inr (7, ?config), (s1, n1))"
    using start_runs by blast
  have quiet: "quiet ?A" using start_api_facts(2) by (simp add: quiet_def app_state_def)
  have on: "ap_auth_enabled ?A" by (simp add: app_state_def start_args_def)
  have "visit ?A deaf_lib ?config ?h ?page (s1, n1) \<noteq> None"
    by (simp add: handle_def h_then_def auth_middleware_def on authenticate_def extract_token_def strip_prefix_def
        decode_oidc_sub_def jwk_subject_def deaf_lib_def quiet_steps quiet ok_or_def map_err_def)
  then obtain r s' n' where visit: "visit ?A deaf_lib ?config ?h ?page (s1, n1) = Some (r, (s', n'))" by auto
  have "sa_oidc_issuer start_args = Some ''https://i/''" by (simp add: start_args_def)
  from started_server_closed [OF run this visit] obtain e where
    "r = Inl e" "err_code e = Unauthenticated" "s' = drift ?A s1 n1 n'" by auto
  moreover have "drift ?A s1 n1 n' = s1" using quiet by (simp add: quiet_drift)
  ultimately show ?thesis using run visit by auto
qed

section \<open>Who a request acts as\<close>


text \<open>A user whose token's subject is the address of the administrator.\<close>

definition impostor :: user_row where
  "impostor = start_operator\<lparr>usr_name := admin_email, usr_external_id := Some admin_email\<rparr>"

definition impostor_tree :: snapshot where
  "impostor_tree = upsert_row sample (upsert_row sample empty_snapshot EkUser 8 (RowUser start_admin))
     EkUser 9 (RowUser impostor)"

definition impostor_app :: "(memory_log, sample_grants) app" where
  "impostor_app = start_app\<lparr>app_store := \<lparr>log = memory_new, state = impostor_tree\<rparr>, app_authz := [(8, 7, Owner)]\<rparr>"

definition impostor_api :: "(row, json, memory_log, sample_grants) delta_api" where
  "impostor_api = start_api\<lparr>ap_val_str := (\<lambda>_. Some admin_email)\<rparr>"

definition open_lib :: "(unit, unit, unit, json) jwt_lib" where
  "open_lib = deaf_lib\<lparr>jl_decode := (\<lambda>_ _ _ _ _. Some JNull)\<rparr>"


end
