(* ===== verification/ApiFindings.thy ===== *)
theory ApiFindings
  imports ApiQuiet
begin

text \<open>
  Where the handlers fall short of what they mean to do: texts that are written and not read back,
  domains that are not removed, and S3 tables the Delta API vends nothing for.
\<close>

section \<open>Texts of enums\<close>

text \<open>
  The rows keep the upper-cased \<open>Debug\<close> of an enum; the parsers expect the names of the wire, which have
  underscores, and do not know all of them.
\<close>

lemma enum_texts_read_back:
  "parse_table_type (table_type_text t) =
     (if t \<in> {TtStreamingTable, TtMaterializedView, TtMetricView} then None else Some t)"
  "parse_format (format_text f) = (if f = DfUnityCatalog then None else Some f)"
  "parse_col_type (type_name_text c) =
     (if c \<in> {CtTimestampNtz, CtInterval, CtVariant, CtChar, CtUserDefinedType, CtTableType} then None else Some c)"
  by ((cases t; simp add: parse_table_type_def), (cases f; simp add: parse_format_def),
      (cases c; simp add: parse_col_type_def))

section \<open>Domains\<close>

text \<open>Removing a domain from a table leaves the property that holds all its domains as it was.\<close>

lemma removed_domain_stays:
  assumes "snap_ok E s"
    and "property_delete_key_build E t ''table'' (''__delta_domain__'' @ d) s = Inr (acts, ())"
    and "get_by_natural_key s EkProperty (property_prefix E t ''table'' @ ''__delta_domain_metadata__'') = Some v"
  shows "get_by_natural_key (snd (apply_all E s acts)) EkProperty
    (property_prefix E t ''table'' @ ''__delta_domain_metadata__'') = Some v"
proof (cases "get_by_natural_key s EkProperty (property_prefix E t ''table'' @ ''__delta_domain__'' @ d)")
  case None
  with assms(2,3) show ?thesis by (simp add: property_delete_key_build_def)
next
  case (Some w)
  obtain q where q: "w = RowProperty q" "snap_get s EkProperty (prop_id q) = Some w"
    "natural_key_for E w = Some (property_prefix E t ''table'' @ ''__delta_domain__'' @ d)"
    using property.found_typed [OF assms(1) Some] get_by_natural_key_iff [OF assms(1)] Some
    by (auto simp: property_key_of_def)
  obtain i where i: "snap_get s EkProperty i = Some v"
    "natural_key_for E v = Some (property_prefix E t ''table'' @ ''__delta_domain_metadata__'')"
    using assms(3) get_by_natural_key_iff [OF assms(1)] by blast
  have acts: "acts = [Remove EkProperty (prop_id q)]"
    using assms(2) Some q(1) by (simp add: property_delete_key_build_def property_of_def)
  have "i \<noteq> prop_id q" using i q(2,3) by auto
  with i have "\<exists>j. snap_get (remove_row E s EkProperty (prop_id q)) EkProperty j = Some v \<and>
      natural_key_for E v = Some (property_prefix E t ''table'' @ ''__delta_domain_metadata__'')" by auto
  then show ?thesis
    unfolding acts by (simp add: get_by_natural_key_iff [OF snap_ok_remove [OF assms(1)]])
qed

section \<open>Credentials of the Delta API\<close>

text \<open>
  The context carries no role, so nothing is vended for S3: unless the cache holds an entry under the
  key of such a context, which no vending makes, the answer is an error.
\<close>

lemma delta_vends_no_s3:
  assumes "from_url url = S3" "app_cache s (make_cache_key (delta_context url t)) = None" "quiet A"
  shows "\<exists>e. delta_vend A url t (s, n) = Some (Inl e, (s, n + 2))"
  using assms
  by (simp add: delta_vend_def vend_def delta_context_def h_step_def quiet_def cache_hit_def vend_fresh_def
      aws_vend_def ok_or_def h_bind_def)

lemma roles_needed: "ctx_scheme ctx = S3 \<Longrightarrow> ctx_role_arn ctx = None \<Longrightarrow> vend_fresh C ctx \<noteq> Inr creds"
  by (simp add: vend_fresh_def aws_vend_def ok_or_def rbind_def)

end
