(* ===== verification/Spec2Isabelle.thy ===== *)
theory Spec2Isabelle
  imports LogProperties PolicyProperties DeltaProperties S3Properties AuthProperties
    ApiProperties AccessProperties VendingProperties UpdateProperties StartProperties
    NamespaceProperties MainProperties ApiFindings
begin

text \<open>
  A Unity Catalog server in Rust, verified. This development models the crates of the repository under
  \<^verbatim>\<open>crates/\<close> and proves what makes them correct together: the log that stores the metadata, the repositories
  on top of it, authorization, the three HTTP APIs, and the start of the server.

  \<^bold>\<open>The program.\<close> All metadata is one log of commits in an object store (\<^verbatim>\<open>uc-db/src/store\<close>). A commit is an
  object whose key holds its version; it is written by a conditional PUT, so that of several replicas one
  wins a version and the others replay and try again. Every replica holds the replay of the log in memory:
  a snapshot with a natural-key index. Checkpoints shorten the replay. A repository module per entity
  (\<^verbatim>\<open>uc-db/src/repos\<close>) reads the snapshot and writes by giving the commit loop a function from the snapshot to
  actions. The commits of Delta tables are kept in partitions of the same store, outside the main log
  (\<^verbatim>\<open>store/delta_log.rs\<close>). Handlers (\<^verbatim>\<open>uc-api\<close>) resolve names by the repositories, ask the authorizer
  (\<^verbatim>\<open>uc-auth\<close>, over casbin, whose policy is stored through the repositories again), and hand out temporary
  credentials (\<^verbatim>\<open>uc-credentials\<close>). The middleware turns a token into claims. \<^verbatim>\<open>uc-server\<close> puts this together.

  \<^bold>\<open>Theories and sources.\<close>
  \<^item> Vocabulary: \<^verbatim>\<open>Prelude\<close> (results as sums with \<open>rbind\<close>, Rust strings as their UTF-8 bytes), \<^verbatim>\<open>Numbers\<close>
    (decimal texts, integer widths), \<^verbatim>\<open>OMap\<close> (ordered maps as sorted lists: \<^verbatim>\<open>BTreeMap\<close>, and \<^verbatim>\<open>HashMap\<close> read
    in key order), \<^verbatim>\<open>Json\<close>, \<^verbatim>\<open>Errors\<close> (\<^verbatim>\<open>uc-errors\<close>), \<^verbatim>\<open>UcTypes\<close> (\<^verbatim>\<open>uc-types\<close>), \<^verbatim>\<open>Pagination\<close>, \<^verbatim>\<open>Rows\<close> (\<^verbatim>\<open>models/\<close>).
  \<^item> The store: \<^verbatim>\<open>Action\<close> (\<^verbatim>\<open>action.rs\<close>), \<^verbatim>\<open>ObjectLog\<close> (\<^verbatim>\<open>log.rs\<close>, \<^verbatim>\<open>memory.rs\<close>), \<^verbatim>\<open>Snapshot\<close> and \<^verbatim>\<open>Store\<close>
    (\<^verbatim>\<open>mod.rs\<close>), \<^verbatim>\<open>S3Log\<close> (\<^verbatim>\<open>s3.rs\<close>), \<^verbatim>\<open>DeltaLog\<close> (\<^verbatim>\<open>delta_log.rs\<close>, \<^verbatim>\<open>repos/delta.rs\<close>). \<^verbatim>\<open>Cluster\<close> and \<^verbatim>\<open>DeltaRuns\<close>
    are step relations over the same operations, for any number of replicas.
  \<^item> Their specifications: \<^verbatim>\<open>SnapInv\<close> (the invariant \<open>snap_ok\<close>), \<^verbatim>\<open>Checkpoint\<close>, \<^verbatim>\<open>Replay\<close> (the log as a list of
    commits, \<open>state_at\<close>), \<^verbatim>\<open>CommitSpec\<close> (the commit loop while others append), \<^verbatim>\<open>DeltaSpec\<close> (histories per
    table), \<^verbatim>\<open>Scans\<close> (ordered listings).
  \<^item> Repositories: \<^verbatim>\<open>RepoBase\<close>, \<^verbatim>\<open>RepoNamespaces\<close>, \<^verbatim>\<open>RepoTables\<close>, \<^verbatim>\<open>RepoAssets\<close>, \<^verbatim>\<open>RepoPrincipals\<close>, \<^verbatim>\<open>RepoPolicy\<close>; a
    write is a pair of a function \<open>.._build\<close> on snapshots, which is the closure given to \<open>commit\<close>, and the
    commit of it. \<^verbatim>\<open>Repositories\<close> is the family of all builds; \<^verbatim>\<open>ManagedStorage\<close> is \<^verbatim>\<open>managed_storage.rs\<close>.
  \<^item> Authorization: \<^verbatim>\<open>Authorizer\<close> (\<^verbatim>\<open>authorizer.rs\<close>; the locale \<open>casbin_engine\<close> is what casbin documents),
    \<^verbatim>\<open>AuthorizerSpec\<close> (sets of grants and parents), \<^verbatim>\<open>CasbinAdapter\<close> (\<^verbatim>\<open>db_adapter.rs\<close>).
  \<^item> The APIs: \<^verbatim>\<open>ApiTypes\<close> and \<^verbatim>\<open>DeltaTypes\<close> (\<^verbatim>\<open>uc-openapi\<close>), \<^verbatim>\<open>Api\<close> (\<^verbatim>\<open>state.rs\<close>, \<^verbatim>\<open>helpers.rs\<close>, and the steps of
    a request), \<^verbatim>\<open>ApiNamespaces\<close>, \<^verbatim>\<open>ApiTables\<close>, \<^verbatim>\<open>ApiAssets\<close>, \<^verbatim>\<open>ApiPrincipals\<close>, \<^verbatim>\<open>ApiVending\<close> (\<^verbatim>\<open>catalog_api/\<close>),
    \<^verbatim>\<open>ApiControl\<close> (\<^verbatim>\<open>control_api/\<close>, \<^verbatim>\<open>middleware.rs\<close>, \<^verbatim>\<open>jwt.rs\<close>), \<^verbatim>\<open>ApiDelta\<close> (\<^verbatim>\<open>delta_api/\<close>, \<^verbatim>\<open>delta_commits.rs\<close>),
    \<^verbatim>\<open>Vendor\<close> (\<^verbatim>\<open>uc-credentials\<close>), \<^verbatim>\<open>ApiRouter\<close> (the routers and \<^verbatim>\<open>error_ext.rs\<close>), \<^verbatim>\<open>Wire\<close> (what
    \<^verbatim>\<open>uc-openapi\<close> decodes by hand).
  \<^item> The server: \<^verbatim>\<open>ServerStart\<close> (\<^verbatim>\<open>main.rs\<close> up to the state of the application), \<^verbatim>\<open>Telemetry\<close> (\<^verbatim>\<open>telemetry.rs\<close>),
    \<^verbatim>\<open>ServerMain\<close> (\<^verbatim>\<open>main\<close> as a whole: the pages it serves, and how it ends).
  \<^item> Reasoning about requests: \<^verbatim>\<open>ApiRules\<close> (what the others alone would have done, \<open>drift\<close>; what a request
    looked at), \<^verbatim>\<open>ApiGuards\<close> (the privilege every route asks for), \<^verbatim>\<open>ApiSafety\<close> and \<^verbatim>\<open>ApiAnswers\<close> (handler by
    handler), \<^verbatim>\<open>ApiQuiet\<close> (evaluation when no other request acts).
  \<^item> Concrete instances: \<^verbatim>\<open>Samples\<close>, \<^verbatim>\<open>SampleRuns\<close>, \<^verbatim>\<open>ApiSamples\<close>. Properties: this theory and those named
    \<^verbatim>\<open>..Properties\<close>; \<^verbatim>\<open>ApiFindings\<close> proves where handlers fall short of what they mean to do.

  \<^bold>\<open>How code is modelled.\<close> A struct is a record, an enum a datatype, \<open>Result<T, UcError>\<close> the sum \<open>'a res\<close>. State
  is passed explicitly. An \<open>await\<close> that may not come back is an option, \<open>None\<close> when it does not. A commit takes a
  \<^emph>\<open>world\<close>: what the other replicas append before each conditional PUT, the clock and the actor. A handler is a
  function on the application and the number of its steps; before each step \<open>ap_between\<close> lets the other requests
  of the process act, in any way, so that nothing is assumed to stay between two awaits. The lock of the
  snapshot is the atomicity of a step. A \<^verbatim>\<open>u64\<close> version wraps (\<open>wadd64\<close>); content hashes are 64-bit words; other
  integers are \<open>int\<close> or \<open>nat\<close> with their saturation, clamping or wrap-around written out.

  \<^bold>\<open>Parameters.\<close> Outside the repository, and arguments of the definitions: serde (a codec per type, with the
  round trip it documents, \<open>codecs_ok\<close>), the texts of ids and their parser, \<open>serde_json::Value\<close>, the S3 client
  (locale with what S3 documents of conditional writes and listings), casbin, jsonwebtoken, STS and presigning, the HTTP
  client, chrono's RFC 3339 parser, clocks, fresh ids, environment variables, and \<open>str::to_uppercase\<close>
  where the whole of Unicode matters. Every property that assumes something of them has a witness in which they are concrete.

  \<^bold>\<open>What is shown.\<close>
  \<^item> One replica or many: the log is a serial history, and every replica holds the state of a prefix (C1); the
    commit loop is linearisable on the in-memory log and on S3 and comes back (C2, C5, C12); opening a store
    replays exactly the log, whichever checkpoint it finds, damaged or not (C6).
  \<^item> Every write of the repositories keeps the invariant of the snapshot (C7); listings are complete and
    sorted for every page size, in the repositories and for what a caller of the API may see (C9).
  \<^item> A request on a guarded route succeeds or changes something only after the authorizer allowed its caller
    to (C3); it is always answered (C4); the authorizer decides by the grants on an object and above it
    (C8, C13). What an authenticated server lets in (C11) and as whom (C17), and whom its start gives the
    metastore to (C16).
  \<^item> Round trips of commits, checkpoints, policies and names; errors: which are returned and that they change
    nothing; the claims on versions of Delta tables (C10, C15); the life of a cached credential (C14).
  \<^item> Some properties state what the code does against its intention: the disabled account that is
    admitted, the subject of a token that is taken for an email, the error shape of the Delta API, the credential that outlives its expiration, the removal of
    hierarchy children that removes nothing, the uniqueness that two writes do not check, the telemetry that
    is not flushed by the runs that fail.

  \<^bold>\<open>Bounds.\<close> A commit makes eight attempts, as in the code; C5 shows that two are enough alone. The
  listing loop is a partial function that returns for every backend with finitely many keys. A walk over the
  pages of a listing takes as fuel one more than the number of rows. Versions are assumed below \<open>2^64\<close> where a log
  grows. Casbin follows hierarchies of ten levels for sure; four are used.

  \<^bold>\<open>Not modelled.\<close> Matching of paths, extraction of arguments, and the serde attributes that name fields and leave
  out absent ones are axum's and serde's: a route comes with its decoded arguments. Tracing, the parser of the command
  line, sockets and signals, and the attributes from which utoipa makes the OpenAPI document (\<^verbatim>\<open>uc-openapi/src/lib.rs\<close>),
  are I/O over libraries: what binding and serving return is an argument of \<open>server_main\<close>. The \<open>Debug\<close> texts of
  library values are cut from messages. Iteration over a \<^verbatim>\<open>HashMap\<close> is in key order. Tests of the repository are
  not modelled, except the paginating log they define, over which the store is proved correct.
\<close>

section \<open>The cluster\<close>



text \<open>
  C2: A commit on a log that other replicas append to meanwhile. It always comes back; the log only
  grows; a success was decided on the state right before its own commit and is in the store's
  snapshot; with a reliable backend the only other outcomes are the build's own error, on a state
  that is at least as new as the one the commit started from, and giving up after the bounded number
  of lost races.
\<close>

lemma commit_linearises:
  assumes "log_good E memory_objs memory_ok (log st) cs" "state_at E (state st) n cs"
    and "rely E memory_objs memory_ok M w" "build_ok E build"
    and "\<And>a. line_ok E (LineCommitInfo (commit_header w a operation))"
    and "length cs + max_commit_attempts * Suc M + 1 < u64_max"
  shows "\<exists>r st' cs'. commit E (truncating_ops (Suc pg)) w operation build st = Some (r, st') \<and>
    log_good E memory_objs memory_ok (log st') (cs @ cs') \<and>
    (\<exists>m \<ge> n. state_at E (state st') m (cs @ cs')) \<and>
    (\<forall>out. r = Inr out \<longrightarrow> decided E build (state st') (cs @ cs') out) \<and>
    (\<forall>e. r = Inl e \<longrightarrow> e = commit_contention \<or>
       (\<exists>a s0 k. n \<le> k \<and> state_at E s0 k (cs @ cs') \<and> build a s0 = Inl e))"
  using trunc.commit_spec [OF assms, of pg] reliable_truncating by blast

lemma commit_linearises_witness:
  "\<exists>r st' cs'. commit sample (truncating_ops (Suc 1)) sample_world ''CREATE CATALOG'' (sample_build 0)
      sample_start = Some (r, st') \<and>
    log_good sample memory_objs memory_ok (log st') ([] @ cs') \<and>
    (\<exists>m \<ge> 0. state_at sample (state st') m ([] @ cs')) \<and>
    (\<forall>out. r = Inr out \<longrightarrow> decided sample (sample_build 0) (state st') ([] @ cs') out) \<and>
    (\<forall>e. r = Inl e \<longrightarrow> e = commit_contention \<or>
       (\<exists>a s0 k. 0 \<le> k \<and> state_at sample s0 k ([] @ cs') \<and> sample_build 0 a s0 = Inl e))"
  by (rule commit_linearises [OF sample_start_good sample_start_state sample_rely sample_build_ok
      sample_header_ok sample_room])





section \<open>The snapshot and its index\<close>





section \<open>The log\<close>

text \<open>
  C22: A commit file reads back as the header and the actions it was written from, in order.
\<close>

lemma commit_file_round_trip:
  assumes "line_ok E (LineCommitInfo info)" "ci_format info \<le> format_version"
    and "\<forall>a \<in> set acts. line_ok E (line_of_action a)"
  shows "\<exists>bytes. encode_commit E info acts = Inr bytes \<and> decode_commit E key bytes = Inr (info, acts)"
  by (rule decode_encode_commit [OF assms])

lemma commit_file_round_trip_witness:
  "\<exists>bytes. encode_commit sample sample_info [sample_action] = Inr bytes \<and>
    decode_commit sample ''k'' bytes = Inr (sample_info, [sample_action])"
  by (rule commit_file_round_trip [OF sample_facts(4) sample_info_format sample_action_lines])

end
